(* ===== verification/Prelude.thy ===== *)
theory Prelude
  imports Main "HOL-Library.State_Monad"
begin

text \<open>
  Shared vocabulary of the development.

  \<^item> Effects. Code that talks to the cloud, to the operating system or to the lock table is a
    value of the library's state monad \<open>('s, 'a) state\<close>; \<open>'s\<close> is the part of the
    outside world (or of the server) it may change. A Go result \<open>(value, error)\<close> is a sum:
    \<open>Inl\<close> the error, \<open>Inr\<close> the value.
  \<^item> \<open>wp m Q s\<close> says that running \<open>m\<close> from \<open>s\<close> ends in a result and a state that
    satisfy \<open>Q\<close>. Its rewrite rules are collected in \<open>wp_simps\<close>.
  \<^item> \<open>keeps f m\<close> says that \<open>m\<close> never changes the component \<open>f\<close> of the state.
  \<^item> \<open>int64\<close> values are integers with the wrap-around of two's complement written out by
    \<open>wrap64\<close> wherever an operation of the source can leave the range.
\<close>

named_theorems wp_simps "weakest precondition equations, one for each construct"
named_theorems go_defs "definitions of the model that component proofs unfold"

section \<open>Running effectful code\<close>

definition wp :: "('s, 'a) state \<Rightarrow> ('a \<Rightarrow> 's \<Rightarrow> bool) \<Rightarrow> 's \<Rightarrow> bool" where
  "wp m Q s = (case run_state m s of (a, s') \<Rightarrow> Q a s')"

lemma wp_return [wp_simps]: "wp (State_Monad.return a) Q s = Q a s"
  by (simp add: wp_def)

lemma wp_bind [wp_simps]: "wp (State_Monad.bind m f) Q s = wp m (\<lambda>a. wp (f a) Q) s"
  by (simp add: wp_def split: prod.splits)

lemma wp_get [wp_simps]: "wp State_Monad.get Q s = Q s s"
  by (simp add: wp_def)

lemma wp_set [wp_simps]: "wp (State_Monad.set t) Q s = Q () t"
  by (simp add: wp_def)

lemma wp_State [wp_simps]: "wp (State f) Q s = (case f s of (a, s') \<Rightarrow> Q a s')"
  by (simp add: wp_def)

lemma wpI: "(\<And>a s'. run_state m s = (a, s') \<Longrightarrow> Q a s') \<Longrightarrow> wp m Q s"
  by (auto simp: wp_def split: prod.splits)

lemma wpD: "wp m Q s \<Longrightarrow> run_state m s = (a, s') \<Longrightarrow> Q a s'"
  by (simp add: wp_def)

lemma wp_mono: "wp m Q s \<Longrightarrow> (\<And>a s'. Q a s' \<Longrightarrow> R a s') \<Longrightarrow> wp m R s"
  by (auto simp: wp_def split: prod.splits)

lemma wp_conj: "wp m Q s \<Longrightarrow> wp m R s \<Longrightarrow> wp m (\<lambda>a t. Q a t \<and> R a t) s"
  by (auto simp: wp_def split: prod.splits)

lemma wp_True [simp]: "wp m (\<lambda>_ _. True) s"
  by (simp add: wp_def split: prod.splits)

section \<open>Parts of the state that code leaves alone\<close>

definition keeps :: "('s \<Rightarrow> 'b) \<Rightarrow> ('s, 'a) state \<Rightarrow> bool" where
  "keeps f m \<longleftrightarrow> (\<forall>s. f (snd (run_state m s)) = f s)"

named_theorems keeps_intros "code that leaves a component of the state alone"

lemma keepsI: "(\<And>s. f (snd (run_state m s)) = f s) \<Longrightarrow> keeps f m"
  by (simp add: keeps_def)

lemma keepsD: "keeps f m \<Longrightarrow> run_state m s = (a, t) \<Longrightarrow> f t = f s"
  by (metis keeps_def snd_conv)

lemma keeps_return [keeps_intros]: "keeps f (State_Monad.return a)"
  by (simp add: keeps_def)

lemma keeps_bind [keeps_intros]:
  "keeps f m \<Longrightarrow> (\<And>a. keeps f (k a)) \<Longrightarrow> keeps f (State_Monad.bind m k)"
  by (simp add: keeps_def split: prod.splits) (metis snd_conv)

lemma keeps_get [keeps_intros]: "keeps f State_Monad.get"
  by (simp add: keeps_def)

lemma keeps_if [keeps_intros]: "keeps f m \<Longrightarrow> keeps f k \<Longrightarrow> keeps f (if b then m else k)"
  by simp

lemma keeps_case_option [keeps_intros]:
  "keeps f m \<Longrightarrow> (\<And>x. keeps f (k x)) \<Longrightarrow> keeps f (case z of None \<Rightarrow> m | Some x \<Rightarrow> k x)"
  by (cases z) simp_all

lemma keeps_case_sum [keeps_intros]:
  "(\<And>x. keeps f (m x)) \<Longrightarrow> (\<And>x. keeps f (k x)) \<Longrightarrow>
   keeps f (case z of Inl x \<Rightarrow> m x | Inr x \<Rightarrow> k x)"
  by (cases z) simp_all

lemma keeps_case_prod [keeps_intros]:
  "(\<And>x y. keeps f (m x y)) \<Longrightarrow> keeps f (case z of (x, y) \<Rightarrow> m x y)"
  by (cases z) simp

lemma keeps_case_list [keeps_intros]:
  "keeps f m \<Longrightarrow> (\<And>x xs. keeps f (k x xs)) \<Longrightarrow>
   keeps f (case z of [] \<Rightarrow> m | x # xs \<Rightarrow> k x xs)"
  by (cases z) simp_all

lemma keeps_Let [keeps_intros]: "keeps f (m x) \<Longrightarrow> keeps f (let y = x in m y)"
  by simp

section \<open>64-bit signed integers\<close>

text \<open>Go's \<open>int64\<close>, and \<open>int\<close> on the 64-bit platforms the driver is built for.\<close>

type_synonym int64 = int

definition int64_min :: int where "int64_min = - (2 ^ 63)"

definition int64_max :: int where "int64_max = 2 ^ 63 - 1"

definition is_int64 :: "int \<Rightarrow> bool" where
  "is_int64 x \<longleftrightarrow> int64_min \<le> x \<and> x \<le> int64_max"

definition wrap64 :: "int \<Rightarrow> int64" where
  "wrap64 x = (x + 2 ^ 63) mod 2 ^ 64 - 2 ^ 63"

lemma is_int64_wrap64 [simp, intro]: "is_int64 (wrap64 x)"
  by (simp add: is_int64_def wrap64_def int64_min_def int64_max_def)

lemma wrap64_id: "is_int64 x \<Longrightarrow> wrap64 x = x"
  by (simp add: is_int64_def wrap64_def int64_min_def int64_max_def)

lemma wrap64_id_iff: "wrap64 x = x \<longleftrightarrow> is_int64 x"
  by (metis is_int64_wrap64 wrap64_id)

lemma wrap64_congruent: "wrap64 x mod 2 ^ 64 = x mod 2 ^ 64"
proof -
  have "wrap64 x mod 2 ^ 64 = ((x + 2 ^ 63) mod 2 ^ 64 - 2 ^ 63) mod 2 ^ 64"
    by (simp only: wrap64_def)
  also have "\<dots> = (x + 2 ^ 63 - 2 ^ 63) mod 2 ^ 64"
    by (rule mod_diff_left_eq)
  finally show ?thesis by simp
qed

text \<open>Go's integer division truncates towards zero.\<close>

definition go_quot :: "int \<Rightarrow> int \<Rightarrow> int" where
  "go_quot a b = sgn a * sgn b * (\<bar>a\<bar> div \<bar>b\<bar>)"

lemma go_quot_nonneg [simp]: "0 \<le> a \<Longrightarrow> 0 < b \<Longrightarrow> go_quot a b = a div b"
  by (cases "a = 0") (simp_all add: go_quot_def sgn_if)

lemma ceil_div:
  fixes a b :: int
  assumes "0 < b"
  shows "(a + b - 1) div b = (if a mod b = 0 then a div b else a div b + 1)"
proof (cases "a mod b = 0")
  case True
  then have "a = b * (a div b)" by (metis mult_div_mod_eq add.right_neutral)
  then have "a + b - 1 = b * (a div b) + (b - 1)" by simp
  then have "(a + b - 1) div b = a div b"
    by (rule int_div_pos_eq) (use assms in simp_all)
  with True show ?thesis by simp
next
  case False
  have "a + b - 1 = b * (a div b + 1) + (a mod b - 1)"
    using mult_div_mod_eq [of b a] by (simp add: distrib_left)
  moreover have "0 \<le> a mod b - 1" "a mod b - 1 < b"
    using False assms pos_mod_bound [of b a] pos_mod_sign [of b a] by linarith+
  ultimately have "(a + b - 1) div b = a div b + 1" by (rule int_div_pos_eq)
  with False show ?thesis by simp
qed

section \<open>Association lists standing for Go maps\<close>

text \<open>
  A Go map that the source iterates over is an association list with distinct keys; the order
  of the list is the (unspecified) iteration order of one \<open>range\<close> loop. Two such lists are
  the same map when they agree on every key.
\<close>

type_synonym strmap = "(string \<times> string) list"

definition map_eq :: "('k \<times> 'v) list \<Rightarrow> ('k \<times> 'v) list \<Rightarrow> bool" where
  "map_eq a b \<longleftrightarrow> (\<forall>k \<in> fst ` set a \<union> fst ` set b. map_of a k = map_of b k)"

lemma map_of_outside: "k \<notin> fst ` set a \<Longrightarrow> map_of a k = None"
  by (simp add: map_of_eq_None_iff)

lemma map_eq_iff: "map_eq a b \<longleftrightarrow> map_of a = map_of b"
proof
  assume eq: "map_eq a b"
  show "map_of a = map_of b"
  proof
    fix k
    show "map_of a k = map_of b k"
      using eq by (cases "k \<in> fst ` set a \<union> fst ` set b")
        (simp_all add: map_eq_def map_of_outside del: map_of_eq_None_iff)
  qed
qed (simp add: map_eq_def)

lemma map_eq_refl [simp]: "map_eq a a"
  by (simp add: map_eq_iff)

end
