(* ===== verification/GoLib.thy ===== *)
theory GoLib
  imports Prelude "HOL-Library.Word"
begin

text \<open>
  The functions of Go's standard library that the driver calls on strings and numbers. A Go
  string is a sequence of bytes, and so is a \<open>string\<close> here: \<open>length\<close> is Go's \<open>len\<close>.
  Letter case and white space are those of ASCII: \<open>ToLower\<close>, \<open>EqualFold\<close> and
  \<open>TrimSpace\<close> agree with Go on every ASCII string and leave other bytes alone.
\<close>

unbundle bit_operations_syntax

section \<open>Package strings\<close>

definition strings_HasPrefix :: "string \<Rightarrow> string \<Rightarrow> bool" where
  "strings_HasPrefix s p \<longleftrightarrow> take (length p) s = p"

text \<open>\<open>cut sep s\<close> splits \<open>s\<close> around the first occurrence of \<open>sep\<close>.\<close>

fun cut :: "string \<Rightarrow> string \<Rightarrow> (string \<times> string) option" where
  "cut sep [] = (if sep = [] then Some ([], []) else None)"
| "cut sep (c # cs) =
     (if strings_HasPrefix (c # cs) sep then Some ([], drop (length sep) (c # cs))
      else map_option (\<lambda>(a, b). (c # a, b)) (cut sep cs))"

text \<open>\<^verbatim>\<open>before, after, found := strings.Cut(s, sep)\<close>\<close>

definition strings_Cut :: "string \<Rightarrow> string \<Rightarrow> string \<times> string \<times> bool" where
  "strings_Cut s sep = (case cut sep s of None \<Rightarrow> (s, [], False) | Some (a, b) \<Rightarrow> (a, b, True))"

text \<open>\<^verbatim>\<open>strings.SplitN(s, sep, 2)\<close>\<close>

definition strings_SplitN2 :: "string \<Rightarrow> string \<Rightarrow> string list" where
  "strings_SplitN2 s sep = (case cut sep s of None \<Rightarrow> [s] | Some (a, b) \<Rightarrow> [a, b])"

text \<open>\<^verbatim>\<open>strings.Split(s, sep)\<close> for the one-byte separators the source uses.\<close>

fun strings_Split :: "string \<Rightarrow> char \<Rightarrow> string list" where
  "strings_Split [] sep = [[]]"
| "strings_Split (c # cs) sep =
     (if c = sep then [] # strings_Split cs sep
      else (case strings_Split cs sep of [] \<Rightarrow> [[c]] | w # ws \<Rightarrow> (c # w) # ws))"

text \<open>\<^verbatim>\<open>strings.Replace(s, old, "", -1)\<close> for a one-byte \<open>old\<close>.\<close>

definition strings_Remove :: "string \<Rightarrow> char \<Rightarrow> string" where
  "strings_Remove s c = filter (\<lambda>x. x \<noteq> c) s"

definition char_lower :: "char \<Rightarrow> char" where
  "char_lower c = (if 65 \<le> (of_char c :: nat) \<and> (of_char c :: nat) \<le> 90
     then char_of ((of_char c :: nat) + 32) else c)"

definition strings_ToLower :: "string \<Rightarrow> string" where
  "strings_ToLower s = map char_lower s"

definition strings_EqualFold :: "string \<Rightarrow> string \<Rightarrow> bool" where
  "strings_EqualFold s t \<longleftrightarrow> strings_ToLower s = strings_ToLower t"

text \<open>Tab, line feed, vertical tab, form feed, carriage return and space.\<close>

definition is_space :: "char \<Rightarrow> bool" where
  "is_space c \<longleftrightarrow> (of_char c :: nat) \<in> {9, 10, 11, 12, 13, 32}"

definition strings_TrimSpace :: "string \<Rightarrow> string" where
  "strings_TrimSpace s = rev (dropWhile is_space (rev (dropWhile is_space s)))"

lemma strings_HasPrefix_Nil [simp]: "strings_HasPrefix s []"
  by (simp add: strings_HasPrefix_def)

lemma strings_HasPrefix_append [simp]: "strings_HasPrefix (p @ s) p"
  by (simp add: strings_HasPrefix_def)

lemma strings_HasPrefixE:
  assumes "strings_HasPrefix s p" obtains r where "s = p @ r"
  using assms unfolding strings_HasPrefix_def by (metis append_take_drop_id)

text \<open>Cutting at a one-byte separator splits at its first occurrence.\<close>

lemma cut_char_Some: "c \<notin> set a \<Longrightarrow> cut [c] (a @ c # b) = Some (a, b)"
  by (induction a) (auto simp: strings_HasPrefix_def)

lemma cut_Some_append: "cut sep s = Some (a, b) \<Longrightarrow> s = a @ sep @ b"
proof (induction s arbitrary: a)
  case Nil
  then show ?case by (simp split: if_splits)
next
  case (Cons c s)
  show ?case
  proof (cases "strings_HasPrefix (c # s) sep")
    case True
    then obtain r where r: "c # s = sep @ r" by (rule strings_HasPrefixE)
    from True Cons.prems have "a = []" and b: "b = drop (length sep) (c # s)" by simp_all
    with r show ?thesis by simp
  next
    case False
    with Cons.prems obtain a' where "cut sep s = Some (a', b)" "a = c # a'" by auto
    with Cons.IH show ?thesis by simp
  qed
qed

lemma cut_char_before: "cut [c] s = Some (a, b) \<Longrightarrow> c \<notin> set a"
  by (induction s arbitrary: a) (auto simp: strings_HasPrefix_def split: if_splits)

lemma cut_char_None: "cut [c] s = None \<longleftrightarrow> c \<notin> set s"
  by (induction s) (auto simp: strings_HasPrefix_def)

lemma strings_Split_not_Nil [simp]: "strings_Split s c \<noteq> []"
  by (induction s) (auto split: list.splits)

lemma strings_Split_no_sep: "w \<in> set (strings_Split s c) \<Longrightarrow> c \<notin> set w"
  by (induction s arbitrary: w) (auto split: if_splits list.splits)

lemma length_strings_ToLower [simp]: "length (strings_ToLower s) = length s"
  by (simp add: strings_ToLower_def)

lemma char_lower_idem [simp]: "char_lower (char_lower c) = char_lower c"
  by (simp add: char_lower_def)

lemma strings_ToLower_idem [simp]: "strings_ToLower (strings_ToLower s) = strings_ToLower s"
  by (simp add: strings_ToLower_def)

section \<open>Package strconv\<close>

definition digit_val :: "char \<Rightarrow> int option" where
  "digit_val c = (let n = (of_char c :: nat) in
     if 48 \<le> n \<and> n \<le> 57 then Some (int n - 48) else None)"

fun digits_val :: "int \<Rightarrow> string \<Rightarrow> int option" where
  "digits_val acc [] = Some acc"
| "digits_val acc (c # cs) =
     (case digit_val c of None \<Rightarrow> None | Some d \<Rightarrow> digits_val (10 * acc + d) cs)"

text \<open>
  \<^verbatim>\<open>strconv.ParseInt(s, 10, 64)\<close> and, on a 64-bit platform, \<^verbatim>\<open>strconv.Atoi(s)\<close>: an optional
  sign, at least one decimal digit, and a value in the range of \<open>int64\<close>.
\<close>

definition strconv_ParseInt :: "string \<Rightarrow> int64 option" where
  "strconv_ParseInt s =
     (let neg = (strings_HasPrefix s ''-'');
          ds = (if neg \<or> strings_HasPrefix s ''+'' then tl s else s)
      in if ds = [] then None
         else case digits_val 0 ds of
             None \<Rightarrow> None
           | Some n \<Rightarrow> (let v = (if neg then - n else n) in if is_int64 v then Some v else None))"

definition strconv_Atoi :: "string \<Rightarrow> int64 option" where
  "strconv_Atoi s = strconv_ParseInt s"

lemma strconv_ParseInt_range: "strconv_ParseInt s = Some v \<Longrightarrow> is_int64 v"
  by (auto simp: strconv_ParseInt_def Let_def split: if_splits option.splits)

section \<open>Package hash/fnv and the \<open>%.8x\<close> verb\<close>

definition fnv32a_step :: "32 word \<Rightarrow> char \<Rightarrow> 32 word" where
  "fnv32a_step h c = (h XOR of_nat (of_char c)) * 16777619"

definition fnv32a :: "string \<Rightarrow> 32 word" where
  "fnv32a s = foldl fnv32a_step 2166136261 s"

definition hex_digit :: "int \<Rightarrow> char" where
  "hex_digit n = ''0123456789abcdef'' ! nat n"

primrec hex_pad :: "nat \<Rightarrow> int \<Rightarrow> string" where
  "hex_pad 0 n = []"
| "hex_pad (Suc k) n = hex_pad k (n div 16) @ [hex_digit (n mod 16)]"

definition fmt_8x :: "32 word \<Rightarrow> string" where
  "fmt_8x h = hex_pad 8 (uint h)"

lemma length_hex_pad [simp]: "length (hex_pad k n) = k"
  by (induction k arbitrary: n) auto

lemma hex_digit_inj:
  assumes "0 \<le> m" "m < 16" "0 \<le> n" "n < 16" "hex_digit m = hex_digit n"
  shows "m = n"
proof -
  have "distinct ''0123456789abcdef''" by simp
  moreover have "nat m < length ''0123456789abcdef''" "nat n < length ''0123456789abcdef''"
    using assms by simp_all
  ultimately have "nat m = nat n" using assms(5) unfolding hex_digit_def by (simp only: nth_eq_iff_index_eq)
  then show ?thesis using assms by simp
qed

lemma hex_pad_inj:
  assumes "0 \<le> m" "m < 16 ^ k" "0 \<le> n" "n < 16 ^ k" "hex_pad k m = hex_pad k n"
  shows "m = n"
  using assms
proof (induction k arbitrary: m n)
  case 0
  then show ?case by simp
next
  case (Suc k)
  then have "hex_pad k (m div 16) = hex_pad k (n div 16)"
    and low: "hex_digit (m mod 16) = hex_digit (n mod 16)" by simp_all
  moreover have "m div 16 < 16 ^ k" "n div 16 < 16 ^ k" using Suc.prems by simp_all
  ultimately have "m div 16 = n div 16" using Suc.IH Suc.prems by (simp add: pos_imp_zdiv_nonneg_iff)
  moreover have "m mod 16 = n mod 16" using low by (intro hex_digit_inj) simp_all
  ultimately show ?case by (metis div_mult_mod_eq)
qed

lemma fmt_8x_inj: "fmt_8x g = fmt_8x h \<Longrightarrow> g = h"
proof -
  assume eq: "fmt_8x g = fmt_8x h"
  have bound: "0 \<le> uint w" "uint w < 16 ^ 8" for w :: "32 word"
  proof -
    have "uint w < 2 ^ LENGTH(32)" by (rule unsigned_less)
    then show "uint w < 16 ^ 8" by simp
  qed simp
  from eq have "uint g = uint h"
    by (intro hex_pad_inj [where k = 8] bound) (simp add: fmt_8x_def)
  then show "g = h" by (simp add: word_uint_eq_iff)
qed

end
