(* ===== verification/GoTime.thy ===== *)
theory GoTime
  imports GoLib
begin

text \<open>
  The part of Go's package \<open>time\<close> that the driver uses to read the creation time of a
  snapshot: \<open>time.Parse\<close> for layouts made of the elements \<open>2006 01 02 15 04 05\<close>, an
  optional fraction \<open>.999999999\<close> and a zone \<open>Z07:00\<close>. An instant is a pair of seconds
  since 1970-01-01 00:00 UTC and nanoseconds.
\<close>

type_synonym instant = "int \<times> int"

section \<open>The calendar\<close>

definition is_leap :: "int \<Rightarrow> bool" where
  "is_leap y \<longleftrightarrow> y mod 4 = 0 \<and> (y mod 100 \<noteq> 0 \<or> y mod 400 = 0)"

definition days_in :: "int \<Rightarrow> int \<Rightarrow> int" where
  "days_in m y = (if m = 2 then (if is_leap y then 29 else 28)
     else if m = 4 \<or> m = 6 \<or> m = 9 \<or> m = 11 then 30 else 31)"

text \<open>Days from 0000-01-01 to the start of a year (the year 0 is a leap year).\<close>

definition days_before_year :: "int \<Rightarrow> int" where
  "days_before_year y = 365 * y + (y + 3) div 4 - (y + 99) div 100 + (y + 399) div 400"

primrec days_before_month :: "nat \<Rightarrow> int \<Rightarrow> int" where
  "days_before_month 0 y = 0"
| "days_before_month (Suc m) y = days_before_month m y + (if m = 0 then 0 else days_in (int m) y)"

definition unix_days :: "int \<Rightarrow> int \<Rightarrow> int \<Rightarrow> int" where
  "unix_days y m d = days_before_year y + days_before_month (nat m) y + (d - 1) - days_before_year 1970"

lemma days_before_year_Suc:
  "days_before_year (y + 1) = days_before_year y + (if is_leap y then 366 else 365)"
proof -
  have step: "(y + 1 + (k - 1)) div k = (y + (k - 1)) div k + (if y mod k = 0 then 1 else 0)"
    if "0 < k" for k :: int
  proof -
    have "(y + 1 + (k - 1)) div k = y div k + 1" using that div_add_self2 [of k y] by (simp add: add.commute)
    moreover have "(y + (k - 1)) div k = (if y mod k = 0 then y div k else y div k + 1)"
      using ceil_div [OF that, of y] by (simp only: add_diff_eq)
    ultimately show ?thesis by simp
  qed
  have d: "y mod 100 = 0 \<Longrightarrow> y mod 4 = 0" "y mod 400 = 0 \<Longrightarrow> y mod 100 = 0"
    using dvd_trans [of 4 100 y] dvd_trans [of 100 400 y] by (simp_all add: dvd_eq_mod_eq_0 [symmetric])
  have s4: "(y + 1 + 3) div 4 = (y + 3) div 4 + (if y mod 4 = 0 then 1 else 0)"
    using step [of 4] by simp
  have s100: "(y + 1 + 99) div 100 = (y + 99) div 100 + (if y mod 100 = 0 then 1 else 0)"
    using step [of 100] by simp
  have s400: "(y + 1 + 399) div 400 = (y + 399) div 400 + (if y mod 400 = 0 then 1 else 0)"
    using step [of 400] by simp
  show ?thesis
    unfolding days_before_year_def s4 s100 s400 is_leap_def
    using d by (cases "y mod 4 = 0"; cases "y mod 100 = 0"; cases "y mod 400 = 0") simp_all
qed

section \<open>time.Parse\<close>

datatype chunk =
    Lit char
  | StdLongYear
  | StdZeroMonth
  | StdZeroDay
  | StdHour
  | StdZeroMinute
  | StdZeroSecond
  | StdFracSecond9
  | StdISO8601ColonTZ

record parsed_time =
  pt_year :: int
  pt_month :: int
  pt_day :: int
  pt_hour :: int
  pt_min :: int
  pt_sec :: int
  pt_nsec :: int
  pt_offset :: int

definition parsed_time_init :: parsed_time where
  "parsed_time_init = \<lparr>pt_year = 0, pt_month = 1, pt_day = 1, pt_hour = 0, pt_min = 0, pt_sec = 0,
     pt_nsec = 0, pt_offset = 0\<rparr>"

text \<open>\<open>getnum\<close>: two digits, or one digit when the element is not of fixed width.\<close>

fun getnum :: "string \<Rightarrow> bool \<Rightarrow> (int \<times> string) option" where
  "getnum [] fixed = None"
| "getnum [a] fixed = (if fixed then None else map_option (\<lambda>x. (x, [])) (digit_val a))"
| "getnum (a # b # s) fixed =
     (case digit_val a of
        None \<Rightarrow> None
      | Some x \<Rightarrow> (case digit_val b of
            None \<Rightarrow> if fixed then None else Some (x, b # s)
          | Some y \<Rightarrow> Some (10 * x + y, s)))"

definition is_digit :: "char \<Rightarrow> bool" where
  "is_digit c \<longleftrightarrow> digit_val c \<noteq> None"

text \<open>\<open>frac s\<close>: a comma or period and at least one digit; digits after the ninth are dropped.\<close>

definition frac :: "string \<Rightarrow> (int \<times> string) option" where
  "frac s = (case s of
      c # d # r \<Rightarrow>
        if (c = CHR ''.'' \<or> c = CHR '','') \<and> is_digit d then
          (let ds = takeWhile is_digit (d # r); n = take 9 ds in
           case digits_val 0 n of
             None \<Rightarrow> None
           | Some v \<Rightarrow> Some (v * 10 ^ (9 - length n), dropWhile is_digit (d # r)))
        else None
    | _ \<Rightarrow> None)"

definition in_range :: "int \<Rightarrow> int \<Rightarrow> (int \<times> string) option \<Rightarrow> (int \<times> string) option" where
  "in_range lo hi r = (case r of None \<Rightarrow> None | Some (n, s) \<Rightarrow> if lo \<le> n \<and> n \<le> hi then Some (n, s) else None)"

definition parse_zone :: "string \<Rightarrow> (int \<times> string) option" where
  "parse_zone s =
     (if strings_HasPrefix s ''Z'' then Some (0, drop 1 s)
      else if length s < 6 \<or> s ! 3 \<noteq> CHR '':'' then None
      else case (getnum (take 2 (drop 1 s)) True, getnum (take 2 (drop 4 s)) True) of
          (Some (hr, _), Some (mm, _)) \<Rightarrow>
            if hr > 24 \<or> mm > 60 then None
            else (let off = (hr * 60 + mm) * 60 in
              if s ! 0 = CHR ''+'' then Some (off, drop 6 s)
              else if s ! 0 = CHR ''-'' then Some (- off, drop 6 s)
              else None)
        | _ \<Rightarrow> None)"

fun parse_chunks :: "chunk list \<Rightarrow> string \<Rightarrow> parsed_time \<Rightarrow> parsed_time option" where
  "parse_chunks [] s t = (if s = [] then Some t else None)"
| "parse_chunks (Lit c # l) s t =
     (if c = CHR '' '' then
        (if s \<noteq> [] \<and> hd s \<noteq> CHR '' '' then None
         else parse_chunks l (dropWhile (\<lambda>x. x = CHR '' '') s) t)
      else case s of [] \<Rightarrow> None | a # s' \<Rightarrow> if a = c then parse_chunks l s' t else None)"
| "parse_chunks (StdLongYear # l) s t =
     (if length s < 4 then None
      else case digits_val 0 (take 4 s) of
          None \<Rightarrow> None
        | Some y \<Rightarrow> parse_chunks l (drop 4 s) (t\<lparr>pt_year := y\<rparr>))"
| "parse_chunks (StdZeroMonth # l) s t =
     (case in_range 1 12 (getnum s True) of
        None \<Rightarrow> None | Some (m, s') \<Rightarrow> parse_chunks l s' (t\<lparr>pt_month := m\<rparr>))"
| "parse_chunks (StdZeroDay # l) s t =
     (case getnum s True of
        None \<Rightarrow> None | Some (d, s') \<Rightarrow> parse_chunks l s' (t\<lparr>pt_day := d\<rparr>))"
| "parse_chunks (StdHour # l) s t =
     (case in_range 0 23 (getnum s False) of
        None \<Rightarrow> None | Some (h, s') \<Rightarrow> parse_chunks l s' (t\<lparr>pt_hour := h\<rparr>))"
| "parse_chunks (StdZeroMinute # l) s t =
     (case in_range 0 59 (getnum s True) of
        None \<Rightarrow> None | Some (m, s') \<Rightarrow> parse_chunks l s' (t\<lparr>pt_min := m\<rparr>))"
| "parse_chunks (StdZeroSecond # l) s t =
     (case in_range 0 59 (getnum s True) of
        None \<Rightarrow> None
      | Some (n, s') \<Rightarrow>
          (if l \<noteq> [] \<and> hd l = StdFracSecond9 then parse_chunks l s' (t\<lparr>pt_sec := n\<rparr>)
           else case frac s' of
               None \<Rightarrow> parse_chunks l s' (t\<lparr>pt_sec := n\<rparr>)
             | Some (f, s'') \<Rightarrow> parse_chunks l s'' (t\<lparr>pt_sec := n, pt_nsec := f\<rparr>)))"
| "parse_chunks (StdFracSecond9 # l) s t =
     (case frac s of
        None \<Rightarrow> parse_chunks l s t
      | Some (f, s') \<Rightarrow> parse_chunks l s' (t\<lparr>pt_nsec := f\<rparr>))"
| "parse_chunks (StdISO8601ColonTZ # l) s t =
     (case parse_zone s of
        None \<Rightarrow> None | Some (off, s') \<Rightarrow> parse_chunks l s' (t\<lparr>pt_offset := off\<rparr>))"

definition instant_of :: "parsed_time \<Rightarrow> instant option" where
  "instant_of t =
     (if pt_day t < 1 \<or> pt_day t > days_in (pt_month t) (pt_year t) then None
      else Some (unix_days (pt_year t) (pt_month t) (pt_day t) * 86400 + pt_hour t * 3600 + pt_min t * 60
                   + pt_sec t - pt_offset t, pt_nsec t))"

definition time_Parse :: "chunk list \<Rightarrow> string \<Rightarrow> instant option" where
  "time_Parse layout value = Option.bind (parse_chunks layout value parsed_time_init) instant_of"

definition time_Unix :: "int64 \<Rightarrow> instant" where "time_Unix sec = (sec, 0)"

definition time_UnixMilli :: "int64 \<Rightarrow> instant" where
  "time_UnixMilli ms = (ms div 1000, ms mod 1000 * 1000000)"

end
