(* ===== verification/Common.thy ===== *)
theory Common
  imports GoLib
begin

text \<open>
  The package \<^verbatim>\<open>pkg/common\<close> without its mount and lock parts: the constants of
  \<^verbatim>\<open>types.go\<close>, the capacity arithmetic of \<^verbatim>\<open>calculator.go\<close>, the CSI volume
  identifiers and the entry/exit bookkeeping of \<^verbatim>\<open>common.go\<close>.
\<close>

section \<open>types.go\<close>

text \<open>The package variables that \<^verbatim>\<open>main\<close> sets once from the command line.\<close>

record globals =
  FeatureGates :: "string list"
  DefaultZone :: string
  DefaultResourceGroup :: string
  MixDriver :: bool

definition FEAT_MOUNTOPT_ENABLE :: string where
  "FEAT_MOUNTOPT_ENABLE = ''enable_mount_opt''"

definition Kib :: int64 where "Kib = 1024"

definition Mib :: int64 where "Mib = Kib * 1024"

definition Gib :: int64 where "Gib = Mib * 1024"

definition ZECVOLID_LEN :: nat where "ZECVOLID_LEN = 19"

definition ZECVOLSERIAL_LEN :: nat where "ZECVOLSERIAL_LEN = 20"

definition ZECVMID_LEN :: nat where "ZECVMID_LEN = 19"

definition NodeDriverType :: string where "NodeDriverType = ''node''"

definition ControllerDriverType :: string where "ControllerDriverType = ''controller''"

definition FileSystemExt3 :: string where "FileSystemExt3 = ''ext3''"

definition FileSystemExt4 :: string where "FileSystemExt4 = ''ext4''"

definition FileSystemXfs :: string where "FileSystemXfs = ''xfs''"

definition DefaultFileSystem :: string where "DefaultFileSystem = FileSystemExt4"

lemma Gib_eq [simp]: "Gib = 1073741824"
  by (simp add: Gib_def Mib_def Kib_def)

section \<open>calculator.go\<close>

definition GibToByte :: "int64 \<Rightarrow> int64" where
  "GibToByte nGib = wrap64 (nGib * Gib)"

definition ByteCeilToGib :: "int64 \<Rightarrow> int64" where
  "ByteCeilToGib nByte =
     (if nByte \<le> 0 then 0
      else let res = go_quot nByte Gib
           in if wrap64 (res * Gib) < nByte then wrap64 (res + 1) else res)"

text \<open>\<^verbatim>\<open>csi.CapacityRange\<close>; an absent field reads as 0.\<close>

record CapacityRange =
  RequiredBytes :: int64
  LimitBytes :: int64

definition IsValidCapacityBytes :: "int64 \<Rightarrow> CapacityRange option \<Rightarrow> bool" where
  "IsValidCapacityBytes cur capRange =
     (case capRange of
        None \<Rightarrow> True
      | Some r \<Rightarrow>
          if RequiredBytes r > 0 \<and> cur < RequiredBytes r then False
          else if LimitBytes r > 0 \<and> cur > LimitBytes r then False
          else True)"

datatype capacity_error =
    NegativeRange
  | RequiredAboveLimit
  | ExceedsMaxSize
  | ExceedsLimit

definition GetRequestSizeBytes :: "CapacityRange option \<Rightarrow> capacity_error + int64" where
  "GetRequestSizeBytes capRange =
     (case capRange of
        None \<Rightarrow> Inr 0
      | Some r \<Rightarrow>
          (let requiredBytes = RequiredBytes r; limitBytes = LimitBytes r in
           if requiredBytes < 0 \<or> limitBytes < 0 then Inl NegativeRange
           else let limitBytes' = (if limitBytes = 0 then int64_max else limitBytes) in
                if requiredBytes > limitBytes' then Inl RequiredAboveLimit
                else Inr requiredBytes))"

text \<open>The values of a capacity range are \<open>int64\<close>.\<close>

definition wf_range :: "CapacityRange \<Rightarrow> bool" where
  "wf_range r \<longleftrightarrow> is_int64 (RequiredBytes r) \<and> is_int64 (LimitBytes r)"

lemma ByteCeilToGib_pos:
  assumes "0 < n" "is_int64 n"
  shows "ByteCeilToGib n = (n + Gib - 1) div Gib"
proof -
  define q where "q = n div Gib"
  define r where "r = n mod Gib"
  have n: "n = q * Gib + r" by (simp add: q_def r_def del: Gib_eq)
  have r: "0 \<le> r" "r < Gib" by (simp_all add: r_def)
  have q: "0 \<le> q" using assms by (simp add: q_def pos_imp_zdiv_nonneg_iff)
  have "go_quot n Gib = q" using assms by (simp add: q_def)
  moreover have "wrap64 (q * Gib) = q * Gib" "wrap64 (q + 1) = q + 1"
    using assms n r q by (auto intro!: wrap64_id simp: is_int64_def int64_min_def int64_max_def)
  ultimately show ?thesis
    using assms n r ceil_div [of Gib n]
    by (simp add: ByteCeilToGib_def q_def [symmetric] r_def [symmetric])
qed

lemma ByteCeilToGib_nonpos [simp]: "n \<le> 0 \<Longrightarrow> ByteCeilToGib n = 0"
  by (simp add: ByteCeilToGib_def)

lemma GibToByte_small: "0 \<le> g \<Longrightarrow> g < 8589934592 \<Longrightarrow> GibToByte g = g * Gib"
  by (simp add: GibToByte_def wrap64_def)

lemma ByteCeilToGib_GibToByte: "0 \<le> g \<Longrightarrow> g < 8589934592 \<Longrightarrow> ByteCeilToGib (GibToByte g) = g"
proof (cases "g = 0")
  case True
  then show ?thesis by (simp add: GibToByte_small)
next
  case False
  assume "0 \<le> g" "g < 8589934592"
  with False have "0 < g * Gib" "is_int64 (g * Gib)"
    by (simp_all add: is_int64_def int64_min_def int64_max_def)
  then show ?thesis using \<open>0 \<le> g\<close> \<open>g < 8589934592\<close>
    by (simp add: GibToByte_small ByteCeilToGib_pos)
qed

text \<open>Rounding up to whole GiB, in bytes.\<close>

lemma GibToByte_ByteCeilToGib:
  assumes "0 < n" "n \<le> 8589934591 * Gib"
  shows "GibToByte (ByteCeilToGib n) = (n + Gib - 1) div Gib * Gib"
proof -
  have n: "is_int64 n" using assms by (simp add: is_int64_def int64_min_def int64_max_def)
  have "0 \<le> (n + Gib - 1) div Gib" "(n + Gib - 1) div Gib < 8589934592" using assms by simp_all
  then show ?thesis using assms n by (simp add: ByteCeilToGib_pos GibToByte_small)
qed

lemma GibToByte_ByteCeilToGib_overflow:
  assumes "8589934591 * Gib < n" "is_int64 n"
  shows "GibToByte (ByteCeilToGib n) = int64_min"
proof -
  have "n + Gib - 1 = Gib * 8589934592 + (n - 9223372035781033985)" by simp
  moreover have "0 \<le> n - 9223372035781033985" "n - 9223372035781033985 < Gib"
    using assms by (simp_all add: is_int64_def int64_max_def)
  ultimately have "(n + Gib - 1) div Gib = 8589934592" by (rule int_div_pos_eq)
  then show ?thesis
    using assms by (simp add: ByteCeilToGib_pos GibToByte_def wrap64_def int64_min_def)
qed

section \<open>Retrying\<close>

text \<open>
  \<open>retry_OnError\<close> is \<^verbatim>\<open>retry.OnError\<close> of client-go: it takes a backoff, the errors to retry on and the
  function. The driver retries on every error; \<open>None\<close> is success.
\<close>

definition RetryOnError ::
  "('b \<Rightarrow> ('e \<Rightarrow> bool) \<Rightarrow> ('w, 'e option) state \<Rightarrow> ('w, 'e option) state) \<Rightarrow> 'b \<Rightarrow>
   ('w, 'e option) state \<Rightarrow> ('w, 'e option) state" where
  "RetryOnError retry_OnError backoff fn = retry_OnError backoff (\<lambda>e. True) fn"

section \<open>CSI volume identifiers\<close>

definition GenCsiVolId :: "string \<Rightarrow> string \<Rightarrow> string" where
  "GenCsiVolId volid serial = volid @ ''-'' @ serial"

datatype volid_error = NoSeparator | WrongLength

definition ParseCsiVolId :: "string \<Rightarrow> volid_error + string \<times> string" where
  "ParseCsiVolId csivolId =
     (let (volid, serial, found) = strings_Cut csivolId ''-'' in
      if \<not> found then Inl NoSeparator
      else if length volid \<noteq> ZECVOLID_LEN \<or> length serial \<noteq> ZECVOLSERIAL_LEN
      then Inl WrongLength
      else Inr (volid, serial))"

lemma ParseCsiVolId_Inr_iff:
  "ParseCsiVolId s = Inr (v, r) \<longleftrightarrow>
     s = GenCsiVolId v r \<and> length v = ZECVOLID_LEN \<and> length r = ZECVOLSERIAL_LEN \<and>
     CHR ''-'' \<notin> set v"
proof
  assume "ParseCsiVolId s = Inr (v, r)"
  then have "cut ''-'' s = Some (v, r)" "length v = ZECVOLID_LEN" "length r = ZECVOLSERIAL_LEN"
    by (auto simp: ParseCsiVolId_def strings_Cut_def Let_def split: option.splits if_splits)
  then show "s = GenCsiVolId v r \<and> length v = ZECVOLID_LEN \<and> length r = ZECVOLSERIAL_LEN \<and>
      CHR ''-'' \<notin> set v"
    using cut_Some_append [of "''-''"] cut_char_before by (auto simp: GenCsiVolId_def)
next
  assume "s = GenCsiVolId v r \<and> length v = ZECVOLID_LEN \<and> length r = ZECVOLSERIAL_LEN \<and>
    CHR ''-'' \<notin> set v"
  then show "ParseCsiVolId s = Inr (v, r)"
    by (auto simp: ParseCsiVolId_def strings_Cut_def GenCsiVolId_def cut_char_Some Let_def)
qed

lemma ParseCsiVolId_length: "ParseCsiVolId s = Inr p \<Longrightarrow> length s = 40"
  by (cases p) (auto simp: ParseCsiVolId_Inr_iff GenCsiVolId_def ZECVOLID_LEN_def ZECVOLSERIAL_LEN_def)

section \<open>Entry and exit bookkeeping\<close>

text \<open>
  \<open>entryTimes\<close> maps the hash of an invocation to its entry time. The clock is an argument
  (\<open>now\<close>, in milliseconds), and so is the text of the current time that is hashed. The log
  line is reduced to what depends on the state: the elapsed time, if one is reported.
\<close>

type_synonym entry_times = "string \<rightharpoonup> int"

definition GenerateHashInEightBytes :: "string \<Rightarrow> string" where
  "GenerateHashInEightBytes input = fmt_8x (fnv32a input)"

definition EntryFunction :: "string \<Rightarrow> int \<Rightarrow> (entry_times, string) state" where
  "EntryFunction now_text now = State (\<lambda>entryTimes.
     let hash = GenerateHashInEightBytes now_text in (hash, entryTimes(hash \<mapsto> now)))"

definition ExitFunction :: "string \<Rightarrow> int \<Rightarrow> (entry_times, int option) state" where
  "ExitFunction hash now = State (\<lambda>entryTimes.
     case entryTimes hash of
       Some start \<Rightarrow> (Some (now - start), entryTimes(hash := None))
     | None \<Rightarrow> (None, entryTimes))"

text \<open>
  Every RPC handler starts with \<^verbatim>\<open>info, hash := EntryFunction(..)\<close> and
  \<^verbatim>\<open>defer klog.Info(ExitFunction(funcName, hash))\<close>. Go evaluates the arguments of a deferred
  call when the \<open>defer\<close> statement runs, so \<open>ExitFunction\<close> runs right after
  \<open>EntryFunction\<close> and before the body; only the printing is delayed. \<open>t0\<close> and \<open>t1\<close>
  are the times of the two statements, \<open>body\<close> is the handler.
\<close>

definition traced_handler ::
  "string \<Rightarrow> int \<Rightarrow> int \<Rightarrow> (entry_times, 'a) state \<Rightarrow> (entry_times, 'a \<times> int option) state" where
  "traced_handler now_text t0 t1 body = do {
     hash \<leftarrow> EntryFunction now_text t0;
     elapsed \<leftarrow> ExitFunction hash t1;
     r \<leftarrow> body;
     State_Monad.return (r, elapsed)
   }"

lemma length_GenerateHash [simp]: "length (GenerateHashInEightBytes s) = 8"
  by (simp add: GenerateHashInEightBytes_def fmt_8x_def)

lemma run_traced_handler:
  "run_state (traced_handler now_text t0 t1 body) m =
     (let (r, m') = run_state body (m(GenerateHashInEightBytes now_text := None))
      in ((r, Some (t1 - t0)), m'))"
  by (simp add: traced_handler_def EntryFunction_def ExitFunction_def Let_def split: prod.splits)

text \<open>The two vectors of \<^verbatim>\<open>TestGenerateHashInEightBytes\<close>.\<close>

lemma GenerateHash_snapshot: "GenerateHashInEightBytes ''snapshot'' = ''2aa38b8d''"
proof -
  have "uint (fnv32a ''snapshot'') = 715361165" by (simp add: fnv32a_def fnv32a_step_def)
  moreover have "hex_pad 8 715361165 = ''2aa38b8d''" by code_simp
  ultimately show ?thesis by (simp only: GenerateHashInEightBytes_def fmt_8x_def)
qed

lemma GenerateHash_empty: "GenerateHashInEightBytes [] = ''811c9dc5''"
proof -
  have "uint (fnv32a []) = 2166136261" by (simp add: fnv32a_def)
  moreover have "hex_pad 8 2166136261 = ''811c9dc5''" by code_simp
  ultimately show ?thesis by (simp only: GenerateHashInEightBytes_def fmt_8x_def)
qed

section \<open>Properties\<close>

text \<open>C29: \<open>ParseCsiVolId\<close> accepts exactly the identifiers that \<open>GenCsiVolId\<close> builds from a
  19-byte disk id without a dash and a 20-byte serial (which may contain dashes), and it
  returns these two parts.\<close>

theorem volid_parse_gen:
  "ParseCsiVolId s = Inr (v, r) \<longleftrightarrow>
     s = GenCsiVolId v r \<and> length v = 19 \<and> length r = 20 \<and> CHR ''-'' \<notin> set v"
  using ParseCsiVolId_Inr_iff by (simp add: ZECVOLID_LEN_def ZECVOLSERIAL_LEN_def)

text \<open>For every positive \<open>int64\<close> number of bytes, \<open>ByteCeilToGib\<close> returns the least
  number of GiB that holds them; none of its intermediate values overflows.\<close>

theorem ByteCeilToGib_is_ceiling:
  assumes "0 < n" "is_int64 n"
  shows "n \<le> ByteCeilToGib n * Gib \<and> (\<forall>g. n \<le> g * Gib \<longrightarrow> ByteCeilToGib n \<le> g)"
proof -
  have c: "ByteCeilToGib n = (n + Gib - 1) div Gib" by (rule ByteCeilToGib_pos [OF assms])
  have n: "n = n div Gib * Gib + n mod Gib" "0 \<le> n mod Gib" "n mod Gib < Gib" by simp_all
  have "n \<le> ByteCeilToGib n * Gib"
    using n ceil_div [of Gib n] unfolding c by (auto simp: distrib_right split: if_splits)
  moreover have "ByteCeilToGib n \<le> g" if "n \<le> g * Gib" for g
  proof -
    have "(n + Gib - 1) div Gib \<le> (g * Gib + (Gib - 1)) div Gib"
      using that by (intro zdiv_mono1) simp_all
    then show ?thesis unfolding c by simp
  qed
  ultimately show ?thesis by blast
qed

theorem ByteCeilToGib_is_ceiling_witness:
  "21474836481 \<le> ByteCeilToGib 21474836481 * Gib \<and> ByteCeilToGib 21474836481 \<le> 21"
  using ByteCeilToGib_is_ceiling [of 21474836481]
  by (auto simp: is_int64_def int64_min_def int64_max_def)

text \<open>The elapsed time a handler reports is the time between its first two statements: it
  does not depend on the handler's body. (Go evaluates the argument of the deferred log call
  at the \<open>defer\<close> statement.)\<close>

theorem reported_elapsed_ignores_body:
  "snd (fst (run_state (traced_handler now_text t0 t1 body) m)) = Some (t1 - t0)"
  by (simp add: run_traced_handler Let_def split: prod.splits)

end
