(* ===== verification/Driver.thy ===== *)
theory Driver
  imports Common
begin

text \<open>
  The package \<^verbatim>\<open>pkg/disk/driver\<close>: volume and virtual machine types (\<^verbatim>\<open>types.go\<close>),
  storage-class parameters and volume sizes (\<^verbatim>\<open>storageclass.go\<close>), snapshot-class parameters
  (\<^verbatim>\<open>snapshotclass.go\<close>), topology values (\<^verbatim>\<open>topology.go\<close>) and the driver object with
  its capability checks (\<^verbatim>\<open>driver.go\<close>, \<^verbatim>\<open>utils.go\<close>).
\<close>

section \<open>types.go\<close>

text \<open>The CSI enumerations named in the source; protobuf enumerations are open.\<close>

datatype AccessMode =
    UNKNOWN_MODE
  | SINGLE_NODE_WRITER
  | SINGLE_NODE_READER_ONLY
  | MULTI_NODE_READER_ONLY
  | MULTI_NODE_SINGLE_WRITER
  | MULTI_NODE_MULTI_WRITER
  | SINGLE_NODE_SINGLE_WRITER
  | SINGLE_NODE_MULTI_WRITER
  | OTHER_MODE int

datatype ControllerRPC =
    RPC_UNKNOWN
  | RPC_CREATE_DELETE_VOLUME
  | RPC_PUBLISH_UNPUBLISH_VOLUME
  | RPC_LIST_VOLUMES
  | RPC_GET_CAPACITY
  | RPC_CREATE_DELETE_SNAPSHOT
  | RPC_LIST_SNAPSHOTS
  | RPC_CLONE_VOLUME
  | RPC_PUBLISH_READONLY
  | RPC_EXPAND_VOLUME
  | RPC_LIST_VOLUMES_PUBLISHED_NODES
  | RPC_VOLUME_CONDITION
  | RPC_GET_VOLUME
  | RPC_SINGLE_NODE_MULTI_WRITER

datatype NodeRPC =
    NODE_UNKNOWN
  | NODE_STAGE_UNSTAGE_VOLUME
  | NODE_GET_VOLUME_STATS
  | NODE_EXPAND_VOLUME
  | NODE_VOLUME_CONDITION
  | NODE_SINGLE_NODE_MULTI_WRITER
  | NODE_VOLUME_MOUNT_GROUP

datatype PluginServiceType = CONTROLLER_SERVICE | VOLUME_ACCESSIBILITY_CONSTRAINTS

datatype ExpansionType = ONLINE | OFFLINE

datatype PluginCapability = PluginService PluginServiceType | PluginVolumeExpansion ExpansionType

definition DefaultVolumeAccessModeType :: "AccessMode list" where
  "DefaultVolumeAccessModeType = [SINGLE_NODE_WRITER, SINGLE_NODE_SINGLE_WRITER]"

definition DefaultControllerServiceCapability :: "ControllerRPC list" where
  "DefaultControllerServiceCapability =
     [RPC_CREATE_DELETE_VOLUME, RPC_PUBLISH_UNPUBLISH_VOLUME, RPC_EXPAND_VOLUME,
      RPC_CREATE_DELETE_SNAPSHOT]"

definition DefaultNodeServiceCapability :: "NodeRPC list" where
  "DefaultNodeServiceCapability =
     [NODE_STAGE_UNSTAGE_VOLUME, NODE_EXPAND_VOLUME, NODE_GET_VOLUME_STATS]"

definition DefaultPluginCapability :: "PluginCapability list" where
  "DefaultPluginCapability =
     [PluginService CONTROLLER_SERVICE, PluginVolumeExpansion ONLINE,
      PluginService VOLUME_ACCESSIBILITY_CONSTRAINTS]"

type_synonym VolumeType = int

definition InvalidVolumeType :: VolumeType where "InvalidVolumeType = -1"

definition BasicVolumeType :: VolumeType where "BasicVolumeType = 1"

definition StandardVolumeType :: VolumeType where "StandardVolumeType = 2"

definition DefaultVolumeType :: VolumeType where "DefaultVolumeType = StandardVolumeType"

definition BasicNvmeName :: string where "BasicNvmeName = ''Basic NVMe SSD''"

definition StandardNvmeName :: string where "StandardNvmeName = ''Standard NVMe SSD''"

definition VolumeTypeName :: "VolumeType \<rightharpoonup> string" where
  "VolumeTypeName = [BasicVolumeType \<mapsto> BasicNvmeName, StandardVolumeType \<mapsto> StandardNvmeName]"

text \<open>Reading an absent key of a Go map gives the zero value of the value type.\<close>

definition VolumeType_String :: "VolumeType \<Rightarrow> string" where
  "VolumeType_String v = (case VolumeTypeName v of None \<Rightarrow> [] | Some s \<Rightarrow> s)"

definition StringToType :: "string \<Rightarrow> VolumeType" where
  "StringToType s =
     (if BasicNvmeName = s then BasicVolumeType
      else if s = StandardNvmeName then StandardVolumeType
      else InvalidVolumeType)"

definition VolumeType_IsValid :: "VolumeType \<Rightarrow> bool" where
  "VolumeType_IsValid v = (case VolumeTypeName v of None \<Rightarrow> False | Some _ \<Rightarrow> True)"

type_synonym VmType = int

definition BasicVmType :: VmType where "BasicVmType = 1"

definition BasicVmName :: string where "BasicVmName = ''BasicVm''"

definition VmTypeName :: "VmType \<rightharpoonup> string" where
  "VmTypeName = [BasicVmType \<mapsto> BasicVmName]"

definition VmTypeValue :: "string \<rightharpoonup> VmType" where
  "VmTypeValue = [BasicVmName \<mapsto> BasicVmType]"

definition VmType_IsValid :: "VmType \<Rightarrow> bool" where
  "VmType_IsValid v = (case VmTypeName v of None \<Rightarrow> False | Some _ \<Rightarrow> True)"

definition VolumeTypeAttachConstraint :: "VolumeType \<Rightarrow> VmType list" where
  "VolumeTypeAttachConstraint v =
     (case [BasicVolumeType \<mapsto> [BasicVmType], StandardVolumeType \<mapsto> [BasicVmType]] v of
        None \<Rightarrow> [] | Some l \<Rightarrow> l)"

definition ZEC_MAX_DISK_SIZE_BYTES :: int64 where
  "ZEC_MAX_DISK_SIZE_BYTES = 32768 * 1024 * 1024 * 1024"

definition ZEC_MIN_DISK_SIZE_BYTES :: int64 where
  "ZEC_MIN_DISK_SIZE_BYTES = 20 * 1024 * 1024 * 1024"

definition VolumeTypeToMinSize :: "VolumeType \<Rightarrow> int64" where
  "VolumeTypeToMinSize v =
     (case [BasicVolumeType \<mapsto> ZEC_MIN_DISK_SIZE_BYTES,
            StandardVolumeType \<mapsto> ZEC_MIN_DISK_SIZE_BYTES] v of None \<Rightarrow> 0 | Some n \<Rightarrow> n)"

definition VolumeTypeToMaxSize :: "VolumeType \<Rightarrow> int64" where
  "VolumeTypeToMaxSize v =
     (case [BasicVolumeType \<mapsto> ZEC_MAX_DISK_SIZE_BYTES,
            StandardVolumeType \<mapsto> ZEC_MAX_DISK_SIZE_BYTES] v of None \<Rightarrow> 0 | Some n \<Rightarrow> n)"

lemmas type_consts =
  InvalidVolumeType_def BasicVolumeType_def StandardVolumeType_def DefaultVolumeType_def
  BasicNvmeName_def StandardNvmeName_def VolumeTypeName_def BasicVmType_def BasicVmName_def
  VmTypeName_def VmTypeValue_def

lemmas size_consts =
  ZEC_MAX_DISK_SIZE_BYTES_def ZEC_MIN_DISK_SIZE_BYTES_def VolumeTypeToMinSize_def
  VolumeTypeToMaxSize_def

lemma VolumeType_IsValid_iff: "VolumeType_IsValid v \<longleftrightarrow> v = 1 \<or> v = 2"
  by (auto simp: VolumeType_IsValid_def type_consts split: option.splits)

lemma StringToType_String: "VolumeType_IsValid v \<Longrightarrow> StringToType (VolumeType_String v) = v"
  by (auto simp: VolumeType_IsValid_iff StringToType_def VolumeType_String_def type_consts)

lemma VolumeType_String_nonempty: "VolumeType_IsValid v \<Longrightarrow> VolumeType_String v \<noteq> []"
  by (auto simp: VolumeType_IsValid_iff VolumeType_String_def type_consts)

section \<open>utils.go\<close>

definition IsValidFileSystemType :: "string \<Rightarrow> bool" where
  "IsValidFileSystemType fs =
     (if fs = FileSystemExt3 then True
      else if fs = FileSystemExt4 then True
      else if fs = FileSystemXfs then True
      else False)"

datatype ControllerServiceCapability = ControllerServiceCapability_Rpc ControllerRPC

datatype NodeServiceCapability = NodeServiceCapability_Rpc NodeRPC

datatype VolumeCapability_AccessMode = VolumeCapability_AccessMode (GetMode: AccessMode)

definition NewVolumeCapabilityAccessMode :: "AccessMode \<Rightarrow> VolumeCapability_AccessMode" where
  "NewVolumeCapabilityAccessMode mode = VolumeCapability_AccessMode mode"

definition NewControllerServiceCapability :: "ControllerRPC \<Rightarrow> ControllerServiceCapability" where
  "NewControllerServiceCapability c = ControllerServiceCapability_Rpc c"

definition NewNodeServiceCapability :: "NodeRPC \<Rightarrow> NodeServiceCapability" where
  "NewNodeServiceCapability c = NodeServiceCapability_Rpc c"

section \<open>topology.go\<close>

record Topology =
  zoneId :: string
  vmtp :: VmType

definition NewTopology :: "string \<Rightarrow> VmType \<Rightarrow> Topology" where
  "NewTopology zoneid vt = \<lparr>zoneId = zoneid, vmtp = vt\<rparr>"

definition SetZone_topo :: "string \<Rightarrow> Topology \<Rightarrow> Topology" where
  "SetZone_topo zoneid t = t\<lparr>zoneId := zoneid\<rparr>"

definition SetVmType :: "VmType \<Rightarrow> Topology \<Rightarrow> Topology" where
  "SetVmType vt t = t\<lparr>vmtp := vt\<rparr>"

section \<open>snapshotclass.go\<close>

record ZecSnapshotClass =
  tags :: "string list"

definition SnapshotClassTagsName :: string where "SnapshotClassTagsName = ''tags''"

fun snapshotclass_loop :: "strmap \<Rightarrow> string list \<Rightarrow> string list" where
  "snapshotclass_loop [] tgs = tgs"
| "snapshotclass_loop ((k, v) # opt) tgs =
     snapshotclass_loop opt
       (if strings_ToLower k = SnapshotClassTagsName
        then (if length v > 0 then strings_Split (strings_Remove v (CHR '' '')) (CHR '','') else tgs)
        else tgs)"

definition NewZecSnapshotClassFromMap :: "strmap \<Rightarrow> unit + ZecSnapshotClass" where
  "NewZecSnapshotClassFromMap opt = Inr \<lparr>tags = snapshotclass_loop opt []\<rparr>"

section \<open>storageclass.go: parameters\<close>

record ZecStorageClass =
  diskType :: VolumeType
  maxSize :: int64
  minSize :: int64
  fsType :: string
  zoneID :: string
  placeGroupID :: string
  burstEnable :: bool

definition StorageClassTypeName :: string where "StorageClassTypeName = ''type''"

definition StorageClassFsTypeName :: string where "StorageClassFsTypeName = ''fsType''"

definition StorageClassZoneId :: string where "StorageClassZoneId = ''zoneID''"

definition StorageClassPlaceGroupID :: string where "StorageClassPlaceGroupID = ''placeGroupID''"

definition StorageClassBurstEnable :: string where "StorageClassBurstEnable = ''burstEnable''"

definition NewDefaultZecStorageClassFromType :: "VolumeType \<Rightarrow> ZecStorageClass option" where
  "NewDefaultZecStorageClassFromType dt =
     (if \<not> VolumeType_IsValid dt then None
      else Some \<lparr>diskType = dt, maxSize = VolumeTypeToMaxSize dt, minSize = VolumeTypeToMinSize dt,
                 fsType = DefaultFileSystem, zoneID = [], placeGroupID = [], burstEnable = False\<rparr>)"

definition UpdateParmsZone :: "strmap \<Rightarrow> string \<Rightarrow> strmap" where
  "UpdateParmsZone opt zone =
     map (\<lambda>(k, v). if strings_EqualFold k StorageClassZoneId then (k, zone) else (k, v)) opt"

definition setFsType :: "string \<Rightarrow> ZecStorageClass \<Rightarrow> ZecStorageClass option" where
  "setFsType fs sc = (if \<not> IsValidFileSystemType fs then None else Some (sc\<lparr>fsType := fs\<rparr>))"

definition setTypeSize :: "int64 \<Rightarrow> int64 \<Rightarrow> ZecStorageClass \<Rightarrow> ZecStorageClass option" where
  "setTypeSize mx mn sc =
     (if mx < 0 \<or> mn \<le> 0 then Some sc
      else if mx < mn then None
      else Some (sc\<lparr>maxSize := mx, minSize := mn\<rparr>))"

text \<open>The local variables of the parameter loop of \<open>NewZecStorageClassFromMap\<close>.\<close>

record sc_params =
  p_volType :: int
  p_fsType :: string
  p_zoneID :: string
  p_placeGroupID :: string
  p_burst :: string

definition sc_params_init :: sc_params where
  "sc_params_init =
     \<lparr>p_volType = -1, p_fsType = ''ext4'', p_zoneID = [], p_placeGroupID = [], p_burst = ''false''\<rparr>"

datatype sc_error =
    AtoiError
  | MissingZoneOrGroup
  | UnsupportedVolumeType int
  | SetTypeSizeError
  | SetFsTypeError

text \<open>One iteration of \<^verbatim>\<open>for k, v := range opt\<close>: the \<open>switch\<close> on the lower-cased key.\<close>

definition sc_param_step :: "string \<times> string \<Rightarrow> sc_params \<Rightarrow> sc_error + sc_params" where
  "sc_param_step kv p =
     (let (k, v) = kv; lk = strings_ToLower k in
      if lk = strings_ToLower StorageClassTypeName then
        (case strconv_Atoi v of None \<Rightarrow> Inl AtoiError | Some iv \<Rightarrow> Inr (p\<lparr>p_volType := iv\<rparr>))
      else if lk = strings_ToLower StorageClassZoneId then Inr (p\<lparr>p_zoneID := v\<rparr>)
      else if lk = strings_ToLower StorageClassPlaceGroupID then Inr (p\<lparr>p_placeGroupID := v\<rparr>)
      else if lk = strings_ToLower StorageClassBurstEnable then Inr (p\<lparr>p_burst := v\<rparr>)
      else if lk = strings_ToLower StorageClassFsTypeName then
        Inr (if v \<noteq> [] then p\<lparr>p_fsType := v\<rparr> else p)
      else Inr p)"

fun sc_param_loop :: "strmap \<Rightarrow> sc_params \<Rightarrow> sc_error + sc_params" where
  "sc_param_loop [] p = Inr p"
| "sc_param_loop (kv # opt) p =
     (case sc_param_step kv p of Inl e \<Rightarrow> Inl e | Inr p' \<Rightarrow> sc_param_loop opt p')"

text \<open>
  The rest of the function, after the loop. A nil storage class (an invalid type) cannot occur
  past the \<open>IsValid\<close> check; the model keeps that branch as the same error.
\<close>

definition sc_build :: "globals \<Rightarrow> sc_params \<Rightarrow> sc_error + ZecStorageClass" where
  "sc_build g p =
     (let use_default = (p_zoneID p = [] \<or> p_placeGroupID p = []);
          zone = (if use_default then DefaultZone g else p_zoneID p);
          grp = (if use_default then DefaultResourceGroup g else p_placeGroupID p)
      in if use_default \<and> (zone = [] \<or> grp = []) then Inl MissingZoneOrGroup
         else let t = (if p_volType p = -1 then DefaultVolumeType else p_volType p) in
         if \<not> VolumeType_IsValid t then Inl (UnsupportedVolumeType (p_volType p))
         else case NewDefaultZecStorageClassFromType t of
             None \<Rightarrow> Inl (UnsupportedVolumeType (p_volType p))
           | Some sc \<Rightarrow>
             (case setTypeSize ZEC_MAX_DISK_SIZE_BYTES ZEC_MIN_DISK_SIZE_BYTES sc of
                None \<Rightarrow> Inl SetTypeSizeError
              | Some sc1 \<Rightarrow>
                (case setFsType (p_fsType p) sc1 of
                   None \<Rightarrow> Inl SetFsTypeError
                 | Some sc2 \<Rightarrow>
                     Inr (sc2\<lparr>zoneID := zone, placeGroupID := grp,
                              burstEnable := (if p_burst p = ''true'' then True else False)\<rparr>))))"

definition NewZecStorageClassFromMap :: "globals \<Rightarrow> strmap \<Rightarrow> sc_error + ZecStorageClass" where
  "NewZecStorageClassFromMap g opt =
     (case sc_param_loop opt sc_params_init of Inl e \<Rightarrow> Inl e | Inr p \<Rightarrow> sc_build g p)"

section \<open>storageclass.go: sizes\<close>

definition FormatVolumeSizeByte :: "ZecStorageClass \<Rightarrow> int64 \<Rightarrow> int64" where
  "FormatVolumeSizeByte sc sizeByte =
     (let s1 = (if sizeByte \<le> minSize sc then minSize sc else sizeByte)
      in if s1 > maxSize sc then maxSize sc else s1)"

definition GetRequiredVolumeSizeByte ::
  "ZecStorageClass \<Rightarrow> CapacityRange option \<Rightarrow> capacity_error + int64" where
  "GetRequiredVolumeSizeByte sc capRange =
     (case capRange of
        None \<Rightarrow> Inr (minSize sc)
      | Some r \<Rightarrow>
          (let requiredBytes = RequiredBytes r; limitBytes = LimitBytes r in
           if requiredBytes < 0 \<or> limitBytes < 0 then Inl NegativeRange
           else if limitBytes > 0 \<and> requiredBytes > limitBytes then Inl RequiredAboveLimit
           else let required' = (if requiredBytes < minSize sc then minSize sc else requiredBytes);
                    actualBytes = GibToByte (ByteCeilToGib required')
                in if actualBytes > maxSize sc then Inl ExceedsMaxSize
                   else if limitBytes > 0 \<and> actualBytes > limitBytes then Inl ExceedsLimit
                   else Inr actualBytes))"

section \<open>driver.go\<close>

record DiskDriver =
  drv_name :: string
  drv_version :: string
  drv_nodeId :: string
  drv_zoneId :: string
  maxVolume :: int64
  volumeCap :: "VolumeCapability_AccessMode list"
  controllerCap :: "ControllerServiceCapability list"
  nodeCap :: "NodeServiceCapability list"
  pluginCap :: "PluginCapability list"

record InitDiskDriverInput =
  in_Name :: string
  in_Version :: string
  in_NodeId :: string
  in_ZoneId :: string
  in_MaxVolume :: int64
  in_VolumeCap :: "AccessMode list"
  in_ControllerCap :: "ControllerRPC list"
  in_NodeCap :: "NodeRPC list"
  in_PluginCap :: "PluginCapability list"

definition GetDiskDriver :: DiskDriver where
  "GetDiskDriver =
     \<lparr>drv_name = [], drv_version = [], drv_nodeId = [], drv_zoneId = [], maxVolume = 0,
      volumeCap = [], controllerCap = [], nodeCap = [], pluginCap = []\<rparr>"

definition addVolumeCapabilityAccessModes :: "AccessMode list \<Rightarrow> DiskDriver \<Rightarrow> DiskDriver" where
  "addVolumeCapabilityAccessModes vc d = d\<lparr>volumeCap := map NewVolumeCapabilityAccessMode vc\<rparr>"

definition addControllerServiceCapabilities :: "ControllerRPC list \<Rightarrow> DiskDriver \<Rightarrow> DiskDriver" where
  "addControllerServiceCapabilities cl d = d\<lparr>controllerCap := map NewControllerServiceCapability cl\<rparr>"

definition addNodeServiceCapabilities :: "NodeRPC list \<Rightarrow> DiskDriver \<Rightarrow> DiskDriver" where
  "addNodeServiceCapabilities nl d = d\<lparr>nodeCap := map NewNodeServiceCapability nl\<rparr>"

definition addPluginCapabilities :: "PluginCapability list \<Rightarrow> DiskDriver \<Rightarrow> DiskDriver" where
  "addPluginCapabilities pc d = d\<lparr>pluginCap := pc\<rparr>"

definition InitDiskDriver :: "InitDiskDriverInput option \<Rightarrow> DiskDriver \<Rightarrow> DiskDriver" where
  "InitDiskDriver input d =
     (case input of
        None \<Rightarrow> d
      | Some i \<Rightarrow>
          addPluginCapabilities (in_PluginCap i)
            (addNodeServiceCapabilities (in_NodeCap i)
              (addControllerServiceCapabilities (in_ControllerCap i)
                (addVolumeCapabilityAccessModes (in_VolumeCap i)
                  (d\<lparr>drv_name := in_Name i, drv_version := in_Version i, drv_nodeId := in_NodeId i,
                     drv_zoneId := in_ZoneId i, maxVolume := in_MaxVolume i\<rparr>)))))"

fun GetRpc :: "ControllerServiceCapability \<Rightarrow> ControllerRPC" where
  "GetRpc (ControllerServiceCapability_Rpc c) = c"

fun GetNodeRpc :: "NodeServiceCapability \<Rightarrow> NodeRPC" where
  "GetNodeRpc (NodeServiceCapability_Rpc c) = c"

definition ValidateControllerServiceRequest :: "DiskDriver \<Rightarrow> ControllerRPC \<Rightarrow> bool" where
  "ValidateControllerServiceRequest d c =
     (if c = RPC_UNKNOWN then True else list_ex (\<lambda>x. c = GetRpc x) (controllerCap d))"

definition ValidateNodeServiceRequest :: "DiskDriver \<Rightarrow> NodeRPC \<Rightarrow> bool" where
  "ValidateNodeServiceRequest d c =
     (if c = NODE_UNKNOWN then True else list_ex (\<lambda>x. c = GetNodeRpc x) (nodeCap d))"

definition ValidateVolumeAccessMode :: "DiskDriver \<Rightarrow> AccessMode \<Rightarrow> bool" where
  "ValidateVolumeAccessMode d c = list_ex (\<lambda>mode. c = GetMode mode) (volumeCap d)"

text \<open>
  \<^verbatim>\<open>csi.VolumeCapability\<close>. The generated getters return the zero value on a nil pointer, so a
  missing access mode reads as \<open>UNKNOWN_MODE\<close>.
\<close>

record MountVolume =
  FsType :: string
  MountFlags :: "string list"

datatype AccessType = AccessType_Block | AccessType_Mount MountVolume | AccessType_None

record VolumeCapability =
  cap_AccessMode :: "VolumeCapability_AccessMode option"
  cap_AccessType :: AccessType

definition cap_mode :: "VolumeCapability \<Rightarrow> AccessMode" where
  "cap_mode c = (case cap_AccessMode c of None \<Rightarrow> UNKNOWN_MODE | Some m \<Rightarrow> GetMode m)"

definition ValidateVolumeCapability :: "DiskDriver \<Rightarrow> VolumeCapability \<Rightarrow> bool" where
  "ValidateVolumeCapability d c = ValidateVolumeAccessMode d (cap_mode c)"

definition ValidateVolumeCapabilities_drv :: "DiskDriver \<Rightarrow> VolumeCapability list \<Rightarrow> bool" where
  "ValidateVolumeCapabilities_drv d caps =
     list_all (\<lambda>c. ValidateVolumeAccessMode d (cap_mode c)) caps"

fun GetService :: "PluginCapability \<Rightarrow> PluginServiceType option" where
  "GetService (PluginService t) = Some t"
| "GetService (PluginVolumeExpansion _) = None"

definition ValidatePluginCapabilityService :: "DiskDriver \<Rightarrow> PluginServiceType \<Rightarrow> bool" where
  "ValidatePluginCapabilityService d c =
     list_ex (\<lambda>v. GetService v = Some c) (pluginCap d)"

definition GetTopologyZoneKey :: "DiskDriver \<Rightarrow> string" where
  "GetTopologyZoneKey d = ''topology.'' @ drv_name d @ ''/zone''"

definition GetTopologyVmTypeKey :: "DiskDriver \<Rightarrow> string" where
  "GetTopologyVmTypeKey d = ''topology.'' @ drv_name d @ ''/Vm-type''"

lemma topology_keys_differ [simp]: "GetTopologyZoneKey d \<noteq> GetTopologyVmTypeKey d"
  by (simp add: GetTopologyZoneKey_def GetTopologyVmTypeKey_def)

end
