(* ===== verification/CloudApi.thy ===== *)
theory CloudApi
  imports Driver
begin

text \<open>
  The data of \<^verbatim>\<open>pkg/cloud\<close>: disk, snapshot and virtual machine records and status strings
  (\<^verbatim>\<open>types.go\<close>), the polling helper (\<^verbatim>\<open>utils.go\<close>), the error codes the driver looks at
  (\<^verbatim>\<open>error.go\<close>), and the interface of the Zenlayer SDK client.

  The SDK is not part of the repository. Its client is a parameter \<open>'w zec_client\<close>: a record
  with one function for each API the driver calls, over an abstract state \<open>'w\<close> of the outside
  world. A call may change the world in any way, so the passage of time between two calls is
  part of the later call. Pointers of the SDK's structures are \<open>option\<close> values; a call
  returns either an error or a response.
\<close>

section \<open>types.go\<close>

definition VmStatusRunning :: string where "VmStatusRunning = ''RUNNING''"

definition DiskStatusInUse :: string where "DiskStatusInUse = ''IN_USE''"

definition DiskStatusAvailable :: string where "DiskStatusAvailable = ''AVAILABLE''"

definition DiskStatusDeleted :: string where "DiskStatusDeleted = ''DELETED''"

definition DiskStatusStable :: string where "DiskStatusStable = ''STABLE''"

definition DiskStatusRecycled :: string where "DiskStatusRecycled = ''RECYCLED''"

definition maxReleaseDiskTimes :: nat where "maxReleaseDiskTimes = 2"

definition SnapStatusAvailable :: string where "SnapStatusAvailable = ''AVAILABLE''"

definition SnapStatusDeleted :: string where "SnapStatusDeleted = ''DELETED''"

lemmas status_consts =
  VmStatusRunning_def DiskStatusInUse_def DiskStatusAvailable_def DiskStatusDeleted_def
  DiskStatusStable_def DiskStatusRecycled_def SnapStatusAvailable_def SnapStatusDeleted_def

record ZecVolume =
  ZecVolume_Id :: string
  ZecVolume_Name :: string
  ZecVolume_Size :: int64
  ZecVolume_Type :: int64
  ZecVolume_Status :: string
  ZecVolume_Zone :: string
  ZecVolume_Serial :: string
  ZecVolume_InstanceId :: string
  ZecVolume_Portable :: bool
  ZecVolume_SnapshotAbility :: bool
  ZecVolume_ResourceGroupId :: string

record ZecVm =
  ZecVm_Id :: string
  ZecVm_Status :: string
  ZecVm_Type :: int64
  ZecVm_Zone :: string

record ZecVolumeSnap =
  ZecVolumeSnap_Id :: string
  ZecVolumeSnap_Name :: string
  ZecVolumeSnap_status :: string
  ZecVolumeSnap_SrcDiskId :: string
  ZecVolumeSnap_DiskAbility :: bool
  ZecVolumeSnap_ZoneId :: string
  ZecVolumeSnap_ResourceGroupId :: string
  ZecVolumeSnap_CreateTime :: string

definition Check :: "ZecVolume \<Rightarrow> bool" where
  "Check zv = True"

definition NewZecVolume :: ZecVolume where
  "NewZecVolume =
     \<lparr>ZecVolume_Id = [], ZecVolume_Name = [], ZecVolume_Size = -1, ZecVolume_Type = -1,
      ZecVolume_Status = [], ZecVolume_Zone = [], ZecVolume_Serial = [], ZecVolume_InstanceId = [],
      ZecVolume_Portable = False, ZecVolume_SnapshotAbility = False,
      ZecVolume_ResourceGroupId = []\<rparr>"

definition NewZecVm :: ZecVm where
  "NewZecVm = \<lparr>ZecVm_Id = [], ZecVm_Status = [], ZecVm_Type = -1, ZecVm_Zone = []\<rparr>"

definition NewZecVolumeSnap :: ZecVolumeSnap where
  "NewZecVolumeSnap =
     \<lparr>ZecVolumeSnap_Id = [], ZecVolumeSnap_Name = [], ZecVolumeSnap_status = [],
      ZecVolumeSnap_SrcDiskId = [], ZecVolumeSnap_DiskAbility = False, ZecVolumeSnap_ZoneId = [],
      ZecVolumeSnap_ResourceGroupId = [], ZecVolumeSnap_CreateTime = []\<rparr>"

section \<open>error.go and the errors of the cloud manager\<close>

text \<open>
  Only errors that carry the SDK's error type have a code; a cancelled context or a malformed
  request is a plain error.
\<close>

datatype sdk_error = ZenlayerCloudSdkError string | PlainError

definition OPERATION_FAILED_RESOURCE_NOT_FOUND :: string where
  "OPERATION_FAILED_RESOURCE_NOT_FOUND = ''OPERATION_FAILED_RESOURCE_NOT_FOUND''"

definition INVALID_DISK_SNAPSHOT_NOT_FOUND :: string where
  "INVALID_DISK_SNAPSHOT_NOT_FOUND = ''INVALID_DISK_SNAPSHOT_NOT_FOUND''"

text \<open>The errors the cloud manager returns, without their texts.\<close>

datatype cloud_error =
    ArgsError
  | NilClient
  | ApiError sdk_error
  | NilResponse
  | Repeated
  | DifferentSize
  | DifferentSource
  | FailedIds "string list"
  | StillExists
  | ErrorStatus
  | TimeoutError nat

section \<open>The SDK client\<close>

text \<open>The \<^verbatim>\<open>...ResponseParams\<close> of the \<open>Describe\<close> calls: a total count and one page of data.\<close>

record 'd page =
  TotalCount :: "int option"
  DataSet :: "'d option list"

record DiskInfo =
  di_DiskId :: "string option"
  di_DiskName :: "string option"
  di_DiskSize :: "int64 option"
  di_DiskCategory :: "string option"
  di_DiskStatus :: "string option"
  di_ZoneId :: "string option"
  di_InstanceId :: "string option"
  di_Serial :: "string option"
  di_Portable :: "bool option"
  di_SnapshotAbility :: "bool option"
  di_ResourceGroupId :: "string option"

record InstanceInfo =
  ii_InstanceId :: "string option"
  ii_Status :: "string option"
  ii_ZoneId :: "string option"

record InstanceStatusInfo =
  is_InstanceId :: "string option"
  is_InstanceStatus :: "string option"

record SnapshotInfo =
  si_SnapshotId :: "string option"
  si_SnapshotName :: "string option"
  si_Status :: "string option"
  si_DiskId :: "string option"
  si_DiskAbility :: "bool option"
  si_ZoneId :: "string option"
  si_ResourceGroup :: "string option option"
  si_CreateTime :: "string option"

record DescribeDisksRequest =
  dd_DiskIds :: "string list"
  dd_DiskName :: "string option"
  dd_ZoneId :: "string option"
  dd_ResourceGroupId :: "string option"
  dd_PageSize :: "int option"
  dd_PageNum :: "int option"

record DescribeSnapshotsRequest =
  ds_SnapshotIds :: "string list"
  ds_SnapshotName :: "string option"
  ds_ZoneId :: "string option"
  ds_ResourceGroupId :: "string option"
  ds_PageSize :: "int option"
  ds_PageNum :: "int option"

record CreateDisksRequest =
  cd_DiskName :: string
  cd_DiskSize :: int64
  cd_ZoneId :: string
  cd_DiskAmount :: int64
  cd_ResourceGroupId :: string
  cd_DiskCategory :: string
  cd_SnapshotId :: "string option"
  cd_BurstingEnabled :: bool

definition NewDescribeDisksRequest :: DescribeDisksRequest where
  "NewDescribeDisksRequest =
     \<lparr>dd_DiskIds = [], dd_DiskName = None, dd_ZoneId = None, dd_ResourceGroupId = None,
      dd_PageSize = None, dd_PageNum = None\<rparr>"

definition NewDescribeSnapshotsRequest :: DescribeSnapshotsRequest where
  "NewDescribeSnapshotsRequest =
     \<lparr>ds_SnapshotIds = [], ds_SnapshotName = None, ds_ZoneId = None, ds_ResourceGroupId = None,
      ds_PageSize = None, ds_PageNum = None\<rparr>"

record 'w zec_client =
  api_DescribeDiskRegions :: "('w, sdk_error + string list option) state"
  api_CreateDisks :: "CreateDisksRequest \<Rightarrow> ('w, sdk_error + string list option) state"
  api_ReleaseDisk :: "string \<Rightarrow> ('w, sdk_error + unit) state"
  api_AttachDisks :: "string list \<Rightarrow> string \<Rightarrow> ('w, sdk_error + unit) state"
  api_DetachDisks :: "string list \<Rightarrow> bool \<Rightarrow> ('w, sdk_error + string list option) state"
  api_ResizeDisk :: "string \<Rightarrow> int64 \<Rightarrow> ('w, sdk_error + unit) state"
  api_DescribeDisks :: "DescribeDisksRequest \<Rightarrow> ('w, sdk_error + DiskInfo page option) state"
  api_DescribeInstances :: "string list \<Rightarrow> ('w, sdk_error + InstanceInfo page option) state"
  api_DescribeInstancesStatus ::
    "string list \<Rightarrow> ('w, sdk_error + InstanceStatusInfo page option) state"
  api_DescribeZones :: "('w, sdk_error + unit) state"
  api_CreateSnapshot :: "string \<Rightarrow> string \<Rightarrow> ('w, sdk_error + string option option) state"
  api_DeleteSnapshots :: "string list \<Rightarrow> ('w, sdk_error + string list option) state"
  api_DescribeSnapshots ::
    "DescribeSnapshotsRequest \<Rightarrow> ('w, sdk_error + SnapshotInfo page option) state"

text \<open>\<open>DataSet[0]\<close> of a response, where an empty list and a nil element are treated alike.\<close>

definition first_item :: "'d page \<Rightarrow> 'd option" where
  "first_item p = (case DataSet p of [] \<Rightarrow> None | d # _ \<Rightarrow> d)"

section \<open>utils.go: polling\<close>

text \<open>
  \<open>WaitForSpecificOrError\<close> evaluates \<open>f\<close> once and then loops over a \<open>select\<close> on a ticker
  and a timer. Which of the two channels each \<open>select\<close> takes is decided by the run-time
  system: \<open>ticks timeout interval s\<close> is the number of ticks it takes, starting in \<open>s\<close>,
  before it takes the timer. (When both are ready Go chooses at random, so this number may
  exceed \<open>timeout / interval\<close>; it is finite because the choice is fair.) Durations are in
  seconds.
\<close>

primrec wait_loop ::
  "nat \<Rightarrow> nat \<Rightarrow> ('s, cloud_error + bool) state \<Rightarrow> ('s, cloud_error + unit) state" where
  "wait_loop 0 timeout f = State_Monad.return (Inl (TimeoutError timeout))"
| "wait_loop (Suc n) timeout f = do {
     r \<leftarrow> f;
     case r of
       Inl e \<Rightarrow> State_Monad.return (Inl e)
     | Inr stop \<Rightarrow> if stop then State_Monad.return (Inr ()) else wait_loop n timeout f
   }"

definition WaitForSpecificOrError ::
  "(nat \<Rightarrow> nat \<Rightarrow> 's \<Rightarrow> nat) \<Rightarrow> ('s, cloud_error + bool) state \<Rightarrow> nat \<Rightarrow> nat \<Rightarrow>
   ('s, cloud_error + unit) state" where
  "WaitForSpecificOrError ticks f timeout waitInterval = do {
     r \<leftarrow> f;
     case r of
       Inl e \<Rightarrow> State_Monad.return (Inl e)
     | Inr stop \<Rightarrow>
         if stop then State_Monad.return (Inr ())
         else do {
           s \<leftarrow> State_Monad.get;
           wait_loop (ticks timeout waitInterval s) timeout f
         }
   }"

definition WaitStatusTimeout :: nat where "WaitStatusTimeout = 180"

definition WaitStatusInterval :: nat where "WaitStatusInterval = 3"

definition WaitFor ::
  "(nat \<Rightarrow> nat \<Rightarrow> 's \<Rightarrow> nat) \<Rightarrow> ('s, cloud_error + bool) state \<Rightarrow> ('s, cloud_error + unit) state" where
  "WaitFor ticks f = WaitForSpecificOrError ticks f WaitStatusTimeout WaitStatusInterval"

section \<open>Lemmas on polling\<close>

text \<open>
  Invariant rule: a relation between states that every evaluation of \<open>f\<close> keeps, and a
  condition that every evaluation that asks to stop establishes.
\<close>

lemma wp_wait_loop:
  assumes step: "\<And>s. I s \<Longrightarrow>
      wp f (\<lambda>r t. case r of Inl e \<Rightarrow> E e t | Inr stop \<Rightarrow> if stop then Q t else I t) s"
    and timeout: "\<And>s. I s \<Longrightarrow> E (TimeoutError T) s" and start: "I s"
  shows "wp (wait_loop n T f) (\<lambda>r t. case r of Inl e \<Rightarrow> E e t | Inr _ \<Rightarrow> Q t) s"
  using start
proof (induction n arbitrary: s)
  case 0
  then show ?case by (simp add: wp_simps timeout)
next
  case (Suc n)
  have "wp f (\<lambda>r t. case r of Inl e \<Rightarrow> E e t | Inr stop \<Rightarrow> if stop then Q t else I t) s"
    using step Suc.prems .
  then show ?case
    unfolding wait_loop.simps wp_bind
  proof (rule wp_mono)
    fix r t
    assume "case r of Inl e \<Rightarrow> E e t | Inr stop \<Rightarrow> if stop then Q t else I t"
    then show "wp (case r of Inl e \<Rightarrow> State_Monad.return (Inl e)
        | Inr stop \<Rightarrow> if stop then State_Monad.return (Inr ()) else wait_loop n T f)
        (\<lambda>r t. case r of Inl e \<Rightarrow> E e t | Inr _ \<Rightarrow> Q t) t"
      using Suc.IH by (cases r) (simp_all add: wp_simps)
  qed
qed

lemma wp_WaitFor:
  assumes step: "\<And>s. I s \<Longrightarrow>
      wp f (\<lambda>r t. case r of Inl e \<Rightarrow> E e t | Inr stop \<Rightarrow> if stop then Q t else I t) s"
    and timeout: "\<And>s. I s \<Longrightarrow> E (TimeoutError WaitStatusTimeout) s" and start: "I s"
  shows "wp (WaitFor ticks f) (\<lambda>r t. case r of Inl e \<Rightarrow> E e t | Inr _ \<Rightarrow> Q t) s"
  unfolding WaitFor_def WaitForSpecificOrError_def wp_bind
proof (rule wp_mono [OF step [OF start]])
  fix r t
  assume r: "case r of Inl e \<Rightarrow> E e t | Inr stop \<Rightarrow> if stop then Q t else I t"
  have loop: "wp (wait_loop n WaitStatusTimeout f) (\<lambda>r t. case r of Inl e \<Rightarrow> E e t | Inr _ \<Rightarrow> Q t) t"
    if "I t" for n
    by (rule wp_wait_loop [OF step timeout that])
  show "wp (case r of Inl e \<Rightarrow> State_Monad.return (Inl e)
      | Inr stop \<Rightarrow> if stop then State_Monad.return (Inr ())
          else State_Monad.bind State_Monad.get
            (\<lambda>s. wait_loop (ticks WaitStatusTimeout WaitStatusInterval s) WaitStatusTimeout f))
      (\<lambda>r t. case r of Inl e \<Rightarrow> E e t | Inr _ \<Rightarrow> Q t) t"
    using r loop by (cases r) (simp_all add: wp_simps)
qed

lemma keeps_wait_loop [keeps_intros]: "keeps g f \<Longrightarrow> keeps g (wait_loop n T f)"
  by (induction n) (auto intro!: keeps_intros)

lemma keeps_WaitFor [keeps_intros]: "keeps g f \<Longrightarrow> keeps g (WaitFor ticks f)"
  unfolding WaitFor_def WaitForSpecificOrError_def by (auto intro!: keeps_intros)

text \<open>
  Progress: when \<open>P n\<close> holds before the first evaluation, every evaluation counts \<open>n\<close> down
  and the one at \<open>0\<close> stops, \<open>n\<close> ticks are enough for the wait to succeed.
\<close>

lemma wait_loop_counts_down:
  assumes step: "\<And>s n. P (Suc n) s \<Longrightarrow> \<exists>t. run_state f s = (Inr False, t) \<and> P n t"
    and stop: "\<And>s. P 0 s \<Longrightarrow> \<exists>t. run_state f s = (Inr True, t) \<and> Q t"
    and "P n s" "n < m"
  shows "\<exists>t. run_state (wait_loop m T f) s = (Inr (), t) \<and> Q t"
  using assms(3,4)
proof (induction n arbitrary: s m)
  case 0
  then obtain m' where "m = Suc m'" by (cases m) auto
  with stop [OF 0(1)] show ?case by auto
next
  case (Suc n)
  then obtain m' where m: "m = Suc m'" "n < m'" by (cases m) auto
  obtain t where "run_state f s = (Inr False, t)" "P n t" using step [OF Suc.prems(1)] by blast
  with Suc.IH [of t m'] m show ?case by auto
qed

lemma WaitFor_counts_down:
  assumes step: "\<And>s n. P (Suc n) s \<Longrightarrow> \<exists>t. run_state f s = (Inr False, t) \<and> P n t"
    and stop: "\<And>s. P 0 s \<Longrightarrow> \<exists>t. run_state f s = (Inr True, t) \<and> Q t"
    and "P n s" and enough: "\<And>t. n \<le> ticks WaitStatusTimeout WaitStatusInterval t"
  shows "\<exists>t. run_state (WaitFor ticks f) s = (Inr (), t) \<and> Q t"
proof (cases n)
  case 0
  with stop assms(3) show ?thesis by (force simp: WaitFor_def WaitForSpecificOrError_def)
next
  case (Suc j)
  then obtain t where t: "run_state f s = (Inr False, t)" "P j t" using step assms(3) by blast
  have "j < ticks WaitStatusTimeout WaitStatusInterval t" using enough [of t] Suc by simp
  from wait_loop_counts_down [of P f Q, OF step stop t(2) this] t(1) show ?thesis
    by (simp add: WaitFor_def WaitForSpecificOrError_def)
qed

end
