(* ===== verification/CloudManager.thy ===== *)
theory CloudManager
  imports CloudApi
begin

text \<open>
  The cloud manager of \<^verbatim>\<open>pkg/cloud/cloud_manager.go\<close> and the interface of
  \<^verbatim>\<open>pkg/cloud/manager.go\<close> it implements. One definition per method. The SDK client is the
  parameter described in \<^verbatim>\<open>CloudApi\<close>; \<open>select_ticks\<close> stands for the Go scheduler's choices
  in the polling loop. Log output and the texts of errors are left out.
\<close>

section \<open>The manager\<close>

record 'w zecCloudManager =
  zecClient :: "'w zec_client option"
  Iscontroller :: bool
  select_ticks :: "nat \<Rightarrow> nat \<Rightarrow> 'w \<Rightarrow> nat"

text \<open>
  \<open>zec_NewClient\<close> is the SDK's constructor: an error, or a possibly nil client.
\<close>

definition NewZecCloudManager ::
  "(string \<Rightarrow> string \<Rightarrow> sdk_error + 'w zec_client option) \<Rightarrow> (nat \<Rightarrow> nat \<Rightarrow> 'w \<Rightarrow> nat) \<Rightarrow>
   string \<Rightarrow> string \<Rightarrow> string \<Rightarrow> cloud_error + 'w zecCloudManager" where
  "NewZecCloudManager zec_NewClient ticks CLOUDAK CLOUDSK drivertype =
     (let cm = \<lparr>zecClient = None, Iscontroller = True, select_ticks = ticks\<rparr> in
      if drivertype = NodeDriverType then Inr (cm\<lparr>Iscontroller := False\<rparr>)
      else case zec_NewClient CLOUDAK CLOUDSK of
          Inl e \<Rightarrow> Inl (ApiError e)
        | Inr None \<Rightarrow> Inl NilClient
        | Inr (Some c) \<Rightarrow> Inr (cm\<lparr>zecClient := Some c\<rparr>))"

definition Probe_cm :: "'w zecCloudManager \<Rightarrow> ('w, cloud_error + unit) state" where
  "Probe_cm cm =
     (case zecClient cm of
        None \<Rightarrow> State_Monad.return (Inl NilClient)
      | Some c \<Rightarrow> do {
          r \<leftarrow> api_DescribeDiskRegions c;
          case r of
            Inl e \<Rightarrow> State_Monad.return (Inl (ApiError e))
          | Inr _ \<Rightarrow> State_Monad.return (Inr ())
        })"

definition GetZoneList :: "'w zecCloudManager \<Rightarrow> ('w, cloud_error + string list) state" where
  "GetZoneList cm =
     (case zecClient cm of
        None \<Rightarrow> State_Monad.return (Inl NilClient)
      | Some c \<Rightarrow> do {
          r \<leftarrow> api_DescribeDiskRegions c;
          case r of
            Inl e \<Rightarrow> State_Monad.return (Inl (ApiError e))
          | Inr None \<Rightarrow> State_Monad.return (Inl NilResponse)
          | Inr (Some regionIds) \<Rightarrow> State_Monad.return (Inr regionIds)
        })"

section \<open>Reading disks\<close>

text \<open>
  The conversion that \<open>FindVolume\<close> and \<open>FindVolumeByName\<close> both spell out: every field that
  the response carries overwrites the default of \<open>NewZecVolume\<close>.
\<close>

definition or_else :: "'a option \<Rightarrow> 'a \<Rightarrow> 'a" where
  "or_else x d = (case x of None \<Rightarrow> d | Some v \<Rightarrow> v)"

definition toZecVolume :: "DiskInfo \<Rightarrow> ZecVolume" where
  "toZecVolume d =
     \<lparr>ZecVolume_Id = or_else (di_DiskId d) (ZecVolume_Id NewZecVolume),
      ZecVolume_Name = or_else (di_DiskName d) (ZecVolume_Name NewZecVolume),
      ZecVolume_Size = or_else (di_DiskSize d) (ZecVolume_Size NewZecVolume),
      ZecVolume_Type = or_else (map_option StringToType (di_DiskCategory d)) (ZecVolume_Type NewZecVolume),
      ZecVolume_Status = or_else (di_DiskStatus d) (ZecVolume_Status NewZecVolume),
      ZecVolume_Zone = or_else (di_ZoneId d) (ZecVolume_Zone NewZecVolume),
      ZecVolume_Serial = or_else (di_Serial d) (ZecVolume_Serial NewZecVolume),
      ZecVolume_InstanceId = or_else (di_InstanceId d) (ZecVolume_InstanceId NewZecVolume),
      ZecVolume_Portable = or_else (di_Portable d) (ZecVolume_Portable NewZecVolume),
      ZecVolume_SnapshotAbility = or_else (di_SnapshotAbility d) (ZecVolume_SnapshotAbility NewZecVolume),
      ZecVolume_ResourceGroupId =
        or_else (di_ResourceGroupId d) (ZecVolume_ResourceGroupId NewZecVolume)\<rparr>"

definition describe_by_id :: "string \<Rightarrow> DescribeDisksRequest" where
  "describe_by_id volId = NewDescribeDisksRequest\<lparr>dd_DiskIds := [volId]\<rparr>"

definition FindVolume ::
  "'w zecCloudManager \<Rightarrow> string \<Rightarrow> ('w, cloud_error + ZecVolume option) state" where
  "FindVolume cm volId =
     (if volId = [] then State_Monad.return (Inl ArgsError)
      else case zecClient cm of
        None \<Rightarrow> State_Monad.return (Inl NilClient)
      | Some c \<Rightarrow> do {
          r \<leftarrow> api_DescribeDisks c (describe_by_id volId);
          case r of
            Inl e \<Rightarrow> State_Monad.return (Inl (ApiError e))
          | Inr None \<Rightarrow> State_Monad.return (Inl NilResponse)
          | Inr (Some p) \<Rightarrow>
              (case TotalCount p of
                 None \<Rightarrow> State_Monad.return (Inl NilResponse)
               | Some n \<Rightarrow>
                   if n = 0 then State_Monad.return (Inr None)
                   else if n \<noteq> 1 then State_Monad.return (Inl Repeated)
                   else case first_item p of
                       None \<Rightarrow> State_Monad.return (Inl NilResponse)
                     | Some d \<Rightarrow> State_Monad.return (Inr (Some (toZecVolume d))))
        })"

section \<open>Reading all pages of a listing\<close>

text \<open>
  \<open>FindVolumeByName\<close> and \<open>FindSnapshotByName\<close> list by name in pages of 20: one call for
  the first page and the total count; if the count exceeds one page, all pages again from the
  first one. \<open>call k\<close> is the API call with \<open>PageNum = k\<close>.
\<close>

definition pagesize :: int where "pagesize = 20"

primrec fetch_pages ::
  "(int \<Rightarrow> ('w, sdk_error + 'd page option) state) \<Rightarrow> nat \<Rightarrow> int \<Rightarrow> 'd option list \<Rightarrow>
   ('w, cloud_error + 'd option list) state" where
  "fetch_pages call 0 pagenum acc = State_Monad.return (Inr acc)"
| "fetch_pages call (Suc n) pagenum acc = do {
     r \<leftarrow> call pagenum;
     case r of
       Inl e \<Rightarrow> State_Monad.return (Inl (ApiError e))
     | Inr None \<Rightarrow> State_Monad.return (Inl NilResponse)
     | Inr (Some p) \<Rightarrow> fetch_pages call n (pagenum + 1) (acc @ DataSet p)
   }"

definition apicallnum :: "int \<Rightarrow> int" where
  "apicallnum count =
     (if count mod pagesize \<noteq> 0 then go_quot count pagesize + 1 else go_quot count pagesize)"

definition list_pages ::
  "(int \<Rightarrow> ('w, sdk_error + 'd page option) state) \<Rightarrow>
   ('w, cloud_error + 'd option list) state" where
  "list_pages call = do {
     r \<leftarrow> call 1;
     case r of
       Inl e \<Rightarrow> State_Monad.return (Inl (ApiError e))
     | Inr None \<Rightarrow> State_Monad.return (Inl NilResponse)
     | Inr (Some p) \<Rightarrow>
         (case TotalCount p of
            None \<Rightarrow> State_Monad.return (Inl NilResponse)
          | Some count \<Rightarrow>
              if count = 0 then State_Monad.return (Inr [])
              else if count > pagesize then fetch_pages call (nat (apicallnum count)) 1 []
              else State_Monad.return (Inr (DataSet p)))
   }"

section \<open>Finding a disk by name\<close>

definition disks_by_name :: "string \<Rightarrow> string \<Rightarrow> string \<Rightarrow> int \<Rightarrow> DescribeDisksRequest" where
  "disks_by_name volName zone grp pagenum =
     NewDescribeDisksRequest\<lparr>dd_DiskName := Some (''^'' @ volName @ ''$''), dd_ZoneId := Some zone,
       dd_ResourceGroupId := Some grp, dd_PageSize := Some pagesize, dd_PageNum := Some pagenum\<rparr>"

fun scan_disks ::
  "string \<Rightarrow> int64 \<Rightarrow> string \<Rightarrow> DiskInfo option list \<Rightarrow> ZecVolume option \<times> cloud_error option" where
  "scan_disks zone sizeGB dt [] = (None, None)"
| "scan_disks zone sizeGB dt (None # ds) = scan_disks zone sizeGB dt ds"
| "scan_disks zone sizeGB dt (Some d # ds) =
     (let v = toZecVolume d in
      if ZecVolume_Status v = DiskStatusRecycled then scan_disks zone sizeGB dt ds
      else if zone = ZecVolume_Zone v then
        (if ZecVolume_Type v = StringToType dt then
           (if ZecVolume_Size v \<noteq> sizeGB then (Some v, Some DifferentSize) else (Some v, None))
         else scan_disks zone sizeGB dt ds)
      else scan_disks zone sizeGB dt ds)"

definition FindVolumeByName ::
  "'w zecCloudManager \<Rightarrow> string \<Rightarrow> string \<Rightarrow> int64 \<Rightarrow> string \<Rightarrow> string \<Rightarrow>
   ('w, ZecVolume option \<times> cloud_error option) state" where
  "FindVolumeByName cm volName zone sizeGB dt grp =
     (if volName = [] then State_Monad.return (None, Some ArgsError)
      else case zecClient cm of
        None \<Rightarrow> State_Monad.return (None, Some NilClient)
      | Some c \<Rightarrow> do {
          r \<leftarrow> list_pages (\<lambda>k. api_DescribeDisks c (disks_by_name volName zone grp k));
          case r of
            Inl e \<Rightarrow> State_Monad.return (None, Some e)
          | Inr ds \<Rightarrow> State_Monad.return (scan_disks zone sizeGB dt ds)
        })"

section \<open>Waiting for a disk\<close>

text \<open>
  The closures of \<open>waitDiskStatus\<close>: three of them differ only in the statuses they accept
  (\<open>want\<close>), the fourth waits for the disk to disappear.
\<close>

definition disk_status_job ::
  "'w zec_client \<Rightarrow> string \<Rightarrow> (string \<Rightarrow> bool) \<Rightarrow> ('w, cloud_error + bool) state" where
  "disk_status_job c volId want = do {
     r \<leftarrow> api_DescribeDisks c (describe_by_id volId);
     case r of
       Inl e \<Rightarrow> State_Monad.return (Inl (ApiError e))
     | Inr None \<Rightarrow> State_Monad.return (Inl NilResponse)
     | Inr (Some p) \<Rightarrow>
         (case (TotalCount p, Option.bind (first_item p) di_DiskStatus) of
            (Some n, Some st) \<Rightarrow>
              if n \<noteq> 1 then State_Monad.return (Inl Repeated)
              else State_Monad.return (Inr (want st))
          | _ \<Rightarrow> State_Monad.return (Inl NilResponse))
   }"

definition disk_deleted_job :: "'w zec_client \<Rightarrow> string \<Rightarrow> ('w, cloud_error + bool) state" where
  "disk_deleted_job c volId = do {
     r \<leftarrow> api_DescribeDisks c (describe_by_id volId);
     case r of
       Inl e \<Rightarrow> State_Monad.return (Inl (ApiError e))
     | Inr None \<Rightarrow> State_Monad.return (Inl NilResponse)
     | Inr (Some p) \<Rightarrow>
         (case TotalCount p of
            None \<Rightarrow> State_Monad.return (Inl NilResponse)
          | Some n \<Rightarrow> State_Monad.return (Inr (n = 0)))
   }"

text \<open>
  The wait functions are only called by methods that have checked the client; they take it
  directly, together with the scheduler's choices.
\<close>

definition waitDiskStatus ::
  "(nat \<Rightarrow> nat \<Rightarrow> 'w \<Rightarrow> nat) \<Rightarrow> 'w zec_client \<Rightarrow> string \<Rightarrow> string \<Rightarrow> ('w, cloud_error + unit) state" where
  "waitDiskStatus ticks c status volId =
     (if volId = [] then State_Monad.return (Inl ArgsError)
      else if DiskStatusAvailable = status then
        WaitFor ticks (disk_status_job c volId (\<lambda>st. st = DiskStatusAvailable))
      else if status = DiskStatusDeleted then WaitFor ticks (disk_deleted_job c volId)
      else if status = DiskStatusInUse then
        WaitFor ticks (disk_status_job c volId (\<lambda>st. st = DiskStatusInUse))
      else if status = DiskStatusStable then
        WaitFor ticks (disk_status_job c volId
          (\<lambda>st. st = DiskStatusAvailable \<or> st = DiskStatusInUse))
      else State_Monad.return (Inl ErrorStatus))"

text \<open>
  \<open>waitDiskReleased\<close>: its closure also writes the captured variable \<open>gone\<close>, which is a
  second component of the state while the wait runs.
\<close>

definition on_fst :: "('w, 'a) state \<Rightarrow> ('w \<times> 'l, 'a) state" where
  "on_fst m = State (\<lambda>(w, l). case run_state m w of (a, w') \<Rightarrow> (a, (w', l)))"

definition put_local :: "'l \<Rightarrow> ('w \<times> 'l, unit) state" where
  "put_local l = State (\<lambda>(w, _). ((), (w, l)))"

definition with_local :: "'l \<Rightarrow> ('w \<times> 'l, 'a) state \<Rightarrow> ('w, 'a \<times> 'l) state" where
  "with_local l m = State (\<lambda>w. case run_state m (w, l) of (a, (w', l')) \<Rightarrow> ((a, l'), w'))"

definition disk_released_job ::
  "'w zec_client \<Rightarrow> string \<Rightarrow> ('w \<times> bool, cloud_error + bool) state" where
  "disk_released_job c volId = do {
     r \<leftarrow> on_fst (api_DescribeDisks c (describe_by_id volId));
     case r of
       Inl e \<Rightarrow> State_Monad.return (Inl (ApiError e))
     | Inr None \<Rightarrow> State_Monad.return (Inl NilResponse)
     | Inr (Some p) \<Rightarrow>
         (case TotalCount p of
            None \<Rightarrow> State_Monad.return (Inl NilResponse)
          | Some n \<Rightarrow>
              if n = 0 then do {
                put_local True;
                State_Monad.return (Inr True)
              }
              else if n \<noteq> 1 then State_Monad.return (Inl Repeated)
              else (case Option.bind (first_item p) di_DiskStatus of
                  None \<Rightarrow> State_Monad.return (Inl NilResponse)
                | Some st \<Rightarrow>
                    if st = DiskStatusRecycled then do {
                      put_local False;
                      State_Monad.return (Inr True)
                    }
                    else State_Monad.return (Inr False)))
   }"

definition waitDiskReleased ::
  "(nat \<Rightarrow> nat \<Rightarrow> 'w \<Rightarrow> nat) \<Rightarrow> 'w zec_client \<Rightarrow> string \<Rightarrow> ('w, cloud_error + bool) state" where
  "waitDiskReleased ticks c volId =
     (if volId = [] then State_Monad.return (Inl ArgsError)
      else do {
        (r, gone) \<leftarrow> with_local False
          (WaitFor (\<lambda>t i s. ticks t i (fst s)) (disk_released_job c volId));
        case r of
          Inl e \<Rightarrow> State_Monad.return (Inl e)
        | Inr _ \<Rightarrow> State_Monad.return (Inr gone)
      })"

section \<open>Changing disks\<close>

definition create_disks ::
  "'w zecCloudManager \<Rightarrow> CreateDisksRequest \<Rightarrow> ('w, cloud_error + string) state" where
  "create_disks cm request =
     (case zecClient cm of
        None \<Rightarrow> State_Monad.return (Inl NilClient)
      | Some c \<Rightarrow> do {
          r \<leftarrow> api_CreateDisks c request;
          case r of
            Inl e \<Rightarrow> State_Monad.return (Inl (ApiError e))
          | Inr None \<Rightarrow> State_Monad.return (Inl NilResponse)
          | Inr (Some []) \<Rightarrow> State_Monad.return (Inl NilResponse)
          | Inr (Some (volId # _)) \<Rightarrow> do {
              e \<leftarrow> waitDiskStatus (select_ticks cm) c DiskStatusAvailable volId;
              case e of
                Inl err \<Rightarrow> State_Monad.return (Inl err)
              | Inr _ \<Rightarrow> State_Monad.return (Inr volId)
            }
        })"

definition CreateVolume_cm ::
  "'w zecCloudManager \<Rightarrow> string \<Rightarrow> int64 \<Rightarrow> string \<Rightarrow> string \<Rightarrow> string \<Rightarrow> bool \<Rightarrow>
   ('w, cloud_error + string) state" where
  "CreateVolume_cm cm volName volSize volCategory zone grp burst =
     (if volName = [] \<or> volSize = 0 \<or> volCategory = [] \<or> zone = [] \<or> grp = []
      then State_Monad.return (Inl ArgsError)
      else create_disks cm
        \<lparr>cd_DiskName = volName, cd_DiskSize = volSize, cd_ZoneId = zone, cd_DiskAmount = 1,
         cd_ResourceGroupId = grp, cd_DiskCategory = volCategory, cd_SnapshotId = None,
         cd_BurstingEnabled = burst\<rparr>)"

definition CreateVolumeFromSnapshot_cm ::
  "'w zecCloudManager \<Rightarrow> string \<Rightarrow> int64 \<Rightarrow> string \<Rightarrow> string \<Rightarrow> string \<Rightarrow> string \<Rightarrow> bool \<Rightarrow>
   ('w, cloud_error + string) state" where
  "CreateVolumeFromSnapshot_cm cm volName volSize volCategory zone grp snapshotId burst =
     (if volName = [] \<or> volSize = 0 \<or> volCategory = [] \<or> zone = [] \<or> grp = [] \<or> snapshotId = []
      then State_Monad.return (Inl ArgsError)
      else create_disks cm
        \<lparr>cd_DiskName = volName, cd_DiskSize = volSize, cd_ZoneId = zone, cd_DiskAmount = 1,
         cd_ResourceGroupId = grp, cd_DiskCategory = volCategory, cd_SnapshotId = Some snapshotId,
         cd_BurstingEnabled = burst\<rparr>)"

text \<open>The loop of \<open>DeleteVolume\<close>; the first argument is the number of rounds left.\<close>

primrec release_loop ::
  "nat \<Rightarrow> 'w zecCloudManager \<Rightarrow> 'w zec_client \<Rightarrow> string \<Rightarrow> ('w, cloud_error + unit) state" where
  "release_loop 0 cm c volId = State_Monad.return (Inl StillExists)"
| "release_loop (Suc n) cm c volId = do {
     volInfo \<leftarrow> FindVolume cm volId;
     case volInfo of
       Inl e \<Rightarrow> State_Monad.return (Inl e)
     | Inr None \<Rightarrow> State_Monad.return (Inr ())
     | Inr (Some v) \<Rightarrow> do {
         let lastRelease = (ZecVolume_Status v = DiskStatusRecycled);
         r \<leftarrow> api_ReleaseDisk c volId;
         case r of
           Inl e \<Rightarrow>
             if e = ZenlayerCloudSdkError OPERATION_FAILED_RESOURCE_NOT_FOUND
             then State_Monad.return (Inr ())
             else State_Monad.return (Inl (ApiError e))
         | Inr _ \<Rightarrow>
             if lastRelease then waitDiskStatus (select_ticks cm) c DiskStatusDeleted volId
             else do {
               g \<leftarrow> waitDiskReleased (select_ticks cm) c volId;
               case g of
                 Inl e \<Rightarrow> State_Monad.return (Inl e)
               | Inr gone \<Rightarrow>
                   if gone then State_Monad.return (Inr ()) else release_loop n cm c volId
             }
       }
   }"

definition DeleteVolume_cm :: "'w zecCloudManager \<Rightarrow> string \<Rightarrow> ('w, cloud_error + unit) state" where
  "DeleteVolume_cm cm volId =
     (if volId = [] then State_Monad.return (Inl ArgsError)
      else case zecClient cm of
        None \<Rightarrow> State_Monad.return (Inl NilClient)
      | Some c \<Rightarrow> release_loop maxReleaseDiskTimes cm c volId)"

definition AttachVolume ::
  "'w zecCloudManager \<Rightarrow> string \<Rightarrow> string \<Rightarrow> ('w, cloud_error + unit) state" where
  "AttachVolume cm volId vmId =
     (if volId = [] \<or> vmId = [] then State_Monad.return (Inl ArgsError)
      else case zecClient cm of
        None \<Rightarrow> State_Monad.return (Inl NilClient)
      | Some c \<Rightarrow> do {
          r \<leftarrow> api_AttachDisks c [volId] vmId;
          case r of
            Inl e \<Rightarrow> State_Monad.return (Inl (ApiError e))
          | Inr _ \<Rightarrow> waitDiskStatus (select_ticks cm) c DiskStatusInUse volId
        })"

definition DetachVolume :: "'w zecCloudManager \<Rightarrow> string \<Rightarrow> ('w, cloud_error + unit) state" where
  "DetachVolume cm volId =
     (if volId = [] then State_Monad.return (Inl ArgsError)
      else case zecClient cm of
        None \<Rightarrow> State_Monad.return (Inl NilClient)
      | Some c \<Rightarrow> do {
          r \<leftarrow> api_DetachDisks c [volId] False;
          case r of
            Inl e \<Rightarrow> State_Monad.return (Inl (ApiError e))
          | Inr resp \<Rightarrow>
              (case resp of
                 Some (i # ids) \<Rightarrow> State_Monad.return (Inl (FailedIds (i # ids)))
               | _ \<Rightarrow> waitDiskStatus (select_ticks cm) c DiskStatusAvailable volId)
        })"

definition ResizeVolume ::
  "'w zecCloudManager \<Rightarrow> string \<Rightarrow> int64 \<Rightarrow> ('w, cloud_error + unit) state" where
  "ResizeVolume cm volId requestSize =
     (if volId = [] \<or> requestSize = 0 then State_Monad.return (Inl ArgsError)
      else case zecClient cm of
        None \<Rightarrow> State_Monad.return (Inl NilClient)
      | Some c \<Rightarrow> do {
          r \<leftarrow> api_ResizeDisk c volId requestSize;
          case r of
            Inl e \<Rightarrow> State_Monad.return (Inl (ApiError e))
          | Inr _ \<Rightarrow> waitDiskStatus (select_ticks cm) c DiskStatusStable volId
        })"

section \<open>Virtual machines and zones\<close>

definition toZecVm :: "InstanceInfo \<Rightarrow> ZecVm" where
  "toZecVm i =
     \<lparr>ZecVm_Id = or_else (ii_InstanceId i) (ZecVm_Id NewZecVm),
      ZecVm_Status = or_else (ii_Status i) (ZecVm_Status NewZecVm),
      ZecVm_Type = BasicVmType,
      ZecVm_Zone = or_else (ii_ZoneId i) (ZecVm_Zone NewZecVm)\<rparr>"

definition FindInstance ::
  "'w zecCloudManager \<Rightarrow> string \<Rightarrow> ('w, cloud_error + ZecVm option) state" where
  "FindInstance cm vmid =
     (if vmid = [] then State_Monad.return (Inl ArgsError)
      else case zecClient cm of
        None \<Rightarrow> State_Monad.return (Inl NilClient)
      | Some c \<Rightarrow> do {
          r \<leftarrow> api_DescribeInstances c [vmid];
          case r of
            Inl e \<Rightarrow> State_Monad.return (Inl (ApiError e))
          | Inr None \<Rightarrow> State_Monad.return (Inl NilResponse)
          | Inr (Some p) \<Rightarrow>
              (case TotalCount p of
                 None \<Rightarrow> State_Monad.return (Inl NilResponse)
               | Some n \<Rightarrow>
                   if n = 0 then State_Monad.return (Inr None)
                   else if n \<noteq> 1 then State_Monad.return (Inl Repeated)
                   else case first_item p of
                       None \<Rightarrow> State_Monad.return (Inl NilResponse)
                     | Some i \<Rightarrow> State_Monad.return (Inr (Some (toZecVm i))))
        })"

definition GetZone_cm :: "'w zecCloudManager \<Rightarrow> string \<Rightarrow> ('w, cloud_error + unit) state" where
  "GetZone_cm cm zone =
     (case zecClient cm of
        None \<Rightarrow> State_Monad.return (Inl NilClient)
      | Some c \<Rightarrow> do {
          r \<leftarrow> api_DescribeZones c;
          case r of
            Inl e \<Rightarrow> State_Monad.return (Inl (ApiError e))
          | Inr _ \<Rightarrow> State_Monad.return (Inr ())
        })"

definition GetVmStatus ::
  "'w zecCloudManager \<Rightarrow> string \<Rightarrow> ('w, cloud_error + bool \<times> string) state" where
  "GetVmStatus cm vmId =
     (if vmId = [] then State_Monad.return (Inl ArgsError)
      else case zecClient cm of
        None \<Rightarrow> State_Monad.return (Inl NilClient)
      | Some c \<Rightarrow> do {
          r \<leftarrow> api_DescribeInstancesStatus c [vmId];
          case r of
            Inl e \<Rightarrow> State_Monad.return (Inl (ApiError e))
          | Inr None \<Rightarrow> State_Monad.return (Inl NilResponse)
          | Inr (Some p) \<Rightarrow>
              (case TotalCount p of
                 None \<Rightarrow> State_Monad.return (Inl NilResponse)
               | Some n \<Rightarrow>
                   if n = 0 then State_Monad.return (Inr (False, []))
                   else if n \<noteq> 1 then State_Monad.return (Inl Repeated)
                   else case Option.bind (first_item p) is_InstanceStatus of
                       None \<Rightarrow> State_Monad.return (Inl NilResponse)
                     | Some st \<Rightarrow> State_Monad.return (Inr (True, st)))
        })"

section \<open>Snapshots\<close>

definition toZecVolumeSnap :: "SnapshotInfo \<Rightarrow> ZecVolumeSnap" where
  "toZecVolumeSnap s =
     \<lparr>ZecVolumeSnap_Id = or_else (si_SnapshotId s) (ZecVolumeSnap_Id NewZecVolumeSnap),
      ZecVolumeSnap_Name = or_else (si_SnapshotName s) (ZecVolumeSnap_Name NewZecVolumeSnap),
      ZecVolumeSnap_status = or_else (si_Status s) (ZecVolumeSnap_status NewZecVolumeSnap),
      ZecVolumeSnap_SrcDiskId = or_else (si_DiskId s) (ZecVolumeSnap_SrcDiskId NewZecVolumeSnap),
      ZecVolumeSnap_DiskAbility =
        or_else (si_DiskAbility s) (ZecVolumeSnap_DiskAbility NewZecVolumeSnap),
      ZecVolumeSnap_ZoneId = or_else (si_ZoneId s) (ZecVolumeSnap_ZoneId NewZecVolumeSnap),
      ZecVolumeSnap_ResourceGroupId =
        or_else (Option.bind (si_ResourceGroup s) (\<lambda>g. g)) (ZecVolumeSnap_ResourceGroupId NewZecVolumeSnap),
      ZecVolumeSnap_CreateTime =
        or_else (si_CreateTime s) (ZecVolumeSnap_CreateTime NewZecVolumeSnap)\<rparr>"

definition snapshot_by_id :: "string \<Rightarrow> DescribeSnapshotsRequest" where
  "snapshot_by_id snapshotId = NewDescribeSnapshotsRequest\<lparr>ds_SnapshotIds := [snapshotId]\<rparr>"

definition FindSnapshot ::
  "'w zecCloudManager \<Rightarrow> string \<Rightarrow> ('w, cloud_error + ZecVolumeSnap option) state" where
  "FindSnapshot cm snapshotId =
     (if snapshotId = [] then State_Monad.return (Inl ArgsError)
      else case zecClient cm of
        None \<Rightarrow> State_Monad.return (Inl NilClient)
      | Some c \<Rightarrow> do {
          r \<leftarrow> api_DescribeSnapshots c (snapshot_by_id snapshotId);
          case r of
            Inl e \<Rightarrow> State_Monad.return (Inl (ApiError e))
          | Inr None \<Rightarrow> State_Monad.return (Inl NilResponse)
          | Inr (Some p) \<Rightarrow>
              (case TotalCount p of
                 None \<Rightarrow> State_Monad.return (Inl NilResponse)
               | Some n \<Rightarrow>
                   if n = 0 then State_Monad.return (Inr None)
                   else if n \<noteq> 1 then State_Monad.return (Inl Repeated)
                   else case first_item p of
                       None \<Rightarrow> State_Monad.return (Inl NilResponse)
                     | Some s \<Rightarrow> State_Monad.return (Inr (Some (toZecVolumeSnap s))))
        })"

definition snapshots_by_name :: "string \<Rightarrow> string \<Rightarrow> string \<Rightarrow> int \<Rightarrow> DescribeSnapshotsRequest" where
  "snapshots_by_name name zone grp pagenum =
     NewDescribeSnapshotsRequest\<lparr>ds_SnapshotName := Some (''^'' @ name @ ''$''), ds_ZoneId := Some zone,
       ds_ResourceGroupId := Some grp, ds_PageSize := Some pagesize, ds_PageNum := Some pagenum\<rparr>"

fun scan_snapshots ::
  "string \<Rightarrow> SnapshotInfo option list \<Rightarrow> ZecVolumeSnap option \<times> cloud_error option" where
  "scan_snapshots srcVolId [] = (None, None)"
| "scan_snapshots srcVolId (None # ss) = scan_snapshots srcVolId ss"
| "scan_snapshots srcVolId (Some s # ss) =
     (let v = toZecVolumeSnap s in
      if srcVolId = ZecVolumeSnap_SrcDiskId v then (Some v, None) else (Some v, Some DifferentSource))"

definition FindSnapshotByName ::
  "'w zecCloudManager \<Rightarrow> string \<Rightarrow> string \<Rightarrow> string \<Rightarrow> string \<Rightarrow>
   ('w, ZecVolumeSnap option \<times> cloud_error option) state" where
  "FindSnapshotByName cm name srcVolId zone grp =
     (if name = [] then State_Monad.return (None, Some ArgsError)
      else case zecClient cm of
        None \<Rightarrow> State_Monad.return (None, Some NilClient)
      | Some c \<Rightarrow> do {
          r \<leftarrow> list_pages (\<lambda>k. api_DescribeSnapshots c (snapshots_by_name name zone grp k));
          case r of
            Inl e \<Rightarrow> State_Monad.return (None, Some e)
          | Inr ss \<Rightarrow> State_Monad.return (scan_snapshots srcVolId ss)
        })"

definition snap_available_job :: "'w zec_client \<Rightarrow> string \<Rightarrow> ('w, cloud_error + bool) state" where
  "snap_available_job c snapshotId = do {
     r \<leftarrow> api_DescribeSnapshots c (snapshot_by_id snapshotId);
     case r of
       Inl e \<Rightarrow> State_Monad.return (Inl (ApiError e))
     | Inr None \<Rightarrow> State_Monad.return (Inl NilResponse)
     | Inr (Some p) \<Rightarrow>
         (case (TotalCount p, Option.bind (first_item p) si_Status) of
            (Some n, Some st) \<Rightarrow>
              if n \<noteq> 1 then State_Monad.return (Inl Repeated)
              else State_Monad.return (Inr (st = SnapStatusAvailable))
          | _ \<Rightarrow> State_Monad.return (Inl NilResponse))
   }"

definition snap_deleted_job :: "'w zec_client \<Rightarrow> string \<Rightarrow> ('w, cloud_error + bool) state" where
  "snap_deleted_job c snapshotId = do {
     r \<leftarrow> api_DescribeSnapshots c (snapshot_by_id snapshotId);
     case r of
       Inl e \<Rightarrow> State_Monad.return (Inl (ApiError e))
     | Inr None \<Rightarrow> State_Monad.return (Inl NilResponse)
     | Inr (Some p) \<Rightarrow>
         (case TotalCount p of
            None \<Rightarrow> State_Monad.return (Inl NilResponse)
          | Some n \<Rightarrow> State_Monad.return (Inr (n = 0)))
   }"

definition waitDiskSnapStatus ::
  "(nat \<Rightarrow> nat \<Rightarrow> 'w \<Rightarrow> nat) \<Rightarrow> 'w zec_client \<Rightarrow> string \<Rightarrow> string \<Rightarrow> ('w, cloud_error + unit) state" where
  "waitDiskSnapStatus ticks c status snapshotId =
     (if snapshotId = [] then State_Monad.return (Inl ArgsError)
      else if SnapStatusAvailable = status then WaitFor ticks (snap_available_job c snapshotId)
      else if SnapStatusDeleted = status then WaitFor ticks (snap_deleted_job c snapshotId)
      else State_Monad.return (Inl ErrorStatus))"

definition CreateSnapshot_cm ::
  "'w zecCloudManager \<Rightarrow> string \<Rightarrow> string \<Rightarrow> ('w, cloud_error + string) state" where
  "CreateSnapshot_cm cm name resourceId =
     (if name = [] \<or> resourceId = [] then State_Monad.return (Inl ArgsError)
      else case zecClient cm of
        None \<Rightarrow> State_Monad.return (Inl NilClient)
      | Some c \<Rightarrow> do {
          r \<leftarrow> api_CreateSnapshot c name resourceId;
          case r of
            Inl e \<Rightarrow> State_Monad.return (Inl (ApiError e))
          | Inr resp \<Rightarrow>
              (case Option.bind resp (\<lambda>i. i) of
                 None \<Rightarrow> State_Monad.return (Inl NilResponse)
               | Some snapshotId \<Rightarrow> do {
                   e \<leftarrow> waitDiskSnapStatus (select_ticks cm) c SnapStatusAvailable snapshotId;
                   case e of
                     Inl err \<Rightarrow> State_Monad.return (Inl err)
                   | Inr _ \<Rightarrow> State_Monad.return (Inr snapshotId)
                 })
        })"

definition DeleteSnapshot_cm :: "'w zecCloudManager \<Rightarrow> string \<Rightarrow> ('w, cloud_error + unit) state" where
  "DeleteSnapshot_cm cm snapshotId =
     (if snapshotId = [] then State_Monad.return (Inl ArgsError)
      else case zecClient cm of
        None \<Rightarrow> State_Monad.return (Inl NilClient)
      | Some c \<Rightarrow> do {
          r \<leftarrow> api_DeleteSnapshots c [snapshotId];
          case r of
            Inl e \<Rightarrow>
              if e = ZenlayerCloudSdkError INVALID_DISK_SNAPSHOT_NOT_FOUND
              then State_Monad.return (Inr ())
              else State_Monad.return (Inl (ApiError e))
          | Inr None \<Rightarrow> State_Monad.return (Inl NilResponse)
          | Inr (Some (i # ids)) \<Rightarrow> State_Monad.return (Inl (FailedIds (i # ids)))
          | Inr (Some []) \<Rightarrow> waitDiskSnapStatus (select_ticks cm) c SnapStatusDeleted snapshotId
        })"

section \<open>The driver type and the methods without an implementation\<close>

text \<open>
  \<open>IsController\<close> tells whether the manager was made for a controller. \<open>CloneVolume\<close> and the methods on
  tags are marked as not supported: they succeed without doing anything, and \<open>IsValidTags\<close> is false.
\<close>

definition IsController :: "'w zecCloudManager \<Rightarrow> bool" where
  [simp]: "IsController cm = Iscontroller cm"

definition CloneVolume :: "'w zecCloudManager \<Rightarrow> ('w, cloud_error + unit) state" where
  "CloneVolume cm = State_Monad.return (Inr ())"

definition FindTag :: "'w zecCloudManager \<Rightarrow> ('w, cloud_error + unit) state" where
  "FindTag cm = State_Monad.return (Inr ())"

definition IsValidTags :: "'w zecCloudManager \<Rightarrow> ('w, bool) state" where
  "IsValidTags cm = State_Monad.return False"

definition AttachTags :: "'w zecCloudManager \<Rightarrow> ('w, cloud_error + unit) state" where
  "AttachTags cm = State_Monad.return (Inr ())"

section \<open>manager.go: the interface the servers use\<close>

record 'w CloudManager =
  cm_CreateVolume ::
    "string \<Rightarrow> int64 \<Rightarrow> string \<Rightarrow> string \<Rightarrow> string \<Rightarrow> bool \<Rightarrow> ('w, cloud_error + string) state"
  cm_DeleteVolume :: "string \<Rightarrow> ('w, cloud_error + unit) state"
  cm_AttachVolume :: "string \<Rightarrow> string \<Rightarrow> ('w, cloud_error + unit) state"
  cm_DetachVolume :: "string \<Rightarrow> ('w, cloud_error + unit) state"
  cm_ResizeVolume :: "string \<Rightarrow> int64 \<Rightarrow> ('w, cloud_error + unit) state"
  cm_FindVolume :: "string \<Rightarrow> ('w, cloud_error + ZecVolume option) state"
  cm_FindVolumeByName ::
    "string \<Rightarrow> string \<Rightarrow> int64 \<Rightarrow> string \<Rightarrow> string \<Rightarrow> ('w, ZecVolume option \<times> cloud_error option) state"
  cm_FindInstance :: "string \<Rightarrow> ('w, cloud_error + ZecVm option) state"
  cm_GetZone :: "string \<Rightarrow> ('w, cloud_error + unit) state"
  cm_GetZoneList :: "('w, cloud_error + string list) state"
  cm_IsController :: bool
  cm_Probe :: "('w, cloud_error + unit) state"
  cm_GetVmStatus :: "string \<Rightarrow> ('w, cloud_error + bool \<times> string) state"
  cm_FindSnapshot :: "string \<Rightarrow> ('w, cloud_error + ZecVolumeSnap option) state"
  cm_FindSnapshotByName ::
    "string \<Rightarrow> string \<Rightarrow> string \<Rightarrow> string \<Rightarrow> ('w, ZecVolumeSnap option \<times> cloud_error option) state"
  cm_CreateSnapshot :: "string \<Rightarrow> string \<Rightarrow> ('w, cloud_error + string) state"
  cm_DeleteSnapshot :: "string \<Rightarrow> ('w, cloud_error + unit) state"
  cm_CreateVolumeFromSnapshot ::
    "string \<Rightarrow> int64 \<Rightarrow> string \<Rightarrow> string \<Rightarrow> string \<Rightarrow> string \<Rightarrow> bool \<Rightarrow> ('w, cloud_error + string) state"

text \<open>The interface value \<^verbatim>\<open>var _ CloudManager = &zecCloudManager{}\<close>.\<close>

definition zec_CloudManager :: "'w zecCloudManager \<Rightarrow> 'w CloudManager" where
  "zec_CloudManager cm =
     \<lparr>cm_CreateVolume = CreateVolume_cm cm, cm_DeleteVolume = DeleteVolume_cm cm,
      cm_AttachVolume = AttachVolume cm, cm_DetachVolume = DetachVolume cm,
      cm_ResizeVolume = ResizeVolume cm, cm_FindVolume = FindVolume cm,
      cm_FindVolumeByName = FindVolumeByName cm, cm_FindInstance = FindInstance cm,
      cm_GetZone = GetZone_cm cm, cm_GetZoneList = GetZoneList cm,
      cm_IsController = IsController cm, cm_Probe = Probe_cm cm, cm_GetVmStatus = GetVmStatus cm,
      cm_FindSnapshot = FindSnapshot cm, cm_FindSnapshotByName = FindSnapshotByName cm,
      cm_CreateSnapshot = CreateSnapshot_cm cm, cm_DeleteSnapshot = DeleteSnapshot_cm cm,
      cm_CreateVolumeFromSnapshot = CreateVolumeFromSnapshot_cm cm\<rparr>"

end
