(* ===== verification/Locks.thy ===== *)
theory Locks
  imports Prelude
begin

text \<open>
  The lock table of \<^verbatim>\<open>pkg/common/lock.go\<close> and its use by the RPC servers. A server's state
  is its lock table and the part of the outside world it works on. \<open>with_lock\<close> is the idiom
  every handler uses: \<^verbatim>\<open>if acquired := locks.TryAcquire(id); !acquired { return Aborted }\<close>
  followed by \<^verbatim>\<open>defer locks.Release(id)\<close>, so that the lock is released on every return of the
  code after it. The mutex inside the table makes each table operation atomic.
\<close>

section \<open>The table\<close>

record ResourceLocks =
  locks :: "string set"

definition NewResourceLocks :: ResourceLocks where
  "NewResourceLocks = \<lparr>locks = {}\<rparr>"

definition TryAcquire :: "string \<Rightarrow> (ResourceLocks, bool) state" where
  "TryAcquire resourceID = State (\<lambda>l.
     if resourceID \<in> locks l then (False, l)
     else (True, l\<lparr>locks := insert resourceID (locks l)\<rparr>))"

definition Release :: "string \<Rightarrow> (ResourceLocks, unit) state" where
  "Release resourceID = State (\<lambda>l. ((), l\<lparr>locks := locks l - {resourceID}\<rparr>))"

section \<open>What a lock table promises\<close>

locale lock_table =
  fixes held :: "'s \<Rightarrow> string set"
    and acquire :: "string \<Rightarrow> ('s, bool) state"
    and release :: "string \<Rightarrow> ('s, unit) state"
  assumes acquire_result: "run_state (acquire k) s = (ok, t) \<Longrightarrow> ok \<longleftrightarrow> k \<notin> held s"
    and acquire_held: "run_state (acquire k) s = (ok, t) \<Longrightarrow> held t = insert k (held s)"
    and acquire_refused: "run_state (acquire k) s = (False, t) \<Longrightarrow> t = s"
    and release_held: "run_state (release k) s = (u, t) \<Longrightarrow> held t = held s - {k}"
begin

lemma acquire_then_acquire_fails:
  "run_state (acquire k) s = (True, t) \<Longrightarrow> fst (run_state (acquire k) t) = False"
  by (metis acquire_held acquire_result insertI1 prod.collapse)

lemma release_frees:
  "run_state (release k) s = (u, t) \<Longrightarrow> fst (run_state (acquire k) t)"
  by (metis Diff_iff acquire_result insertI1 prod.collapse release_held)

text \<open>Acquire, run, release: the table is as before, whatever the code in between returned.\<close>

lemma bracket_restores:
  assumes acq: "run_state (acquire k) s = (True, t)"
    and body: "run_state body t = (r, t')" "held t' = held t"
    and rel: "run_state (release k) t' = (u, s')"
  shows "held s' = held s"
proof -
  have "held s' = insert k (held s) - {k}"
    using release_held [OF rel] body(2) acquire_held [OF acq] by simp
  moreover have "k \<notin> held s" using acquire_result [OF acq] by simp
  ultimately show ?thesis by simp
qed

end

interpretation rl: lock_table locks TryAcquire Release
  by unfold_locales (auto simp: TryAcquire_def Release_def split: if_splits)

section \<open>A server: lock table and world\<close>

record 'w server =
  srv_locks :: ResourceLocks
  srv_world :: 'w

definition on_locks :: "(ResourceLocks, 'a) state \<Rightarrow> ('w server, 'a) state" where
  "on_locks m = State (\<lambda>s. case run_state m (srv_locks s) of (a, l) \<Rightarrow> (a, s\<lparr>srv_locks := l\<rparr>))"

definition on_world :: "('w, 'a) state \<Rightarrow> ('w server, 'a) state" where
  "on_world m = State (\<lambda>s. case run_state m (srv_world s) of (a, w) \<Rightarrow> (a, s\<lparr>srv_world := w\<rparr>))"

definition with_lock ::
  "string \<Rightarrow> 'e \<Rightarrow> ('w server, 'e + 'a) state \<Rightarrow> ('w server, 'e + 'a) state" where
  "with_lock resourceID aborted body = do {
     acquired \<leftarrow> on_locks (TryAcquire resourceID);
     if \<not> acquired then State_Monad.return (Inl aborted)
     else do {
       r \<leftarrow> body;
       on_locks (Release resourceID);
       State_Monad.return r
     }
   }"

abbreviation srv_held :: "'w server \<Rightarrow> string set" where
  "srv_held s \<equiv> locks (srv_locks s)"

interpretation sl: lock_table srv_held "\<lambda>k. on_locks (TryAcquire k)" "\<lambda>k. on_locks (Release k)"
  by unfold_locales
    (auto simp: on_locks_def TryAcquire_def Release_def split: if_splits prod.splits)

lemma wp_on_world [wp_simps]:
  "wp (on_world m) Q s = wp m (\<lambda>a w. Q a (s\<lparr>srv_world := w\<rparr>)) (srv_world s)"
  by (simp add: wp_def on_world_def split: prod.splits)

lemma keeps_on_world [keeps_intros]: "keeps srv_locks (on_world m)"
  by (simp add: keeps_def on_world_def split: prod.splits)

lemma on_locks_TryAcquire:
  "run_state (on_locks (TryAcquire k)) s =
     (if k \<in> srv_held s then (False, s)
      else (True, s\<lparr>srv_locks := srv_locks s\<lparr>locks := insert k (srv_held s)\<rparr>\<rparr>))"
  by (simp add: on_locks_def TryAcquire_def)

lemma on_locks_Release:
  "run_state (on_locks (Release k)) s =
     ((), s\<lparr>srv_locks := srv_locks s\<lparr>locks := srv_held s - {k}\<rparr>\<rparr>)"
  by (simp add: on_locks_def Release_def)

lemma with_lock_busy:
  "k \<in> srv_held s \<Longrightarrow> run_state (with_lock k e body) s = (Inl e, s)"
  by (simp add: with_lock_def on_locks_TryAcquire)

text \<open>The body runs with the lock held; afterwards the lock is free again.\<close>

lemma wp_with_lock [wp_simps]:
  "wp (with_lock k e body) Q s =
     (if k \<in> srv_held s then Q (Inl e) s
      else wp body (\<lambda>r t. Q r (t\<lparr>srv_locks := srv_locks t\<lparr>locks := srv_held t - {k}\<rparr>\<rparr>))
             (s\<lparr>srv_locks := srv_locks s\<lparr>locks := insert k (srv_held s)\<rparr>\<rparr>))"
  by (simp add: wp_def with_lock_def on_locks_TryAcquire on_locks_Release split: prod.splits)

lemma keeps_with_lock [keeps_intros]:
  assumes "keeps srv_locks body"
  shows "keeps srv_locks (with_lock k e body)"
proof (rule keepsI)
  fix s :: "'a server"
  let ?t = "s\<lparr>srv_locks := srv_locks s\<lparr>locks := insert k (srv_held s)\<rparr>\<rparr>"
  obtain r t' where body: "run_state body ?t = (r, t')" by (cases "run_state body ?t") auto
  show "srv_locks (snd (run_state (with_lock k e body) s)) = srv_locks s"
  proof (cases "k \<in> srv_held s")
    case True
    then show ?thesis by (simp add: with_lock_busy)
  next
    case False
    have "srv_held (snd (run_state (with_lock k e body) s)) = srv_held s"
    proof (rule sl.bracket_restores)
      show "run_state (on_locks (TryAcquire k)) s = (True, ?t)"
        using False by (simp add: on_locks_TryAcquire)
      show "run_state body ?t = (r, t')" by (rule body)
      show "srv_held t' = srv_held ?t" using keepsD [OF assms body] by simp
      show "run_state (on_locks (Release k)) t' = ((), snd (run_state (with_lock k e body) s))"
        using False body by (simp add: with_lock_def on_locks_TryAcquire on_locks_Release)
    qed
    then show ?thesis by (metis ResourceLocks.equality old.unit.exhaust)
  qed
qed

section \<open>Interleaved requests\<close>

text \<open>
  gRPC runs requests concurrently. A request holds a stack of locks: it acquires one or more
  (\<open>CreateVolume\<close> from a snapshot takes two) and the deferred releases give them back in
  reverse order. Table operations of different requests interleave arbitrarily; a refused
  acquisition ends with the locks the request already had.
\<close>

record lock_sys =
  table :: ResourceLocks
  held_by :: "nat \<Rightarrow> string list"

definition init_lock_sys :: lock_sys where
  "init_lock_sys = \<lparr>table = NewResourceLocks, held_by = (\<lambda>_. [])\<rparr>"

inductive lock_step :: "lock_sys \<Rightarrow> lock_sys \<Rightarrow> bool" where
  granted: "run_state (TryAcquire k) (table s) = (True, l) \<Longrightarrow>
     lock_step s (s\<lparr>table := l, held_by := (held_by s)(i := k # held_by s i)\<rparr>)"
| refused: "run_state (TryAcquire k) (table s) = (False, l) \<Longrightarrow>
     lock_step s (s\<lparr>table := l\<rparr>)"
| released: "held_by s i = k # ks \<Longrightarrow> run_state (Release k) (table s) = ((), l) \<Longrightarrow>
     lock_step s (s\<lparr>table := l, held_by := (held_by s)(i := ks)\<rparr>)"

inductive lock_reachable :: "lock_sys \<Rightarrow> bool" where
  init: "lock_reachable init_lock_sys"
| step: "lock_reachable s \<Longrightarrow> lock_step s t \<Longrightarrow> lock_reachable t"

definition lock_inv :: "lock_sys \<Rightarrow> bool" where
  "lock_inv s \<longleftrightarrow>
     locks (table s) = (\<Union>i. set (held_by s i)) \<and>
     (\<forall>i. distinct (held_by s i)) \<and>
     (\<forall>i j. i \<noteq> j \<longrightarrow> set (held_by s i) \<inter> set (held_by s j) = {})"

lemma lock_inv_init: "lock_inv init_lock_sys"
  by (simp add: lock_inv_def init_lock_sys_def NewResourceLocks_def)

lemma lock_inv_granted:
  assumes inv: "lock_inv s" and acq: "run_state (TryAcquire k) (table s) = (True, l)"
  shows "lock_inv (s\<lparr>table := l, held_by := (held_by s)(i := k # held_by s i)\<rparr>)"
proof -
  have k: "k \<notin> set (held_by s j)" for j
    using inv rl.acquire_result [OF acq] by (auto simp: lock_inv_def)
  have "locks l = insert k (\<Union>j. set (held_by s j))"
    using inv rl.acquire_held [OF acq] by (simp add: lock_inv_def)
  then show ?thesis using inv k by (auto simp: lock_inv_def split: if_splits)
qed

lemma lock_inv_released:
  assumes inv: "lock_inv s" and top: "held_by s i = k # ks"
    and rel: "run_state (Release k) (table s) = ((), l)"
  shows "lock_inv (s\<lparr>table := l, held_by := (held_by s)(i := ks)\<rparr>)"
proof -
  have ks: "k \<notin> set ks" "distinct ks"
    using inv top by (metis lock_inv_def distinct.simps(2))+
  have k: "k \<notin> set (held_by s j)" if "j \<noteq> i" for j
    using inv top that by (metis Int_iff empty_iff list.set_intros(1) lock_inv_def)
  have "locks l = (\<Union>j. set (held_by s j)) - {k}"
    using inv rl.release_held [OF rel] by (simp add: lock_inv_def)
  also have "\<dots> = (\<Union>j. set (((held_by s)(i := ks)) j))"
    using ks k top by (auto split: if_splits) (metis set_ConsD)
  finally have table: "locks l = (\<Union>j. set (((held_by s)(i := ks)) j))" .
  have ks_disj: "set ks \<inter> set (held_by s j) = {}" if "j \<noteq> i" for j
  proof -
    have "set (k # ks) \<inter> set (held_by s j) = {}"
      using inv top that unfolding lock_inv_def by metis
    then show ?thesis by auto
  qed
  have others: "set (held_by s a) \<inter> set (held_by s b) = {}" if "a \<noteq> b" for a b
    using inv that by (simp add: lock_inv_def)
  have dist: "distinct (held_by s a)" for a using inv by (simp add: lock_inv_def)
  have "set (((held_by s)(i := ks)) a) \<inter> set (((held_by s)(i := ks)) b) = {}" if "a \<noteq> b" for a b
    using ks_disj [of a] ks_disj [of b] others [OF that] that by (auto simp: Int_commute)
  moreover have "distinct (((held_by s)(i := ks)) a)" for a using ks dist by simp
  ultimately show ?thesis using table by (simp only: lock_inv_def lock_sys.simps) simp
qed

lemma lock_step_inv: "lock_step s t \<Longrightarrow> lock_inv s \<Longrightarrow> lock_inv t"
proof (induction rule: lock_step.induct)
  case (granted k s l i)
  then show ?case by (simp add: lock_inv_granted)
next
  case (refused k s l)
  then show ?case using rl.acquire_refused [OF refused.hyps] by simp
next
  case (released s i k ks l)
  then show ?case by (simp add: lock_inv_released)
qed

lemma lock_reachable_inv: "lock_reachable s \<Longrightarrow> lock_inv s"
  by (induction rule: lock_reachable.induct) (blast intro: lock_inv_init lock_step_inv)+

section \<open>Properties\<close>

text \<open>In every reachable state of a server's interleaved requests, no resource is locked by
  two requests, a request never holds the same lock twice, and locks do not leak: a resource is in
  the table exactly when some unfinished request holds it.\<close>

theorem lock_mutual_exclusion:
  assumes "lock_reachable s"
  shows "(k \<in> set (held_by s i) \<longrightarrow> k \<in> set (held_by s j) \<longrightarrow> i = j) \<and> distinct (held_by s i) \<and>
    (k \<in> locks (table s) \<longleftrightarrow> (\<exists>i. k \<in> set (held_by s i)))"
proof -
  have inv: "lock_inv s" using assms by (rule lock_reachable_inv)
  then have "(k \<in> set (held_by s i) \<longrightarrow> k \<in> set (held_by s j) \<longrightarrow> i = j) \<and> distinct (held_by s i)"
    unfolding lock_inv_def by (metis disjoint_iff)
  with inv show ?thesis by (auto simp: lock_inv_def)
qed

definition lock_sys_example :: lock_sys where
  "lock_sys_example = \<lparr>table = \<lparr>locks = {''vol-1''}\<rparr>, held_by = (\<lambda>_. [])(7 := [''vol-1''])\<rparr>"

lemma lock_sys_example_reachable: "lock_reachable lock_sys_example"
proof -
  have "lock_step init_lock_sys
      (init_lock_sys\<lparr>table := \<lparr>locks = {''vol-1''}\<rparr>,
        held_by := (held_by init_lock_sys)(7 := ''vol-1'' # held_by init_lock_sys 7)\<rparr>)"
    by (rule lock_step.granted) (simp add: TryAcquire_def init_lock_sys_def NewResourceLocks_def)
  then have "lock_step init_lock_sys lock_sys_example"
    by (simp add: lock_sys_example_def init_lock_sys_def)
  then show ?thesis by (rule lock_reachable.step [OF lock_reachable.init])
qed

theorem lock_mutual_exclusion_witness:
  "''vol-1'' \<in> locks (table lock_sys_example) \<and> ''vol-2'' \<notin> locks (table lock_sys_example) \<and>
   distinct (held_by lock_sys_example 7)"
proof -
  note ex = lock_mutual_exclusion [OF lock_sys_example_reachable]
  have held: "''vol-1'' \<in> set (held_by lock_sys_example 7)" "\<not> (\<exists>i. ''vol-2'' \<in> set (held_by lock_sys_example i))"
    by (simp_all add: lock_sys_example_def)
  have "''vol-1'' \<in> locks (table lock_sys_example)"
    using ex [of "''vol-1''" 7 7, THEN conjunct2, THEN conjunct2] exI [where P = "\<lambda>i. ''vol-1'' \<in> set (held_by lock_sys_example i)", OF held(1)]
    by (rule iffD2)
  moreover have "''vol-2'' \<notin> locks (table lock_sys_example)"
    using ex [of "''vol-2''" 7 7, THEN conjunct2, THEN conjunct2] held(2) by (simp only: HOL.simp_thms)
  moreover have "distinct (held_by lock_sys_example 7)" by (rule ex [THEN conjunct2, THEN conjunct1])
  ultimately show ?thesis by (intro conjI)
qed

end
