(* ===== verification/Csi.thy ===== *)
theory Csi
  imports GoTime CloudManager Locks
begin

text \<open>
  The CSI messages that the servers receive and return, and the gRPC status codes. An RPC
  returns either a status code or a response; the texts of error messages are left out.
  Messages are records over the fields the driver reads; a nil message is \<open>None\<close> where the
  code distinguishes it, and a protobuf map is an association list whose order is the order
  in which Go happens to iterate over it.
\<close>

datatype code =
    InvalidArgument
  | NotFound
  | AlreadyExists
  | Aborted
  | OutOfRange
  | FailedPrecondition
  | Unimplemented
  | Unavailable
  | Internal

type_synonym segments = strmap

record TopologyRequirement =
  Requisite :: "segments list"
  Preferred :: "segments list"

text \<open>The \<open>oneof\<close> of \<^verbatim>\<open>csi.VolumeContentSource\<close>.\<close>

datatype VolumeContentSource = ContentSnapshot string | ContentVolume string | ContentUnset

record CreateVolumeRequest =
  cv_Name :: string
  cv_CapacityRange :: "CapacityRange option"
  cv_VolumeCapabilities :: "VolumeCapability list option"
  cv_Parameters :: strmap
  cv_VolumeContentSource :: "VolumeContentSource option"
  cv_AccessibilityRequirements :: "TopologyRequirement option"

record Volume =
  VolumeId :: string
  CapacityBytes :: int64
  VolumeContext :: strmap
  ContentSource :: "VolumeContentSource option"
  AccessibleTopology :: "segments list"

record PublishVolumeRequest =
  pv_VolumeId :: string
  pv_NodeId :: string
  pv_VolumeCapability :: "VolumeCapability option"
  pv_Readonly :: bool

record UnpublishVolumeRequest =
  uv_VolumeId :: string
  uv_NodeId :: string

record ExpandVolumeRequest =
  ev_VolumeId :: string
  ev_CapacityRange :: "CapacityRange option"
  ev_VolumeCapability :: "VolumeCapability option"

record ExpandVolumeResponse =
  er_CapacityBytes :: int64
  er_NodeExpansionRequired :: bool

record CreateSnapshotRequest =
  cs_SourceVolumeId :: string
  cs_Name :: string
  cs_Parameters :: strmap

record Snapshot =
  SnapshotId :: string
  SourceVolumeId :: string
  ReadyToUse :: bool
  CreationTime :: instant
  SizeBytes :: int64

record ValidateCapabilitiesRequest =
  vc_VolumeId :: string
  vc_VolumeContext :: strmap
  vc_VolumeCapabilities :: "VolumeCapability list"
  vc_Parameters :: strmap

record ConfirmedCapabilities =
  cc_VolumeContext :: strmap
  cc_VolumeCapabilities :: "VolumeCapability list"
  cc_Parameters :: strmap

definition cap_is_block :: "VolumeCapability option \<Rightarrow> bool" where
  "cap_is_block c = (case c of None \<Rightarrow> False | Some x \<Rightarrow> cap_AccessType x = AccessType_Block)"

end
