(* ===== verification/Controller.thy ===== *)
theory Controller
  imports Csi
begin

text \<open>
  The controller server of \<^verbatim>\<open>pkg/disk/rpcserver/controllerserver.go\<close>. A handler is a
  computation on \<open>'w server\<close>: the lock table and the world behind the cloud manager. Cloud
  calls are lifted by \<open>on_world\<close>; \<open>with_lock\<close> is the acquire-or-abort idiom with the
  deferred release. Log output is left out.
\<close>

record 'w ControllerServer =
  cs_driver :: DiskDriver
  cs_cloud :: "'w CloudManager"
  cs_globals :: globals

section \<open>Helpers\<close>

definition genCsiVolId :: "ZecVolume option \<Rightarrow> string option" where
  "genCsiVolId volInfo = (case volInfo of
      None \<Rightarrow> None
    | Some v \<Rightarrow>
        if ZecVolume_Id v = [] \<or> ZecVolume_Serial v = [] then None
        else Some (GenCsiVolId (ZecVolume_Id v) (ZecVolume_Serial v)))"

definition date_layout :: "chunk list" where
  "date_layout = [StdLongYear, Lit (CHR ''-''), StdZeroMonth, Lit (CHR ''-''), StdZeroDay]"

definition clock_layout :: "chunk list" where
  "clock_layout = [StdHour, Lit (CHR '':''), StdZeroMinute, Lit (CHR '':''), StdZeroSecond]"

definition snapCreateTimeLayouts :: "chunk list list" where
  "snapCreateTimeLayouts =
     [date_layout @ [Lit (CHR ''T'')] @ clock_layout @ [StdFracSecond9, StdISO8601ColonTZ],
      date_layout @ [Lit (CHR ''T'')] @ clock_layout @ [StdISO8601ColonTZ],
      date_layout @ [Lit (CHR ''T'')] @ clock_layout,
      date_layout @ [Lit (CHR '' '')] @ clock_layout,
      date_layout @ [Lit (CHR '' '')] @ clock_layout @ [StdISO8601ColonTZ],
      date_layout]"

fun try_layouts :: "chunk list list \<Rightarrow> string \<Rightarrow> instant option" where
  "try_layouts [] s = None"
| "try_layouts (l # ls) s = (case time_Parse l s of Some t \<Rightarrow> Some t | None \<Rightarrow> try_layouts ls s)"

text \<open>\<open>now\<close> is the value of \<^verbatim>\<open>timestamppb.Now()\<close>.\<close>

definition parseSnapCreationTime :: "instant \<Rightarrow> string \<Rightarrow> instant" where
  "parseSnapCreationTime now raw =
     (let trimmed = strings_TrimSpace raw in
      if trimmed = [] then now
      else case try_layouts snapCreateTimeLayouts trimmed of
          Some t \<Rightarrow> t
        | None \<Rightarrow>
            (case strconv_ParseInt trimmed of
               None \<Rightarrow> now
             | Some epoch \<Rightarrow>
                 if epoch > 0 then
                   (if length trimmed \<ge> 13 then time_UnixMilli epoch else time_Unix epoch)
                 else now))"

section \<open>Topology\<close>

text \<open>The loop over the segments of one topology; the same code for preferred and requisite.\<close>

fun pick_segments :: "DiskDriver \<Rightarrow> segments \<Rightarrow> Topology \<Rightarrow> unit + Topology" where
  "pick_segments d [] topo = Inr topo"
| "pick_segments d ((k, v) # segs) topo =
     (if k = GetTopologyZoneKey d then pick_segments d segs (SetZone_topo v topo)
      else if k = GetTopologyVmTypeKey d then
        (case VmTypeValue v of
           None \<Rightarrow> Inl ()
         | Some t \<Rightarrow> pick_segments d segs (SetVmType t topo))
      else Inl ())"

definition empty_topology :: Topology where "empty_topology = \<lparr>zoneId = [], vmtp = 0\<rparr>"

text \<open>\<open>Inr None\<close> is the nil topology.\<close>

definition PickTopology :: "DiskDriver \<Rightarrow> TopologyRequirement option \<Rightarrow> unit + Topology option" where
  "PickTopology d requirement = (case requirement of
      None \<Rightarrow> Inr None
    | Some r \<Rightarrow>
        (case Preferred r of
           segs # _ \<Rightarrow> map_sum id Some (pick_segments d segs empty_topology)
         | [] \<Rightarrow>
             (case Requisite r of
                segs # _ \<Rightarrow> map_sum id Some (pick_segments d segs empty_topology)
              | [] \<Rightarrow> Inr None)))"

definition GetVolumeTopology :: "DiskDriver \<Rightarrow> ZecVolume option \<Rightarrow> segments list" where
  "GetVolumeTopology d zecVolInfo = (case zecVolInfo of
      None \<Rightarrow> []
    | Some v \<Rightarrow>
        if \<not> VolumeType_IsValid (ZecVolume_Type v) then []
        else map (\<lambda>vmType. [(GetTopologyVmTypeKey d, or_else (VmTypeName vmType) []),
                            (GetTopologyZoneKey d, ZecVolume_Zone v)])
               (VolumeTypeAttachConstraint (ZecVolume_Type v)))"

definition IsValidTopology ::
  "DiskDriver \<Rightarrow> ZecVolume option \<Rightarrow> TopologyRequirement option \<Rightarrow> bool" where
  "IsValidTopology d zecVolInfo requirement = (case zecVolInfo of
      None \<Rightarrow> False
    | Some v \<Rightarrow>
        (case requirement of
           None \<Rightarrow> True
         | Some r \<Rightarrow>
             if Requisite r = [] then True
             else list_ex (\<lambda>reqTop. list_ex (\<lambda>volTop. map_eq reqTop volTop)
                    (GetVolumeTopology d zecVolInfo)) (Requisite r)))"

section \<open>CreateVolume\<close>

text \<open>The zone the volume goes to, and the parameters after \<open>UpdateParmsZone\<close>.\<close>

definition cv_topology ::
  "'w ControllerServer \<Rightarrow> CreateVolumeRequest \<Rightarrow> ZecStorageClass \<Rightarrow> code + Topology \<times> strmap" where
  "cv_topology cs req sc =
     (if cv_AccessibilityRequirements req \<noteq> None \<and>
         ValidatePluginCapabilityService (cs_driver cs) VOLUME_ACCESSIBILITY_CONSTRAINTS then
        (case PickTopology (cs_driver cs) (cv_AccessibilityRequirements req) of
           Inl _ \<Rightarrow> Inl InvalidArgument
         | Inr None \<Rightarrow> Inl InvalidArgument
         | Inr (Some topo) \<Rightarrow> Inr (topo, UpdateParmsZone (cv_Parameters req) (zoneId topo)))
      else Inr (NewTopology (zoneID sc) BasicVmType, cv_Parameters req))"

text \<open>The answer for a volume of that name that already exists.\<close>

definition cv_existing ::
  "'w ControllerServer \<Rightarrow> CreateVolumeRequest \<Rightarrow> strmap \<Rightarrow> ZecStorageClass \<Rightarrow> ZecVolume \<Rightarrow> code + Volume" where
  "cv_existing cs req params sc exVolInfo =
     (let exVolSizeByte = GibToByte (ZecVolume_Size exVolInfo) in
      if IsValidCapacityBytes exVolSizeByte (cv_CapacityRange req) \<and>
         IsValidTopology (cs_driver cs) (Some exVolInfo) (cv_AccessibilityRequirements req) \<and>
         ZecVolume_Type exVolInfo = diskType sc
      then (case genCsiVolId (Some exVolInfo) of
              None \<Rightarrow> Inl Aborted
            | Some csiVolId \<Rightarrow> Inr
                \<lparr>VolumeId = csiVolId, CapacityBytes = exVolSizeByte, VolumeContext = params,
                 ContentSource = cv_VolumeContentSource req,
                 AccessibleTopology = GetVolumeTopology (cs_driver cs) (Some exVolInfo)\<rparr>)
      else Inl AlreadyExists)"

text \<open>After the cloud created a disk: look it up and build the answer.\<close>

definition cv_created ::
  "'w ControllerServer \<Rightarrow> strmap \<Rightarrow> int64 \<Rightarrow> VolumeContentSource option \<Rightarrow> string \<Rightarrow>
   ('w server, code + Volume) state" where
  "cv_created cs params requiredSizeGib src newVolId = do {
     newVolInfo \<leftarrow> on_world (cm_FindVolume (cs_cloud cs) newVolId);
     case newVolInfo of
       Inl _ \<Rightarrow> State_Monad.return (Inl Internal)
     | Inr None \<Rightarrow> State_Monad.return (Inl Aborted)
     | Inr (Some v) \<Rightarrow>
         (case genCsiVolId (Some v) of
            None \<Rightarrow> State_Monad.return (Inl Aborted)
          | Some csiVolId \<Rightarrow> State_Monad.return (Inr
              \<lparr>VolumeId = csiVolId, CapacityBytes = GibToByte requiredSizeGib, VolumeContext = params,
               ContentSource = src, AccessibleTopology = GetVolumeTopology (cs_driver cs) (Some v)\<rparr>))
   }"

definition cv_from_snapshot ::
  "'w ControllerServer \<Rightarrow> string \<Rightarrow> strmap \<Rightarrow> ZecStorageClass \<Rightarrow> Topology \<Rightarrow> int64 \<Rightarrow> string \<Rightarrow>
   ('w server, code + Volume) state" where
  "cv_from_snapshot cs volName params sc topo requiredSizeByte snapId =
     (if \<not> ValidateControllerServiceRequest (cs_driver cs) RPC_CREATE_DELETE_SNAPSHOT
      then State_Monad.return (Inl Unimplemented)
      else if snapId = [] then State_Monad.return (Inl InvalidArgument)
      else with_lock snapId Aborted (do {
        snapinfo \<leftarrow> on_world (cm_FindSnapshot (cs_cloud cs) snapId);
        case snapinfo of
          Inl _ \<Rightarrow> State_Monad.return (Inl Internal)
        | Inr None \<Rightarrow> State_Monad.return (Inl NotFound)
        | Inr (Some snap) \<Rightarrow>
            if \<not> ZecVolumeSnap_DiskAbility snap then State_Monad.return (Inl Internal)
            else do {
              let requiredSizeGib = ByteCeilToGib requiredSizeByte;
              newVolId \<leftarrow> on_world (cm_CreateVolumeFromSnapshot (cs_cloud cs) volName requiredSizeGib
                (VolumeType_String (diskType sc)) (zoneId topo) (placeGroupID sc) snapId (burstEnable sc));
              case newVolId of
                Inl _ \<Rightarrow> State_Monad.return (Inl Internal)
              | Inr i \<Rightarrow> cv_created cs params requiredSizeGib (Some (ContentSnapshot snapId)) i
            }
      }))"

definition cv_new ::
  "'w ControllerServer \<Rightarrow> CreateVolumeRequest \<Rightarrow> strmap \<Rightarrow> ZecStorageClass \<Rightarrow> Topology \<Rightarrow> int64 \<Rightarrow>
   ('w server, code + Volume) state" where
  "cv_new cs req params sc topo requiredSizeByte =
     (case cv_VolumeContentSource req of
        None \<Rightarrow> do {
          let requiredSizeGib = ByteCeilToGib requiredSizeByte;
          newVolId \<leftarrow> on_world (cm_CreateVolume (cs_cloud cs) (cv_Name req) requiredSizeGib
            (VolumeType_String (diskType sc)) (zoneId topo) (placeGroupID sc) (burstEnable sc));
          case newVolId of
            Inl _ \<Rightarrow> State_Monad.return (Inl Internal)
          | Inr i \<Rightarrow> cv_created cs params requiredSizeGib None i
        }
      | Some (ContentSnapshot snapId) \<Rightarrow>
          cv_from_snapshot cs (cv_Name req) params sc topo requiredSizeByte snapId
      | Some (ContentVolume _) \<Rightarrow> State_Monad.return (Inl Unimplemented)
      | Some ContentUnset \<Rightarrow> State_Monad.return (Inl Internal))"

text \<open>What runs while the lock on the volume name is held.\<close>

definition cv_locked :: "'w ControllerServer \<Rightarrow> CreateVolumeRequest \<Rightarrow> ('w server, code + Volume) state" where
  "cv_locked cs req =
     (case NewZecStorageClassFromMap (cs_globals cs) (cv_Parameters req) of
        Inl _ \<Rightarrow> State_Monad.return (Inl InvalidArgument)
      | Inr sc \<Rightarrow>
        (case cv_topology cs req sc of
           Inl e \<Rightarrow> State_Monad.return (Inl e)
         | Inr (topo, params) \<Rightarrow>
           (case GetRequiredVolumeSizeByte sc (cv_CapacityRange req) of
              Inl _ \<Rightarrow> State_Monad.return (Inl OutOfRange)
            | Inr requiredSizeByte \<Rightarrow> do {
                (exVolInfo, err) \<leftarrow> on_world (cm_FindVolumeByName (cs_cloud cs) (cv_Name req) (zoneId topo)
                  (ByteCeilToGib requiredSizeByte) (VolumeType_String (diskType sc)) (placeGroupID sc));
                case err of
                  Some _ \<Rightarrow> State_Monad.return (Inl (if exVolInfo \<noteq> None then AlreadyExists else Internal))
                | None \<Rightarrow>
                    (case exVolInfo of
                       Some v \<Rightarrow> State_Monad.return (cv_existing cs req params sc v)
                     | None \<Rightarrow> cv_new cs req params sc topo requiredSizeByte)
              })))"

definition CreateVolume :: "'w ControllerServer \<Rightarrow> CreateVolumeRequest \<Rightarrow> ('w server, code + Volume) state" where
  "CreateVolume cs req =
     (if \<not> ValidateControllerServiceRequest (cs_driver cs) RPC_CREATE_DELETE_VOLUME
      then State_Monad.return (Inl Unimplemented)
      else case cv_VolumeCapabilities req of
        None \<Rightarrow> State_Monad.return (Inl InvalidArgument)
      | Some caps \<Rightarrow>
          if \<not> ValidateVolumeCapabilities_drv (cs_driver cs) caps then State_Monad.return (Inl InvalidArgument)
          else if cv_Name req = [] then State_Monad.return (Inl InvalidArgument)
          else if length (cv_Name req) > 64 then State_Monad.return (Inl InvalidArgument)
          else with_lock (cv_Name req) Aborted (cv_locked cs req))"

section \<open>DeleteVolume\<close>

definition delete_locked :: "'w ControllerServer \<Rightarrow> string \<Rightarrow> ('w server, code + unit) state" where
  "delete_locked cs volId = do {
     r \<leftarrow> on_world (cm_DeleteVolume (cs_cloud cs) volId);
     case r of
       Inl _ \<Rightarrow> State_Monad.return (Inl Internal)
     | Inr _ \<Rightarrow> State_Monad.return (Inr ())
   }"

definition DeleteVolume :: "'w ControllerServer \<Rightarrow> string \<Rightarrow> ('w server, code + unit) state" where
  "DeleteVolume cs volumeId =
     (if \<not> ValidateControllerServiceRequest (cs_driver cs) RPC_CREATE_DELETE_VOLUME
      then State_Monad.return (Inl Unimplemented)
      else if volumeId = [] then State_Monad.return (Inl InvalidArgument)
      else case ParseCsiVolId volumeId of
        Inl _ \<Rightarrow> State_Monad.return (Inr ())
      | Inr (volId, _) \<Rightarrow> with_lock volId Aborted (delete_locked cs volId))"

section \<open>ControllerPublishVolume\<close>

definition publish_attach :: "'w ControllerServer \<Rightarrow> string \<Rightarrow> string \<Rightarrow> ('w server, code + unit) state" where
  "publish_attach cs volId vmId = do {
     r \<leftarrow> on_world (cm_AttachVolume (cs_cloud cs) volId vmId);
     case r of
       Inl _ \<Rightarrow> State_Monad.return (Inl Internal)
     | Inr _ \<Rightarrow> do {
         newVolInfo \<leftarrow> on_world (cm_FindVolume (cs_cloud cs) volId);
         case newVolInfo of
           Inl _ \<Rightarrow> State_Monad.return (Inl Internal)
         | Inr None \<Rightarrow> State_Monad.return (Inl NotFound)
         | Inr (Some v) \<Rightarrow>
             if ZecVolume_InstanceId v \<noteq> vmId then State_Monad.return (Inl Internal)
             else State_Monad.return (Inr ())
       }
   }"

definition publish_locked :: "'w ControllerServer \<Rightarrow> string \<Rightarrow> string \<Rightarrow> ('w server, code + unit) state" where
  "publish_locked cs volId vmId = do {
     exVolInfo \<leftarrow> on_world (cm_FindVolume (cs_cloud cs) volId);
     case exVolInfo of
       Inl _ \<Rightarrow> State_Monad.return (Inl Internal)
     | Inr None \<Rightarrow> State_Monad.return (Inl NotFound)
     | Inr (Some v) \<Rightarrow> do {
         st \<leftarrow> on_world (cm_GetVmStatus (cs_cloud cs) vmId);
         case st of
           Inl _ \<Rightarrow> State_Monad.return (Inl Internal)
         | Inr (vmexist, vmstatus) \<Rightarrow>
             if \<not> vmexist then State_Monad.return (Inl NotFound)
             else if vmstatus \<noteq> VmStatusRunning then State_Monad.return (Inl FailedPrecondition)
             else if ZecVolume_InstanceId v \<noteq> [] then
               (if ZecVolume_InstanceId v = vmId then State_Monad.return (Inr ())
                else State_Monad.return (Inl FailedPrecondition))
             else publish_attach cs volId vmId
       }
   }"

definition ControllerPublishVolume ::
  "'w ControllerServer \<Rightarrow> PublishVolumeRequest \<Rightarrow> ('w server, code + unit) state" where
  "ControllerPublishVolume cs req =
     (if \<not> ValidateControllerServiceRequest (cs_driver cs) RPC_PUBLISH_UNPUBLISH_VOLUME
      then State_Monad.return (Inl Unimplemented)
      else if pv_VolumeId req = [] then State_Monad.return (Inl InvalidArgument)
      else if pv_NodeId req = [] then State_Monad.return (Inl InvalidArgument)
      else case pv_VolumeCapability req of
        None \<Rightarrow> State_Monad.return (Inl InvalidArgument)
      | Some cap \<Rightarrow>
          if \<not> ValidateVolumeCapability (cs_driver cs) cap then State_Monad.return (Inl InvalidArgument)
          else if pv_Readonly req then State_Monad.return (Inl InvalidArgument)
          else (case ParseCsiVolId (pv_VolumeId req) of
              Inl _ \<Rightarrow> State_Monad.return (Inl NotFound)
            | Inr (volId, _) \<Rightarrow> with_lock volId Aborted (publish_locked cs volId (pv_NodeId req))))"

section \<open>ControllerUnpublishVolume\<close>

definition unpublish_locked :: "'w ControllerServer \<Rightarrow> string \<Rightarrow> string \<Rightarrow> ('w server, code + unit) state" where
  "unpublish_locked cs volId vmId = do {
     exVol \<leftarrow> on_world (cm_FindVolume (cs_cloud cs) volId);
     case exVol of
       Inl _ \<Rightarrow> State_Monad.return (Inl Internal)
     | Inr None \<Rightarrow> State_Monad.return (Inr ())
     | Inr (Some v) \<Rightarrow>
         if ZecVolume_InstanceId v = [] then State_Monad.return (Inr ())
         else if ZecVolume_InstanceId v \<noteq> vmId then State_Monad.return (Inr ())
         else do {
           r \<leftarrow> on_world (cm_DetachVolume (cs_cloud cs) volId);
           case r of
             Inl _ \<Rightarrow> State_Monad.return (Inl Internal)
           | Inr _ \<Rightarrow> State_Monad.return (Inr ())
         }
   }"

definition ControllerUnpublishVolume ::
  "'w ControllerServer \<Rightarrow> UnpublishVolumeRequest \<Rightarrow> ('w server, code + unit) state" where
  "ControllerUnpublishVolume cs req =
     (if \<not> ValidateControllerServiceRequest (cs_driver cs) RPC_PUBLISH_UNPUBLISH_VOLUME
      then State_Monad.return (Inl Unimplemented)
      else if uv_VolumeId req = [] then State_Monad.return (Inl InvalidArgument)
      else if uv_NodeId req = [] then State_Monad.return (Inl InvalidArgument)
      else case ParseCsiVolId (uv_VolumeId req) of
        Inl _ \<Rightarrow> State_Monad.return (Inr ())
      | Inr (volId, _) \<Rightarrow> with_lock volId Aborted (unpublish_locked cs volId (uv_NodeId req)))"

section \<open>ControllerExpandVolume\<close>

definition expand_locked ::
  "'w ControllerServer \<Rightarrow> ExpandVolumeRequest \<Rightarrow> string \<Rightarrow> ('w server, code + ExpandVolumeResponse) state" where
  "expand_locked cs req volId = do {
     exVol \<leftarrow> on_world (cm_FindVolume (cs_cloud cs) volId);
     case exVol of
       Inl _ \<Rightarrow> State_Monad.return (Inl Internal)
     | Inr None \<Rightarrow> State_Monad.return (Inl NotFound)
     | Inr (Some v) \<Rightarrow>
         if \<not> VolumeType_IsValid (ZecVolume_Type v) then State_Monad.return (Inl Internal)
         else (case NewDefaultZecStorageClassFromType (ZecVolume_Type v) of
            None \<Rightarrow> State_Monad.return (Inl Internal)
          | Some sc \<Rightarrow>
            (case GetRequiredVolumeSizeByte sc (ev_CapacityRange req) of
               Inl _ \<Rightarrow> State_Monad.return (Inl OutOfRange)
             | Inr requiredSizeBytes \<Rightarrow>
                 (let nodeExpansionRequired = \<not> cap_is_block (ev_VolumeCapability req);
                      requiredSizeGib = ByteCeilToGib requiredSizeBytes;
                      actualSizeBytes = GibToByte requiredSizeGib;
                      exVolSizeBytes = GibToByte (ZecVolume_Size v)
                  in if exVolSizeBytes \<ge> actualSizeBytes then
                       State_Monad.return (Inr \<lparr>er_CapacityBytes = exVolSizeBytes,
                         er_NodeExpansionRequired = nodeExpansionRequired\<rparr>)
                     else do {
                       r \<leftarrow> on_world (cm_ResizeVolume (cs_cloud cs) volId requiredSizeGib);
                       case r of
                         Inl _ \<Rightarrow> State_Monad.return (Inl Internal)
                       | Inr _ \<Rightarrow> State_Monad.return (Inr \<lparr>er_CapacityBytes = actualSizeBytes,
                           er_NodeExpansionRequired = nodeExpansionRequired\<rparr>)
                     })))
   }"

definition ControllerExpandVolume ::
  "'w ControllerServer \<Rightarrow> ExpandVolumeRequest \<Rightarrow> ('w server, code + ExpandVolumeResponse) state" where
  "ControllerExpandVolume cs req =
     (if \<not> ValidateControllerServiceRequest (cs_driver cs) RPC_EXPAND_VOLUME
      then State_Monad.return (Inl Unimplemented)
      else if ev_VolumeId req = [] then State_Monad.return (Inl InvalidArgument)
      else case ParseCsiVolId (ev_VolumeId req) of
        Inl _ \<Rightarrow> State_Monad.return (Inl NotFound)
      | Inr (volId, _) \<Rightarrow> with_lock volId Aborted (expand_locked cs req volId))"

section \<open>Snapshots\<close>

definition snapshot_response :: "instant \<Rightarrow> int64 \<Rightarrow> ZecVolumeSnap \<Rightarrow> Snapshot" where
  "snapshot_response now snapSize s =
     \<lparr>SnapshotId = ZecVolumeSnap_Id s, SourceVolumeId = ZecVolumeSnap_SrcDiskId s,
      ReadyToUse = (ZecVolumeSnap_status s = SnapStatusAvailable),
      CreationTime = parseSnapCreationTime now (ZecVolumeSnap_CreateTime s),
      SizeBytes = wrap64 (snapSize * Gib)\<rparr>"

text \<open>No existing snapshot of that name: create one.\<close>

definition snapshot_new ::
  "'w ControllerServer \<Rightarrow> instant \<Rightarrow> CreateSnapshotRequest \<Rightarrow> string \<Rightarrow> int64 \<Rightarrow> ('w server, code + Snapshot) state" where
  "snapshot_new cs now req srcVolId snapSize =
     (case NewZecSnapshotClassFromMap (cs_Parameters req) of
        Inl _ \<Rightarrow> State_Monad.return (Inl InvalidArgument)
      | Inr _ \<Rightarrow> do {
          newSnapId \<leftarrow> on_world (cm_CreateSnapshot (cs_cloud cs) (cs_Name req) srcVolId);
          case newSnapId of
            Inl _ \<Rightarrow> State_Monad.return (Inl Internal)
          | Inr i \<Rightarrow> do {
              snapInfo \<leftarrow> on_world (cm_FindSnapshot (cs_cloud cs) i);
              case snapInfo of
                Inl _ \<Rightarrow> State_Monad.return (Inl Internal)
              | Inr None \<Rightarrow> State_Monad.return (Inl Internal)
              | Inr (Some s) \<Rightarrow> State_Monad.return (Inr (snapshot_response now snapSize s))
            }
        })"

definition snapshot_locked ::
  "'w ControllerServer \<Rightarrow> instant \<Rightarrow> CreateSnapshotRequest \<Rightarrow> string \<Rightarrow> ('w server, code + Snapshot) state" where
  "snapshot_locked cs now req srcVolId = do {
     exVolInfo \<leftarrow> on_world (cm_FindVolume (cs_cloud cs) srcVolId);
     case exVolInfo of
       Inl _ \<Rightarrow> State_Monad.return (Inl Internal)
     | Inr None \<Rightarrow> State_Monad.return (Inl NotFound)
     | Inr (Some v) \<Rightarrow>
         if \<not> ZecVolume_SnapshotAbility v then State_Monad.return (Inl Internal)
         else do {
           (existsnap, err) \<leftarrow> on_world (cm_FindSnapshotByName (cs_cloud cs) (cs_Name req) srcVolId
             (ZecVolume_Zone v) (ZecVolume_ResourceGroupId v));
           case err of
             Some _ \<Rightarrow> State_Monad.return (Inl (if existsnap \<noteq> None then AlreadyExists else Internal))
           | None \<Rightarrow>
               (case existsnap of
                  Some s \<Rightarrow>
                    if ZecVolumeSnap_SrcDiskId s = srcVolId
                    then State_Monad.return (Inr (snapshot_response now (ZecVolume_Size v) s))
                    else State_Monad.return (Inl AlreadyExists)
                | None \<Rightarrow> snapshot_new cs now req srcVolId (ZecVolume_Size v))
         }
   }"

text \<open>\<open>now\<close> is the clock at the time the handler reads it.\<close>

definition CreateSnapshot ::
  "'w ControllerServer \<Rightarrow> instant \<Rightarrow> CreateSnapshotRequest \<Rightarrow> ('w server, code + Snapshot) state" where
  "CreateSnapshot cs now req =
     (if \<not> ValidateControllerServiceRequest (cs_driver cs) RPC_CREATE_DELETE_SNAPSHOT
      then State_Monad.return (Inl Unimplemented)
      else if cs_SourceVolumeId req = [] then State_Monad.return (Inl InvalidArgument)
      else if cs_Name req = [] then State_Monad.return (Inl InvalidArgument)
      else if length (cs_Name req) > 64 then State_Monad.return (Inl InvalidArgument)
      else case ParseCsiVolId (cs_SourceVolumeId req) of
        Inl _ \<Rightarrow> State_Monad.return (Inl NotFound)
      | Inr (srcVolId, _) \<Rightarrow> with_lock srcVolId Aborted (snapshot_locked cs now req srcVolId))"

definition delete_snapshot_locked :: "'w ControllerServer \<Rightarrow> string \<Rightarrow> ('w server, code + unit) state" where
  "delete_snapshot_locked cs snapId = do {
     exsnap \<leftarrow> on_world (cm_FindSnapshot (cs_cloud cs) snapId);
     case exsnap of
       Inl _ \<Rightarrow> State_Monad.return (Inl Internal)
     | Inr None \<Rightarrow> State_Monad.return (Inr ())
     | Inr (Some _) \<Rightarrow> do {
         r \<leftarrow> on_world (cm_DeleteSnapshot (cs_cloud cs) snapId);
         case r of
           Inl _ \<Rightarrow> State_Monad.return (Inl Internal)
         | Inr _ \<Rightarrow> State_Monad.return (Inr ())
       }
   }"

definition DeleteSnapshot :: "'w ControllerServer \<Rightarrow> string \<Rightarrow> ('w server, code + unit) state" where
  "DeleteSnapshot cs snapId =
     (if \<not> ValidateControllerServiceRequest (cs_driver cs) RPC_CREATE_DELETE_SNAPSHOT
      then State_Monad.return (Inl Unimplemented)
      else if snapId = [] then State_Monad.return (Inl InvalidArgument)
      else with_lock snapId Aborted (delete_snapshot_locked cs snapId))"

section \<open>Capabilities and unsupported calls\<close>

text \<open>\<open>Inr None\<close> is a response without \<open>Confirmed\<close>.\<close>

definition ValidateVolumeCapabilities ::
  "'w ControllerServer \<Rightarrow> ValidateCapabilitiesRequest \<Rightarrow> ('w server, code + ConfirmedCapabilities option) state" where
  "ValidateVolumeCapabilities cs req =
     (if vc_VolumeId req = [] then State_Monad.return (Inl InvalidArgument)
      else if vc_VolumeCapabilities req = [] then State_Monad.return (Inl InvalidArgument)
      else case ParseCsiVolId (vc_VolumeId req) of
        Inl _ \<Rightarrow> State_Monad.return (Inl NotFound)
      | Inr (volId, _) \<Rightarrow> do {
          vol \<leftarrow> on_world (cm_FindVolume (cs_cloud cs) volId);
          case vol of
            Inl _ \<Rightarrow> State_Monad.return (Inl Internal)
          | Inr None \<Rightarrow> State_Monad.return (Inl NotFound)
          | Inr (Some _) \<Rightarrow>
              if list_all (\<lambda>c. list_ex (\<lambda>c1. GetMode c1 = cap_mode c) (volumeCap (cs_driver cs)))
                   (vc_VolumeCapabilities req)
              then State_Monad.return (Inr (Some
                \<lparr>cc_VolumeContext = vc_VolumeContext req, cc_VolumeCapabilities = vc_VolumeCapabilities req,
                 cc_Parameters = vc_Parameters req\<rparr>))
              else State_Monad.return (Inr None)
        })"

definition ControllerGetCapabilities :: "'w ControllerServer \<Rightarrow> ControllerServiceCapability list" where
  "ControllerGetCapabilities cs = controllerCap (cs_driver cs)"

definition GetCapacity :: "('w server, code + unit) state" where
  "GetCapacity = State_Monad.return (Inl Unimplemented)"

definition ControllerGetVolume :: "('w server, code + unit) state" where
  "ControllerGetVolume = State_Monad.return (Inl Unimplemented)"

definition ListVolumes :: "('w server, code + unit) state" where
  "ListVolumes = State_Monad.return (Inl Unimplemented)"

definition ListSnapshots :: "('w server, code + unit) state" where
  "ListSnapshots = State_Monad.return (Inl Unimplemented)"

end
