(* ===== verification/Trace.thy ===== *)
theory Trace
  imports Locks
begin

text \<open>
  Logs of calls. \<open>logged ev m\<close> runs \<open>m\<close> on the first component of the state and appends the
  event \<open>ev r\<close>, where \<open>r\<close> is the result, to the list in the second component. \<open>logs lg ok m\<close>
  says that every run of \<open>m\<close> extends the log \<open>lg\<close> by events that are \<open>ok\<close> for its result;
  it has one rule for each construct of the monad.
\<close>

definition logged :: "('r \<Rightarrow> 'e) \<Rightarrow> ('w, 'r) state \<Rightarrow> ('w \<times> 'e list, 'r) state" where
  "logged ev m = State (\<lambda>(w, tr). case run_state m w of (r, w') \<Rightarrow> (r, (w', tr @ [ev r])))"

definition logs :: "('s \<Rightarrow> 'e list) \<Rightarrow> ('a \<Rightarrow> 'e list \<Rightarrow> bool) \<Rightarrow> ('s, 'a) state \<Rightarrow> bool" where
  "logs lg ok m \<longleftrightarrow> (\<forall>s. wp m (\<lambda>r t. \<exists>ext. lg t = lg s @ ext \<and> ok r ext) s)"

text \<open>Whatever the call answers, the answer is appended to the log.\<close>

lemma wp_logged:
  assumes "\<And>r w'. Q r (w', snd s @ [ev r])"
  shows "wp (logged ev m) Q s"
  using assms by (auto simp: wp_def logged_def split: prod.splits)

lemma logsD: "logs lg ok m \<Longrightarrow> run_state m s = (r, t) \<Longrightarrow> \<exists>ext. lg t = lg s @ ext \<and> ok r ext"
  unfolding logs_def by (drule spec [of _ s]) (auto dest: wpD)

lemma logs_mono: "logs lg ok m \<Longrightarrow> (\<And>r ext. ok r ext \<Longrightarrow> ok' r ext) \<Longrightarrow> logs lg ok' m"
  unfolding logs_def by (blast intro: wp_mono)

lemma logs_conj:
  assumes "logs lg ok m" "logs lg ok' m"
  shows "logs lg (\<lambda>r ext. ok r ext \<and> ok' r ext) m"
  unfolding logs_def
proof
  fix s
  have "wp m (\<lambda>r t. (\<exists>ext. lg t = lg s @ ext \<and> ok r ext) \<and> (\<exists>ext. lg t = lg s @ ext \<and> ok' r ext)) s"
    using assms unfolding logs_def by (intro wp_conj) blast+
  then show "wp m (\<lambda>r t. \<exists>ext. lg t = lg s @ ext \<and> ok r ext \<and> ok' r ext) s"
    by (rule wp_mono) auto
qed

lemma logs_return: "ok r [] \<Longrightarrow> logs lg ok (State_Monad.return r)"
  by (simp add: logs_def wp_simps)

lemma logs_bind:
  fixes m :: "('s, 'a) state"
  assumes m: "logs lg ok1 m" and k: "\<And>a ext. ok1 a ext \<Longrightarrow> logs lg (\<lambda>r ext'. ok r (ext @ ext')) (k a)"
  shows "logs lg ok (State_Monad.bind m k)"
  unfolding logs_def wp_bind
proof (intro allI wp_mono [OF m [unfolded logs_def, rule_format]])
  fix s t :: 's and a
  assume "\<exists>ext. lg t = lg s @ ext \<and> ok1 a ext"
  then obtain ext where ext: "lg t = lg s @ ext" "ok1 a ext" by blast
  show "wp (k a) (\<lambda>r t'. \<exists>ext. lg t' = lg s @ ext \<and> ok r ext) t"
    using k [OF ext(2)] ext(1) unfolding logs_def
    by (elim allE [of _ t] wp_mono) (metis append.assoc)
qed

lemma logs_logged: "(\<And>r. ok r [ev r]) \<Longrightarrow> logs snd ok (logged ev m)"
  unfolding logs_def by (intro allI wp_logged) auto

lemma logs_call:
  assumes "\<And>r. logs snd (\<lambda>a ext. ok a (ev r # ext)) (k r)"
  shows "logs snd ok (State_Monad.bind (logged ev m) k)"
  by (rule logs_bind [where ?ok1.0 = "\<lambda>r ext. ext = [ev r]"])
    (auto intro!: logs_logged assms)

lemma logs_case_sum:
  "(\<And>x. z = Inl x \<Longrightarrow> logs lg ok (f x)) \<Longrightarrow> (\<And>x. z = Inr x \<Longrightarrow> logs lg ok (g x)) \<Longrightarrow>
   logs lg ok (case z of Inl x \<Rightarrow> f x | Inr x \<Rightarrow> g x)"
  by (cases z) simp_all

lemma logs_case_option:
  "(z = None \<Longrightarrow> logs lg ok f) \<Longrightarrow> (\<And>x. z = Some x \<Longrightarrow> logs lg ok (g x)) \<Longrightarrow>
   logs lg ok (case z of None \<Rightarrow> f | Some x \<Rightarrow> g x)"
  by (cases z) simp_all

lemma logs_case_list:
  "(z = [] \<Longrightarrow> logs lg ok f) \<Longrightarrow> (\<And>x xs. z = x # xs \<Longrightarrow> logs lg ok (g x xs)) \<Longrightarrow>
   logs lg ok (case z of [] \<Rightarrow> f | x # xs \<Rightarrow> g x xs)"
  by (cases z) simp_all

lemma logs_case_prod:
  "(\<And>x y. z = (x, y) \<Longrightarrow> logs lg ok (f x y)) \<Longrightarrow> logs lg ok (case z of (x, y) \<Rightarrow> f x y)"
  by (cases z) simp_all

lemma logs_if:
  "(b \<Longrightarrow> logs lg ok f) \<Longrightarrow> (\<not> b \<Longrightarrow> logs lg ok g) \<Longrightarrow> logs lg ok (if b then f else g)"
  by simp

lemmas logs_cases =
  logs_case_sum logs_case_option logs_case_list logs_case_prod logs_if logs_return

section \<open>Logs behind a server\<close>

abbreviation srv_log :: "('w \<times> 'e list) server \<Rightarrow> 'e list" where
  "srv_log s \<equiv> snd (srv_world s)"

lemma logs_on_world: "logs snd ok m \<Longrightarrow> logs srv_log ok (on_world m)"
  unfolding logs_def wp_on_world
  by (intro allI, erule allE, erule wp_mono) simp

lemma logs_on_world_call:
  assumes "\<And>r. logs srv_log (\<lambda>a ext. ok a (ev r # ext)) (k r)"
  shows "logs srv_log ok (State_Monad.bind (on_world (logged ev m)) k)"
  by (rule logs_bind [where ?ok1.0 = "\<lambda>r ext. ext = [ev r]"])
    (auto intro!: logs_on_world logs_logged assms)

text \<open>A refused lock logs nothing; otherwise the log is that of the body.\<close>

lemma logs_with_lock:
  fixes body :: "(('w \<times> 'ev list) server, 'e + 'a) state"
  assumes "ok (Inl e) []" "logs srv_log ok body"
  shows "logs srv_log ok (with_lock k e body)"
  unfolding logs_def wp_with_lock
proof (intro allI)
  fix s :: "('w \<times> 'ev list) server"
  let ?t = "s\<lparr>srv_locks := srv_locks s\<lparr>locks := insert k (srv_held s)\<rparr>\<rparr>"
  have "wp body (\<lambda>r t. \<exists>ext. srv_log t = srv_log ?t @ ext \<and> ok r ext) ?t"
    using assms(2) unfolding logs_def by blast
  then show "if k \<in> srv_held s then \<exists>ext. srv_log s = srv_log s @ ext \<and> ok (Inl e) ext
      else wp body (\<lambda>r t. \<exists>ext. srv_log (t\<lparr>srv_locks := srv_locks t\<lparr>locks := srv_held t - {k}\<rparr>\<rparr>) =
             srv_log s @ ext \<and> ok r ext) ?t"
    using assms(1) by simp
qed

end
