(* ===== verification/Mount.thy ===== *)
theory Mount
  imports Common Trace
begin

text \<open>
  The mount helpers of \<^verbatim>\<open>pkg/common/mount.go\<close> and the node environment they and the node
  server work on: the operating system and the \<^verbatim>\<open>k8s.io/mount-utils\<close> package, which is not part
  of the repository. The environment is a parameter: a record with one function for each
  operation the driver uses, over an abstract state \<open>'w\<close> of the node.
\<close>

section \<open>The environment of a node\<close>

datatype os_error = ErrNotExist | OtherOsError

text \<open>Errors of \<^verbatim>\<open>Command(...).CombinedOutput()\<close>; \<open>ExitError n\<close> is a non-zero exit status.\<close>

datatype exec_error = ErrExecutableNotFound | ExitError int | OtherExecError

record file_mode =
  ModeDevice :: bool
  ModeCharDevice :: bool

record statfs =
  Blocks :: "64 word"
  Bfree :: "64 word"
  Bavail :: "64 word"
  Bsize :: "64 word"

datatype mount_error =
    MountFailed
  | FsckUncorrected
  | DiskFormatFailed
  | ReadOnlyUnformatted
  | MkfsFailed
  | UnexpectedFormat string

record 'w node_env =
  mnt_Mount :: "string \<Rightarrow> string \<Rightarrow> string \<Rightarrow> string list \<Rightarrow> ('w, bool) state"
  mnt_GetDiskFormat :: "string \<Rightarrow> ('w, string option) state"
  mnt_IsMountPoint :: "string \<Rightarrow> ('w, os_error + bool) state"
  mnt_IsLikelyNotMountPoint :: "string \<Rightarrow> ('w, os_error + bool) state"
  mnt_CleanupMountPoint :: "string \<Rightarrow> bool \<Rightarrow> ('w, bool) state"
  mnt_NeedResize :: "string \<Rightarrow> string \<Rightarrow> ('w, bool option) state"
  mnt_Resize :: "string \<Rightarrow> string \<Rightarrow> ('w, bool option) state"
  mnt_Exec :: "string \<Rightarrow> string list \<Rightarrow> ('w, exec_error option \<times> string) state"
  os_Exec :: "string \<Rightarrow> string list \<Rightarrow> ('w, exec_error option \<times> string) state"
  os_Stat :: "string \<Rightarrow> ('w, os_error + file_mode) state"
  os_MkdirAll :: "string \<Rightarrow> ('w, bool) state"
  os_CreateFile :: "string \<Rightarrow> ('w, bool) state"
  os_ReadFile :: "string \<Rightarrow> ('w, string option) state"
  unix_Statfs :: "string \<Rightarrow> ('w, statfs option) state"

text \<open>
  Results that are only success or failure are \<open>bool\<close> (\<open>True\<close> is success); \<open>None\<close> is an
  error. \<open>os_CreateFile\<close> is \<^verbatim>\<open>os.OpenFile\<close> with \<^verbatim>\<open>O_CREATE|O_RDWR\<close> followed by \<open>Close\<close>.
\<close>

section \<open>mount.go\<close>

text \<open>
  \<open>IsDirEmpty\<close> opens a directory, reads one entry and closes it. Opening, reading and closing are
  those of package \<open>os\<close>: the answer to a read is an entry, the end of the directory, or an error.
\<close>

datatype readdir = DirEntry | DirEOF | DirError os_error

definition IsDirEmpty ::
  "(string \<Rightarrow> ('w, os_error + 'f) state) \<Rightarrow> ('f \<Rightarrow> ('w, readdir) state) \<Rightarrow> ('f \<Rightarrow> ('w, unit) state) \<Rightarrow>
   string \<Rightarrow> ('w, os_error + bool) state" where
  "IsDirEmpty os_Open f_Readdir f_Close name = do {
     f \<leftarrow> os_Open name;
     case f of
       Inl e \<Rightarrow> State_Monad.return (Inl e)
     | Inr h \<Rightarrow> do {
         r \<leftarrow> f_Readdir h;
         f_Close h;
         State_Monad.return (case r of DirEOF \<Rightarrow> Inr True | DirEntry \<Rightarrow> Inr False | DirError e \<Rightarrow> Inl e)
       }
   }"

definition IsFileExisting :: "'w node_env \<Rightarrow> string \<Rightarrow> ('w, bool) state" where
  "IsFileExisting env filename = do {
     r \<leftarrow> os_Stat env filename;
     case r of
       Inr _ \<Rightarrow> State_Monad.return True
     | Inl ErrNotExist \<Rightarrow> State_Monad.return False
     | Inl OtherOsError \<Rightarrow> State_Monad.return True
   }"

text \<open>The lines of \<^verbatim>\<open>blkid -o export\<close>; \<open>None\<close> is the error for an invalid line.\<close>

fun blkid_lines :: "string list \<Rightarrow> string \<times> string \<Rightarrow> (string \<times> string) option" where
  "blkid_lines [] acc = Some acc"
| "blkid_lines (l # ls) (ft, pt) =
     (if l = [] then blkid_lines ls (ft, pt)
      else case strings_Split l (CHR ''='') of
          [k, v] \<Rightarrow>
            if k = ''TYPE'' then blkid_lines ls (v, pt)
            else if k = ''PTTYPE'' then blkid_lines ls (ft, v)
            else blkid_lines ls (ft, pt)
        | _ \<Rightarrow> None)"

definition GetDiskFStypePTtype :: "'w node_env \<Rightarrow> string \<Rightarrow> ('w, (string \<times> string) option) state" where
  "GetDiskFStypePTtype env disk = do {
     (err, out) \<leftarrow> os_Exec env ''blkid'' [''-p'', ''-s'', ''TYPE'', ''-s'', ''PTTYPE'', ''-o'', ''export'', disk];
     case err of
       Some (ExitError n) \<Rightarrow> State_Monad.return (if n = 2 then Some ([], []) else None)
     | Some _ \<Rightarrow> State_Monad.return None
     | None \<Rightarrow> State_Monad.return (blkid_lines (strings_Split out (CHR 0x0A)) ([], []))
   }"

definition mkfsDefaultArgs :: "string \<Rightarrow> string \<Rightarrow> string list" where
  "mkfsDefaultArgs fstype source =
     (if fstype = ''ext4'' \<or> fstype = ''ext3'' then [''-F'', ''-m0'', ''-E'', ''nodiscard'', source]
      else if fstype = ''xfs'' then [''-f'', ''-K'', source]
      else [])"

definition FormatNewDisk ::
  "'w node_env \<Rightarrow> bool \<Rightarrow> string \<Rightarrow> string \<Rightarrow> string \<Rightarrow> string list \<Rightarrow> string list \<Rightarrow>
   ('w, mount_error + unit) state" where
  "FormatNewDisk env readOnly source fstype0 target mkfsOptions mountOptions =
     (if readOnly then State_Monad.return (Inl ReadOnlyUnformatted)
      else do {
        let fstype = (if fstype0 = [] then ''ext4'' else fstype0);
        let args = (if mkfsOptions \<noteq> [] then mkfsOptions @ [source] else mkfsDefaultArgs fstype source);
        (err, out) \<leftarrow> mnt_Exec env (''mkfs.'' @ fstype) args;
        case err of
          None \<Rightarrow> do {
            ok \<leftarrow> mnt_Mount env source target fstype mountOptions;
            State_Monad.return (if ok then Inr () else Inl MountFailed)
          }
        | Some _ \<Rightarrow> State_Monad.return (Inl MkfsFailed)
      })"

text \<open>The check with \<^verbatim>\<open>fsck\<close>; \<open>False\<close> when it found errors it could not correct.\<close>

definition run_fsck :: "'w node_env \<Rightarrow> string \<Rightarrow> ('w, bool) state" where
  "run_fsck env source = do {
     (err, out) \<leftarrow> mnt_Exec env ''fsck'' [''-a'', source];
     State_Monad.return (err \<noteq> Some (ExitError 4))
   }"

definition unknown_partitions :: string where
  "unknown_partitions = ''unknown data, probably partitions''"

text \<open>After the first mount failed.\<close>

definition mount_failed ::
  "'w node_env \<Rightarrow> bool \<Rightarrow> string \<Rightarrow> string \<Rightarrow> string \<Rightarrow> string list \<Rightarrow> string list \<Rightarrow>
   ('w, mount_error + unit) state" where
  "mount_failed env readOnly source target fstype mkfsOptions mountOptions = do {
     r \<leftarrow> mnt_GetDiskFormat env source;
     case r of
       None \<Rightarrow> State_Monad.return (Inl DiskFormatFailed)
     | Some existingFormat \<Rightarrow>
         if existingFormat = [] then FormatNewDisk env readOnly source fstype target mkfsOptions mountOptions
         else if fstype = [] \<or> fstype = existingFormat then State_Monad.return (Inl MountFailed)
         else if existingFormat = unknown_partitions then do {
           pt \<leftarrow> GetDiskFStypePTtype env source;
           if pt = Some ([], ''atari'')
           then FormatNewDisk env readOnly source fstype target mkfsOptions mountOptions
           else State_Monad.return (Inl (UnexpectedFormat existingFormat))
         }
         else State_Monad.return (Inl (UnexpectedFormat existingFormat))
   }"

definition FormatAndMount ::
  "'w node_env \<Rightarrow> string \<Rightarrow> string \<Rightarrow> string \<Rightarrow> string list \<Rightarrow> string list \<Rightarrow> bool \<Rightarrow>
   ('w, mount_error + unit) state" where
  "FormatAndMount env source target fstype mkfsOptions mountOptions0 omitFsCheck = do {
     let readOnly = (''ro'' \<in> set mountOptions0);
     let mountOptions = (if mountOptions0 = [] then [''defaults''] else mountOptions0);
     checked \<leftarrow> (if \<not> readOnly \<and> \<not> omitFsCheck then run_fsck env source else State_Monad.return True);
     if \<not> checked then State_Monad.return (Inl FsckUncorrected)
     else do {
       ok \<leftarrow> mnt_Mount env source target fstype mountOptions;
       if ok then State_Monad.return (Inr ())
       else mount_failed env readOnly source target fstype mkfsOptions mountOptions
     }
   }"

section \<open>Logging the operations on a node\<close>

datatype node_event =
    nv_Mount string string string "string list" bool
  | nv_Exec string "string list" "exec_error option \<times> string"
  | nv_OsExec string "string list" "exec_error option \<times> string"
  | nv_GetDiskFormat string "string option"
  | nv_IsMountPoint string "os_error + bool"
  | nv_IsLikelyNotMountPoint string "os_error + bool"
  | nv_Cleanup string bool bool
  | nv_NeedResize string string "bool option"
  | nv_Resize string string "bool option"
  | nv_Stat string "os_error + file_mode"
  | nv_Mkdir string bool
  | nv_CreateFile string bool
  | nv_ReadFile string "string option"
  | nv_Statfs string "statfs option"

definition traced_env :: "'w node_env \<Rightarrow> ('w \<times> node_event list) node_env" where
  "traced_env env =
     \<lparr>mnt_Mount = (\<lambda>s t f opt. logged (nv_Mount s t f opt) (mnt_Mount env s t f opt)),
      mnt_GetDiskFormat = (\<lambda>d. logged (nv_GetDiskFormat d) (mnt_GetDiskFormat env d)),
      mnt_IsMountPoint = (\<lambda>p. logged (nv_IsMountPoint p) (mnt_IsMountPoint env p)),
      mnt_IsLikelyNotMountPoint = (\<lambda>p. logged (nv_IsLikelyNotMountPoint p) (mnt_IsLikelyNotMountPoint env p)),
      mnt_CleanupMountPoint = (\<lambda>p b. logged (nv_Cleanup p b) (mnt_CleanupMountPoint env p b)),
      mnt_NeedResize = (\<lambda>d p. logged (nv_NeedResize d p) (mnt_NeedResize env d p)),
      mnt_Resize = (\<lambda>d p. logged (nv_Resize d p) (mnt_Resize env d p)),
      mnt_Exec = (\<lambda>c a. logged (nv_Exec c a) (mnt_Exec env c a)),
      os_Exec = (\<lambda>c a. logged (nv_OsExec c a) (os_Exec env c a)),
      os_Stat = (\<lambda>p. logged (nv_Stat p) (os_Stat env p)),
      os_MkdirAll = (\<lambda>p. logged (nv_Mkdir p) (os_MkdirAll env p)),
      os_CreateFile = (\<lambda>p. logged (nv_CreateFile p) (os_CreateFile env p)),
      os_ReadFile = (\<lambda>p. logged (nv_ReadFile p) (os_ReadFile env p)),
      unix_Statfs = (\<lambda>p. logged (nv_Statfs p) (unix_Statfs env p))\<rparr>"

lemma traced_env_simps [simp]:
  "mnt_Mount (traced_env env) s t f opt = logged (nv_Mount s t f opt) (mnt_Mount env s t f opt)"
  "mnt_GetDiskFormat (traced_env env) d = logged (nv_GetDiskFormat d) (mnt_GetDiskFormat env d)"
  "mnt_IsMountPoint (traced_env env) p = logged (nv_IsMountPoint p) (mnt_IsMountPoint env p)"
  "mnt_IsLikelyNotMountPoint (traced_env env) p =
     logged (nv_IsLikelyNotMountPoint p) (mnt_IsLikelyNotMountPoint env p)"
  "mnt_CleanupMountPoint (traced_env env) p b = logged (nv_Cleanup p b) (mnt_CleanupMountPoint env p b)"
  "mnt_NeedResize (traced_env env) d p = logged (nv_NeedResize d p) (mnt_NeedResize env d p)"
  "mnt_Resize (traced_env env) d p = logged (nv_Resize d p) (mnt_Resize env d p)"
  "mnt_Exec (traced_env env) c a = logged (nv_Exec c a) (mnt_Exec env c a)"
  "os_Exec (traced_env env) c a = logged (nv_OsExec c a) (os_Exec env c a)"
  "os_Stat (traced_env env) p = logged (nv_Stat p) (os_Stat env p)"
  "os_MkdirAll (traced_env env) p = logged (nv_Mkdir p) (os_MkdirAll env p)"
  "os_CreateFile (traced_env env) p = logged (nv_CreateFile p) (os_CreateFile env p)"
  "os_ReadFile (traced_env env) p = logged (nv_ReadFile p) (os_ReadFile env p)"
  "unix_Statfs (traced_env env) p = logged (nv_Statfs p) (unix_Statfs env p)"
  by (simp_all add: traced_env_def)

text \<open>Commands that create a file system.\<close>

fun is_mkfs :: "node_event \<Rightarrow> bool" where
  "is_mkfs (nv_Exec c a r) \<longleftrightarrow> strings_HasPrefix c ''mkfs.''"
| "is_mkfs _ \<longleftrightarrow> False"

abbreviation blkid_args :: "string \<Rightarrow> string list" where
  "blkid_args disk \<equiv> [''-p'', ''-s'', ''TYPE'', ''-s'', ''PTTYPE'', ''-o'', ''export'', disk]"

text \<open>The log shows that the disk is empty: no file system and no partition table was found, or
  only an empty \<open>atari\<close> one, which \<^verbatim>\<open>blkid\<close> reports for some empty disks.\<close>

definition shown_empty :: "string \<Rightarrow> node_event list \<Rightarrow> bool" where
  "shown_empty source tr \<longleftrightarrow> nv_GetDiskFormat source (Some []) \<in> set tr \<or>
     (nv_GetDiskFormat source (Some unknown_partitions) \<in> set tr \<and>
      (\<exists>out. nv_OsExec ''blkid'' (blkid_args source) (None, out) \<in> set tr \<and>
         blkid_lines (strings_Split out (CHR 0x0A)) ([], []) = Some ([], ''atari'')))"

text \<open>The command with which a file system is made on a device.\<close>

definition formats :: "string \<Rightarrow> string \<Rightarrow> string list \<Rightarrow> node_event \<Rightarrow> bool" where
  "formats source fstype mkfsOptions e \<longleftrightarrow> (\<exists>fs res. fs = (if fstype = [] then ''ext4'' else fstype) \<and>
     e = nv_Exec (''mkfs.'' @ fs) (if mkfsOptions \<noteq> [] then mkfsOptions @ [source] else mkfsDefaultArgs fs source) res)"

text \<open>No file system is made, or exactly one, with that command, not for a read-only mount, and the
  log up to it satisfies \<open>P\<close>.\<close>

definition formats_after :: "(node_event list \<Rightarrow> bool) \<Rightarrow> string \<Rightarrow> string \<Rightarrow> string list \<Rightarrow> bool \<Rightarrow> node_event list \<Rightarrow> bool" where
  "formats_after P source fstype mkfsOptions readOnly tr \<longleftrightarrow> filter is_mkfs tr = [] \<or>
     (\<not> readOnly \<and> (\<exists>pre e post. tr = pre @ e # post \<and> formats source fstype mkfsOptions e \<and>
        filter is_mkfs pre = [] \<and> filter is_mkfs post = [] \<and> P pre))"

text \<open>What must have been seen before a file system may be made.\<close>

definition may_format :: "string \<Rightarrow> node_event list \<Rightarrow> bool" where
  "may_format source pre \<longleftrightarrow> shown_empty source pre \<and> (\<exists>t f opt. nv_Mount source t f opt False \<in> set pre)"

lemma formats_is_mkfs: "formats source fstype mo e \<Longrightarrow> is_mkfs e"
  by (auto simp: formats_def strings_HasPrefix_def)

lemma formats_after_none: "filter is_mkfs tr = [] \<Longrightarrow> formats_after P source fstype mo ro tr"
  by (simp add: formats_after_def)

lemma formats_after_prefix:
  assumes "formats_after P source fstype mo ro tr" "filter is_mkfs before = []" "\<And>pre. P pre \<Longrightarrow> Q (before @ pre)"
  shows "formats_after Q source fstype mo ro (before @ tr)"
  using assms(1) unfolding formats_after_def
proof (elim disjE conjE exE)
  fix pre e post
  assume "\<not> ro" "tr = pre @ e # post" "formats source fstype mo e" "filter is_mkfs pre = []" "filter is_mkfs post = []" "P pre"
  with assms(2,3) have "before @ tr = (before @ pre) @ e # post \<and> formats source fstype mo e \<and>
      filter is_mkfs (before @ pre) = [] \<and> filter is_mkfs post = [] \<and> Q (before @ pre)" by simp
  with \<open>\<not> ro\<close> show "filter is_mkfs (before @ tr) = [] \<or> (\<not> ro \<and> (\<exists>pre e post. before @ tr = pre @ e # post \<and>
      formats source fstype mo e \<and> filter is_mkfs pre = [] \<and> filter is_mkfs post = [] \<and> Q pre))" by blast
qed (use assms(2) in simp)

lemma formats_after_suffix:
  assumes "formats_after P source fstype mo ro tr" "filter is_mkfs later = []"
  shows "formats_after P source fstype mo ro (tr @ later)"
  using assms(1) unfolding formats_after_def
proof (elim disjE conjE exE)
  fix pre e post
  assume "\<not> ro" "tr = pre @ e # post" "formats source fstype mo e" "filter is_mkfs pre = []" "filter is_mkfs post = []" "P pre"
  with assms(2) have "tr @ later = pre @ e # (post @ later) \<and> formats source fstype mo e \<and>
      filter is_mkfs pre = [] \<and> filter is_mkfs (post @ later) = [] \<and> P pre" by simp
  with \<open>\<not> ro\<close> show "filter is_mkfs (tr @ later) = [] \<or> (\<not> ro \<and> (\<exists>pre e post. tr @ later = pre @ e # post \<and>
      formats source fstype mo e \<and> filter is_mkfs pre = [] \<and> filter is_mkfs post = [] \<and> P pre))" by blast
qed (use assms(2) in simp)

section \<open>When a file system is created\<close>

lemma formats_now:
  assumes "\<not> ro" "formats source fstype mo e" "filter is_mkfs post = []"
  shows "formats_after (\<lambda>pre. pre = []) source fstype mo ro (e # post)"
  using assms unfolding formats_after_def by (intro disjI2 conjI exI [of _ "[]"] exI [of _ e] exI [of _ post]) auto

lemma logs_FormatNewDisk:
  "logs snd (\<lambda>r tr. formats_after (\<lambda>pre. pre = []) source fstype mo ro tr)
     (FormatNewDisk (traced_env env) ro source fstype target mo opts)"
  unfolding FormatNewDisk_def traced_env_simps Let_def
  by (intro logs_cases logs_call) (auto simp: formats_after_none formats_def intro!: formats_now)

lemma logs_GetDiskFStypePTtype:
  "logs snd (\<lambda>r tr. (\<exists>res. tr = [nv_OsExec ''blkid'' (blkid_args source) res] \<and>
       (r = Some ([], ''atari'') \<longrightarrow> (\<exists>out. res = (None, out) \<and>
          blkid_lines (strings_Split out (CHR 0x0A)) ([], []) = Some ([], ''atari'')))))
     (GetDiskFStypePTtype (traced_env env) source)"
  unfolding GetDiskFStypePTtype_def traced_env_simps
  by (intro logs_cases logs_call) (auto intro!: logs_return split: exec_error.split)

lemma logs_mount_failed:
  "logs snd (\<lambda>r tr. formats_after (shown_empty source) source fstype mo ro tr)
     (mount_failed (traced_env env) ro source target fstype mo opts)"
proof -
  have format: "logs snd (\<lambda>r tr. formats_after (shown_empty source) source fstype mo ro (before @ tr))
      (FormatNewDisk (traced_env env) ro source fstype target mo opts)"
    if "filter is_mkfs before = []" "shown_empty source before" for before
    by (rule logs_mono [OF logs_FormatNewDisk]) (auto intro!: formats_after_prefix simp: that)
  note new = format [of "[_]", simplified]
  note atari = format [of "[_, _]", simplified]
  show ?thesis
    unfolding mount_failed_def traced_env_simps
    by (intro logs_cases logs_call new logs_bind [OF logs_GetDiskFStypePTtype])
      (auto simp: formats_after_none shown_empty_def intro!: logs_return atari split: if_splits)
qed

lemma logs_run_fsck: "logs snd (\<lambda>r tr. \<exists>a res. tr = [nv_Exec ''fsck'' a res]) (run_fsck (traced_env env) source)"
  unfolding run_fsck_def traced_env_simps by (intro logs_cases logs_call) auto

lemma logs_FormatAndMount:
  "logs snd (\<lambda>r tr. formats_after (may_format source) source fstype mo (''ro'' \<in> set opts) tr)
     (FormatAndMount (traced_env env) source target fstype mo opts omit)"
proof -
  have step: "logs snd (\<lambda>r tr. formats_after (may_format source) source fstype mo (''ro'' \<in> set opts) (pre @ tr))
      (if \<not> checked then State_Monad.return (Inl FsckUncorrected)
       else State_Monad.bind (mnt_Mount (traced_env env) source target fstype os)
         (\<lambda>ok. if ok then State_Monad.return (Inr ())
           else mount_failed (traced_env env) (''ro'' \<in> set opts) source target fstype mo os))"
    if pre: "filter is_mkfs pre = []" for pre checked os
  proof -
    have "logs snd (\<lambda>r tr. formats_after (may_format source) source fstype mo (''ro'' \<in> set opts) (pre @ m # tr))
        (mount_failed (traced_env env) (''ro'' \<in> set opts) source target fstype mo os)"
      if m: "m = nv_Mount source target fstype os False" for m
    proof (rule logs_mono [OF logs_mount_failed])
      fix ext
      assume "formats_after (shown_empty source) source fstype mo (''ro'' \<in> set opts) ext"
      then have "formats_after (may_format source) source fstype mo (''ro'' \<in> set opts) ((pre @ [m]) @ ext)"
        by (rule formats_after_prefix) (auto simp: pre m may_format_def shown_empty_def)
      then show "formats_after (may_format source) source fstype mo (''ro'' \<in> set opts) (pre @ m # ext)" by simp
    qed
    then show ?thesis
      unfolding traced_env_simps
      using pre by (intro logs_cases logs_call) (auto simp: formats_after_none)
  qed
  show ?thesis
    unfolding FormatAndMount_def Let_def
    by (intro logs_bind [where ?ok1.0 = "\<lambda>r ext. filter is_mkfs ext = []"] logs_if logs_mono [OF logs_run_fsck] logs_return step)
      (auto simp: strings_HasPrefix_def)
qed

end
