(* ===== verification/Node.thy ===== *)
theory Node
  imports Mount Csi
begin

text \<open>
  The node server of \<^verbatim>\<open>pkg/disk/rpcserver/nodeserver.go\<close>. A handler works on \<open>'w server\<close>: the
  lock table of the node server and the node behind the environment of \<^verbatim>\<open>Mount\<close>. The cloud
  manager that the struct also holds is not used by any handler.
\<close>

record 'w NodeServer =
  ns_driver :: DiskDriver
  ns_env :: "'w node_env"
  ns_globals :: globals

record NodePublishRequest =
  np_VolumeId :: string
  np_TargetPath :: string
  np_StagingTargetPath :: string
  np_VolumeCapability :: "VolumeCapability option"
  np_Readonly :: bool

record NodeStageRequest =
  nst_VolumeId :: string
  nst_StagingTargetPath :: string
  nst_VolumeCapability :: "VolumeCapability option"

record NodeExpandRequest =
  ne_VolumeId :: string
  ne_VolumePath :: string
  ne_CapacityRange :: "CapacityRange option"
  ne_VolumeCapability :: "VolumeCapability option"

record NodeInfo =
  ni_NodeId :: string
  ni_MaxVolumesPerNode :: int64
  ni_AccessibleTopology :: segments

record VolumeUsage =
  vu_Available :: int64
  vu_Total :: int64
  vu_Used :: int64

section \<open>Helpers\<close>

definition checkfsType :: "string \<Rightarrow> bool" where
  "checkfsType fs \<longleftrightarrow> fs = ''ext4'' \<or> fs = ''xfs'' \<or> fs = ''ext3''"

text \<open>\<^verbatim>\<open>GetVolumeCapability().GetMount()\<close>\<close>

definition cap_mount :: "VolumeCapability \<Rightarrow> MountVolume option" where
  "cap_mount c = (case cap_AccessType c of AccessType_Mount m \<Rightarrow> Some m | _ \<Rightarrow> None)"

definition request_fsType :: "MountVolume option \<Rightarrow> string" where
  "request_fsType mnt = (case mnt of None \<Rightarrow> ''ext4'' | Some m \<Rightarrow> if FsType m \<noteq> [] then FsType m else ''ext4'')"

text \<open>The mount flags, once for each matching entry of the feature gates.\<close>

definition gated_flags :: "globals \<Rightarrow> MountVolume \<Rightarrow> string list" where
  "gated_flags g mnt = concat (map (\<lambda>item. if item = FEAT_MOUNTOPT_ENABLE then MountFlags mnt else []) (FeatureGates g))"

definition serial_path :: "string \<Rightarrow> string" where
  "serial_path dev = ''/sys/block/'' @ dev @ ''/device/block/'' @ dev @ ''/serial''"

text \<open>The loop over the devices; \<open>Inl ()\<close> is the error for a duplicate serial.\<close>

fun scan_devs :: "'w node_env \<Rightarrow> string \<Rightarrow> string list \<Rightarrow> string \<Rightarrow> ('w, unit + string) state" where
  "scan_devs env serial [] devpath = State_Monad.return (Inr devpath)"
| "scan_devs env serial (dev # devs) devpath =
     (if dev = [] then scan_devs env serial devs devpath
      else do {
        raw \<leftarrow> os_ReadFile env (serial_path dev);
        case raw of
          None \<Rightarrow> scan_devs env serial devs devpath
        | Some txt \<Rightarrow>
            if strings_TrimSpace txt = serial then
              (if devpath \<noteq> [] then State_Monad.return (Inl ())
               else scan_devs env serial devs (''/dev/'' @ dev))
            else scan_devs env serial devs devpath
      })"

definition getDevPathBySerial :: "'w node_env \<Rightarrow> string \<Rightarrow> ('w, string option) state" where
  "getDevPathBySerial env serial = do {
     (err, out) \<leftarrow> mnt_Exec env ''lsblk'' [''-d'', ''-o'', ''NAME'', ''-n'', ''-i''];
     case err of
       Some _ \<Rightarrow> State_Monad.return None
     | None \<Rightarrow> do {
         r \<leftarrow> scan_devs env serial (strings_Split (strings_TrimSpace out) (CHR 0x0A)) [];
         case r of
           Inl _ \<Rightarrow> State_Monad.return None
         | Inr devpath \<Rightarrow> State_Monad.return (if devpath = [] then None else Some devpath)
       }
   }"

definition getBlockSizeBytes :: "'w node_env \<Rightarrow> string \<Rightarrow> ('w, int64 option) state" where
  "getBlockSizeBytes env devicePath = do {
     (err, out) \<leftarrow> mnt_Exec env ''blockdev'' [''--getsize64'', devicePath];
     case err of
       Some _ \<Rightarrow> State_Monad.return None
     | None \<Rightarrow> State_Monad.return (strconv_ParseInt (strings_TrimSpace out))
   }"

definition isBlockDevicePath :: "'w node_env \<Rightarrow> string \<Rightarrow> ('w, bool option) state" where
  "isBlockDevicePath env volumePath = do {
     r \<leftarrow> os_Stat env volumePath;
     case r of
       Inl _ \<Rightarrow> State_Monad.return None
     | Inr mode \<Rightarrow> State_Monad.return (Some (ModeDevice mode \<and> \<not> ModeCharDevice mode))
   }"

definition createTargetMountPathIfNotExists :: "'w node_env \<Rightarrow> string \<Rightarrow> bool \<Rightarrow> ('w, bool) state" where
  "createTargetMountPathIfNotExists env mountPath isBlockMode = do {
     r \<leftarrow> os_Stat env mountPath;
     case r of
       Inr _ \<Rightarrow> State_Monad.return True
     | Inl OtherOsError \<Rightarrow> State_Monad.return False
     | Inl ErrNotExist \<Rightarrow> if isBlockMode then os_CreateFile env mountPath else os_MkdirAll env mountPath
   }"

section \<open>NodePublishVolume\<close>

text \<open>From the choice of the mount source on: create the target, skip if mounted, bind mount.\<close>

definition node_publish_mount ::
  "'w NodeServer \<Rightarrow> NodePublishRequest \<Rightarrow> VolumeCapability \<Rightarrow> string \<Rightarrow> ('w server, code + unit) state" where
  "node_publish_mount ns req cap stagePath =
     (let targetPath = np_TargetPath req; isBlockMode = (cap_AccessType cap = AccessType_Block);
          mnt = cap_mount cap; fstype = request_fsType mnt in
      if \<not> checkfsType fstype then State_Monad.return (Inl InvalidArgument)
      else do {
        created \<leftarrow> on_world (createTargetMountPathIfNotExists (ns_env ns) targetPath isBlockMode);
        if \<not> created then State_Monad.return (Inl Internal)
        else do {
          alreadyMounted \<leftarrow>
            (if isBlockMode then on_world (mnt_IsMountPoint (ns_env ns) targetPath)
             else do {
               notMnt \<leftarrow> on_world (mnt_IsLikelyNotMountPoint (ns_env ns) targetPath);
               State_Monad.return (map_sum id Not notMnt)
             });
          case alreadyMounted of
            Inl _ \<Rightarrow> State_Monad.return (Inl Internal)
          | Inr mounted \<Rightarrow>
              if mounted then State_Monad.return (Inr ())
              else do {
                let options = [''bind''] @ (if np_Readonly req then [''ro''] else []) @
                  (case mnt of
                     None \<Rightarrow> []
                   | Some m \<Rightarrow> if isBlockMode then [] else gated_flags (ns_globals ns) m);
                ok \<leftarrow> on_world (mnt_Mount (ns_env ns) stagePath targetPath fstype options);
                State_Monad.return (if ok then Inr () else Inl Internal)
              }
        }
      })"

definition node_publish_locked ::
  "'w NodeServer \<Rightarrow> NodePublishRequest \<Rightarrow> VolumeCapability \<Rightarrow> string \<Rightarrow> ('w server, code + unit) state" where
  "node_publish_locked ns req cap serial =
     (if cap_AccessType cap = AccessType_Block then do {
        devicePath \<leftarrow> on_world (getDevPathBySerial (ns_env ns) serial);
        case devicePath of
          None \<Rightarrow> State_Monad.return (Inl NotFound)
        | Some dev \<Rightarrow> node_publish_mount ns req cap dev
      }
      else node_publish_mount ns req cap (np_StagingTargetPath req))"

definition NodePublishVolume :: "'w NodeServer \<Rightarrow> NodePublishRequest \<Rightarrow> ('w server, code + unit) state" where
  "NodePublishVolume ns req =
     (if np_VolumeId req = [] then State_Monad.return (Inl InvalidArgument)
      else if np_TargetPath req = [] then State_Monad.return (Inl InvalidArgument)
      else case np_VolumeCapability req of
        None \<Rightarrow> State_Monad.return (Inl InvalidArgument)
      | Some cap \<Rightarrow>
          if \<not> ValidateVolumeCapability (ns_driver ns) cap then State_Monad.return (Inl FailedPrecondition)
          else if np_StagingTargetPath req = [] then State_Monad.return (Inl FailedPrecondition)
          else (case ParseCsiVolId (np_VolumeId req) of
              Inl _ \<Rightarrow> State_Monad.return (Inl NotFound)
            | Inr (volId, serial) \<Rightarrow> with_lock volId Aborted (node_publish_locked ns req cap serial)))"

section \<open>NodeUnpublishVolume and NodeUnstageVolume\<close>

text \<open>The key of the lock: the disk identifier, or the raw identifier when it cannot be parsed.\<close>

definition unmount_lock_key :: "string \<Rightarrow> string" where
  "unmount_lock_key volumeId = (case ParseCsiVolId volumeId of Inl _ \<Rightarrow> volumeId | Inr (volId, _) \<Rightarrow> volId)"

definition unmount_locked :: "'w NodeServer \<Rightarrow> string \<Rightarrow> ('w server, code + unit) state" where
  "unmount_locked ns targetPath = do {
     ok \<leftarrow> on_world (mnt_CleanupMountPoint (ns_env ns) targetPath True);
     State_Monad.return (if ok then Inr () else Inl Internal)
   }"

definition NodeUnpublishVolume :: "'w NodeServer \<Rightarrow> string \<Rightarrow> string \<Rightarrow> ('w server, code + unit) state" where
  "NodeUnpublishVolume ns volumeId targetPath =
     (if targetPath = [] then State_Monad.return (Inl InvalidArgument)
      else if volumeId = [] then State_Monad.return (Inl InvalidArgument)
      else with_lock (unmount_lock_key volumeId) Aborted (unmount_locked ns targetPath))"

definition NodeUnstageVolume :: "'w NodeServer \<Rightarrow> string \<Rightarrow> string \<Rightarrow> ('w server, code + unit) state" where
  "NodeUnstageVolume ns volumeId targetPath =
     (if \<not> ValidateNodeServiceRequest (ns_driver ns) NODE_STAGE_UNSTAGE_VOLUME
      then State_Monad.return (Inl Unimplemented)
      else if volumeId = [] then State_Monad.return (Inl InvalidArgument)
      else if targetPath = [] then State_Monad.return (Inl InvalidArgument)
      else with_lock (unmount_lock_key volumeId) Aborted (unmount_locked ns targetPath))"

section \<open>NodeStageVolume\<close>

text \<open>The device is known: format and mount it, then grow the file system if needed.\<close>

definition stage_device ::
  "'w NodeServer \<Rightarrow> MountVolume \<Rightarrow> string \<Rightarrow> string \<Rightarrow> string \<Rightarrow> ('w server, code + unit) state" where
  "stage_device ns mnt fstype devicePath targetPath = do {
     r \<leftarrow> on_world (FormatAndMount (ns_env ns) devicePath targetPath fstype [] (gated_flags (ns_globals ns) mnt) False);
     case r of
       Inl _ \<Rightarrow> State_Monad.return (Inl Internal)
     | Inr _ \<Rightarrow> do {
         needResize \<leftarrow> on_world (mnt_NeedResize (ns_env ns) devicePath targetPath);
         case needResize of
           None \<Rightarrow> State_Monad.return (Inr ())
         | Some need \<Rightarrow>
             if need then do {
               res \<leftarrow> on_world (mnt_Resize (ns_env ns) devicePath targetPath);
               case res of
                 None \<Rightarrow> State_Monad.return (Inl Internal)
               | Some _ \<Rightarrow> State_Monad.return (Inr ())
             }
             else State_Monad.return (Inr ())
       }
   }"

text \<open>Whether the staging path still has to be mounted; it is created when it does not exist.\<close>

definition stage_path_free :: "'w node_env \<Rightarrow> string \<Rightarrow> ('w, bool option) state" where
  "stage_path_free env targetPath = do {
     r \<leftarrow> mnt_IsLikelyNotMountPoint env targetPath;
     case r of
       Inr notMnt \<Rightarrow> State_Monad.return (Some notMnt)
     | Inl ErrNotExist \<Rightarrow> do {
         ok \<leftarrow> os_MkdirAll env targetPath;
         State_Monad.return (if ok then Some True else None)
       }
     | Inl OtherOsError \<Rightarrow> State_Monad.return None
   }"

definition stage_locked ::
  "'w NodeServer \<Rightarrow> VolumeCapability \<Rightarrow> string \<Rightarrow> string \<Rightarrow> ('w server, code + unit) state" where
  "stage_locked ns cap serial targetPath =
     (case cap_mount cap of
        None \<Rightarrow> State_Monad.return (Inl InvalidArgument)
      | Some mnt \<Rightarrow>
          (let fstype = request_fsType (Some mnt) in
           if \<not> checkfsType fstype then State_Monad.return (Inl InvalidArgument)
           else do {
             free \<leftarrow> on_world (stage_path_free (ns_env ns) targetPath);
             case free of
               None \<Rightarrow> State_Monad.return (Inl Internal)
             | Some notMnt \<Rightarrow>
                 if \<not> notMnt then State_Monad.return (Inr ())
                 else do {
                   devicePath \<leftarrow> on_world (getDevPathBySerial (ns_env ns) serial);
                   case devicePath of
                     None \<Rightarrow> State_Monad.return (Inl NotFound)
                   | Some dev \<Rightarrow> stage_device ns mnt fstype dev targetPath
                 }
           }))"

definition NodeStageVolume :: "'w NodeServer \<Rightarrow> NodeStageRequest \<Rightarrow> ('w server, code + unit) state" where
  "NodeStageVolume ns req =
     (if \<not> ValidateNodeServiceRequest (ns_driver ns) NODE_STAGE_UNSTAGE_VOLUME
      then State_Monad.return (Inl Unimplemented)
      else if nst_VolumeId req = [] then State_Monad.return (Inl InvalidArgument)
      else if nst_StagingTargetPath req = [] then State_Monad.return (Inl InvalidArgument)
      else case nst_VolumeCapability req of
        None \<Rightarrow> State_Monad.return (Inl InvalidArgument)
      | Some cap \<Rightarrow>
          (case ParseCsiVolId (nst_VolumeId req) of
             Inl _ \<Rightarrow> State_Monad.return (Inl NotFound)
           | Inr (volId, serial) \<Rightarrow>
               if cap_AccessType cap = AccessType_Block then State_Monad.return (Inr ())
               else with_lock volId Aborted (stage_locked ns cap serial (nst_StagingTargetPath req))))"

section \<open>NodeGetInfo, NodeGetCapabilities\<close>

definition NodeGetInfo :: "'w NodeServer \<Rightarrow> code + NodeInfo" where
  "NodeGetInfo ns =
     (let vminfo = NewZecVm\<lparr>ZecVm_Type := BasicVmType, ZecVm_Zone := drv_zoneId (ns_driver ns)\<rparr> in
      case VmTypeName (ZecVm_Type vminfo) of
        None \<Rightarrow> Inl InvalidArgument
      | Some vmType \<Rightarrow> Inr
          \<lparr>ni_NodeId = drv_nodeId (ns_driver ns), ni_MaxVolumesPerNode = maxVolume (ns_driver ns),
           ni_AccessibleTopology = [(GetTopologyVmTypeKey (ns_driver ns), vmType),
                                    (GetTopologyZoneKey (ns_driver ns), ZecVm_Zone vminfo)]\<rparr>)"

definition NodeGetCapabilities :: "'w NodeServer \<Rightarrow> NodeServiceCapability list" where
  "NodeGetCapabilities ns = nodeCap (ns_driver ns)"

section \<open>NodeExpandVolume\<close>

definition node_expand_locked ::
  "'w NodeServer \<Rightarrow> string \<Rightarrow> string \<Rightarrow> int64 \<Rightarrow> ('w server, code + int64) state" where
  "node_expand_locked ns serial volPath reqSizeBytes = do {
     devicePath \<leftarrow> on_world (getDevPathBySerial (ns_env ns) serial);
     case devicePath of
       None \<Rightarrow> State_Monad.return (Inl NotFound)
     | Some dev \<Rightarrow> do {
         ok \<leftarrow> on_world (mnt_Resize (ns_env ns) dev volPath);
         if ok \<noteq> Some True then State_Monad.return (Inl Internal)
         else do {
           blk \<leftarrow> on_world (getBlockSizeBytes (ns_env ns) dev);
           case blk of
             None \<Rightarrow> State_Monad.return (Inl Internal)
           | Some blkSizeBytes \<Rightarrow>
               if blkSizeBytes < reqSizeBytes then State_Monad.return (Inl Internal)
               else State_Monad.return (Inr blkSizeBytes)
         }
       }
   }"

text \<open>The result is the capacity of the response; a block volume is answered with 0 (unset).\<close>

definition NodeExpandVolume :: "'w NodeServer \<Rightarrow> NodeExpandRequest \<Rightarrow> ('w server, code + int64) state" where
  "NodeExpandVolume ns req =
     (if ne_VolumeId req = [] then State_Monad.return (Inl InvalidArgument)
      else if ne_VolumePath req = [] then State_Monad.return (Inl InvalidArgument)
      else do {
        isBlock \<leftarrow> (case ne_VolumeCapability req of
            Some cap \<Rightarrow> State_Monad.return (Some (cap_AccessType cap = AccessType_Block))
          | None \<Rightarrow> on_world (isBlockDevicePath (ns_env ns) (ne_VolumePath req)));
        case isBlock of
          None \<Rightarrow> State_Monad.return (Inl NotFound)
        | Some isBlockMode \<Rightarrow>
            if isBlockMode then State_Monad.return (Inr 0)
            else (case GetRequestSizeBytes (ne_CapacityRange req) of
                Inl _ \<Rightarrow> State_Monad.return (Inl OutOfRange)
              | Inr reqSizeBytes \<Rightarrow>
                  (case ParseCsiVolId (ne_VolumeId req) of
                     Inl _ \<Rightarrow> State_Monad.return (Inl NotFound)
                   | Inr (volId, serial) \<Rightarrow>
                       with_lock volId Aborted (node_expand_locked ns serial (ne_VolumePath req) reqSizeBytes)))
      })"

section \<open>NodeGetVolumeStats\<close>

text \<open>\<open>uint64\<close> products converted to \<open>int64\<close>.\<close>

definition stat_bytes :: "64 word \<Rightarrow> 64 word \<Rightarrow> int64" where
  "stat_bytes blocks bsize = sint (blocks * bsize)"

definition NodeGetVolumeStats :: "'w NodeServer \<Rightarrow> string \<Rightarrow> string \<Rightarrow> ('w server, code + VolumeUsage) state" where
  "NodeGetVolumeStats ns volumeId volumePath =
     (if volumeId = [] then State_Monad.return (Inl InvalidArgument)
      else if volumePath = [] then State_Monad.return (Inl InvalidArgument)
      else do {
        isBlock \<leftarrow> on_world (isBlockDevicePath (ns_env ns) volumePath);
        case isBlock of
          None \<Rightarrow> State_Monad.return (Inl NotFound)
        | Some isBlockMode \<Rightarrow>
            if isBlockMode then do {
              blk \<leftarrow> on_world (getBlockSizeBytes (ns_env ns) volumePath);
              case blk of
                None \<Rightarrow> State_Monad.return (Inl Internal)
              | Some blockSize \<Rightarrow> State_Monad.return (Inr \<lparr>vu_Available = 0, vu_Total = blockSize, vu_Used = 0\<rparr>)
            }
            else do {
              st \<leftarrow> on_world (unix_Statfs (ns_env ns) volumePath);
              case st of
                None \<Rightarrow> State_Monad.return (Inl Internal)
              | Some stat \<Rightarrow>
                  (let totalB = stat_bytes (Blocks stat) (Bsize stat);
                       freeB = stat_bytes (Bfree stat) (Bsize stat);
                       availB = stat_bytes (Bavail stat) (Bsize stat)
                   in State_Monad.return (Inr \<lparr>vu_Available = availB, vu_Total = totalB,
                        vu_Used = wrap64 (totalB - freeB)\<rparr>))
            }
      })"

end
