(* ===== verification/Server.thy ===== *)
theory Server
  imports Controller Node
begin

text \<open>
  The identity server (\<^verbatim>\<open>identityserver.go\<close>), the choice of the services a process registers
  (\<^verbatim>\<open>run.go\<close>) and the gRPC server around them (\<^verbatim>\<open>server.go\<close>). The gRPC transport itself is
  not part of the repository; what is modelled of it is which services are registered, on which
  address it listens, and the life cycle that \<open>Start\<close>, \<open>Wait\<close>, \<open>Stop\<close>, \<open>ForceStop\<close> and \<open>serve\<close> drive.
\<close>

section \<open>identityserver.go\<close>

record 'w IdentityServer =
  is_driver :: DiskDriver
  is_cloud :: "'w CloudManager"

definition NewIdentityServer :: "DiskDriver \<Rightarrow> 'w CloudManager \<Rightarrow> 'w IdentityServer" where
  "NewIdentityServer d c = \<lparr>is_driver = d, is_cloud = c\<rparr>"

text \<open>The answer is the field \<open>Ready\<close>; the call itself never fails.\<close>

definition Probe :: "'w IdentityServer \<Rightarrow> ('w, code + bool) state" where
  "Probe is =
     (if \<not> cm_IsController (is_cloud is) then State_Monad.return (Inr True)
      else do {
        zones \<leftarrow> cm_GetZoneList (is_cloud is);
        case zones of
          Inl _ \<Rightarrow> State_Monad.return (Inr False)
        | Inr _ \<Rightarrow> State_Monad.return (Inr True)
      })"

definition GetPluginCapabilities :: "'w IdentityServer \<Rightarrow> PluginCapability list" where
  "GetPluginCapabilities is = pluginCap (is_driver is)"

definition GetPluginInfo :: "'w IdentityServer \<Rightarrow> code + string \<times> string" where
  "GetPluginInfo is =
     (if drv_name (is_driver is) = [] then Inl InvalidArgument
      else if drv_version (is_driver is) = [] then Inl InvalidArgument
      else Inr (drv_name (is_driver is), drv_version (is_driver is)))"

section \<open>run.go\<close>

record 'w Servers =
  srv_Identity :: "'w IdentityServer option"
  srv_Controller :: "'w ControllerServer option"
  srv_Node :: "'w NodeServer option"

definition NewControllerServer :: "globals \<Rightarrow> DiskDriver \<Rightarrow> 'w CloudManager \<Rightarrow> 'w ControllerServer" where
  "NewControllerServer g d c = \<lparr>cs_driver = d, cs_cloud = c, cs_globals = g\<rparr>"

definition NewNodeServer :: "globals \<Rightarrow> DiskDriver \<Rightarrow> 'w node_env \<Rightarrow> 'w NodeServer" where
  "NewNodeServer g d mounter = \<lparr>ns_driver = d, ns_env = mounter, ns_globals = g\<rparr>"

text \<open>The servers that \<open>Run\<close> builds before it starts the gRPC server with them.\<close>

definition Run_servers ::
  "globals \<Rightarrow> DiskDriver \<Rightarrow> 'w CloudManager \<Rightarrow> 'w node_env \<Rightarrow> string \<Rightarrow> 'w Servers" where
  "Run_servers g d c mounter driverType =
     (let servers = \<lparr>srv_Identity = Some (NewIdentityServer d c), srv_Controller = None, srv_Node = None\<rparr> in
      if driverType = ControllerDriverType then
        (let servers = servers\<lparr>srv_Controller := Some (NewControllerServer g d c)\<rparr> in
         if MixDriver g then servers\<lparr>srv_Node := Some (NewNodeServer g d mounter)\<rparr> else servers)
      else servers\<lparr>srv_Node := Some (NewNodeServer g d mounter)\<rparr>)"

section \<open>server.go\<close>

definition ParseEndpoint :: "string \<Rightarrow> (string \<times> string) option" where
  "ParseEndpoint ep =
     (if strings_HasPrefix (strings_ToLower ep) ''unix://'' \<or> strings_HasPrefix (strings_ToLower ep) ''tcp://'' then
        (case strings_SplitN2 ep ''://'' of
           [p, a] \<Rightarrow> if a \<noteq> [] then Some (p, a) else None
         | _ \<Rightarrow> None)
      else None)"

text \<open>The network and address that \<open>serve\<close> passes to \<^verbatim>\<open>net.Listen\<close>; \<open>None\<close> ends the process.\<close>

definition listen_address :: "string \<Rightarrow> (string \<times> string) option" where
  "listen_address endpoint =
     (case ParseEndpoint endpoint of
        None \<Rightarrow> None
      | Some (p, addr) \<Rightarrow> Some (p, if p = ''unix'' then ''/'' @ addr else addr))"

text \<open>The stream networks that \<^verbatim>\<open>net.Listen\<close> knows; any other name is an error.\<close>

definition net_networks :: "string set" where
  "net_networks = {''tcp'', ''tcp4'', ''tcp6'', ''unix'', ''unixpacket''}"

datatype service = IdentityService | ControllerService | NodeService

definition registered :: "'w Servers \<Rightarrow> service list" where
  "registered servers =
     (if srv_Identity servers \<noteq> None then [IdentityService] else []) @
     (if srv_Controller servers \<noteq> None then [ControllerService] else []) @
     (if srv_Node servers \<noteq> None then [NodeService] else [])"

text \<open>
  The interceptor around every call. The log is a second component of the state; \<open>strip\<close> is
  \<^verbatim>\<open>protosanitizer.StripSecrets\<close>, which removes the fields marked as secret from a message.
\<close>

datatype ('q, 'r) grpc_entry =
    GrpcCall string
  | GrpcRequest 'q
  | GrpcError code
  | GrpcResponse 'r

definition logGRPC ::
  "('q \<Rightarrow> 'q) \<Rightarrow> ('r \<Rightarrow> 'r) \<Rightarrow> string \<Rightarrow> ('q \<Rightarrow> ('s, code + 'r) state) \<Rightarrow> 'q \<Rightarrow>
   ('s \<times> ('q, 'r) grpc_entry list, code + 'r) state" where
  "logGRPC strip_req strip_resp FullMethod handler req = State (\<lambda>(s, out).
     case run_state (handler req) s of (r, s') \<Rightarrow>
       (r, (s', out @ [GrpcCall FullMethod, GrpcRequest (strip_req req),
          (case r of Inl e \<Rightarrow> GrpcError e | Inr resp \<Rightarrow> GrpcResponse (strip_resp resp))])))"

text \<open>
  The life cycle of the server. The main goroutine is at \<open>Start\<close>, at \<open>Wait\<close>, or past it;
  the goroutine of \<open>serve\<close> has not been spawned, is running, serves requests, or has returned.
  \<open>wg\<close> is the counter of the wait group. \<open>Fatal\<close> is the exit of the process by \<^verbatim>\<open>klog.Fatal\<close>.
\<close>

datatype main_pc = AtStart | AtWait | PastWait | Fatal

datatype serve_pc = NotSpawned | Spawned | Serving | Returned

record grpc_state =
  wg :: nat
  main_at :: main_pc
  serve_at :: serve_pc
  services :: "service list"

definition NewNonBlockingGRPCServer :: grpc_state where
  "NewNonBlockingGRPCServer = \<lparr>wg = 0, main_at = AtStart, serve_at = NotSpawned, services = []\<rparr>"

inductive grpc_step :: "string \<Rightarrow> 'w Servers \<Rightarrow> grpc_state \<Rightarrow> grpc_state \<Rightarrow> bool"
  for endpoint :: string and servers :: "'w Servers" where
  Start: "main_at s = AtStart \<Longrightarrow>
    grpc_step endpoint servers s (s\<lparr>wg := wg s + 1, serve_at := Spawned, main_at := AtWait\<rparr>)"
| Wait: "main_at s = AtWait \<Longrightarrow> wg s = 0 \<Longrightarrow> grpc_step endpoint servers s (s\<lparr>main_at := PastWait\<rparr>)"
| serve_listens: "main_at s = AtWait \<Longrightarrow> serve_at s = Spawned \<Longrightarrow> listen_address endpoint = Some (p, a) \<Longrightarrow> p \<in> net_networks \<Longrightarrow>
    grpc_step endpoint servers s (s\<lparr>serve_at := Serving, services := registered servers\<rparr>)"
| serve_fails: "main_at s = AtWait \<Longrightarrow> serve_at s = Spawned \<Longrightarrow> grpc_step endpoint servers s (s\<lparr>main_at := Fatal\<rparr>)"
| Stop: "main_at s = AtWait \<Longrightarrow> serve_at s = Serving \<Longrightarrow> grpc_step endpoint servers s (s\<lparr>serve_at := Returned\<rparr>)"
| ForceStop: "main_at s = AtWait \<Longrightarrow> serve_at s = Serving \<Longrightarrow> grpc_step endpoint servers s (s\<lparr>serve_at := Returned\<rparr>)"

inductive_cases grpc_stepE: "grpc_step endpoint servers s t"

inductive grpc_reachable :: "string \<Rightarrow> 'w Servers \<Rightarrow> grpc_state \<Rightarrow> bool"
  for endpoint :: string and servers :: "'w Servers" where
  init: "grpc_reachable endpoint servers NewNonBlockingGRPCServer"
| step: "grpc_reachable endpoint servers s \<Longrightarrow> grpc_step endpoint servers s t \<Longrightarrow> grpc_reachable endpoint servers t"

end
