(* ===== verification/Startup.thy ===== *)
theory Startup
  imports Server
begin

text \<open>
  The start of the process: the checks of the environment in \<^verbatim>\<open>pkg/common/common.go\<close> and \<open>main\<close>
  of \<^verbatim>\<open>cmd/main.go\<close>. A call of \<^verbatim>\<open>klog.Fatal\<close> ends the process and is an error value here. The
  file system and the commands are those of the node environment; \<open>sleep\<close> stands for
  \<^verbatim>\<open>time.Sleep\<close> and \<open>zec_NewClient\<close> for the SDK's constructor.
\<close>

section \<open>common.go: the environment\<close>

definition ZEC_PLATFORM :: string where "ZEC_PLATFORM = ''Zenlayer Elastic Compute''"

definition ZEC_SYS_VENDOR_PATH :: string where "ZEC_SYS_VENDOR_PATH = ''/sys/class/dmi/id/sys_vendor''"

definition ZEC_PRODUCT_FAMILY_PATH :: string where "ZEC_PRODUCT_FAMILY_PATH = ''/sys/class/dmi/id/product_family''"

definition ZEC_PRODUCT_SERIAL_PATH :: string where "ZEC_PRODUCT_SERIAL_PATH = ''/sys/class/dmi/id/product_serial''"

definition Version :: string where "Version = ''v1.2.0''"

definition VerifyEnv :: "'w node_env \<Rightarrow> ('w, string option) state" where
  "VerifyEnv env = do {
     r \<leftarrow> os_ReadFile env ZEC_SYS_VENDOR_PATH;
     case r of
       None \<Rightarrow> State_Monad.return None
     | Some zec_platform \<Rightarrow>
         (let platform = strings_Remove zec_platform (CHR 0x0A) in
          if platform \<noteq> ZEC_PLATFORM then State_Monad.return None
          else do {
            (err, out) \<leftarrow> os_Exec env ''blockdev'' [''-V''];
            if err \<noteq> None then State_Monad.return None
            else do {
              (err, out) \<leftarrow> os_Exec env ''lsblk'' [''-V''];
              State_Monad.return (if err \<noteq> None then None else Some platform)
            }
          })
   }"

definition GetZecEnv :: "'w node_env \<Rightarrow> ('w, (string \<times> string) option) state" where
  "GetZecEnv env = do {
     r \<leftarrow> os_ReadFile env ZEC_PRODUCT_SERIAL_PATH;
     case r of
       None \<Rightarrow> State_Monad.return None
     | Some zec_vm_id \<Rightarrow>
         (let vmid = strings_Remove zec_vm_id (CHR 0x0A) in
          if length vmid \<noteq> ZECVMID_LEN then State_Monad.return None
          else do {
            r \<leftarrow> os_ReadFile env ZEC_PRODUCT_FAMILY_PATH;
            case r of
              None \<Rightarrow> State_Monad.return None
            | Some zec_vm_zone \<Rightarrow>
                (let vm_zone = strings_Remove zec_vm_zone (CHR 0x0A) in
                 State_Monad.return (if length vm_zone = 0 then None else Some (vmid, vm_zone)))
          })
   }"

definition GetZecSecret :: "'w node_env \<Rightarrow> string \<Rightarrow> string \<Rightarrow> ('w, (string \<times> string) option) state" where
  "GetZecSecret env akpath skpath = do {
     r \<leftarrow> os_ReadFile env akpath;
     case r of
       None \<Rightarrow> State_Monad.return None
     | Some zec_ak \<Rightarrow> do {
         r \<leftarrow> os_ReadFile env skpath;
         case r of
           None \<Rightarrow> State_Monad.return None
         | Some zec_pw \<Rightarrow> State_Monad.return (Some (strings_TrimSpace zec_ak, strings_TrimSpace zec_pw))
       }
   }"

section \<open>main.go\<close>

record flags =
  fl_driverName :: string
  fl_endpoint :: string
  fl_maxVolume :: int64
  fl_nodeName :: string
  fl_secretpathAK :: string
  fl_secretpathPW :: string
  fl_driverType :: string
  fl_mixDriver :: bool
  fl_featureGates :: string
  fl_defaultZone :: string
  fl_defaultResourceGroup :: string

definition default_flags :: flags where
  "default_flags =
     \<lparr>fl_driverName = ''disk.csi.zenlayer.com'', fl_endpoint = ''unix://csi/csi.sock'', fl_maxVolume = 9,
      fl_nodeName = [], fl_secretpathAK = ''/etc/zec_secret/AccessKeyID'',
      fl_secretpathPW = ''/etc/zec_secret/AccessKeyPassword'', fl_driverType = [], fl_mixDriver = False,
      fl_featureGates = [], fl_defaultZone = [], fl_defaultResourceGroup = []\<rparr>"

definition maskSecret :: "string \<Rightarrow> string" where
  "maskSecret s = (if length s \<le> 4 then ''****'' else ''****'' @ drop (length s - 4) s)"

datatype fatal =
    MissingDriverType
  | MissingDefaults
  | UnsupportedEnv
  | NoVmIdentity
  | NoSecret
  | ClientError cloud_error
  | ProbeError cloud_error

text \<open>The loop that probes the cloud before a controller starts.\<close>

function probe_loop :: "(nat \<Rightarrow> ('w, unit) state) \<Rightarrow> 'w zecCloudManager \<Rightarrow> nat \<Rightarrow> ('w, cloud_error + unit) state" where
  "probe_loop sleep cm trycount = do {
     r \<leftarrow> Probe_cm cm;
     case r of
       Inr _ \<Rightarrow> State_Monad.return (Inr ())
     | Inl err \<Rightarrow> do {
         sleep 3;
         if trycount + 1 > 5 then State_Monad.return (Inl err) else probe_loop sleep cm (trycount + 1)
       }
   }"
  by pat_completeness auto
termination by (relation "measure (\<lambda>(_, _, n). 6 - n)") auto

declare probe_loop.simps [simp del]

text \<open>The package variables that \<open>main\<close> sets; \<open>None\<close> is the exit when only one default is given.\<close>

definition main_globals :: "flags \<Rightarrow> globals option" where
  "main_globals fl =
     (let g = \<lparr>FeatureGates = (if fl_featureGates fl \<noteq> [] then strings_Split (fl_featureGates fl) (CHR '','') else []),
               DefaultZone = fl_defaultZone fl, DefaultResourceGroup = fl_defaultResourceGroup fl,
               MixDriver = fl_mixDriver fl\<rparr> in
      if DefaultZone g \<noteq> [] then (if DefaultResourceGroup g = [] then None else Some g)
      else (if DefaultResourceGroup g \<noteq> [] then None else Some g))"

definition main_driver :: "flags \<Rightarrow> string \<Rightarrow> string \<Rightarrow> DiskDriver" where
  "main_driver fl zec_vm_id zec_vm_zone =
     InitDiskDriver (Some
       \<lparr>in_Name = fl_driverName fl, in_Version = Version, in_NodeId = zec_vm_id, in_ZoneId = zec_vm_zone,
        in_MaxVolume = fl_maxVolume fl, in_VolumeCap = DefaultVolumeAccessModeType,
        in_ControllerCap = DefaultControllerServiceCapability, in_NodeCap = DefaultNodeServiceCapability,
        in_PluginCap = DefaultPluginCapability\<rparr>) GetDiskDriver"

text \<open>From the cloud manager on: probe, then build the driver and the servers that \<open>Run\<close> starts.\<close>

definition main_run ::
  "(nat \<Rightarrow> ('w, unit) state) \<Rightarrow> 'w node_env \<Rightarrow> flags \<Rightarrow> globals \<Rightarrow> string \<Rightarrow> string \<Rightarrow> 'w zecCloudManager \<Rightarrow>
   ('w, fatal + 'w Servers) state" where
  "main_run sleep env fl g zec_vm_id zec_vm_zone cm = do {
     probed \<leftarrow> (if fl_driverType fl = ControllerDriverType then probe_loop sleep cm 0 else State_Monad.return (Inr ()));
     case probed of
       Inl err \<Rightarrow> State_Monad.return (Inl (ProbeError err))
     | Inr _ \<Rightarrow> State_Monad.return (Inr
         (Run_servers g (main_driver fl zec_vm_id zec_vm_zone) (zec_CloudManager cm) env (fl_driverType fl)))
   }"

definition main ::
  "(string \<Rightarrow> string \<Rightarrow> sdk_error + 'w zec_client option) \<Rightarrow> (nat \<Rightarrow> nat \<Rightarrow> 'w \<Rightarrow> nat) \<Rightarrow> (nat \<Rightarrow> ('w, unit) state) \<Rightarrow>
   'w node_env \<Rightarrow> flags \<Rightarrow> ('w, fatal + 'w Servers) state" where
  "main zec_NewClient ticks sleep env fl =
     (if fl_driverType fl \<noteq> NodeDriverType \<and> fl_driverType fl \<noteq> ControllerDriverType
      then State_Monad.return (Inl MissingDriverType)
      else case main_globals fl of
        None \<Rightarrow> State_Monad.return (Inl MissingDefaults)
      | Some g \<Rightarrow> do {
          platform \<leftarrow> VerifyEnv env;
          if platform = None then State_Monad.return (Inl UnsupportedEnv)
          else do {
            vm \<leftarrow> GetZecEnv env;
            case vm of
              None \<Rightarrow> State_Monad.return (Inl NoVmIdentity)
            | Some (zec_vm_id, zec_vm_zone) \<Rightarrow> do {
                secret \<leftarrow> (if fl_driverType fl = ControllerDriverType
                  then GetZecSecret env (fl_secretpathAK fl) (fl_secretpathPW fl)
                  else State_Monad.return (Some ([], [])));
                case secret of
                  None \<Rightarrow> State_Monad.return (Inl NoSecret)
                | Some (ak, pw) \<Rightarrow>
                    (case NewZecCloudManager zec_NewClient ticks ak pw (fl_driverType fl) of
                       Inl e \<Rightarrow> State_Monad.return (Inl (ClientError e))
                     | Inr cm \<Rightarrow> main_run sleep env fl g zec_vm_id zec_vm_zone cm)
              }
          }
        })"

end
