(* ===== verification/NodeProofs.thy ===== *)
theory NodeProofs
  imports Node
begin

text \<open>
  What the node server guarantees for every node environment. As for the controller,
  \<open>traced_node ns\<close> is the server on an environment that logs its operations.
\<close>

section \<open>Locks\<close>

lemmas node_handler_defs =
  NodePublishVolume_def node_publish_locked_def node_publish_mount_def NodeUnpublishVolume_def NodeUnstageVolume_def
  unmount_locked_def
  NodeStageVolume_def stage_locked_def stage_device_def NodeExpandVolume_def node_expand_locked_def
  NodeGetVolumeStats_def

lemma keeps_NodePublishVolume: "keeps srv_locks (NodePublishVolume ns req)"
  unfolding node_handler_defs Let_def by (intro keeps_intros)

lemma keeps_NodeUnpublishVolume: "keeps srv_locks (NodeUnpublishVolume ns i p)"
  unfolding node_handler_defs by (intro keeps_intros)

lemma keeps_NodeUnstageVolume: "keeps srv_locks (NodeUnstageVolume ns i p)"
  unfolding node_handler_defs by (intro keeps_intros)

lemma keeps_NodeStageVolume: "keeps srv_locks (NodeStageVolume ns sreq)"
  unfolding node_handler_defs Let_def by (intro keeps_intros)

lemma keeps_NodeExpandVolume: "keeps srv_locks (NodeExpandVolume ns ereq)"
  unfolding node_handler_defs by (intro keeps_intros)

section \<open>Finding the device\<close>

text \<open>A world in which reading files has no effect and \<open>f\<close> gives their contents.\<close>

definition reads_files :: "'w node_env \<Rightarrow> (string \<Rightarrow> string option) \<Rightarrow> 'w \<Rightarrow> bool" where
  "reads_files env f w \<longleftrightarrow> (\<forall>p. run_state (os_ReadFile env p) w = (f p, w))"

definition has_serial :: "(string \<Rightarrow> string option) \<Rightarrow> string \<Rightarrow> string \<Rightarrow> bool" where
  "has_serial f serial dev \<longleftrightarrow> dev \<noteq> [] \<and> map_option strings_TrimSpace (f (serial_path dev)) = Some serial"

lemma scan_devs_found:
  assumes "reads_files env f w" "devpath \<noteq> []"
  shows "run_state (scan_devs env serial devs devpath) w =
    ((if filter (has_serial f serial) devs = [] then Inr devpath else Inl ()), w)"
  using assms(2)
proof (induction devs)
  case (Cons dev devs)
  have "run_state (os_ReadFile env (serial_path dev)) w = (f (serial_path dev), w)"
    using assms(1) by (simp add: reads_files_def)
  then show ?case using Cons by (cases "f (serial_path dev)") (auto simp: has_serial_def)
qed simp

lemma scan_devs_result:
  assumes "reads_files env f w"
  shows "run_state (scan_devs env serial devs []) w =
    ((case filter (has_serial f serial) devs of [] \<Rightarrow> Inr [] | [d] \<Rightarrow> Inr (''/dev/'' @ d) | _ \<Rightarrow> Inl ()), w)"
proof (induction devs)
  case (Cons dev devs)
  have read: "run_state (os_ReadFile env (serial_path dev)) w = (f (serial_path dev), w)"
    using assms by (simp add: reads_files_def)
  show ?case
  proof (cases "has_serial f serial dev")
    case True
    then obtain content where "dev \<noteq> []" "f (serial_path dev) = Some content" "strings_TrimSpace content = serial"
      by (auto simp: has_serial_def)
    then have "run_state (scan_devs env serial (dev # devs) []) w = run_state (scan_devs env serial devs (''/dev/'' @ dev)) w"
      using read by simp
    also have "\<dots> = ((if filter (has_serial f serial) devs = [] then Inr (''/dev/'' @ dev) else Inl ()), w)"
      by (rule scan_devs_found [OF assms]) simp
    finally show ?thesis using True by (simp split: list.split)
  next
    case False
    then have "run_state (scan_devs env serial (dev # devs) []) w = run_state (scan_devs env serial devs []) w"
      using read by (cases "f (serial_path dev)") (auto simp: has_serial_def)
    with Cons False show ?thesis by simp
  qed
qed simp

section \<open>Logs\<close>

definition traced_node :: "'w NodeServer \<Rightarrow> ('w \<times> node_event list) NodeServer" where
  "traced_node ns = \<lparr>ns_driver = ns_driver ns, ns_env = traced_env (ns_env ns), ns_globals = ns_globals ns\<rparr>"

lemma traced_node_simps [simp]:
  "ns_driver (traced_node ns) = ns_driver ns"
  "ns_env (traced_node ns) = traced_env (ns_env ns)"
  "ns_globals (traced_node ns) = ns_globals ns"
  by (simp_all add: traced_node_def)

text \<open>Events of looking up a device: running \<^verbatim>\<open>lsblk\<close> and reading serial files.\<close>

fun is_lookup :: "node_event \<Rightarrow> bool" where
  "is_lookup (nv_Exec c a r) \<longleftrightarrow> c = ''lsblk''"
| "is_lookup (nv_ReadFile p r) \<longleftrightarrow> True"
| "is_lookup _ \<longleftrightarrow> False"

lemma logs_scan_devs: "logs snd (\<lambda>r tr. list_all is_lookup tr) (scan_devs (traced_env env) serial devs devpath)"
proof (induction devs arbitrary: devpath)
  case Nil
  then show ?case by (simp add: logs_return)
next
  case (Cons dev devs)
  then show ?case
    unfolding scan_devs.simps traced_env_simps
    by (intro logs_cases logs_call) (auto intro: logs_mono)
qed

text \<open>A serial file with this serial was read for the device.\<close>

definition serial_read :: "string \<Rightarrow> string \<Rightarrow> node_event list \<Rightarrow> bool" where
  "serial_read serial dev tr \<longleftrightarrow> (\<exists>d txt. dev = ''/dev/'' @ d \<and> nv_ReadFile (serial_path d) (Some txt) \<in> set tr \<and>
     strings_TrimSpace txt = serial)"

lemma serial_read_append: "serial_read serial dev pre \<Longrightarrow> serial_read serial dev (pre @ tr)"
  unfolding serial_read_def set_append by blast

lemma logs_scan_devs_serial:
  "logs snd (\<lambda>r tr. \<forall>p. r = Inr p \<longrightarrow> p = devpath \<or> serial_read serial p tr)
     (scan_devs (traced_env env) serial devs devpath)"
proof (induction devs arbitrary: devpath)
  case Nil
  then show ?case by (simp add: logs_return)
next
  case (Cons dev devs)
  show ?case
    unfolding scan_devs.simps traced_env_simps
    by (intro logs_cases logs_call logs_mono [OF Cons.IH]) (auto simp: serial_read_def)
qed

lemma logs_getDevPathBySerial:
  "logs snd (\<lambda>r tr. list_all is_lookup tr) (getDevPathBySerial (traced_env env) serial)"
  unfolding getDevPathBySerial_def traced_env_simps
  by (intro logs_cases logs_call logs_bind [OF logs_scan_devs]) auto

lemma logs_getDevPathBySerial_serial:
  "logs snd (\<lambda>r tr. \<forall>p. r = Some p \<longrightarrow> serial_read serial p tr) (getDevPathBySerial (traced_env env) serial)"
  unfolding getDevPathBySerial_def traced_env_simps
  by (intro logs_cases logs_call logs_bind [OF logs_scan_devs_serial]) (auto simp: serial_read_def)


section \<open>Staging\<close>

definition stage_guard :: "string \<Rightarrow> string \<Rightarrow> bool \<Rightarrow> node_event list \<Rightarrow> bool" where
  "stage_guard serial fs readOnly tr \<longleftrightarrow> filter is_mkfs tr = [] \<or>
     (\<exists>dev. formats_after (\<lambda>pre. serial_read serial dev pre \<and> may_format dev pre) dev fs [] readOnly tr)"

lemma no_mkfs_stage_guard: "filter is_mkfs tr = [] \<Longrightarrow> stage_guard serial fs ro tr"
  by (simp add: stage_guard_def)

lemma may_format_append: "may_format dev pre \<Longrightarrow> may_format dev (before @ pre)"
  by (auto simp: may_format_def shown_empty_def)

lemma lookup_no_mkfs: "list_all is_lookup tr \<Longrightarrow> filter is_mkfs tr = []"
  by (auto simp: list_all_iff filter_empty_conv strings_HasPrefix_def elim!: is_mkfs.elims)

lemma format_in_stage:
  assumes "serial_read serial dev pre" "filter is_mkfs pre = []"
    and "formats_after (may_format dev) dev fs [] ro tr" "filter is_mkfs post = []"
  shows "stage_guard serial fs ro (pre @ tr @ post)"
proof -
  have "formats_after (\<lambda>b. serial_read serial dev b \<and> may_format dev b) dev fs [] ro (pre @ tr)"
    using assms(1) by (intro formats_after_prefix [OF assms(3,2)]) (auto simp: serial_read_def intro: may_format_append)
  from formats_after_suffix [OF this assms(4)] show ?thesis by (auto simp: stage_guard_def)
qed

lemma logs_stage_path_free:
  "logs snd (\<lambda>r tr. filter is_mkfs tr = []) (stage_path_free (traced_env env) p)"
  unfolding stage_path_free_def traced_env_simps
  by (intro logs_cases logs_call) (auto intro!: logs_cases logs_call split: os_error.split)

lemma logs_stage_device:
  assumes "serial_read serial dev pre" "filter is_mkfs pre = []"
  shows "logs srv_log (\<lambda>r tr. stage_guard serial fs (''ro'' \<in> set (gated_flags (ns_globals ns) mnt)) (pre @ tr))
    (stage_device (traced_node ns) mnt fs dev target)"
proof -
  note guard = format_in_stage [OF assms]
  show ?thesis
    unfolding stage_device_def traced_node_simps
    by (rule logs_bind [OF logs_on_world [OF logs_FormatAndMount]], unfold traced_env_simps, intro logs_cases logs_on_world_call)
      (auto intro: guard guard [where post = "[]", simplified])
qed

lemma logs_stage_locked:
  "logs srv_log (\<lambda>r tr. stage_guard serial (request_fsType (cap_mount cap)) (\<forall>m. cap_mount cap = Some m \<longrightarrow> ''ro'' \<in> set (gated_flags (ns_globals ns) m)) tr)
     (stage_locked (traced_node ns) cap serial target)"
proof (cases "cap_mount cap")
  case None
  then show ?thesis by (simp add: stage_locked_def logs_return no_mkfs_stage_guard)
next
  case (Some m)
  have dev: "logs srv_log (\<lambda>r tr. stage_guard serial fs (''ro'' \<in> set (gated_flags (ns_globals ns) m)) (pre @ tr))
      (State_Monad.bind (on_world (getDevPathBySerial (traced_env (ns_env ns)) serial))
        (\<lambda>devicePath. case devicePath of None \<Rightarrow> State_Monad.return (Inl NotFound)
          | Some dev \<Rightarrow> stage_device (traced_node ns) m fs dev target))"
    if "filter is_mkfs pre = []" for pre fs
  proof (rule logs_bind [OF logs_on_world [OF logs_conj [OF logs_getDevPathBySerial logs_getDevPathBySerial_serial]]], elim conjE)
    fix r ext assume ext: "list_all is_lookup ext" "\<forall>p. r = Some p \<longrightarrow> serial_read serial p ext"
    have clean: "filter is_mkfs (pre @ ext) = []" using that lookup_no_mkfs [OF ext(1)] by simp
    have "serial_read serial p (pre @ ext)" if "r = Some p" for p
      using ext(2) that by (auto simp: serial_read_def)
    then show "logs srv_log (\<lambda>r' ext'. stage_guard serial fs (''ro'' \<in> set (gated_flags (ns_globals ns) m)) (pre @ ext @ ext'))
        (case r of None \<Rightarrow> State_Monad.return (Inl NotFound) | Some dev \<Rightarrow> stage_device (traced_node ns) m fs dev target)"
      using logs_stage_device [OF _ clean, of serial] no_mkfs_stage_guard [OF clean]
      by (intro logs_cases) auto
  qed
  show ?thesis
    unfolding stage_locked_def traced_node_simps Let_def Some option.case
    by (intro logs_cases logs_bind [OF logs_on_world [OF logs_stage_path_free]] dev)
      (auto simp: no_mkfs_stage_guard Some intro!: dev)
qed


section \<open>Publishing on the node\<close>

fun is_mount :: "node_event \<Rightarrow> bool" where
  "is_mount (nv_Mount _ _ _ _ _) = True"
| "is_mount _ = False"

lemma lookup_no_mount: "list_all is_lookup tr \<Longrightarrow> filter is_mount tr = []"
  by (auto simp: list_all_iff filter_empty_conv elim!: is_mount.elims)

text \<open>The options of the bind mount of a publish, and the read-only effect of an option list. As
  mount(8) and the comment in \<open>FormatAndMount\<close> say, the options are applied from left to right and
  the last of \<open>ro\<close>, \<open>rw\<close> and \<open>defaults\<close> (which implies \<open>rw\<close>) wins.\<close>

definition publish_flags :: "globals \<Rightarrow> VolumeCapability \<Rightarrow> string list" where
  "publish_flags g c = (case cap_mount c of None \<Rightarrow> [] | Some m \<Rightarrow> gated_flags g m)"

definition publish_options :: "globals \<Rightarrow> VolumeCapability \<Rightarrow> NodePublishRequest \<Rightarrow> string list" where
  "publish_options g c req = ''bind'' # (if np_Readonly req then [''ro''] else []) @ publish_flags g c"

definition access_options :: "string list \<Rightarrow> string list" where
  "access_options opts = filter (\<lambda>x. x = ''ro'' \<or> x = ''rw'' \<or> x = ''defaults'') opts"

definition read_only_mount :: "string list \<Rightarrow> bool" where
  "read_only_mount opts \<longleftrightarrow> access_options opts \<noteq> [] \<and> last (access_options opts) = ''ro''"

lemma read_only_publish:
  assumes "np_Readonly req"
  shows "read_only_mount (publish_options g c req) \<longleftrightarrow>
    access_options (publish_flags g c) = [] \<or> read_only_mount (publish_flags g c)"
  using assms by (auto simp: read_only_mount_def publish_options_def access_options_def)

definition bind_of :: "globals \<Rightarrow> VolumeCapability \<Rightarrow> NodePublishRequest \<Rightarrow> string \<Rightarrow> node_event \<Rightarrow> bool" where
  "bind_of g c req src e \<longleftrightarrow>
     (\<exists>fs ok. e = nv_Mount src (np_TargetPath req) fs (publish_options g c req) ok \<and> checkfsType fs)"

text \<open>The log shows that the path is a mount point.\<close>

definition seen_mounted :: "string \<Rightarrow> node_event list \<Rightarrow> bool" where
  "seen_mounted p tr \<longleftrightarrow> nv_IsMountPoint p (Inr True) \<in> set tr \<or> nv_IsLikelyNotMountPoint p (Inr False) \<in> set tr"

lemma seen_mounted_append [simp]: "seen_mounted p (xs @ ys) \<longleftrightarrow> seen_mounted p xs \<or> seen_mounted p ys"
  by (auto simp: seen_mounted_def)

lemma map_sum_Not_True [simp]: "map_sum id Not r = Inr True \<longleftrightarrow> r = Inr False"
  by (cases r) auto

definition publish_log :: "globals \<Rightarrow> VolumeCapability \<Rightarrow> NodePublishRequest \<Rightarrow> string \<Rightarrow> code + unit \<Rightarrow> node_event list \<Rightarrow> bool" where
  "publish_log g c req src r tr \<longleftrightarrow>
     filter is_mkfs tr = [] \<and> length (filter is_mount tr) \<le> 1 \<and> (\<forall>e \<in> set tr. is_mount e \<longrightarrow> bind_of g c req src e) \<and>
     (r = Inr () \<longrightarrow> seen_mounted (np_TargetPath req) tr \<or>
        (\<exists>fs opts. nv_Mount src (np_TargetPath req) fs opts True \<in> set tr))"

lemma logs_createTarget:
  "logs snd (\<lambda>r tr. filter is_mkfs tr = [] \<and> filter is_mount tr = [])
     (createTargetMountPathIfNotExists (traced_env env) p b)"
  unfolding createTargetMountPathIfNotExists_def traced_env_simps
  by (intro logs_cases logs_call) (auto intro!: logs_cases logs_logged split: os_error.split)

lemma logs_mounted:
  "logs srv_log (\<lambda>r tr. filter is_mkfs tr = [] \<and> filter is_mount tr = [] \<and> (r = Inr True \<longrightarrow> seen_mounted p tr))
     (if b then on_world (mnt_IsMountPoint (traced_env env) p)
      else State_Monad.bind (on_world (mnt_IsLikelyNotMountPoint (traced_env env) p))
        (\<lambda>notMnt. State_Monad.return (map_sum id Not notMnt)))"
  unfolding traced_env_simps
  by (intro logs_cases logs_on_world_call logs_on_world logs_logged) (auto simp: seen_mounted_def)

lemma logs_node_publish_mount:
  "logs srv_log (publish_log (ns_globals ns) cap req src) (node_publish_mount (traced_node ns) req cap src)"
proof -
  note start = logs_bind [OF logs_on_world [OF logs_createTarget]]
  note mounted = logs_bind [OF logs_mounted]
  have opts: "[''bind''] @ (if np_Readonly req then [''ro''] else []) @ (case cap_mount cap of None \<Rightarrow> []
      | Some m \<Rightarrow> if cap_AccessType cap = AccessType_Block then [] else gated_flags (ns_globals ns) m) =
      publish_options (ns_globals ns) cap req"
    by (auto simp: publish_options_def publish_flags_def cap_mount_def split: AccessType.splits option.splits)
  show ?thesis
    unfolding node_publish_mount_def traced_node_simps Let_def opts
    by (intro logs_cases start mounted)
      (auto simp: publish_log_def bind_of_def filter_empty_conv intro!: logs_on_world_call logs_return)
qed

end
