(* ===== verification/StorageClass.thy ===== *)
theory StorageClass
  imports Driver "HOL-Library.Multiset"
begin

text \<open>
  What the storage-class code of \<^verbatim>\<open>pkg/disk/driver/storageclass.go\<close> guarantees: which
  storage classes it builds, that the unspecified iteration order of Go maps does not matter,
  and which volume size it chooses for a capacity range.
\<close>

section \<open>Storage classes the driver works with\<close>

definition wf_sc :: "ZecStorageClass \<Rightarrow> bool" where
  "wf_sc sc \<longleftrightarrow> VolumeType_IsValid (diskType sc) \<and>
     minSize sc = ZEC_MIN_DISK_SIZE_BYTES \<and> maxSize sc = ZEC_MAX_DISK_SIZE_BYTES \<and>
     IsValidFileSystemType (fsType sc)"

lemma wf_sc_sizes: "wf_sc sc \<Longrightarrow> minSize sc = 20 * Gib \<and> maxSize sc = 32768 * Gib"
  by (simp add: wf_sc_def size_consts)

lemma wf_sc_default: "NewDefaultZecStorageClassFromType t = Some sc \<Longrightarrow> wf_sc sc \<and> diskType sc = t"
  by (auto simp: NewDefaultZecStorageClassFromType_def wf_sc_def VolumeType_IsValid_iff size_consts
      type_consts IsValidFileSystemType_def DefaultFileSystem_def split: if_splits)

lemma sc_build_eq:
  "sc_build g p =
     (let d = (p_zoneID p = [] \<or> p_placeGroupID p = []);
          t = (if p_volType p = -1 then DefaultVolumeType else p_volType p)
      in if d \<and> (DefaultZone g = [] \<or> DefaultResourceGroup g = []) then Inl MissingZoneOrGroup
         else if \<not> VolumeType_IsValid t then Inl (UnsupportedVolumeType (p_volType p))
         else if \<not> IsValidFileSystemType (p_fsType p) then Inl SetFsTypeError
         else Inr \<lparr>diskType = t, maxSize = ZEC_MAX_DISK_SIZE_BYTES, minSize = ZEC_MIN_DISK_SIZE_BYTES,
                   fsType = p_fsType p, zoneID = (if d then DefaultZone g else p_zoneID p),
                   placeGroupID = (if d then DefaultResourceGroup g else p_placeGroupID p),
                   burstEnable = (p_burst p = ''true'')\<rparr>)"
proof -
  have "setTypeSize ZEC_MAX_DISK_SIZE_BYTES ZEC_MIN_DISK_SIZE_BYTES sc =
      Some (sc\<lparr>maxSize := ZEC_MAX_DISK_SIZE_BYTES, minSize := ZEC_MIN_DISK_SIZE_BYTES\<rparr>)" for sc
    by (simp add: setTypeSize_def ZEC_MAX_DISK_SIZE_BYTES_def ZEC_MIN_DISK_SIZE_BYTES_def)
  then show ?thesis
    by (simp add: sc_build_def Let_def setFsType_def NewDefaultZecStorageClassFromType_def)
qed

lemma sc_build_Inr:
  assumes "sc_build g p = Inr sc"
  shows "wf_sc sc" "zoneID sc \<noteq> []" "placeGroupID sc \<noteq> []"
    "diskType sc = (if p_volType p = -1 then DefaultVolumeType else p_volType p)"
    "zoneID sc = (if p_zoneID p = [] \<or> p_placeGroupID p = [] then DefaultZone g else p_zoneID p)"
    "placeGroupID sc =
       (if p_zoneID p = [] \<or> p_placeGroupID p = [] then DefaultResourceGroup g else p_placeGroupID p)"
  using assms unfolding sc_build_eq Let_def by (auto simp: wf_sc_def split: if_splits)

section \<open>The iteration order of the parameter map\<close>

definition lkey :: "string \<times> string \<Rightarrow> string" where
  "lkey kv = strings_ToLower (fst kv)"

lemma sc_keys:
  "strings_ToLower StorageClassTypeName = ''type''"
  "strings_ToLower StorageClassZoneId = ''zoneid''"
  "strings_ToLower StorageClassPlaceGroupID = ''placegroupid''"
  "strings_ToLower StorageClassBurstEnable = ''burstenable''"
  "strings_ToLower StorageClassFsTypeName = ''fstype''"
  by code_simp+

lemma sc_param_loop_append:
  "sc_param_loop (xs @ ys) p =
     (case sc_param_loop xs p of Inl e \<Rightarrow> Inl e | Inr p' \<Rightarrow> sc_param_loop ys p')"
  by (induction xs arbitrary: p) (auto split: sum.splits)

lemma sc_param_step_Inl: "sc_param_step kv p = Inl e \<Longrightarrow> e = AtoiError"
  by (auto simp: sc_param_step_def Let_def split: prod.splits if_splits option.splits)

lemma sc_param_step_Inl_iff:
  "sc_param_step (k, v) p = Inl e \<longleftrightarrow>
     e = AtoiError \<and> strings_ToLower k = strings_ToLower StorageClassTypeName \<and>
     strconv_Atoi v = None"
  by (auto simp: sc_param_step_def Let_def split: option.splits)

text \<open>Two iterations on keys that differ in more than letter case can be swapped.\<close>

lemma sc_param_step_swap:
  assumes "lkey x \<noteq> lkey y"
  shows "sc_param_loop [x, y] p = sc_param_loop [y, x] p"
proof -
  obtain k v l u where xy: "x = (k, v)" "y = (l, u)" by (cases x, cases y)
  with assms have "strings_ToLower k \<noteq> strings_ToLower l" by (simp add: lkey_def)
  then show ?thesis
    unfolding xy sc_param_loop.simps sc_param_step_def sc_keys Let_def prod.case
    by (cases "strconv_Atoi v"; cases "strconv_Atoi u") auto
qed

lemma sc_param_loop_front:
  assumes "\<forall>y \<in> set xs. lkey x \<noteq> lkey y"
  shows "sc_param_loop (xs @ x # ys) p = sc_param_loop (x # xs @ ys) p"
  using assms
proof (induction xs arbitrary: p)
  case Nil
  then show ?case by simp
next
  case (Cons y xs)
  have swap: "sc_param_loop ([y, x] @ zs) p = sc_param_loop ([x, y] @ zs) p" for zs
    unfolding sc_param_loop_append using sc_param_step_swap [of x y p] Cons.prems by simp
  have "sc_param_loop ((y # xs) @ x # ys) p = sc_param_loop (y # x # xs @ ys) p"
    using Cons.IH Cons.prems by (simp split: sum.splits)
  also have "\<dots> = sc_param_loop (x # y # xs @ ys) p" using swap [of "xs @ ys"] by simp
  finally show ?case by simp
qed

lemma sc_param_loop_perm:
  assumes "mset xs = mset ys" "distinct (map lkey xs)"
  shows "sc_param_loop xs p = sc_param_loop ys p"
  using assms
proof (induction xs arbitrary: ys p)
  case Nil
  then show ?case by simp
next
  case (Cons x xs)
  then have "x \<in> set ys" by (metis list.set_intros(1) set_mset_mset)
  then obtain as bs where ys: "ys = as @ x # bs" by (meson split_list)
  with Cons.prems have perm: "mset xs = mset (as @ bs)" by simp
  then have "set xs = set (as @ bs)" by (metis set_mset_mset)
  with Cons.prems have "\<forall>y \<in> set as. lkey x \<noteq> lkey y" by force
  then have "sc_param_loop ys p = sc_param_loop (x # as @ bs) p"
    unfolding ys by (rule sc_param_loop_front)
  with Cons.IH [OF perm] Cons.prems show ?case by (simp split: sum.splits)
qed

section \<open>Volume sizes\<close>

text \<open>
  \<open>fits sc r n\<close>: a disk of \<open>n\<close> bytes can be created (whole GiB, within the limits of the
  cloud) and satisfies the capacity range \<open>r\<close>; a limit of 0 means no limit.
\<close>

definition fits :: "ZecStorageClass \<Rightarrow> CapacityRange \<Rightarrow> int \<Rightarrow> bool" where
  "fits sc r n \<longleftrightarrow> Gib dvd n \<and> minSize sc \<le> n \<and> n \<le> maxSize sc \<and> RequiredBytes r \<le> n \<and>
     (LimitBytes r > 0 \<longrightarrow> n \<le> LimitBytes r)"

text \<open>The largest request whose rounding up to whole GiB still is an \<open>int64\<close>.\<close>

definition no_overflow :: "CapacityRange \<Rightarrow> bool" where
  "no_overflow r \<longleftrightarrow> RequiredBytes r \<le> 8589934591 * Gib"

definition round_up :: "int \<Rightarrow> int" where
  "round_up n = (n + Gib - 1) div Gib * Gib"

lemma round_up_props:
  shows "Gib dvd round_up n" "n \<le> round_up n" "Gib dvd m \<Longrightarrow> n \<le> m \<Longrightarrow> round_up n \<le> m"
proof -
  show "Gib dvd round_up n" by (simp add: round_up_def)
  have cd: "(n + Gib - 1) div Gib = (if n mod Gib = 0 then n div Gib else n div Gib + 1)"
    by (rule ceil_div) simp
  have n: "n = n div Gib * Gib + n mod Gib" by (simp del: Gib_eq)
  have r: "0 \<le> n mod Gib" "n mod Gib < Gib" by simp_all
  show "n \<le> round_up n"
  proof (cases "n mod Gib = 0")
    case True
    with n cd show ?thesis by (simp add: round_up_def)
  next
    case False
    then have "round_up n = n div Gib * Gib + Gib" using cd by (simp add: round_up_def distrib_right)
    with n r show ?thesis by linarith
  qed
  assume m: "Gib dvd m" "n \<le> m"
  then obtain q where q: "m = q * Gib" by (metis dvdE mult.commute)
  have "(n + Gib - 1) div Gib \<le> (q * Gib + (Gib - 1)) div Gib"
    using m q by (intro zdiv_mono1) simp_all
  also have "\<dots> = q" by simp
  finally show "round_up n \<le> m" using q by (simp add: round_up_def)
qed

lemma GetRequiredVolumeSizeByte_eq:
  assumes wf: "wf_sc sc" and no: "no_overflow r" and nn: "0 \<le> RequiredBytes r" "0 \<le> LimitBytes r"
  shows "GetRequiredVolumeSizeByte sc (Some r) =
    (let n = round_up (max (RequiredBytes r) (minSize sc)) in
     if LimitBytes r > 0 \<and> RequiredBytes r > LimitBytes r then Inl RequiredAboveLimit
     else if n > maxSize sc then Inl ExceedsMaxSize
     else if LimitBytes r > 0 \<and> n > LimitBytes r then Inl ExceedsLimit else Inr n)"
proof -
  let ?q = "if RequiredBytes r < minSize sc then minSize sc else RequiredBytes r"
  have max: "max (RequiredBytes r) (minSize sc) = ?q" by simp
  have "0 < ?q" "?q \<le> 8589934591 * Gib"
    using wf_sc_sizes [OF wf] no by (simp_all add: no_overflow_def)
  then have up: "GibToByte (ByteCeilToGib ?q) = round_up ?q"
    unfolding round_up_def by (rule GibToByte_ByteCeilToGib)
  show ?thesis
    unfolding GetRequiredVolumeSizeByte_def Let_def option.case up max using nn by auto
qed

lemma fits_round_up:
  assumes "wf_sc sc" "fits sc r m"
  shows "round_up (max (RequiredBytes r) (minSize sc)) \<le> m"
  using assms by (intro round_up_props(3)) (simp_all add: fits_def)

text \<open>The size that is returned is the least one that fits.\<close>

lemma GetRequiredVolumeSizeByte_least:
  assumes "wf_sc sc" "no_overflow r" "GetRequiredVolumeSizeByte sc (Some r) = Inr n"
  shows "fits sc r n \<and> (\<forall>m. fits sc r m \<longrightarrow> n \<le> m)"
proof -
  have nn: "0 \<le> RequiredBytes r" "0 \<le> LimitBytes r"
    using assms(3) by (auto simp: GetRequiredVolumeSizeByte_def Let_def split: if_splits)
  have n: "n = round_up (max (RequiredBytes r) (minSize sc))" "n \<le> maxSize sc"
    "LimitBytes r > 0 \<longrightarrow> n \<le> LimitBytes r"
    using assms GetRequiredVolumeSizeByte_eq [OF assms(1,2) nn] by (auto simp: Let_def split: if_splits)
  have "max (RequiredBytes r) (minSize sc) \<le> n" using n round_up_props(2) by blast
  moreover have "Gib dvd n" using n round_up_props(1) by blast
  ultimately have "fits sc r n" using n by (simp add: fits_def)
  then show ?thesis using n fits_round_up [OF assms(1)] by blast
qed

lemma GetRequiredVolumeSizeByte_complete:
  assumes wf: "wf_sc sc" and no: "no_overflow r" and nn: "0 \<le> RequiredBytes r" "0 \<le> LimitBytes r"
    and m: "fits sc r m"
  shows "GetRequiredVolumeSizeByte sc (Some r) = Inr (round_up (max (RequiredBytes r) (minSize sc)))"
proof -
  have "round_up (max (RequiredBytes r) (minSize sc)) \<le> m" by (rule fits_round_up [OF wf m])
  then show ?thesis
    using m GetRequiredVolumeSizeByte_eq [OF wf no nn] by (auto simp: fits_def Let_def)
qed

lemma GetRequiredVolumeSizeByte_overflow:
  assumes wf: "wf_sc sc" and r: "wf_range r" "\<not> no_overflow r" "LimitBytes r = 0 \<or> RequiredBytes r \<le> LimitBytes r"
  shows "GetRequiredVolumeSizeByte sc (Some r) = Inr int64_min"
proof -
  have big: "8589934591 * Gib < RequiredBytes r" using r by (simp add: no_overflow_def)
  then have "GibToByte (ByteCeilToGib (RequiredBytes r)) = int64_min"
    using r by (intro GibToByte_ByteCeilToGib_overflow) (simp_all add: wf_range_def)
  moreover have "\<not> RequiredBytes r < minSize sc" using wf_sc_sizes [OF wf] big by simp
  ultimately show ?thesis
    using r big wf_sc_sizes [OF wf] by (auto simp: GetRequiredVolumeSizeByte_def Let_def int64_min_def)
qed

section \<open>Properties\<close>

text \<open>C20: \<open>GetRequiredVolumeSizeByte\<close> computes the least size that fits: for a capacity range with non-negative
  bounds whose rounding does not overflow, it returns \<open>n\<close> exactly when \<open>n\<close> fits (whole GiB, within the
  minimum and maximum disk size, at least the required bytes, at most the limit) and no smaller size
  does; so it refuses a range only when no disk size fits it.\<close>

theorem required_size_is_least_fit:
  assumes "wf_sc sc" "no_overflow r" "0 \<le> RequiredBytes r" "0 \<le> LimitBytes r"
  shows "GetRequiredVolumeSizeByte sc (Some r) = Inr n \<longleftrightarrow> fits sc r n \<and> (\<forall>m. fits sc r m \<longrightarrow> n \<le> m)"
proof
  assume "GetRequiredVolumeSizeByte sc (Some r) = Inr n"
  then show "fits sc r n \<and> (\<forall>m. fits sc r m \<longrightarrow> n \<le> m)" by (rule GetRequiredVolumeSizeByte_least [OF assms(1,2)])
next
  assume n: "fits sc r n \<and> (\<forall>m. fits sc r m \<longrightarrow> n \<le> m)"
  then obtain n' where n': "GetRequiredVolumeSizeByte sc (Some r) = Inr n'"
    using GetRequiredVolumeSizeByte_complete [OF assms] by blast
  from GetRequiredVolumeSizeByte_least [OF assms(1,2) n'] n have "n' = n" by (simp add: order_antisym)
  with n' show "GetRequiredVolumeSizeByte sc (Some r) = Inr n" by simp
qed

definition sc_example :: ZecStorageClass where
  "sc_example = \<lparr>diskType = 2, maxSize = ZEC_MAX_DISK_SIZE_BYTES, minSize = ZEC_MIN_DISK_SIZE_BYTES,
     fsType = ''ext4'', zoneID = ''asia-north-1a'', placeGroupID = ''grp'', burstEnable = False\<rparr>"

lemma wf_sc_example: "wf_sc sc_example"
  by (simp add: wf_sc_def sc_example_def VolumeType_IsValid_iff IsValidFileSystemType_def
      FileSystemExt3_def FileSystemExt4_def)

theorem required_size_is_least_fit_witness:
  "GetRequiredVolumeSizeByte sc_example (Some \<lparr>RequiredBytes = 10 * Gib + 1, LimitBytes = 0\<rparr>) = Inr (20 * Gib)
   \<and> fits sc_example \<lparr>RequiredBytes = 10 * Gib + 1, LimitBytes = 0\<rparr> (20 * Gib)"
proof -
  let ?r = "\<lparr>RequiredBytes = 10 * Gib + 1, LimitBytes = 0\<rparr>"
  have "GetRequiredVolumeSizeByte sc_example (Some ?r) = Inr (20 * Gib)" by code_simp
  moreover from this have "fits sc_example ?r (20 * Gib)"
    using required_size_is_least_fit [OF wf_sc_example, of ?r "20 * Gib"] by (simp add: no_overflow_def)
  ultimately show ?thesis by simp
qed

text \<open>C37: A request within one GiB of the largest \<open>int64\<close> is not rejected: the rounded size
  wraps around to the most negative \<open>int64\<close>, passes both upper-bound checks and is returned
  as a size.\<close>

theorem required_size_wraps:
  assumes "wf_sc sc" "wf_range r" "\<not> no_overflow r"
    "LimitBytes r = 0 \<or> RequiredBytes r \<le> LimitBytes r"
  shows "GetRequiredVolumeSizeByte sc (Some r) = Inr (- (2 ^ 63))"
  using GetRequiredVolumeSizeByte_overflow [OF assms] by (simp add: int64_min_def)

theorem required_size_wraps_witness:
  "GetRequiredVolumeSizeByte sc_example (Some \<lparr>RequiredBytes = 2 ^ 63 - 1, LimitBytes = 0\<rparr>) = Inr (- (2 ^ 63))"
  by (rule required_size_wraps [OF wf_sc_example])
    (simp_all add: wf_range_def no_overflow_def is_int64_def int64_min_def int64_max_def)

text \<open>The storage class does not depend on the iteration order of the parameter map, as
  long as no two keys differ only in letter case.\<close>

theorem storage_class_order_independent:
  assumes "mset opt = mset opt'" "distinct (map (\<lambda>kv. strings_ToLower (fst kv)) opt)"
  shows "NewZecStorageClassFromMap g opt = NewZecStorageClassFromMap g opt'"
  using sc_param_loop_perm [OF assms(1)] assms(2)
  by (simp add: NewZecStorageClassFromMap_def lkey_def [abs_def])

definition no_globals :: globals where
  "no_globals = \<lparr>FeatureGates = [], DefaultZone = [], DefaultResourceGroup = [], MixDriver = False\<rparr>"

theorem storage_class_order_independent_witness:
  "NewZecStorageClassFromMap no_globals [(''Type'', ''1''), (''zoneID'', ''z''), (''placeGroupID'', ''g'')] =
   NewZecStorageClassFromMap no_globals [(''placeGroupID'', ''g''), (''Type'', ''1''), (''zoneID'', ''z'')]"
  by (rule storage_class_order_independent) (simp, code_simp)

text \<open>C33: A storage class built from parameters has a known disk type, the size limits of the
  cloud, a supported file system, and a non-empty zone and resource group.\<close>

theorem storage_class_wf:
  assumes "NewZecStorageClassFromMap g opt = Inr sc"
  shows "wf_sc sc \<and> zoneID sc \<noteq> [] \<and> placeGroupID sc \<noteq> []"
  using assms sc_build_Inr(1,2,3) by (auto simp: NewZecStorageClassFromMap_def split: sum.splits)

theorem storage_class_wf_witness:
  "\<exists>sc. NewZecStorageClassFromMap no_globals [(''ZONEID'', ''z''), (''placegroupid'', ''g'')] = Inr sc \<and>
     wf_sc sc \<and> zoneID sc \<noteq> []"
proof -
  have "NewZecStorageClassFromMap no_globals [(''ZONEID'', ''z''), (''placegroupid'', ''g'')] =
      Inr (sc_example\<lparr>zoneID := ''z'', placeGroupID := ''g''\<rparr>)" by code_simp
  with storage_class_wf [OF this] show ?thesis by blast
qed

text \<open>A zone configured in the storage class is dropped when the resource group is not
  configured too: both then come from the driver's command line.\<close>

theorem storage_class_zone_needs_group:
  assumes "sc_param_loop opt sc_params_init = Inr p" "p_placeGroupID p = []"
    "NewZecStorageClassFromMap g opt = Inr sc"
  shows "zoneID sc = DefaultZone g \<and> placeGroupID sc = DefaultResourceGroup g"
  using assms sc_build_Inr(5,6) by (fastforce simp: NewZecStorageClassFromMap_def)

theorem storage_class_zone_needs_group_witness:
  "\<exists>sc. NewZecStorageClassFromMap (no_globals\<lparr>DefaultZone := ''d'', DefaultResourceGroup := ''g''\<rparr>)
     [(''zoneID'', ''z'')] = Inr sc \<and> zoneID sc = ''d''"
proof -
  let ?g = "no_globals\<lparr>DefaultZone := ''d'', DefaultResourceGroup := ''g''\<rparr>"
  have l: "sc_param_loop [(''zoneID'', ''z'')] sc_params_init = Inr (sc_params_init\<lparr>p_zoneID := ''z''\<rparr>)"
    by code_simp
  have n: "NewZecStorageClassFromMap ?g [(''zoneID'', ''z'')] =
      Inr (sc_example\<lparr>zoneID := ''d'', placeGroupID := ''g''\<rparr>)" by code_simp
  with storage_class_zone_needs_group [OF l _ n] show ?thesis by (simp add: sc_params_init_def no_globals_def)
qed

end
