(* ===== verification/CloudProofs.thy ===== *)
theory CloudProofs
  imports CloudManager Trace
begin

text \<open>
  What the cloud manager guarantees for every SDK client. Statements about which API calls are
  made are stated with \<open>traced_client c\<close>: the client \<open>c\<close> with a log of its calls and
  responses kept next to the world. The manager is polymorphic in the world, so running it on
  the traced client is running it on \<open>c\<close>.
\<close>

section \<open>The contract of the interface\<close>

text \<open>
  What the controller server relies on when it looks for existing volumes and snapshots.
\<close>

locale cloud_manager =
  fixes C :: "'w CloudManager"
  assumes volume_found:
      "run_state (cm_FindVolumeByName C name z sz dt grp) w = ((Some v, None), w') \<Longrightarrow>
       ZecVolume_Zone v = z \<and> ZecVolume_Size v = sz \<and> ZecVolume_Type v = StringToType dt \<and>
       ZecVolume_Status v \<noteq> DiskStatusRecycled"
    and volume_conflict:
      "run_state (cm_FindVolumeByName C name z sz dt grp) w = ((Some v, Some e), w') \<Longrightarrow>
       ZecVolume_Zone v = z \<and> ZecVolume_Size v \<noteq> sz \<and> ZecVolume_Type v = StringToType dt \<and>
       ZecVolume_Status v \<noteq> DiskStatusRecycled"
    and snapshot_found:
      "run_state (cm_FindSnapshotByName C name src z grp) w = ((Some s, None), w') \<Longrightarrow>
       ZecVolumeSnap_SrcDiskId s = src"
    and snapshot_conflict:
      "run_state (cm_FindSnapshotByName C name src z grp) w = ((Some s, Some e), w') \<Longrightarrow>
       ZecVolumeSnap_SrcDiskId s \<noteq> src"
    and create_needs_size:
      "run_state (cm_CreateVolume C name 0 dt z grp b) w = (Inl ArgsError, w)"

section \<open>Scanning a listing\<close>

definition disk_matches :: "string \<Rightarrow> string \<Rightarrow> DiskInfo \<Rightarrow> bool" where
  "disk_matches z dt d \<longleftrightarrow> ZecVolume_Status (toZecVolume d) \<noteq> DiskStatusRecycled \<and>
     z = ZecVolume_Zone (toZecVolume d) \<and> ZecVolume_Type (toZecVolume d) = StringToType dt"

lemma scan_disks_eq:
  "scan_disks z sz dt ds =
     (case List.find (\<lambda>d. case d of None \<Rightarrow> False | Some i \<Rightarrow> disk_matches z dt i) ds of
        Some (Some d) \<Rightarrow> (Some (toZecVolume d),
          if ZecVolume_Size (toZecVolume d) \<noteq> sz then Some DifferentSize else None)
      | _ \<Rightarrow> (None, None))"
  by (induction z sz dt ds rule: scan_disks.induct) (auto simp: disk_matches_def Let_def)

lemma scan_disks_found:
  assumes "scan_disks z sz dt ds = (Some v, e)"
  obtains d where "Some d \<in> set ds" "v = toZecVolume d" "disk_matches z dt d"
    "e = (if ZecVolume_Size v \<noteq> sz then Some DifferentSize else None)"
  using assms unfolding scan_disks_eq
  by (auto simp: find_Some_iff split: option.splits dest!: nth_mem)

lemma scan_disks_None:
  "scan_disks z sz dt ds = (None, e) \<longleftrightarrow> e = None \<and> (\<forall>d. Some d \<in> set ds \<longrightarrow> \<not> disk_matches z dt d)"
  unfolding scan_disks_eq
  by (auto simp: find_None_iff find_Some_iff split: option.splits) (metis nth_mem)+

lemma scan_snapshots_found:
  "scan_snapshots src ss = (Some s, e) \<Longrightarrow>
     (\<exists>i. Some i \<in> set ss \<and> s = toZecVolumeSnap i) \<and>
     e = (if ZecVolumeSnap_SrcDiskId s = src then None else Some DifferentSource)"
  by (induction src ss rule: scan_snapshots.induct) (auto simp: Let_def split: if_splits)

lemma FindVolumeByName_result:
  assumes "run_state (FindVolumeByName cm name z sz dt grp) w = ((Some v, e), w')"
  obtains d where "v = toZecVolume d" "disk_matches z dt d"
    "e = (if ZecVolume_Size v \<noteq> sz then Some DifferentSize else None)"
  using assms unfolding FindVolumeByName_def
  by (auto split: if_splits option.splits prod.splits sum.splits elim: scan_disks_found)

lemma FindSnapshotByName_result:
  assumes "run_state (FindSnapshotByName cm name src z grp) w = ((Some s, e), w')"
  shows "e = (if ZecVolumeSnap_SrcDiskId s = src then None else Some DifferentSource)"
  using assms unfolding FindSnapshotByName_def
  by (auto split: if_splits option.splits prod.splits sum.splits dest: scan_snapshots_found)

interpretation zcm: cloud_manager "zec_CloudManager cm" for cm :: "'w zecCloudManager"
proof
  fix name z sz dt grp w v w'
  assume "run_state (cm_FindVolumeByName (zec_CloudManager cm) name z sz dt grp) w = ((Some v, None), w')"
  then have "run_state (FindVolumeByName cm name z sz dt grp) w = ((Some v, None), w')"
    by (simp add: zec_CloudManager_def)
  then show "ZecVolume_Zone v = z \<and> ZecVolume_Size v = sz \<and> ZecVolume_Type v = StringToType dt \<and>
      ZecVolume_Status v \<noteq> DiskStatusRecycled"
    by (auto elim!: FindVolumeByName_result simp: disk_matches_def split: if_splits)
next
  fix name z sz dt grp w v e w'
  assume "run_state (cm_FindVolumeByName (zec_CloudManager cm) name z sz dt grp) w = ((Some v, Some e), w')"
  then have "run_state (FindVolumeByName cm name z sz dt grp) w = ((Some v, Some e), w')"
    by (simp add: zec_CloudManager_def)
  then show "ZecVolume_Zone v = z \<and> ZecVolume_Size v \<noteq> sz \<and> ZecVolume_Type v = StringToType dt \<and>
      ZecVolume_Status v \<noteq> DiskStatusRecycled"
    by (auto elim!: FindVolumeByName_result simp: disk_matches_def split: if_splits)
qed (auto simp: zec_CloudManager_def CreateVolume_cm_def dest!: FindSnapshotByName_result split: if_splits)

section \<open>Reading all pages\<close>

text \<open>
  A listing that does not change while it is read: page \<open>k\<close> holds the elements
  \<open>20 (k - 1) \<dots> 20 k - 1\<close> and every page carries the total count.
\<close>

definition page_of :: "'d option list \<Rightarrow> int \<Rightarrow> 'd page" where
  "page_of xs k = \<lparr>TotalCount = Some (int (length xs)),
     DataSet = take 20 (drop (20 * nat (k - 1)) xs)\<rparr>"

definition serves :: "(int \<Rightarrow> ('w, sdk_error + 'd page option) state) \<Rightarrow> 'd option list \<Rightarrow> 'w \<Rightarrow> bool" where
  "serves call xs w \<longleftrightarrow> (\<forall>k \<ge> 1. run_state (call k) w = (Inr (Some (page_of xs k)), w))"

lemma fetch_pages_serves:
  assumes "serves call xs w"
  shows "run_state (fetch_pages call n (int k + 1) acc) w = (Inr (acc @ take (20 * n) (drop (20 * k) xs)), w)"
proof (induction n arbitrary: k acc)
  case 0
  then show ?case by simp
next
  case (Suc n)
  have call: "run_state (call (int k + 1)) w = (Inr (Some (page_of xs (int k + 1))), w)"
    using assms by (simp add: serves_def)
  have "take 20 (drop (20 * k) xs) @ take (20 * n) (drop (20 * Suc k) xs) = take (20 * Suc n) (drop (20 * k) xs)"
    by (simp add: take_add add.commute)
  then show ?case using call Suc.IH [of "Suc k"] by (simp add: page_of_def algebra_simps)
qed

lemma apicallnum_enough: "20 < n \<Longrightarrow> n \<le> 20 * nat (apicallnum (int n))"
proof (cases "int n mod 20 = 0")
  case True
  then have "20 * (n div 20) = n" by presburger
  with True show ?thesis by (simp add: apicallnum_def pagesize_def nat_div_distrib)
next
  case False
  have "n \<le> 20 * (n div 20) + 20"
    using div_mult_mod_eq [of n 20] mod_less_divisor [of 20 n] by linarith
  with False show ?thesis
    by (simp add: apicallnum_def pagesize_def nat_add_distrib nat_div_distrib)
qed

lemma list_pages_serves:
  assumes "serves call xs w"
  shows "run_state (list_pages call) w = (Inr xs, w)"
proof -
  have first: "run_state (call 1) w = (Inr (Some (page_of xs 1)), w)"
    using assms by (simp add: serves_def)
  consider "length xs = 0" | "0 < length xs" "length xs \<le> 20" | "20 < length xs" by linarith
  then show ?thesis
  proof cases
    case 3
    then have "take (20 * nat (apicallnum (int (length xs)))) xs = xs"
      using apicallnum_enough by (intro take_all)
    then show ?thesis
      using first 3 fetch_pages_serves [OF assms, of _ 0 "[]"]
      by (simp add: list_pages_def page_of_def pagesize_def)
  qed (use first in \<open>simp_all add: list_pages_def page_of_def pagesize_def\<close>)
qed

section \<open>Logging the calls of a client\<close>

datatype api_event =
    ev_DescribeDiskRegions "sdk_error + string list option"
  | ev_CreateDisks CreateDisksRequest "sdk_error + string list option"
  | ev_ReleaseDisk string "sdk_error + unit"
  | ev_AttachDisks "string list" string "sdk_error + unit"
  | ev_DetachDisks "string list" bool "sdk_error + string list option"
  | ev_ResizeDisk string int64 "sdk_error + unit"
  | ev_DescribeDisks DescribeDisksRequest "sdk_error + DiskInfo page option"
  | ev_DescribeInstances "string list" "sdk_error + InstanceInfo page option"
  | ev_DescribeInstancesStatus "string list" "sdk_error + InstanceStatusInfo page option"
  | ev_DescribeZones "sdk_error + unit"
  | ev_CreateSnapshot string string "sdk_error + string option option"
  | ev_DeleteSnapshots "string list" "sdk_error + string list option"
  | ev_DescribeSnapshots DescribeSnapshotsRequest "sdk_error + SnapshotInfo page option"

definition traced_client :: "'w zec_client \<Rightarrow> ('w \<times> api_event list) zec_client" where
  "traced_client c =
     \<lparr>api_DescribeDiskRegions = logged ev_DescribeDiskRegions (api_DescribeDiskRegions c),
      api_CreateDisks = (\<lambda>q. logged (ev_CreateDisks q) (api_CreateDisks c q)),
      api_ReleaseDisk = (\<lambda>i. logged (ev_ReleaseDisk i) (api_ReleaseDisk c i)),
      api_AttachDisks = (\<lambda>is v. logged (ev_AttachDisks is v) (api_AttachDisks c is v)),
      api_DetachDisks = (\<lambda>is b. logged (ev_DetachDisks is b) (api_DetachDisks c is b)),
      api_ResizeDisk = (\<lambda>i n. logged (ev_ResizeDisk i n) (api_ResizeDisk c i n)),
      api_DescribeDisks = (\<lambda>q. logged (ev_DescribeDisks q) (api_DescribeDisks c q)),
      api_DescribeInstances = (\<lambda>is. logged (ev_DescribeInstances is) (api_DescribeInstances c is)),
      api_DescribeInstancesStatus =
        (\<lambda>is. logged (ev_DescribeInstancesStatus is) (api_DescribeInstancesStatus c is)),
      api_DescribeZones = logged ev_DescribeZones (api_DescribeZones c),
      api_CreateSnapshot = (\<lambda>n i. logged (ev_CreateSnapshot n i) (api_CreateSnapshot c n i)),
      api_DeleteSnapshots = (\<lambda>is. logged (ev_DeleteSnapshots is) (api_DeleteSnapshots c is)),
      api_DescribeSnapshots = (\<lambda>q. logged (ev_DescribeSnapshots q) (api_DescribeSnapshots c q))\<rparr>"

text \<open>The same manager on the traced client.\<close>

definition traced_cm :: "'w zecCloudManager \<Rightarrow> ('w \<times> api_event list) zecCloudManager" where
  "traced_cm cm =
     \<lparr>zecClient = map_option traced_client (zecClient cm), Iscontroller = Iscontroller cm,
      select_ticks = (\<lambda>t i s. select_ticks cm t i (fst s))\<rparr>"

lemma traced_client_simps [simp]:
  "api_DescribeDiskRegions (traced_client c) = logged ev_DescribeDiskRegions (api_DescribeDiskRegions c)"
  "api_CreateDisks (traced_client c) q = logged (ev_CreateDisks q) (api_CreateDisks c q)"
  "api_ReleaseDisk (traced_client c) i = logged (ev_ReleaseDisk i) (api_ReleaseDisk c i)"
  "api_AttachDisks (traced_client c) is v = logged (ev_AttachDisks is v) (api_AttachDisks c is v)"
  "api_DetachDisks (traced_client c) is b = logged (ev_DetachDisks is b) (api_DetachDisks c is b)"
  "api_ResizeDisk (traced_client c) i n = logged (ev_ResizeDisk i n) (api_ResizeDisk c i n)"
  "api_DescribeDisks (traced_client c) rq = logged (ev_DescribeDisks rq) (api_DescribeDisks c rq)"
  "api_DescribeInstances (traced_client c) is = logged (ev_DescribeInstances is) (api_DescribeInstances c is)"
  "api_DescribeInstancesStatus (traced_client c) is =
     logged (ev_DescribeInstancesStatus is) (api_DescribeInstancesStatus c is)"
  "api_DescribeZones (traced_client c) = logged ev_DescribeZones (api_DescribeZones c)"
  "api_CreateSnapshot (traced_client c) s i = logged (ev_CreateSnapshot s i) (api_CreateSnapshot c s i)"
  "api_DeleteSnapshots (traced_client c) is = logged (ev_DeleteSnapshots is) (api_DeleteSnapshots c is)"
  "api_DescribeSnapshots (traced_client c) sq = logged (ev_DescribeSnapshots sq) (api_DescribeSnapshots c sq)"
  by (simp_all add: traced_client_def)

lemma traced_cm_simps [simp]:
  "zecClient (traced_cm cm) = map_option traced_client (zecClient cm)"
  "select_ticks (traced_cm cm) t i s = select_ticks cm t i (fst s)"
  "Iscontroller (traced_cm cm) = Iscontroller cm"
  by (simp_all add: traced_cm_def)

lemma wp_on_fst_logged:
  assumes "\<And>r w'. Q r ((w', snd (fst s) @ [ev r]), snd s)"
  shows "wp (on_fst (logged ev m)) Q s"
  using assms by (auto simp: wp_def logged_def on_fst_def split: prod.splits)

lemma wp_put_local [wp_simps]: "wp (put_local l) Q s = Q () (fst s, l)"
  by (simp add: wp_def put_local_def split: prod.splits)

lemma wp_with_local [wp_simps]:
  "wp (with_local l m) Q w = wp m (\<lambda>a s. Q (a, snd s) (fst s)) (w, l)"
  by (simp add: wp_def with_local_def split: prod.splits)

end
