(* ===== verification/ControllerProofs.thy ===== *)
theory ControllerProofs
  imports Controller StorageClass CloudProofs
begin

text \<open>
  What the controller server guarantees for every implementation of the \<open>CloudManager\<close>
  interface. \<open>traced_server cs\<close> is the server \<open>cs\<close> on a manager that logs its calls and
  their results next to the world; the handlers are polymorphic in the world, so they run on
  it unchanged.
\<close>

section \<open>Locks\<close>

lemmas handler_defs =
  CreateVolume_def cv_locked_def cv_new_def cv_from_snapshot_def cv_created_def
  DeleteVolume_def delete_locked_def ControllerPublishVolume_def publish_locked_def publish_attach_def
  ControllerUnpublishVolume_def unpublish_locked_def ControllerExpandVolume_def expand_locked_def
  CreateSnapshot_def snapshot_locked_def snapshot_new_def DeleteSnapshot_def delete_snapshot_locked_def
  ValidateVolumeCapabilities_def

lemma keeps_case_content [keeps_intros]:
  "(\<And>x. keeps f (m x)) \<Longrightarrow> (\<And>x. keeps f (k x)) \<Longrightarrow> keeps f u \<Longrightarrow>
   keeps f (case z of ContentSnapshot x \<Rightarrow> m x | ContentVolume x \<Rightarrow> k x | ContentUnset \<Rightarrow> u)"
  by (cases z) simp_all

lemma keeps_CreateVolume: "keeps srv_locks (CreateVolume cs req)"
  unfolding handler_defs by (intro keeps_intros)

lemma keeps_DeleteVolume: "keeps srv_locks (DeleteVolume cs i)"
  unfolding handler_defs by (intro keeps_intros)

lemma keeps_ControllerPublishVolume: "keeps srv_locks (ControllerPublishVolume cs req)"
  unfolding handler_defs by (intro keeps_intros)

lemma keeps_ControllerUnpublishVolume: "keeps srv_locks (ControllerUnpublishVolume cs req)"
  unfolding handler_defs by (intro keeps_intros)

lemma keeps_ControllerExpandVolume: "keeps srv_locks (ControllerExpandVolume cs req)"
  unfolding handler_defs by (intro keeps_intros)

lemma keeps_CreateSnapshot: "keeps srv_locks (CreateSnapshot cs now req)"
  unfolding handler_defs by (intro keeps_intros)

lemma keeps_DeleteSnapshot: "keeps srv_locks (DeleteSnapshot cs i)"
  unfolding handler_defs by (intro keeps_intros)

section \<open>Logging the calls of a manager\<close>

datatype cm_event =
    m_CreateVolume string int64 string string string bool "cloud_error + string"
  | m_CreateVolumeFromSnapshot string int64 string string string string bool "cloud_error + string"
  | m_DeleteVolume string "cloud_error + unit"
  | m_AttachVolume string string "cloud_error + unit"
  | m_DetachVolume string "cloud_error + unit"
  | m_ResizeVolume string int64 "cloud_error + unit"
  | m_CreateSnapshot string string "cloud_error + string"
  | m_DeleteSnapshot string "cloud_error + unit"
  | m_FindVolume string "cloud_error + ZecVolume option"
  | m_FindVolumeByName string string int64 string string "ZecVolume option \<times> cloud_error option"
  | m_FindInstance string
  | m_GetVmStatus string "cloud_error + bool \<times> string"
  | m_FindSnapshot string "cloud_error + ZecVolumeSnap option"
  | m_FindSnapshotByName string string string string "ZecVolumeSnap option \<times> cloud_error option"
  | m_GetZone
  | m_GetZoneList
  | m_Probe

fun cm_write :: "cm_event \<Rightarrow> bool" where
  "cm_write (m_CreateVolume _ _ _ _ _ _ _) = True"
| "cm_write (m_CreateVolumeFromSnapshot _ _ _ _ _ _ _ _) = True"
| "cm_write (m_DeleteVolume _ _) = True"
| "cm_write (m_AttachVolume _ _ _) = True"
| "cm_write (m_DetachVolume _ _) = True"
| "cm_write (m_ResizeVolume _ _ _) = True"
| "cm_write (m_CreateSnapshot _ _ _) = True"
| "cm_write (m_DeleteSnapshot _ _) = True"
| "cm_write _ = False"

definition traced_cloud :: "'w CloudManager \<Rightarrow> ('w \<times> cm_event list) CloudManager" where
  "traced_cloud C =
     \<lparr>cm_CreateVolume = (\<lambda>n s t z g b. logged (m_CreateVolume n s t z g b) (cm_CreateVolume C n s t z g b)),
      cm_DeleteVolume = (\<lambda>i. logged (m_DeleteVolume i) (cm_DeleteVolume C i)),
      cm_AttachVolume = (\<lambda>i v. logged (m_AttachVolume i v) (cm_AttachVolume C i v)),
      cm_DetachVolume = (\<lambda>i. logged (m_DetachVolume i) (cm_DetachVolume C i)),
      cm_ResizeVolume = (\<lambda>i n. logged (m_ResizeVolume i n) (cm_ResizeVolume C i n)),
      cm_FindVolume = (\<lambda>i. logged (m_FindVolume i) (cm_FindVolume C i)),
      cm_FindVolumeByName = (\<lambda>n z s t g. logged (m_FindVolumeByName n z s t g) (cm_FindVolumeByName C n z s t g)),
      cm_FindInstance = (\<lambda>i. logged (\<lambda>_. m_FindInstance i) (cm_FindInstance C i)),
      cm_GetZone = (\<lambda>z. logged (\<lambda>_. m_GetZone) (cm_GetZone C z)),
      cm_GetZoneList = logged (\<lambda>_. m_GetZoneList) (cm_GetZoneList C),
      cm_IsController = cm_IsController C,
      cm_Probe = logged (\<lambda>_. m_Probe) (cm_Probe C),
      cm_GetVmStatus = (\<lambda>i. logged (m_GetVmStatus i) (cm_GetVmStatus C i)),
      cm_FindSnapshot = (\<lambda>i. logged (m_FindSnapshot i) (cm_FindSnapshot C i)),
      cm_FindSnapshotByName = (\<lambda>n i z g. logged (m_FindSnapshotByName n i z g) (cm_FindSnapshotByName C n i z g)),
      cm_CreateSnapshot = (\<lambda>n i. logged (m_CreateSnapshot n i) (cm_CreateSnapshot C n i)),
      cm_DeleteSnapshot = (\<lambda>i. logged (m_DeleteSnapshot i) (cm_DeleteSnapshot C i)),
      cm_CreateVolumeFromSnapshot = (\<lambda>n s t z g i b.
        logged (m_CreateVolumeFromSnapshot n s t z g i b) (cm_CreateVolumeFromSnapshot C n s t z g i b))\<rparr>"

definition traced_server :: "'w ControllerServer \<Rightarrow> ('w \<times> cm_event list) ControllerServer" where
  "traced_server cs =
     \<lparr>cs_driver = cs_driver cs, cs_cloud = traced_cloud (cs_cloud cs), cs_globals = cs_globals cs\<rparr>"

lemma traced_server_simps [simp]:
  "cs_driver (traced_server cs) = cs_driver cs"
  "cs_globals (traced_server cs) = cs_globals cs"
  "cm_CreateVolume (cs_cloud (traced_server cs)) n sz dt z g b =
     logged (m_CreateVolume n sz dt z g b) (cm_CreateVolume (cs_cloud cs) n sz dt z g b)"
  "cm_CreateVolumeFromSnapshot (cs_cloud (traced_server cs)) n sz dt z g sn b =
     logged (m_CreateVolumeFromSnapshot n sz dt z g sn b) (cm_CreateVolumeFromSnapshot (cs_cloud cs) n sz dt z g sn b)"
  "cm_DeleteVolume (cs_cloud (traced_server cs)) i = logged (m_DeleteVolume i) (cm_DeleteVolume (cs_cloud cs) i)"
  "cm_AttachVolume (cs_cloud (traced_server cs)) i v = logged (m_AttachVolume i v) (cm_AttachVolume (cs_cloud cs) i v)"
  "cm_DetachVolume (cs_cloud (traced_server cs)) i = logged (m_DetachVolume i) (cm_DetachVolume (cs_cloud cs) i)"
  "cm_ResizeVolume (cs_cloud (traced_server cs)) i sz = logged (m_ResizeVolume i sz) (cm_ResizeVolume (cs_cloud cs) i sz)"
  "cm_FindVolume (cs_cloud (traced_server cs)) i = logged (m_FindVolume i) (cm_FindVolume (cs_cloud cs) i)"
  "cm_FindVolumeByName (cs_cloud (traced_server cs)) n z sz dt g =
     logged (m_FindVolumeByName n z sz dt g) (cm_FindVolumeByName (cs_cloud cs) n z sz dt g)"
  "cm_GetVmStatus (cs_cloud (traced_server cs)) i = logged (m_GetVmStatus i) (cm_GetVmStatus (cs_cloud cs) i)"
  "cm_FindSnapshot (cs_cloud (traced_server cs)) i = logged (m_FindSnapshot i) (cm_FindSnapshot (cs_cloud cs) i)"
  "cm_FindSnapshotByName (cs_cloud (traced_server cs)) n i z g =
     logged (m_FindSnapshotByName n i z g) (cm_FindSnapshotByName (cs_cloud cs) n i z g)"
  "cm_CreateSnapshot (cs_cloud (traced_server cs)) n i = logged (m_CreateSnapshot n i) (cm_CreateSnapshot (cs_cloud cs) n i)"
  "cm_DeleteSnapshot (cs_cloud (traced_server cs)) i = logged (m_DeleteSnapshot i) (cm_DeleteSnapshot (cs_cloud cs) i)"
  by (simp_all add: traced_server_def traced_cloud_def)


section \<open>Publish, unpublish, expand\<close>

lemmas logs_server = logs_cases logs_on_world_call logs_with_lock

definition attach_guard :: "string \<Rightarrow> string \<Rightarrow> cm_event list \<Rightarrow> bool" where
  "attach_guard volId vmId tr \<longleftrightarrow> (\<exists>v a rest.
     tr = m_FindVolume volId (Inr (Some v)) # m_GetVmStatus vmId (Inr (True, VmStatusRunning)) #
          m_AttachVolume volId vmId a # rest \<and>
     ZecVolume_InstanceId v = [] \<and> list_all (\<lambda>e. \<not> cm_write e) rest)"

fun is_FindVolume :: "cm_event \<Rightarrow> bool" where
  "is_FindVolume (m_FindVolume _ _) = True"
| "is_FindVolume _ = False"

definition attached_to :: "string \<Rightarrow> string \<Rightarrow> cm_event list \<Rightarrow> bool" where
  "attached_to volId vmId tr \<longleftrightarrow> filter is_FindVolume tr \<noteq> [] \<and>
     (\<exists>v. last (filter is_FindVolume tr) = m_FindVolume volId (Inr (Some v)) \<and> ZecVolume_InstanceId v = vmId)"

lemma logs_publish_locked:
  "logs srv_log (\<lambda>r tr. (list_ex cm_write tr \<longrightarrow> attach_guard volId vmId tr) \<and>
       (r = Inr () \<longrightarrow> attached_to volId vmId tr \<and> m_GetVmStatus vmId (Inr (True, VmStatusRunning)) \<in> set tr))
     (publish_locked (traced_server cs) volId vmId)"
  unfolding publish_locked_def publish_attach_def traced_server_simps
  by (intro logs_server) (auto simp: attach_guard_def attached_to_def)

lemma logs_unpublish_locked:
  "logs srv_log (\<lambda>r tr. (list_ex cm_write tr \<longrightarrow> (\<exists>v a. ZecVolume_InstanceId v = vmId \<and>
         tr = [m_FindVolume volId (Inr (Some v)), m_DetachVolume volId a])) \<and>
       (r = Inr () \<longrightarrow> (\<exists>ov. hd tr = m_FindVolume volId (Inr ov) \<and>
          (map_option ZecVolume_InstanceId ov = Some vmId \<and> vmId \<noteq> [] \<longrightarrow> last tr = m_DetachVolume volId (Inr ())))))
     (unpublish_locked (traced_server cs) volId vmId)"
  unfolding unpublish_locked_def traced_server_simps
  by (intro logs_server) auto

lemma logs_expand_locked:
  "logs srv_log (\<lambda>r tr. (list_ex cm_write tr \<longrightarrow> (\<exists>v n a. tr = [m_FindVolume volId (Inr (Some v)), m_ResizeVolume volId n a] \<and>
         GibToByte (ZecVolume_Size v) < GibToByte n)) \<and>
       (\<forall>resp. r = Inr resp \<longrightarrow> (\<exists>v sc n. hd tr = m_FindVolume volId (Inr (Some v)) \<and>
          NewDefaultZecStorageClassFromType (ZecVolume_Type v) = Some sc \<and>
          GetRequiredVolumeSizeByte sc (ev_CapacityRange req) = Inr n \<and>
          er_CapacityBytes resp = max (GibToByte (ZecVolume_Size v)) (GibToByte (ByteCeilToGib n)) \<and>
          (tr = [m_FindVolume volId (Inr (Some v))] \<and> GibToByte (ByteCeilToGib n) \<le> GibToByte (ZecVolume_Size v) \<or>
           tr = [m_FindVolume volId (Inr (Some v)), m_ResizeVolume volId (ByteCeilToGib n) (Inr ())] \<and>
             GibToByte (ZecVolume_Size v) < GibToByte (ByteCeilToGib n)))))
     (expand_locked (traced_server cs) req volId)"
  unfolding expand_locked_def traced_server_simps Let_def
  by (intro logs_server) (auto simp: max_def)


section \<open>CreateVolume\<close>

text \<open>The event is the creation of a disk with the key that was searched for.\<close>

definition creates_key ::
  "CreateVolumeRequest \<Rightarrow> string \<Rightarrow> int64 \<Rightarrow> string \<Rightarrow> string \<Rightarrow> cm_event \<Rightarrow> bool" where
  "creates_key req z n t g e \<longleftrightarrow>
     (\<exists>b a. e = m_CreateVolume (cv_Name req) n t z g b a \<and> cv_VolumeContentSource req = None) \<or>
     (\<exists>sn b a. e = m_CreateVolumeFromSnapshot (cv_Name req) n t z g sn b a \<and>
        cv_VolumeContentSource req = Some (ContentSnapshot sn))"

text \<open>The log of \<open>cv_new\<close>: at most one creation; on success the answer describes the disk found.\<close>

definition new_log ::
  "CreateVolumeRequest \<Rightarrow> strmap \<Rightarrow> string \<Rightarrow> int64 \<Rightarrow> string \<Rightarrow> string \<Rightarrow> code + Volume \<Rightarrow> cm_event list \<Rightarrow> bool" where
  "new_log req params z n t g r tr \<longleftrightarrow>
     length (filter cm_write tr) \<le> 1 \<and> (\<forall>e \<in> set tr. cm_write e \<longrightarrow> creates_key req z n t g e) \<and>
     (\<forall>vol. r = Inr vol \<longrightarrow> CapacityBytes vol = GibToByte n \<and> VolumeContext vol = params \<and>
        ContentSource vol = cv_VolumeContentSource req \<and> list_ex cm_write tr \<and>
        (\<exists>i v. last tr = m_FindVolume i (Inr (Some v)) \<and> genCsiVolId (Some v) = Some (VolumeId vol)))"

lemma logs_cv_created:
  "logs srv_log (\<lambda>r tr. list_all (\<lambda>e. \<not> cm_write e) tr \<and>
       (\<forall>vol. r = Inr vol \<longrightarrow> CapacityBytes vol = GibToByte n \<and> VolumeContext vol = params \<and> ContentSource vol = src \<and>
          (\<exists>v. tr = [m_FindVolume i (Inr (Some v))] \<and> genCsiVolId (Some v) = Some (VolumeId vol))))
     (cv_created (traced_server cs) params n src i)"
  unfolding cv_created_def traced_server_simps
  by (intro logs_server) auto

lemma logs_cv_new:
  "logs srv_log (new_log req params (zoneId topo) (ByteCeilToGib b) (VolumeType_String (diskType sc)) (placeGroupID sc))
     (cv_new (traced_server cs) req params sc topo b)"
proof (cases "cv_VolumeContentSource req")
  case None
  then show ?thesis
    unfolding cv_new_def traced_server_simps Let_def
    by (auto intro!: logs_server logs_mono [OF logs_cv_created]
      simp: new_log_def creates_key_def list_all_iff filter_empty_conv)
next
  case (Some src)
  show ?thesis
  proof (cases src)
    case (ContentSnapshot sn)
    with Some show ?thesis
      unfolding cv_new_def cv_from_snapshot_def traced_server_simps Let_def
      by (auto intro!: logs_server logs_mono [OF logs_cv_created]
        simp: new_log_def creates_key_def list_all_iff filter_empty_conv)
  qed (use Some in \<open>simp_all add: cv_new_def new_log_def logs_return\<close>)
qed

text \<open>The log of the whole handler.\<close>

definition create_log ::
  "'w ControllerServer \<Rightarrow> CreateVolumeRequest \<Rightarrow> code + Volume \<Rightarrow> cm_event list \<Rightarrow> bool" where
  "create_log cs req r tr \<longleftrightarrow> (tr = [] \<and> (\<forall>vol. r \<noteq> Inr vol) \<or>
     (\<exists>sc topo params b ex err rest.
        NewZecStorageClassFromMap (cs_globals cs) (cv_Parameters req) = Inr sc \<and>
        cv_topology cs req sc = Inr (topo, params) \<and>
        GetRequiredVolumeSizeByte sc (cv_CapacityRange req) = Inr b \<and>
        tr = m_FindVolumeByName (cv_Name req) (zoneId topo) (ByteCeilToGib b) (VolumeType_String (diskType sc))
               (placeGroupID sc) (ex, err) # rest \<and>
        (if err = None \<and> ex = None
         then new_log req params (zoneId topo) (ByteCeilToGib b) (VolumeType_String (diskType sc)) (placeGroupID sc) r rest
         else rest = [] \<and> (\<forall>vol. r = Inr vol \<longrightarrow> (\<exists>v. ex = Some v \<and> err = None \<and> cv_existing cs req params sc v = Inr vol)))))"


lemma traced_server_pure [simp]:
  "cv_topology (traced_server cs) req sc = cv_topology cs req sc"
  "cv_existing (traced_server cs) req params sc v = cv_existing cs req params sc v"
  unfolding cv_topology_def cv_existing_def traced_server_simps by (rule refl)+

lemma logs_cv_locked: "logs srv_log (create_log cs req) (cv_locked (traced_server cs) req)"
  unfolding cv_locked_def traced_server_simps traced_server_pure
  by (intro logs_server) (auto simp: create_log_def intro!: logs_cv_new)

lemma logs_CreateVolume: "logs srv_log (create_log cs req) (CreateVolume (traced_server cs) req)"
  unfolding CreateVolume_def traced_server_simps
  by (intro logs_server logs_cv_locked) (simp_all add: create_log_def)


lemma create_log_success:
  assumes "create_log cs req (Inr vol) tr"
  obtains (new) sc topo params b rest where
      "NewZecStorageClassFromMap (cs_globals cs) (cv_Parameters req) = Inr sc"
      "cv_topology cs req sc = Inr (topo, params)"
      "GetRequiredVolumeSizeByte sc (cv_CapacityRange req) = Inr b"
      "tr = m_FindVolumeByName (cv_Name req) (zoneId topo) (ByteCeilToGib b) (VolumeType_String (diskType sc))
         (placeGroupID sc) (None, None) # rest"
      "new_log req params (zoneId topo) (ByteCeilToGib b) (VolumeType_String (diskType sc)) (placeGroupID sc) (Inr vol) rest"
  | (existing) sc topo params b v where
      "NewZecStorageClassFromMap (cs_globals cs) (cv_Parameters req) = Inr sc"
      "cv_topology cs req sc = Inr (topo, params)"
      "GetRequiredVolumeSizeByte sc (cv_CapacityRange req) = Inr b"
      "tr = [m_FindVolumeByName (cv_Name req) (zoneId topo) (ByteCeilToGib b) (VolumeType_String (diskType sc))
         (placeGroupID sc) (Some v, None)]"
      "cv_existing cs req params sc v = Inr vol"
proof -
  from assms obtain sc topo params b ex err rest where
    base: "NewZecStorageClassFromMap (cs_globals cs) (cv_Parameters req) = Inr sc"
      "cv_topology cs req sc = Inr (topo, params)"
      "GetRequiredVolumeSizeByte sc (cv_CapacityRange req) = Inr b"
    and tr: "tr = m_FindVolumeByName (cv_Name req) (zoneId topo) (ByteCeilToGib b) (VolumeType_String (diskType sc))
      (placeGroupID sc) (ex, err) # rest"
    and r: "if err = None \<and> ex = None
      then new_log req params (zoneId topo) (ByteCeilToGib b) (VolumeType_String (diskType sc)) (placeGroupID sc) (Inr vol) rest
      else rest = [] \<and> (\<forall>vol'. Inr vol = (Inr vol' :: code + Volume) \<longrightarrow>
        (\<exists>v. ex = Some v \<and> err = None \<and> cv_existing cs req params sc v = Inr vol'))"
    unfolding create_log_def by (elim disjE exE conjE) blast+
  show thesis
  proof (cases "err = None \<and> ex = None")
    case True
    with r tr show thesis by (intro new [OF base]) auto
  next
    case False
    with r obtain v where "ex = Some v" "err = None" "cv_existing cs req params sc v = Inr vol" "rest = []" by auto
    with tr show thesis by (intro existing [OF base]) auto
  qed
qed

lemma cv_existing_Inr:
  assumes "cv_existing cs req params sc v = Inr vol"
  shows "IsValidCapacityBytes (CapacityBytes vol) (cv_CapacityRange req)"
    "genCsiVolId (Some v) = Some (VolumeId vol)" "CapacityBytes vol = GibToByte (ZecVolume_Size v)"
    "IsValidTopology (cs_driver cs) (Some v) (cv_AccessibilityRequirements req)"
    "ZecVolume_Type v = diskType sc" "VolumeContext vol = params"
  using assms by (auto simp: cv_existing_def Let_def split: if_splits option.splits)

end
