(* ===== verification/CloudSafety.thy ===== *)
theory CloudSafety
  imports CloudProofs
begin

text \<open>
  Which API calls the operations of the cloud manager make, and what their successful return
  says about the cloud. The statements quantify over every SDK client: they hold for all
  answers, errors included. The second half adds the documented behaviour of the recycle bin
  and shows that \<open>DeleteVolume\<close> then succeeds.
\<close>

section \<open>Reads, writes and evidence in a log\<close>

fun is_write :: "api_event \<Rightarrow> bool" where
  "is_write (ev_CreateDisks _ _) = True"
| "is_write (ev_ReleaseDisk _ _) = True"
| "is_write (ev_AttachDisks _ _ _) = True"
| "is_write (ev_DetachDisks _ _ _) = True"
| "is_write (ev_ResizeDisk _ _ _) = True"
| "is_write (ev_CreateSnapshot _ _ _) = True"
| "is_write (ev_DeleteSnapshots _ _) = True"
| "is_write _ = False"

definition only_reads :: "api_event list \<Rightarrow> bool" where
  "only_reads tr \<longleftrightarrow> list_all (\<lambda>e. \<not> is_write e) tr"

lemma only_reads_simps [simp]:
  "only_reads []"
  "only_reads (e # tr) \<longleftrightarrow> \<not> is_write e \<and> only_reads tr"
  "only_reads (tr @ tr') \<longleftrightarrow> only_reads tr \<and> only_reads tr'"
  by (simp_all add: only_reads_def)

lemma only_reads_filter [simp]: "only_reads tr \<Longrightarrow> filter is_write tr = []"
  by (simp add: only_reads_def list_all_iff filter_empty_conv)

text \<open>The answer shows exactly one disk, in a wanted status.\<close>

fun disk_seen :: "string \<Rightarrow> (string \<Rightarrow> bool) \<Rightarrow> api_event \<Rightarrow> bool" where
  "disk_seen volId want (ev_DescribeDisks q (Inr (Some p))) \<longleftrightarrow>
     q = describe_by_id volId \<and> TotalCount p = Some 1 \<and>
     (case Option.bind (first_item p) di_DiskStatus of None \<Rightarrow> False | Some st \<Rightarrow> want st)"
| "disk_seen volId want _ \<longleftrightarrow> False"

text \<open>The answer shows that the disk does not exist.\<close>

fun disk_gone :: "string \<Rightarrow> api_event \<Rightarrow> bool" where
  "disk_gone volId (ev_DescribeDisks q (Inr (Some p))) \<longleftrightarrow>
     q = describe_by_id volId \<and> TotalCount p = Some 0"
| "disk_gone volId (ev_ReleaseDisk i (Inl e)) \<longleftrightarrow>
     i = volId \<and> e = ZenlayerCloudSdkError OPERATION_FAILED_RESOURCE_NOT_FOUND"
| "disk_gone volId _ \<longleftrightarrow> False"

text \<open>
  A poll: one read is logged; if it asks to stop, the answer it read is \<open>good\<close>. A wait over
  polls logs reads only and, when it succeeds, ends with a good answer.
\<close>

definition poll :: "('s \<Rightarrow> api_event list) \<Rightarrow> ('s \<Rightarrow> api_event \<Rightarrow> bool) \<Rightarrow> ('s, cloud_error + bool) state \<Rightarrow> bool" where
  "poll lg good f \<longleftrightarrow> (\<forall>s. wp f (\<lambda>r t. \<exists>ev. lg t = lg s @ [ev] \<and> \<not> is_write ev \<and>
     (r = Inr True \<longrightarrow> good t ev)) s)"

lemma wp_WaitFor_poll:
  assumes "poll lg good f"
  shows "wp (WaitFor ticks f) (\<lambda>r t. \<exists>ext. lg t = lg s @ ext \<and> only_reads ext \<and>
    (r = Inr () \<longrightarrow> ext \<noteq> [] \<and> good t (last ext))) s"
proof (rule wp_mono)
  let ?I = "\<lambda>t. \<exists>ext. lg t = lg s @ ext \<and> only_reads ext"
  let ?Q = "\<lambda>t. \<exists>ext. lg t = lg s @ ext \<and> only_reads ext \<and> ext \<noteq> [] \<and> good t (last ext)"
  show "wp (WaitFor ticks f) (\<lambda>r t. case r of Inl e \<Rightarrow> ?I t | Inr _ \<Rightarrow> ?Q t) s"
  proof (rule wp_WaitFor [where I = ?I])
    fix t assume "?I t"
    then obtain ext where ext: "lg t = lg s @ ext" "only_reads ext" by blast
    show "wp f (\<lambda>r t'. case r of Inl e \<Rightarrow> ?I t' | Inr stop \<Rightarrow> if stop then ?Q t' else ?I t') t"
    proof (rule wp_mono [OF assms [unfolded poll_def, rule_format, of t]])
      fix r t'
      assume "\<exists>ev. lg t' = lg t @ [ev] \<and> \<not> is_write ev \<and> (r = Inr True \<longrightarrow> good t' ev)"
      then obtain ev where "lg t' = lg s @ ext @ [ev]" "only_reads (ext @ [ev])"
        "r = Inr True \<longrightarrow> good t' ev" using ext by auto
      then show "case r of Inl e \<Rightarrow> ?I t' | Inr stop \<Rightarrow> if stop then ?Q t' else ?I t'"
        by (cases r) (auto intro: exI [of _ "ext @ [ev]"])
    qed
  qed auto
next
  fix r :: "cloud_error + unit" and t
  assume "case r of Inl e \<Rightarrow> \<exists>ext. lg t = lg s @ ext \<and> only_reads ext
    | Inr _ \<Rightarrow> \<exists>ext. lg t = lg s @ ext \<and> only_reads ext \<and> ext \<noteq> [] \<and> good t (last ext)"
  then show "\<exists>ext. lg t = lg s @ ext \<and> only_reads ext \<and> (r = Inr () \<longrightarrow> ext \<noteq> [] \<and> good t (last ext))"
    by (cases r) auto
qed

text \<open>The closures of the wait functions are polls.\<close>

lemma poll_disk_status: "poll snd (\<lambda>_. disk_seen v want) (disk_status_job (traced_client c) v want)"
  unfolding poll_def disk_status_job_def wp_bind traced_client_simps
  by (intro allI wp_logged)
    (auto simp: wp_simps split: sum.splits option.splits)

lemma poll_disk_deleted: "poll snd (\<lambda>_. disk_gone v) (disk_deleted_job (traced_client c) v)"
  unfolding poll_def disk_deleted_job_def wp_bind traced_client_simps
  by (intro allI wp_logged)
    (auto simp: wp_simps split: sum.splits option.splits)

lemma poll_disk_released:
  "poll (\<lambda>s. snd (fst s)) (\<lambda>s ev. snd s \<longrightarrow> disk_gone v ev) (disk_released_job (traced_client c) v)"
  unfolding poll_def disk_released_job_def wp_bind traced_client_simps
  by (intro allI wp_on_fst_logged)
    (auto simp: wp_simps split: sum.splits option.splits)


abbreviation reads_until :: "(api_event \<Rightarrow> bool) \<Rightarrow> cloud_error + unit \<Rightarrow> api_event list \<Rightarrow> bool" where
  "reads_until good r ext \<equiv> only_reads ext \<and> (r = Inr () \<longrightarrow> ext \<noteq> [] \<and> good (last ext))"

lemma logs_WaitFor: "poll snd (\<lambda>_. good) f \<Longrightarrow> logs snd (reads_until good) (WaitFor ticks f)"
  unfolding logs_def by (intro allI wp_WaitFor_poll)

lemma logs_wait_available:
  "logs snd (reads_until (disk_seen v (\<lambda>st. st = DiskStatusAvailable)))
     (waitDiskStatus ticks (traced_client c) DiskStatusAvailable v)"
  by (simp add: waitDiskStatus_def logs_return logs_WaitFor poll_disk_status)

lemma logs_wait_inuse:
  "logs snd (reads_until (disk_seen v (\<lambda>st. st = DiskStatusInUse)))
     (waitDiskStatus ticks (traced_client c) DiskStatusInUse v)"
  by (simp add: waitDiskStatus_def logs_return logs_WaitFor poll_disk_status status_consts)

lemma logs_wait_stable:
  "logs snd (reads_until (disk_seen v (\<lambda>st. st = DiskStatusAvailable \<or> st = DiskStatusInUse)))
     (waitDiskStatus ticks (traced_client c) DiskStatusStable v)"
  by (simp add: waitDiskStatus_def logs_return logs_WaitFor poll_disk_status status_consts)

lemma logs_wait_deleted:
  "logs snd (reads_until (disk_gone v)) (waitDiskStatus ticks (traced_client c) DiskStatusDeleted v)"
  by (simp add: waitDiskStatus_def logs_return logs_WaitFor poll_disk_deleted status_consts)

lemma logs_wait_released:
  "logs snd (\<lambda>r ext. only_reads ext \<and> (r = Inr True \<longrightarrow> ext \<noteq> [] \<and> disk_gone v (last ext)))
     (waitDiskReleased ticks (traced_client c) v)"
proof (cases "v = []")
  case True
  then show ?thesis by (simp add: waitDiskReleased_def logs_return)
next
  case False
  then show ?thesis
    unfolding logs_def waitDiskReleased_def if_not_P [OF False] wp_bind wp_with_local
  proof (intro allI wp_mono [OF wp_WaitFor_poll [OF poll_disk_released]])
    fix s r t
    assume "\<exists>ext. snd (fst t) = snd (fst (s, False)) @ ext \<and> only_reads ext \<and>
      (r = Inr () \<longrightarrow> ext \<noteq> [] \<and> (snd t \<longrightarrow> disk_gone v (last ext)))"
    then show "wp (case (r, snd t) of (Inl e, gone) \<Rightarrow> State_Monad.return (Inl e)
          | (Inr _, gone) \<Rightarrow> State_Monad.return (Inr gone))
        (\<lambda>r t'. \<exists>ext. snd t' = snd s @ ext \<and> only_reads ext \<and>
           (r = Inr True \<longrightarrow> ext \<noteq> [] \<and> disk_gone v (last ext))) (fst t)"
      by (cases r) (auto simp: wp_simps)
  qed
qed


section \<open>Calls made by the operations\<close>

lemma logs_FindVolume:
  "logs snd (\<lambda>r ext. only_reads ext \<and> (r = Inr None \<longrightarrow> ext \<noteq> [] \<and> disk_gone v (last ext)))
     (FindVolume (traced_cm cm) v)"
proof (cases "v = [] \<or> zecClient cm = None")
  case True
  then show ?thesis by (auto simp: FindVolume_def logs_return)
next
  case False
  then show ?thesis
    unfolding logs_def by (auto simp: FindVolume_def wp_bind intro!: wp_logged)
      (auto simp: wp_simps split: sum.splits option.splits)
qed

lemma logs_FindVolume_found:
  "logs snd (\<lambda>r ext. only_reads ext \<and> (\<forall>v. r = Inr (Some v) \<longrightarrow> (\<exists>p d. ext = [ev_DescribeDisks (describe_by_id i) (Inr (Some p))] \<and>
       TotalCount p = Some 1 \<and> first_item p = Some d \<and> v = toZecVolume d)))
     (FindVolume (traced_cm cm) i)"
  unfolding FindVolume_def traced_cm_simps
  by (cases "zecClient cm") (auto intro!: logs_cases logs_call)

lemma logs_GetVmStatus: "logs snd (\<lambda>r ext. only_reads ext) (GetVmStatus (traced_cm cm) vm)"
  unfolding GetVmStatus_def traced_cm_simps
  by (cases "zecClient cm") (auto intro!: logs_cases logs_call simp: traced_client_def)

definition release_log :: "string \<Rightarrow> nat \<Rightarrow> cloud_error + unit \<Rightarrow> api_event list \<Rightarrow> bool" where
  "release_log v n r ext \<longleftrightarrow>
     length (filter is_write ext) \<le> n \<and>
     (\<forall>e \<in> set ext. is_write e \<longrightarrow> (\<exists>a. e = ev_ReleaseDisk v a)) \<and>
     (r = Inr () \<longrightarrow> ext \<noteq> [] \<and> disk_gone v (last ext))"

lemma release_log_reads: "only_reads ext \<Longrightarrow> (r = Inr () \<longrightarrow> ext \<noteq> [] \<and> disk_gone v (last ext)) \<Longrightarrow> release_log v n r ext"
  by (auto simp: release_log_def only_reads_def list_all_iff filter_empty_conv)

lemma release_log_round:
  assumes "only_reads ext1" "only_reads ext2" "release_log v n r ext3"
  shows "release_log v (Suc n) r (ext1 @ ev_ReleaseDisk v a # ext2 @ ext3)"
  using assms by (auto simp: release_log_def only_reads_def list_all_iff)

lemma release_log_stop:
  assumes "only_reads ext1" "only_reads ext2"
    "r = Inr () \<longrightarrow> disk_gone v (last (ev_ReleaseDisk v a # ext2))"
  shows "release_log v (Suc n) r (ext1 @ ev_ReleaseDisk v a # ext2)"
  using assms by (auto simp: release_log_def only_reads_def list_all_iff filter_empty_conv)

lemma logs_last_release:
  assumes "only_reads ext1"
  shows "logs snd (\<lambda>r ext. release_log v (Suc n) r (ext1 @ ev_ReleaseDisk v a # ext))
    (waitDiskStatus ticks (traced_client c) DiskStatusDeleted v)"
  by (rule logs_mono [OF logs_wait_deleted]) (auto intro!: release_log_stop assms)

lemma logs_first_release:
  assumes ext1: "only_reads ext1" and next_round: "logs snd (release_log v n) m"
  shows "logs snd (\<lambda>r ext. release_log v (Suc n) r (ext1 @ ev_ReleaseDisk v a # ext))
    (State_Monad.bind (waitDiskReleased ticks (traced_client c) v)
       (\<lambda>g. case g of Inl e \<Rightarrow> State_Monad.return (Inl e)
        | Inr gone \<Rightarrow> if gone then State_Monad.return (Inr ()) else m))"
proof (rule logs_bind [OF logs_wait_released], elim conjE)
  fix g :: "cloud_error + bool" and ext2
  assume ext2: "only_reads ext2" "g = Inr True \<longrightarrow> ext2 \<noteq> [] \<and> disk_gone v (last ext2)"
  have "logs snd (\<lambda>r ext. release_log v (Suc n) r (ext1 @ ev_ReleaseDisk v a # ext2 @ ext)) m"
    by (rule logs_mono [OF next_round])
      (rule release_log_round [OF ext1 ext2(1)])
  then show "logs snd (\<lambda>r ext. release_log v (Suc n) r (ext1 @ ev_ReleaseDisk v a # ext2 @ ext))
      (case g of Inl e \<Rightarrow> State_Monad.return (Inl e)
       | Inr gone \<Rightarrow> if gone then State_Monad.return (Inr ()) else m)"
    using ext1 ext2 by (intro logs_cases) (auto intro!: release_log_stop)
qed

lemma logs_release_loop:
  "logs snd (release_log v n) (release_loop n (traced_cm cm) (traced_client c) v)"
proof (induction n)
  case 0
  then show ?case by (simp add: logs_return release_log_def)
next
  case (Suc n)
  show ?case
    unfolding release_loop.simps traced_client_simps Let_def
    by (rule logs_bind [OF logs_FindVolume], intro logs_cases logs_call)
      (auto simp: release_log_reads intro!: release_log_stop logs_cases logs_last_release logs_first_release Suc)
qed


text \<open>One write, followed by reads until the change is visible.\<close>

definition write_until ::
  "(api_event \<Rightarrow> bool) \<Rightarrow> (api_event \<Rightarrow> bool) \<Rightarrow> cloud_error + unit \<Rightarrow> api_event list \<Rightarrow> bool" where
  "write_until wr good r ext \<longleftrightarrow>
     only_reads (tl ext) \<and>
     (r = Inr () \<longrightarrow> ext \<noteq> [] \<and> wr (hd ext) \<and> tl ext \<noteq> [] \<and> good (last ext))"

lemma logs_write_then:
  "wr e \<Longrightarrow> logs snd (reads_until good) m \<Longrightarrow> logs snd (\<lambda>r ext. write_until wr good r (e # ext)) m"
  by (erule logs_mono) (auto simp: write_until_def)

lemma write_until_failed [simp]:
  "write_until wr good (Inl x) []" "write_until wr good (Inl x) [e]"
  by (simp_all add: write_until_def)

lemma logs_AttachVolume:
  "logs snd (write_until (\<lambda>e. e = ev_AttachDisks [v] vm (Inr ())) (disk_seen v (\<lambda>st. st = DiskStatusInUse)))
     (AttachVolume (traced_cm cm) v vm)"
  unfolding AttachVolume_def traced_cm_simps
  by (cases "zecClient cm")
    (auto intro!: logs_cases logs_call logs_write_then [OF _ logs_wait_inuse])

lemma logs_ResizeVolume:
  "logs snd (write_until (\<lambda>e. e = ev_ResizeDisk v n (Inr ()))
       (disk_seen v (\<lambda>st. st = DiskStatusAvailable \<or> st = DiskStatusInUse)))
     (ResizeVolume (traced_cm cm) v n)"
  unfolding ResizeVolume_def traced_cm_simps
  by (cases "zecClient cm")
    (auto intro!: logs_cases logs_call logs_write_then [OF _ logs_wait_stable])

lemma logs_DetachVolume:
  "logs snd (write_until (\<lambda>e. e = ev_DetachDisks [v] False (Inr None) \<or> e = ev_DetachDisks [v] False (Inr (Some [])))
       (disk_seen v (\<lambda>st. st = DiskStatusAvailable)))
     (DetachVolume (traced_cm cm) v)"
  unfolding DetachVolume_def traced_cm_simps
  by (cases "zecClient cm")
    (auto intro!: logs_cases logs_call logs_write_then [OF _ logs_wait_available])

lemma logs_create_disks:
  "logs snd (\<lambda>r ext. only_reads (tl ext) \<and>
       (\<forall>v. r = Inr v \<longrightarrow> ext \<noteq> [] \<and> (\<exists>ids. hd ext = ev_CreateDisks rq (Inr (Some (v # ids)))) \<and>
          tl ext \<noteq> [] \<and> disk_seen v (\<lambda>st. st = DiskStatusAvailable) (last ext)))
     (create_disks (traced_cm cm) rq)"
  unfolding create_disks_def traced_cm_simps
  by (cases "zecClient cm")
    (auto intro!: logs_cases logs_call logs_bind [OF logs_wait_available])

lemma logs_DeleteVolume_cm: "logs snd (release_log v 2) (DeleteVolume_cm (traced_cm cm) v)"
  unfolding DeleteVolume_cm_def maxReleaseDiskTimes_def
  by (cases "zecClient cm") (auto intro!: logs_cases logs_release_loop simp: release_log_def)

section \<open>Snapshots\<close>

text \<open>The answer shows exactly one snapshot, in a wanted status, or that there is none.\<close>

fun snap_seen :: "string \<Rightarrow> (string \<Rightarrow> bool) \<Rightarrow> api_event \<Rightarrow> bool" where
  "snap_seen snapId want (ev_DescribeSnapshots q (Inr (Some p))) \<longleftrightarrow>
     q = snapshot_by_id snapId \<and> TotalCount p = Some 1 \<and>
     (case Option.bind (first_item p) si_Status of None \<Rightarrow> False | Some st \<Rightarrow> want st)"
| "snap_seen snapId want _ \<longleftrightarrow> False"

fun snap_gone :: "string \<Rightarrow> api_event \<Rightarrow> bool" where
  "snap_gone snapId (ev_DescribeSnapshots q (Inr (Some p))) \<longleftrightarrow>
     q = snapshot_by_id snapId \<and> TotalCount p = Some 0"
| "snap_gone snapId (ev_DeleteSnapshots is (Inl e)) \<longleftrightarrow>
     is = [snapId] \<and> e = ZenlayerCloudSdkError INVALID_DISK_SNAPSHOT_NOT_FOUND"
| "snap_gone snapId _ \<longleftrightarrow> False"

lemma poll_snap_available:
  "poll snd (\<lambda>_. snap_seen i (\<lambda>st. st = SnapStatusAvailable)) (snap_available_job (traced_client c) i)"
  unfolding poll_def snap_available_job_def wp_bind traced_client_simps
  by (intro allI wp_logged) (auto simp: wp_simps split: sum.splits option.splits)

lemma poll_snap_deleted: "poll snd (\<lambda>_. snap_gone i) (snap_deleted_job (traced_client c) i)"
  unfolding poll_def snap_deleted_job_def wp_bind traced_client_simps
  by (intro allI wp_logged) (auto simp: wp_simps split: sum.splits option.splits)

lemma logs_wait_snap_available:
  "logs snd (reads_until (snap_seen i (\<lambda>st. st = SnapStatusAvailable)))
     (waitDiskSnapStatus ticks (traced_client c) SnapStatusAvailable i)"
  by (simp add: waitDiskSnapStatus_def logs_return logs_WaitFor poll_snap_available)

lemma logs_wait_snap_deleted:
  "logs snd (reads_until (snap_gone i)) (waitDiskSnapStatus ticks (traced_client c) SnapStatusDeleted i)"
  by (simp add: waitDiskSnapStatus_def logs_return logs_WaitFor poll_snap_deleted SnapStatusAvailable_def
    SnapStatusDeleted_def)

lemma logs_FindSnapshot:
  "logs snd (\<lambda>r ext. only_reads ext \<and> (r = Inr None \<longrightarrow> ext \<noteq> [] \<and> snap_gone i (last ext)))
     (FindSnapshot (traced_cm cm) i)"
  unfolding FindSnapshot_def traced_cm_simps
  by (cases "zecClient cm") (auto intro!: logs_cases logs_call)

text \<open>One changing call at most, followed by reads.\<close>

definition one_write :: "(api_event \<Rightarrow> bool) \<Rightarrow> api_event list \<Rightarrow> bool" where
  "one_write wr ext \<longleftrightarrow> length (filter is_write ext) \<le> 1 \<and> (\<forall>e \<in> set ext. is_write e \<longrightarrow> wr e)"

lemma one_write_reads [simp]: "only_reads ext \<Longrightarrow> one_write wr ext"
  by (auto simp: one_write_def only_reads_def list_all_iff)

lemma one_write_Cons: "wr e \<Longrightarrow> only_reads ext \<Longrightarrow> one_write wr (e # ext)"
  by (auto simp: one_write_def only_reads_def list_all_iff)

lemma one_write_append [simp]:
  "only_reads ext \<Longrightarrow> one_write wr (ext @ ext') \<longleftrightarrow> one_write wr ext'"
  "only_reads ext \<Longrightarrow> one_write wr (ext' @ ext) \<longleftrightarrow> one_write wr ext'"
  by (auto simp: one_write_def only_reads_def list_all_iff filter_empty_conv)

lemma logs_CreateSnapshot_cm:
  "logs snd (\<lambda>r ext. one_write (\<lambda>e. \<exists>a. e = ev_CreateSnapshot name v a) ext \<and>
       (\<forall>i. r = Inr i \<longrightarrow> ext \<noteq> [] \<and> hd ext = ev_CreateSnapshot name v (Inr (Some (Some i))) \<and>
          snap_seen i (\<lambda>st. st = SnapStatusAvailable) (last ext)))
     (CreateSnapshot_cm (traced_cm cm) name v)"
  unfolding CreateSnapshot_cm_def traced_cm_simps
  by (cases "zecClient cm")
    (auto intro!: logs_cases logs_call logs_bind [OF logs_wait_snap_available] one_write_Cons
      simp: bind_eq_Some_conv)

lemma logs_DeleteSnapshot_cm:
  "logs snd (\<lambda>r ext. one_write (\<lambda>e. \<exists>a. e = ev_DeleteSnapshots [i] a) ext \<and>
       (r = Inr () \<longrightarrow> ext \<noteq> [] \<and> snap_gone i (last ext)))
     (DeleteSnapshot_cm (traced_cm cm) i)"
  unfolding DeleteSnapshot_cm_def traced_cm_simps
  by (cases "zecClient cm")
    (auto intro!: logs_cases logs_call logs_mono [OF logs_wait_snap_deleted] one_write_Cons)

section \<open>The recycle bin\<close>

text \<open>
  The life cycle that \<^verbatim>\<open>types.go\<close> and the comments of \<open>DeleteVolume\<close> and \<open>waitDiskReleased\<close> describe:
  releasing a disk that is \<open>AVAILABLE\<close> moves it to the recycle bin, where it shows \<open>RECYCLED\<close>, or
  destroys it at once; releasing it in the bin destroys it; all three take some time. \<open>ph w\<close> is
  the phase of the disk in world \<open>w\<close>; the number counts the reads until the transition completes.
  While a transition runs, the status shown may be any of the documented ones, except that a disk
  that is not in the bin yet does not show \<open>RECYCLED\<close>.
\<close>

definition disk_statuses :: "string list" where
  "disk_statuses = [''CREATING'', DiskStatusInUse, DiskStatusAvailable, ''CHANGING'', ''ATTACHING'', ''DETACHING'',
     ''DELETING'', DiskStatusRecycled, ''FAILED'', ''SNAPSHOT_CREATING'', ''ROLLING_BACK'']"

datatype disk_phase = Live string | Releasing nat | Deleting nat | InBin | Purging nat | Gone

fun after_read :: "disk_phase \<Rightarrow> disk_phase" where
  "after_read (Releasing 0) = InBin"
| "after_read (Releasing (Suc n)) = Releasing n"
| "after_read (Deleting 0) = Gone"
| "after_read (Deleting (Suc n)) = Deleting n"
| "after_read (Purging 0) = Gone"
| "after_read (Purging (Suc n)) = Purging n"
| "after_read p = p"

fun may_show :: "disk_phase \<Rightarrow> string option \<Rightarrow> bool" where
  "may_show (Live st) x \<longleftrightarrow> x = Some st"
| "may_show (Releasing n) x \<longleftrightarrow> x \<in> Some ` (set disk_statuses - {DiskStatusRecycled})"
| "may_show (Deleting n) x \<longleftrightarrow> x \<in> Some ` (set disk_statuses - {DiskStatusRecycled})"
| "may_show InBin x \<longleftrightarrow> x = Some DiskStatusRecycled"
| "may_show (Purging n) x \<longleftrightarrow> x \<in> Some ` set disk_statuses"
| "may_show Gone x \<longleftrightarrow> x = None"

definition shows_status :: "DiskInfo page \<Rightarrow> string option \<Rightarrow> bool" where
  "shows_status p st \<longleftrightarrow> (case st of
      None \<Rightarrow> TotalCount p = Some 0
    | Some x \<Rightarrow> TotalCount p = Some 1 \<and> Option.bind (first_item p) di_DiskStatus = Some x)"

text \<open>Nothing is assumed on releasing a disk in any other status than \<open>AVAILABLE\<close> and \<open>RECYCLED\<close>.\<close>

definition recycle_bin :: "'w zec_client \<Rightarrow> string \<Rightarrow> ('w \<Rightarrow> disk_phase) \<Rightarrow> nat \<Rightarrow> bool" where
  "recycle_bin c v ph k \<longleftrightarrow>
     (\<forall>w. \<exists>p w' x. run_state (api_DescribeDisks c (describe_by_id v)) w = (Inr (Some p), w') \<and>
        ph w' = after_read (ph w) \<and> shows_status p x \<and> may_show (ph w') x) \<and>
     (\<forall>w. ph w = Live DiskStatusAvailable \<longrightarrow>
        (\<exists>n w'. n \<le> k \<and> run_state (api_ReleaseDisk c v) w = (Inr (), w') \<and> (ph w' = Releasing n \<or> ph w' = Deleting n))) \<and>
     (\<forall>w. ph w = InBin \<longrightarrow>
        (\<exists>n w'. n \<le> k \<and> run_state (api_ReleaseDisk c v) w = (Inr (), w') \<and> ph w' = Purging n))"

lemma recycle_bin_read:
  assumes "recycle_bin c v ph k"
  obtains p w' x where "run_state (api_DescribeDisks c (describe_by_id v)) w = (Inr (Some p), w')"
    "ph w' = after_read (ph w)" "shows_status p x" "may_show (after_read (ph w)) x"
  using assms unfolding recycle_bin_def by metis

lemma recycle_bin_release_live:
  assumes "recycle_bin c v ph k" "ph w = Live DiskStatusAvailable"
  obtains n w' where "n \<le> k" "run_state (api_ReleaseDisk c v) w = (Inr (), w')" "ph w' = Releasing n \<or> ph w' = Deleting n"
  using assms unfolding recycle_bin_def by blast

lemma recycle_bin_release_bin:
  assumes "recycle_bin c v ph k" "ph w = InBin"
  obtains n w' where "n \<le> k" "run_state (api_ReleaseDisk c v) w = (Inr (), w')" "ph w' = Purging n"
  using assms unfolding recycle_bin_def by blast

lemma recycle_bin_deleted_job:
  assumes bin: "recycle_bin c v ph k" and ph: "ph w = Purging n"
  shows "\<exists>w'. run_state (disk_deleted_job c v) w = (Inr (n = 0), w') \<and> ph w' = after_read (ph w)"
proof -
  obtain p w' x where "run_state (api_DescribeDisks c (describe_by_id v)) w = (Inr (Some p), w')"
    "ph w' = after_read (ph w)" "shows_status p x" "may_show (after_read (ph w)) x"
    using recycle_bin_read [OF bin] .
  then show ?thesis using ph by (cases n) (auto simp: disk_deleted_job_def shows_status_def)
qed

lemma recycle_bin_released_job:
  assumes bin: "recycle_bin c v ph k" and ph: "ph w = Releasing n \<or> ph w = Deleting n"
  shows "\<exists>w'. run_state (disk_released_job c v) (w, False) = (Inr (n = 0), (w', n = 0 \<and> ph w = Deleting 0)) \<and>
    ph w' = after_read (ph w)"
proof -
  obtain p w' x where "run_state (api_DescribeDisks c (describe_by_id v)) w = (Inr (Some p), w')"
    "ph w' = after_read (ph w)" "shows_status p x" "may_show (after_read (ph w)) x"
    using recycle_bin_read [OF bin] .
  then show ?thesis using ph
    by (intro exI [of _ w'], cases n) (auto simp: disk_released_job_def shows_status_def on_fst_def put_local_def split: if_splits)
qed

lemma recycle_bin_wait_deleted:
  assumes bin: "recycle_bin c v ph k" and v: "v \<noteq> []" and start: "ph w = Purging n" "n \<le> k"
    and ticks: "\<And>t. k \<le> ticks WaitStatusTimeout WaitStatusInterval t"
  shows "\<exists>w'. run_state (waitDiskStatus ticks c DiskStatusDeleted v) w = (Inr (), w') \<and> ph w' = Gone"
proof -
  have "\<exists>w'. run_state (WaitFor ticks (disk_deleted_job c v)) w = (Inr (), w') \<and> ph w' = Gone"
  proof (rule WaitFor_counts_down [where P = "\<lambda>n w. ph w = Purging n" and n = n])
    show "n \<le> ticks WaitStatusTimeout WaitStatusInterval t" for t
      using ticks [of t] start(2) by simp
    show "\<exists>t. run_state (disk_deleted_job c v) s = (Inr False, t) \<and> ph t = Purging m"
      if "ph s = Purging (Suc m)" for s m
      using recycle_bin_deleted_job [OF bin that] that by simp
    show "\<exists>t. run_state (disk_deleted_job c v) s = (Inr True, t) \<and> ph t = Gone"
      if "ph s = Purging 0" for s
      using recycle_bin_deleted_job [OF bin that] that by simp
  qed (fact start(1))
  with v show ?thesis by (simp add: waitDiskStatus_def status_consts)
qed

text \<open>The wait after a release ends in the bin, or with the disk gone, and tells which.\<close>

lemma recycle_bin_wait_released:
  assumes bin: "recycle_bin c v ph k" and v: "v \<noteq> []" and n: "n \<le> k"
    and start: "ph w = (if gone then Deleting n else Releasing n)"
    and ticks: "\<And>t. k \<le> ticks WaitStatusTimeout WaitStatusInterval t"
  shows "\<exists>w'. run_state (waitDiskReleased ticks c v) w = (Inr gone, w') \<and> ph w' = (if gone then Gone else InBin)"
proof -
  let ?P = "\<lambda>n s. ph (fst s) = (if gone then Deleting n else Releasing n) \<and> snd s = False"
  have "\<exists>s. run_state (WaitFor (\<lambda>t i s. ticks t i (fst s)) (disk_released_job c v)) (w, False) = (Inr (), s) \<and>
      ph (fst s) = (if gone then Gone else InBin) \<and> snd s = gone"
  proof (rule WaitFor_counts_down [where P = ?P and n = n])
    show "n \<le> ticks WaitStatusTimeout WaitStatusInterval (fst t)" for t :: "'a \<times> bool"
      using ticks [of "fst t"] n by simp
    show "\<exists>t. run_state (disk_released_job c v) s = (Inr False, t) \<and> ?P m t" if "?P (Suc m) s" for s m
      using recycle_bin_released_job [OF bin, of "fst s" "Suc m"] that by (cases s) (force split: if_splits)
    show "\<exists>t. run_state (disk_released_job c v) s = (Inr True, t) \<and> ph (fst t) = (if gone then Gone else InBin) \<and> snd t = gone"
      if "?P 0 s" for s
      using recycle_bin_released_job [OF bin, of "fst s" 0] that by (cases s) (force split: if_splits)
  qed (simp add: start)
  with v show ?thesis by (auto simp: waitDiskReleased_def with_local_def)
qed

lemma recycle_bin_FindVolume:
  assumes bin: "recycle_bin c v ph k" and cm: "zecClient cm = Some c" and v: "v \<noteq> []"
    and stable: "after_read (ph w) = ph w"
  shows "\<exists>w' x. ph w' = ph w \<and> may_show (ph w) x \<and> (case x of
      None \<Rightarrow> run_state (FindVolume cm v) w = (Inr None, w')
    | Some st \<Rightarrow> (\<exists>o'. run_state (FindVolume cm v) w = (Inr (Some o'), w') \<and> ZecVolume_Status o' = st))"
proof -
  obtain p w' x where "run_state (api_DescribeDisks c (describe_by_id v)) w = (Inr (Some p), w')"
    "ph w' = ph w" "shows_status p x" "may_show (ph w) x"
    using recycle_bin_read [OF bin, of w] stable by metis
  then show ?thesis using cm v
    by (intro exI [of _ w'] exI [of _ x])
      (auto simp: FindVolume_def shows_status_def toZecVolume_def or_else_def bind_eq_Some_conv split: option.splits)
qed

lemma release_loop_gone:
  assumes "recycle_bin c v ph k" "zecClient cm = Some c" "v \<noteq> []" "ph w = Gone"
  shows "\<exists>w'. run_state (release_loop (Suc n) cm c v) w = (Inr (), w') \<and> ph w' = Gone"
  using recycle_bin_FindVolume [OF assms(1-3), of w] assms(4) by auto

lemma release_loop_in_bin:
  assumes bin: "recycle_bin c v ph k" and cm: "zecClient cm = Some c" and v: "v \<noteq> []"
    and ticks: "\<And>t. k \<le> select_ticks cm WaitStatusTimeout WaitStatusInterval t" and w: "ph w = InBin"
  shows "\<exists>w'. run_state (release_loop (Suc n) cm c v) w = (Inr (), w') \<and> ph w' = Gone"
proof -
  obtain o' w1 where find: "run_state (FindVolume cm v) w = (Inr (Some o'), w1)" "ph w1 = InBin"
    "ZecVolume_Status o' = DiskStatusRecycled"
    using recycle_bin_FindVolume [OF bin cm v, of w] w by auto
  obtain m w2 where rel: "m \<le> k" "run_state (api_ReleaseDisk c v) w1 = (Inr (), w2)" "ph w2 = Purging m"
    using recycle_bin_release_bin [OF bin find(2)] .
  show ?thesis
    using recycle_bin_wait_deleted [where ticks = "select_ticks cm", OF bin v rel(3,1) ticks] find rel by auto
qed

lemma release_loop_live:
  assumes bin: "recycle_bin c v ph k" and cm: "zecClient cm = Some c" and v: "v \<noteq> []"
    and ticks: "\<And>t. k \<le> select_ticks cm WaitStatusTimeout WaitStatusInterval t" and w: "ph w = Live DiskStatusAvailable"
  shows "\<exists>w'. run_state (release_loop (Suc (Suc n)) cm c v) w = (Inr (), w') \<and> ph w' = Gone"
proof -
  obtain o' w1 where find: "run_state (FindVolume cm v) w = (Inr (Some o'), w1)" "ph w1 = Live DiskStatusAvailable"
    "ZecVolume_Status o' \<noteq> DiskStatusRecycled"
    using recycle_bin_FindVolume [OF bin cm v, of w] w by (auto simp: status_consts)
  obtain m w2 where m: "m \<le> k" and rel: "run_state (api_ReleaseDisk c v) w1 = (Inr (), w2)"
    and ph: "ph w2 = Releasing m \<or> ph w2 = Deleting m"
    using recycle_bin_release_live [OF bin find(2)] .
  define gone where "gone = (ph w2 = Deleting m)"
  have ph': "ph w2 = (if gone then Deleting m else Releasing m)" using ph gone_def by auto
  obtain w3 where wait: "run_state (waitDiskReleased (select_ticks cm) c v) w2 = (Inr gone, w3)"
      "ph w3 = (if gone then Gone else InBin)"
    using recycle_bin_wait_released [OF bin v m ph', where ticks = "select_ticks cm", OF ticks] by blast
  have loop: "run_state (release_loop (Suc (Suc n)) cm c v) w =
      (if gone then (Inr (), w3) else run_state (release_loop (Suc n) cm c v) w3)"
    unfolding release_loop.simps(2) [of "Suc n"] using find rel wait(1) by simp
  show ?thesis
  proof (cases gone)
    case True
    with loop wait(2) show ?thesis by simp
  next
    case False
    with wait(2) have "ph w3 = InBin" by simp
    from release_loop_in_bin [OF bin cm v ticks this] loop False show ?thesis by simp
  qed
qed

section \<open>An example client\<close>

text \<open>A cloud with one disk, used to evaluate the model on concrete runs.\<close>

fun visible :: "disk_phase \<Rightarrow> string option" where
  "visible (Live st) = Some st"
| "visible InBin = Some DiskStatusRecycled"
| "visible Gone = None"
| "visible p = Some ''DELETING''"

definition status_page :: "string option \<Rightarrow> DiskInfo page" where
  "status_page st = (case st of
      None \<Rightarrow> \<lparr>TotalCount = Some 0, DataSet = []\<rparr>
    | Some x \<Rightarrow> \<lparr>TotalCount = Some 1, DataSet =
        [Some \<lparr>di_DiskId = Some ''d1'', di_DiskName = None, di_DiskSize = Some 40, di_DiskCategory = None,
           di_DiskStatus = Some x, di_ZoneId = None, di_InstanceId = None, di_Serial = None,
           di_Portable = None, di_SnapshotAbility = None, di_ResourceGroupId = None\<rparr>]\<rparr>)"

definition bin_release :: "disk_phase \<Rightarrow> (sdk_error + unit) \<times> disk_phase" where
  "bin_release p = (case p of
       Live st \<Rightarrow> (Inr (), if st = DiskStatusRecycled then Purging 1 else Releasing 2)
     | InBin \<Rightarrow> (Inr (), Purging 1)
     | Gone \<Rightarrow> (Inl (ZenlayerCloudSdkError OPERATION_FAILED_RESOURCE_NOT_FOUND), Gone) | q \<Rightarrow> (Inl PlainError, q))"

definition bin_client :: "disk_phase zec_client" where
  "bin_client =
     \<lparr>api_DescribeDiskRegions = State_Monad.return (Inr (Some [])),
      api_CreateDisks = (\<lambda>q. State (\<lambda>_. (Inr (Some [''d1'']), Live DiskStatusAvailable))),
      api_ReleaseDisk = (\<lambda>i. State bin_release),
      api_AttachDisks = (\<lambda>is v. State (\<lambda>_. (Inr (), Live DiskStatusInUse))),
      api_DetachDisks = (\<lambda>is b. State (\<lambda>_. (Inr (Some []), Live DiskStatusAvailable))),
      api_ResizeDisk = (\<lambda>i n. State_Monad.return (Inr ())),
      api_DescribeDisks = (\<lambda>q. State (\<lambda>p. (Inr (Some (status_page (visible (after_read p)))), after_read p))),
      api_DescribeInstances = (\<lambda>is. State_Monad.return (Inl PlainError)),
      api_DescribeInstancesStatus = (\<lambda>is. State_Monad.return (Inl PlainError)),
      api_DescribeZones = State_Monad.return (Inr ()),
      api_CreateSnapshot = (\<lambda>n i. State_Monad.return (Inl PlainError)),
      api_DeleteSnapshots = (\<lambda>is. State_Monad.return (Inl PlainError)),
      api_DescribeSnapshots = (\<lambda>q. State_Monad.return (Inl PlainError))\<rparr>"

definition bin_cm :: "disk_phase zecCloudManager" where
  "bin_cm = \<lparr>zecClient = Some bin_client, Iscontroller = True, select_ticks = (\<lambda>t i _. t div i)\<rparr>"

lemma bin_client_recycle_bin: "recycle_bin bin_client v (\<lambda>p. p) 2"
proof -
  have read: "shows_status (status_page (visible p)) (visible p) \<and> (may_show p (visible p))" for p
    by (cases p) (auto simp: status_page_def shows_status_def first_item_def disk_statuses_def status_consts)
  have api: "api_DescribeDisks bin_client q = State (\<lambda>p. (Inr (Some (status_page (visible (after_read p)))), after_read p))"
    "api_ReleaseDisk bin_client v = State bin_release" for q
    by (simp_all add: bin_client_def)
  show ?thesis
    unfolding recycle_bin_def api using read
    by (auto simp: bin_release_def status_consts)
qed

section \<open>Properties\<close>

text \<open>\<open>DeleteVolume\<close> of the cloud manager makes at most two changing API calls, all of them
  \<open>ReleaseDisk\<close> of the given disk, and returns success only when the last answer it got shows
  that the disk is gone (an empty listing, or not-found from \<open>ReleaseDisk\<close>). This holds for
  every client and every answer.\<close>

theorem delete_volume_evidence:
  assumes "run_state (DeleteVolume_cm (traced_cm cm) v) (w, []) = (r, (w', tr))"
  shows "length (filter is_write tr) \<le> 2 \<and>
    (\<forall>e \<in> set tr. is_write e \<longrightarrow> (\<exists>a. e = ev_ReleaseDisk v a)) \<and>
    (r = Inr () \<longrightarrow> tr \<noteq> [] \<and> disk_gone v (last tr))"
  using logsD [OF logs_DeleteVolume_cm assms] by (simp add: release_log_def)

theorem delete_volume_evidence_witness:
  "case run_state (DeleteVolume_cm (traced_cm bin_cm) ''d1'') (Live DiskStatusAvailable, []) of
     (r, (w', tr)) \<Rightarrow> r = Inr () \<and> w' = Gone \<and> length (filter is_write tr) = 2 \<and> disk_gone ''d1'' (last tr)"
proof -
  let ?run = "run_state (DeleteVolume_cm (traced_cm bin_cm) ''d1'') (Live DiskStatusAvailable, [])"
  obtain r w' tr where run: "?run = (r, (w', tr))" by (cases ?run) auto
  have "fst ?run = Inr () \<and> fst (snd ?run) = Gone \<and> length (filter is_write (snd (snd ?run))) = 2"
    by code_simp
  with delete_volume_evidence [OF run] run show ?thesis by simp
qed

text \<open>C23: On a cloud with the documented recycle bin, where each transition completes within \<open>k\<close>
  reads and the wait delivers at least \<open>k\<close> ticks, \<open>DeleteVolume\<close> returns success and the
  disk is gone, whether it starts from a disk that is \<open>AVAILABLE\<close>, from a disk that an earlier
  attempt left in the recycle bin, or from no disk at all, and whether or not the release of the
  disk goes through the bin.\<close>

theorem delete_volume_completes:
  assumes "recycle_bin c v ph k" "zecClient cm = Some c" "v \<noteq> []"
    and "\<forall>t. k \<le> select_ticks cm WaitStatusTimeout WaitStatusInterval t"
    and "ph w \<in> {Live DiskStatusAvailable, InBin, Gone}"
  shows "\<exists>w'. run_state (DeleteVolume_cm cm v) w = (Inr (), w') \<and> ph w' = Gone"
proof -
  have ticks: "k \<le> select_ticks cm WaitStatusTimeout WaitStatusInterval t" for t using assms(4) by blast
  have "\<exists>w'. run_state (release_loop (Suc (Suc 0)) cm c v) w = (Inr (), w') \<and> ph w' = Gone"
    using assms(5) release_loop_live [OF assms(1-3) ticks] release_loop_in_bin [OF assms(1-3) ticks]
      release_loop_gone [OF assms(1-3)] by auto
  then show ?thesis using assms(2,3) by (simp add: DeleteVolume_cm_def maxReleaseDiskTimes_def eval_nat_numeral)
qed

theorem delete_volume_completes_witness:
  "\<exists>w'. run_state (DeleteVolume_cm bin_cm ''d1'') (Live DiskStatusAvailable) = (Inr (), w') \<and> w' = Gone"
proof -
  have "zecClient bin_cm = Some bin_client"
    "\<forall>t. 2 \<le> select_ticks bin_cm WaitStatusTimeout WaitStatusInterval t"
    by (simp_all add: bin_cm_def WaitStatusTimeout_def WaitStatusInterval_def)
  then show ?thesis by (intro delete_volume_completes [OF bin_client_recycle_bin]) auto
qed

text \<open>\<open>AttachVolume\<close> makes one changing call, \<open>AttachDisks\<close> with this disk and this virtual
  machine, before any other call; it returns success only after a listing showed exactly this
  disk in status \<open>IN_USE\<close>.\<close>

theorem attach_volume_observed:
  assumes "run_state (AttachVolume (traced_cm cm) v vm) (w, []) = (Inr (), (w', tr))"
  shows "\<exists>rs. tr = ev_AttachDisks [v] vm (Inr ()) # rs \<and> only_reads rs \<and> rs \<noteq> [] \<and>
    disk_seen v (\<lambda>st. st = DiskStatusInUse) (last rs)"
  using logsD [OF logs_AttachVolume assms] by (cases tr) (auto simp: write_until_def)

theorem attach_volume_observed_witness:
  "case run_state (AttachVolume (traced_cm bin_cm) ''d1'' ''vm1'') (Live DiskStatusAvailable, []) of
     (r, (w', tr)) \<Rightarrow> r = Inr () \<and> (\<exists>rs. tr = ev_AttachDisks [''d1''] ''vm1'' (Inr ()) # rs \<and> rs \<noteq> [])"
proof -
  let ?run = "run_state (AttachVolume (traced_cm bin_cm) ''d1'' ''vm1'') (Live DiskStatusAvailable, [])"
  have "fst ?run = Inr ()" by code_simp
  then obtain w' tr where run: "?run = (Inr (), (w', tr))" by (cases ?run) auto
  show ?thesis using attach_volume_observed [OF run] run by auto
qed

text \<open>\<open>DetachVolume\<close> makes one changing call, \<open>DetachDisks\<close> with this disk and without the
  instance check; it returns success only when the answer listed no failed disk and a later
  listing showed exactly this disk in status \<open>AVAILABLE\<close>.\<close>

theorem detach_volume_observed:
  assumes "run_state (DetachVolume (traced_cm cm) v) (w, []) = (Inr (), (w', tr))"
  shows "\<exists>a rs. tr = ev_DetachDisks [v] False (Inr a) # rs \<and> a \<in> {None, Some []} \<and> only_reads rs \<and>
    rs \<noteq> [] \<and> disk_seen v (\<lambda>st. st = DiskStatusAvailable) (last rs)"
  using logsD [OF logs_DetachVolume assms] by (cases tr) (auto simp: write_until_def)

theorem detach_volume_observed_witness:
  "case run_state (DetachVolume (traced_cm bin_cm) ''d1'') (Live DiskStatusInUse, []) of
     (r, (w', tr)) \<Rightarrow> r = Inr () \<and> (\<exists>a rs. tr = ev_DetachDisks [''d1''] False (Inr a) # rs \<and> rs \<noteq> [])"
proof -
  let ?run = "run_state (DetachVolume (traced_cm bin_cm) ''d1'') (Live DiskStatusInUse, [])"
  have "fst ?run = Inr ()" by code_simp
  then obtain w' tr where run: "?run = (Inr (), (w', tr))" by (cases ?run) auto
  show ?thesis using detach_volume_observed [OF run] run by auto
qed

text \<open>\<open>CreateVolume\<close> asks the cloud for exactly one disk with the given name, size, category,
  zone and resource group, makes no other changing call, and returns the identifier the cloud
  answered only after a listing showed that disk in status \<open>AVAILABLE\<close>.\<close>

theorem create_volume_observed:
  assumes "run_state (CreateVolume_cm (traced_cm cm) nm sz cat z grp b) (w, []) = (Inr v, (w', tr))"
  shows "\<exists>rq ids rs. tr = ev_CreateDisks rq (Inr (Some (v # ids))) # rs \<and> only_reads rs \<and> rs \<noteq> [] \<and>
    disk_seen v (\<lambda>st. st = DiskStatusAvailable) (last rs) \<and>
    rq = \<lparr>cd_DiskName = nm, cd_DiskSize = sz, cd_ZoneId = z, cd_DiskAmount = 1, cd_ResourceGroupId = grp,
      cd_DiskCategory = cat, cd_SnapshotId = None, cd_BurstingEnabled = b\<rparr>"
proof -
  let ?rq = "\<lparr>cd_DiskName = nm, cd_DiskSize = sz, cd_ZoneId = z, cd_DiskAmount = 1, cd_ResourceGroupId = grp,
    cd_DiskCategory = cat, cd_SnapshotId = None, cd_BurstingEnabled = b\<rparr>"
  have "run_state (create_disks (traced_cm cm) ?rq) (w, []) = (Inr v, (w', tr))"
    using assms by (simp add: CreateVolume_cm_def split: if_splits)
  from logsD [OF logs_create_disks this] show ?thesis by (cases tr) auto
qed

theorem create_volume_observed_witness:
  "case run_state (CreateVolume_cm (traced_cm bin_cm) ''pvc-1'' 40 BasicNvmeName ''z1'' ''g1'' False) (Gone, []) of
     (r, (w', tr)) \<Rightarrow> r = Inr ''d1'' \<and> (\<exists>rq ids rs. tr = ev_CreateDisks rq (Inr (Some (''d1'' # ids))) # rs \<and> cd_DiskSize rq = 40)"
proof -
  let ?run = "run_state (CreateVolume_cm (traced_cm bin_cm) ''pvc-1'' 40 BasicNvmeName ''z1'' ''g1'' False) (Gone, [])"
  have "fst ?run = Inr ''d1''" by code_simp
  then obtain w' tr where run: "?run = (Inr ''d1'', (w', tr))" by (cases ?run) auto
  show ?thesis using create_volume_observed [OF run] run by auto
qed

text \<open>\<open>ResizeVolume\<close> makes one changing call, \<open>ResizeDisk\<close> with the given size, and returns
  success only after a listing showed exactly this disk in a stable status.\<close>

theorem resize_volume_observed:
  assumes "run_state (ResizeVolume (traced_cm cm) v n) (w, []) = (Inr (), (w', tr))"
  shows "\<exists>rs. tr = ev_ResizeDisk v n (Inr ()) # rs \<and> only_reads rs \<and> rs \<noteq> [] \<and>
    disk_seen v (\<lambda>st. st = DiskStatusAvailable \<or> st = DiskStatusInUse) (last rs)"
  using logsD [OF logs_ResizeVolume assms] by (cases tr) (auto simp: write_until_def)

theorem resize_volume_observed_witness:
  "case run_state (ResizeVolume (traced_cm bin_cm) ''d1'' 60) (Live DiskStatusInUse, []) of
     (r, (w', tr)) \<Rightarrow> r = Inr () \<and> (\<exists>rs. tr = ev_ResizeDisk ''d1'' 60 (Inr ()) # rs \<and> rs \<noteq> [])"
proof -
  let ?run = "run_state (ResizeVolume (traced_cm bin_cm) ''d1'' 60) (Live DiskStatusInUse, [])"
  have "fst ?run = Inr ()" by code_simp
  then obtain w' tr where run: "?run = (Inr (), (w', tr))" by (cases ?run) auto
  show ?thesis using resize_volume_observed [OF run] run by auto
qed

text \<open>A node plugin cannot change the cloud: the manager built for the node driver type holds
  no client, and every changing operation on it fails without any effect.\<close>

theorem node_manager_is_inert:
  assumes "NewZecCloudManager new_client ticks ak sk NodeDriverType = Inr cm"
  shows "\<not> Iscontroller cm \<and>
    (\<exists>e. run_state (CreateVolume_cm cm nm sz cat z grp b) w = (Inl e, w)) \<and>
    (\<exists>e. run_state (CreateVolumeFromSnapshot_cm cm nm sz cat z grp sn b) w = (Inl e, w)) \<and>
    (\<exists>e. run_state (DeleteVolume_cm cm v) w = (Inl e, w)) \<and>
    (\<exists>e. run_state (AttachVolume cm v vm) w = (Inl e, w)) \<and>
    (\<exists>e. run_state (DetachVolume cm v) w = (Inl e, w)) \<and>
    (\<exists>e. run_state (ResizeVolume cm v sz) w = (Inl e, w)) \<and>
    (\<exists>e. run_state (CreateSnapshot_cm cm nm v) w = (Inl e, w)) \<and>
    (\<exists>e. run_state (DeleteSnapshot_cm cm sn) w = (Inl e, w))"
proof -
  have "\<not> Iscontroller cm" "zecClient cm = None"
    using assms by (auto simp: NewZecCloudManager_def)
  then show ?thesis
    by (simp add: CreateVolume_cm_def CreateVolumeFromSnapshot_cm_def create_disks_def DeleteVolume_cm_def
      AttachVolume_def DetachVolume_def ResizeVolume_def CreateSnapshot_cm_def DeleteSnapshot_cm_def)
qed

theorem node_manager_is_inert_witness:
  "\<exists>cm. NewZecCloudManager (\<lambda>_ _. Inr (Some bin_client)) (\<lambda>_ _ _. 60) ''ak'' ''sk'' NodeDriverType = Inr cm \<and>
     (\<exists>e. run_state (DeleteVolume_cm cm ''d1'') (Live DiskStatusInUse) = (Inl e, Live DiskStatusInUse))"
proof -
  obtain cm where cm: "NewZecCloudManager (\<lambda>_ _. Inr (Some bin_client)) (\<lambda>_ _ _. 60) ''ak'' ''sk'' NodeDriverType = Inr cm"
    by (simp add: NewZecCloudManager_def)
  with node_manager_is_inert [OF cm, where v = "''d1''" and w = "Live DiskStatusInUse"] show ?thesis by blast
qed


text \<open>C24: On a listing that does not change while its pages are read, \<open>FindVolumeByName\<close> sees
  every disk on every page: it answers that there is no such volume exactly when no listed disk
  outside the recycle bin has the zone and type asked for; a volume it answers is such a disk,
  and comes with an error exactly when its size differs.\<close>

theorem find_volume_by_name_complete:
  assumes "zecClient cm = Some c" "name \<noteq> []"
    and "serves (\<lambda>k. api_DescribeDisks c (disks_by_name name z grp k)) xs w"
  shows "\<exists>found err. run_state (FindVolumeByName cm name z sz dt grp) w = ((found, err), w) \<and>
    (found = None \<longleftrightarrow> (\<forall>d. Some d \<in> set xs \<longrightarrow> \<not> disk_matches z dt d)) \<and>
    (\<forall>v. found = Some v \<longrightarrow> (\<exists>d. Some d \<in> set xs \<and> v = toZecVolume d \<and> disk_matches z dt d) \<and>
       (err = None \<longleftrightarrow> ZecVolume_Size v = sz)) \<and>
    (found = None \<longrightarrow> err = None)"
proof -
  obtain found err where scan: "scan_disks z sz dt xs = (found, err)" by (cases "scan_disks z sz dt xs")
  have run: "run_state (FindVolumeByName cm name z sz dt grp) w = ((found, err), w)"
    using assms(1,2) list_pages_serves [OF assms(3)] scan by (simp add: FindVolumeByName_def)
  show ?thesis
  proof (cases found)
    case None
    with scan have "err = None \<and> (\<forall>d. Some d \<in> set xs \<longrightarrow> \<not> disk_matches z dt d)"
      by (simp add: scan_disks_None)
    with run None show ?thesis by auto
  next
    case (Some v)
    with scan obtain d where "Some d \<in> set xs" "v = toZecVolume d" "disk_matches z dt d"
      "err = (if ZecVolume_Size v \<noteq> sz then Some DifferentSize else None)"
      by (auto elim: scan_disks_found)
    with run Some show ?thesis by (intro exI [of _ found] exI [of _ err]) auto
  qed
qed

definition disk_named :: "string \<Rightarrow> int \<Rightarrow> DiskInfo" where
  "disk_named z n = \<lparr>di_DiskId = Some ''d1'', di_DiskName = Some ''pvc-1'', di_DiskSize = Some n,
     di_DiskCategory = Some BasicNvmeName, di_DiskStatus = Some DiskStatusAvailable, di_ZoneId = Some z,
     di_InstanceId = None, di_Serial = Some ''s1'', di_Portable = None, di_SnapshotAbility = None,
     di_ResourceGroupId = None\<rparr>"

definition listing_client :: "DiskInfo option list \<Rightarrow> disk_phase zec_client" where
  "listing_client xs = bin_client\<lparr>api_DescribeDisks :=
     (\<lambda>q. State_Monad.return (Inr (Some (page_of xs (or_else (dd_PageNum q) 1)))))\<rparr>"

text \<open>Twenty-one disks; the only one in the zone asked for is on the second page.\<close>

definition two_pages :: "DiskInfo option list" where
  "two_pages = replicate 20 (Some (disk_named ''z2'' 20)) @ [Some (disk_named ''z1'' 40)]"

definition two_pages_cm :: "disk_phase zecCloudManager" where
  "two_pages_cm = bin_cm\<lparr>zecClient := Some (listing_client two_pages)\<rparr>"

theorem find_volume_by_name_complete_witness:
  "\<exists>v err. run_state (FindVolumeByName two_pages_cm ''pvc-1'' ''z1'' 40 BasicNvmeName ''g1'') Gone =
     ((Some v, err), Gone) \<and> disk_matches ''z1'' BasicNvmeName (disk_named ''z1'' 40)"
proof -
  have serves: "serves (\<lambda>k. api_DescribeDisks (listing_client two_pages) (disks_by_name ''pvc-1'' ''z1'' ''g1'' k)) two_pages Gone"
    by (simp add: serves_def listing_client_def disks_by_name_def or_else_def)
  have cm: "zecClient two_pages_cm = Some (listing_client two_pages)" by (simp add: two_pages_cm_def)
  have d: "Some (disk_named ''z1'' 40) \<in> set two_pages" "disk_matches ''z1'' BasicNvmeName (disk_named ''z1'' 40)"
    by (simp add: two_pages_def, code_simp)
  obtain found err where "run_state (FindVolumeByName two_pages_cm ''pvc-1'' ''z1'' 40 BasicNvmeName ''g1'') Gone = ((found, err), Gone)"
      "found = None \<longleftrightarrow> (\<forall>d. Some d \<in> set two_pages \<longrightarrow> \<not> disk_matches ''z1'' BasicNvmeName d)"
    using find_volume_by_name_complete [OF cm list.distinct(2) serves, of 40 BasicNvmeName]
    by (elim exE conjE)
  with d show ?thesis by (cases found) auto
qed

end
