(* ===== verification/ControllerProps.thy ===== *)
theory ControllerProps
  imports ControllerProofs CloudSafety
begin

text \<open>
  The properties of the controller server, for every implementation of the \<open>CloudManager\<close>
  interface, with witnesses on a small in-memory implementation.
\<close>

section \<open>An example cloud with one disk\<close>

definition ex_id :: string where "ex_id = ''1234567890123456789''"

definition ex_serial :: string where "ex_serial = ''abcdefghijklmnopqrst''"

definition ex_volume :: "string \<Rightarrow> int64 \<Rightarrow> string \<Rightarrow> string \<Rightarrow> ZecVolume" where
  "ex_volume nm sz dt z = NewZecVolume\<lparr>ZecVolume_Id := ex_id, ZecVolume_Name := nm, ZecVolume_Size := sz,
     ZecVolume_Type := StringToType dt, ZecVolume_Status := DiskStatusAvailable, ZecVolume_Zone := z,
     ZecVolume_Serial := ex_serial, ZecVolume_SnapshotAbility := True\<rparr>"

definition mem_cloud :: "ZecVolume option CloudManager" where
  "mem_cloud =
     \<lparr>cm_CreateVolume = (\<lambda>n s t z g b. State (\<lambda>_. (Inr ex_id, Some (ex_volume n s t z)))),
      cm_DeleteVolume = (\<lambda>i. State (\<lambda>_. (Inr (), None))),
      cm_AttachVolume = (\<lambda>i vm. State (\<lambda>w. (Inr (), map_option (\<lambda>v. v\<lparr>ZecVolume_InstanceId := vm\<rparr>) w))),
      cm_DetachVolume = (\<lambda>i. State (\<lambda>w. (Inr (), map_option (\<lambda>v. v\<lparr>ZecVolume_InstanceId := []\<rparr>) w))),
      cm_ResizeVolume = (\<lambda>i n. State (\<lambda>w. (Inr (), map_option (\<lambda>v. v\<lparr>ZecVolume_Size := n\<rparr>) w))),
      cm_FindVolume = (\<lambda>i. State (\<lambda>w. (Inr w, w))),
      cm_FindVolumeByName = (\<lambda>n z s t g. State (\<lambda>w. ((w, None), w))),
      cm_FindInstance = (\<lambda>i. State (\<lambda>w. (Inr None, w))),
      cm_GetZone = (\<lambda>z. State (\<lambda>w. (Inr (), w))),
      cm_GetZoneList = State (\<lambda>w. (Inr [], w)),
      cm_IsController = True,
      cm_Probe = State (\<lambda>w. (Inr (), w)),
      cm_GetVmStatus = (\<lambda>i. State (\<lambda>w. (Inr (True, VmStatusRunning), w))),
      cm_FindSnapshot = (\<lambda>i. State (\<lambda>w. (Inr None, w))),
      cm_FindSnapshotByName = (\<lambda>n i z g. State (\<lambda>w. ((None, None), w))),
      cm_CreateSnapshot = (\<lambda>n i. State (\<lambda>w. (Inl NilClient, w))),
      cm_DeleteSnapshot = (\<lambda>i. State (\<lambda>w. (Inr (), w))),
      cm_CreateVolumeFromSnapshot = (\<lambda>n s t z g i b. State (\<lambda>_. (Inr ex_id, Some (ex_volume n s t z))))\<rparr>"

definition ex_driver :: DiskDriver where
  "ex_driver = InitDiskDriver (Some
     \<lparr>in_Name = ''disk.csi.zenlayer.com'', in_Version = ''v1'', in_NodeId = [], in_ZoneId = [], in_MaxVolume = 15,
      in_VolumeCap = DefaultVolumeAccessModeType, in_ControllerCap = DefaultControllerServiceCapability,
      in_NodeCap = DefaultNodeServiceCapability, in_PluginCap = DefaultPluginCapability\<rparr>) GetDiskDriver"

definition ex_server :: "ZecVolume option ControllerServer" where
  "ex_server = \<lparr>cs_driver = ex_driver, cs_cloud = mem_cloud, cs_globals = no_globals\<rparr>"

definition ex_state :: "ZecVolume option \<Rightarrow> (ZecVolume option \<times> cm_event list) server" where
  "ex_state w = \<lparr>srv_locks = NewResourceLocks, srv_world = (w, [])\<rparr>"

definition ex_vol_id :: string where "ex_vol_id = GenCsiVolId ex_id ex_serial"

definition ex_cap :: VolumeCapability where
  "ex_cap = \<lparr>cap_AccessMode = Some (VolumeCapability_AccessMode SINGLE_NODE_WRITER), cap_AccessType = AccessType_Block\<rparr>"

definition ex_create :: CreateVolumeRequest where
  "ex_create = \<lparr>cv_Name = ''pvc-1'', cv_CapacityRange = Some \<lparr>RequiredBytes = 40 * Gib - 1, LimitBytes = 0\<rparr>,
     cv_VolumeCapabilities = Some [ex_cap], cv_Parameters = [(''zoneID'', ''z1''), (''placeGroupID'', ''g1'')],
     cv_VolumeContentSource = None, cv_AccessibilityRequirements = None\<rparr>"

definition ex_publish :: PublishVolumeRequest where
  "ex_publish = \<lparr>pv_VolumeId = ex_vol_id, pv_NodeId = ''vm-1'', pv_VolumeCapability = Some ex_cap, pv_Readonly = False\<rparr>"

definition ex_expand :: "int64 \<Rightarrow> ExpandVolumeRequest" where
  "ex_expand n = \<lparr>ev_VolumeId = ex_vol_id, ev_CapacityRange = Some \<lparr>RequiredBytes = n, LimitBytes = 0\<rparr>,
     ev_VolumeCapability = Some ex_cap\<rparr>"

definition ex_disk :: ZecVolume where "ex_disk = ex_volume ''pvc-1'' 40 StandardNvmeName ''z1''"

section \<open>Locks\<close>

text \<open>While a request holds the lock of a volume, no other request touches that volume: delete,
  publish, unpublish, expand and snapshot requests for it return an error and change nothing,
  and so does a create request for a volume name that is locked.\<close>

theorem busy_volume_is_untouched:
  assumes "ParseCsiVolId vid = Inr (v, ser)" "v \<in> srv_held s" "nm \<in> srv_held s"
  shows "(\<exists>e. run_state (DeleteVolume cs vid) s = (Inl e, s)) \<and>
    (\<exists>e. run_state (ControllerPublishVolume cs (pv\<lparr>pv_VolumeId := vid\<rparr>)) s = (Inl e, s)) \<and>
    (\<exists>e. run_state (ControllerUnpublishVolume cs (uv\<lparr>uv_VolumeId := vid\<rparr>)) s = (Inl e, s)) \<and>
    (\<exists>e. run_state (ControllerExpandVolume cs (ev\<lparr>ev_VolumeId := vid\<rparr>)) s = (Inl e, s)) \<and>
    (\<exists>e. run_state (CreateSnapshot cs now (sv\<lparr>cs_SourceVolumeId := vid\<rparr>)) s = (Inl e, s)) \<and>
    (\<exists>e. run_state (CreateVolume cs (cv\<lparr>cv_Name := nm\<rparr>)) s = (Inl e, s))"
proof -
  have "\<exists>e. run_state (ControllerPublishVolume cs (pv\<lparr>pv_VolumeId := vid\<rparr>)) s = (Inl e, s)"
    using assms by (auto simp: ControllerPublishVolume_def with_lock_busy split: option.split)
  moreover have "\<exists>e. run_state (CreateVolume cs (cv\<lparr>cv_Name := nm\<rparr>)) s = (Inl e, s)"
    using assms by (auto simp: CreateVolume_def with_lock_busy split: option.split)
  ultimately show ?thesis
    using assms by (simp add: DeleteVolume_def ControllerUnpublishVolume_def ControllerExpandVolume_def
      CreateSnapshot_def with_lock_busy)
qed

lemma ex_vol_id_parses: "ParseCsiVolId ex_vol_id = Inr (ex_id, ex_serial)"
  by code_simp

theorem busy_volume_is_untouched_witness:
  "\<exists>e. run_state (DeleteVolume ex_server ex_vol_id) \<lparr>srv_locks = \<lparr>locks = {ex_id, ''pvc-1''}\<rparr>, srv_world = Some ex_disk\<rparr> =
     (Inl e, \<lparr>srv_locks = \<lparr>locks = {ex_id, ''pvc-1''}\<rparr>, srv_world = Some ex_disk\<rparr>)"
proof -
  let ?s = "\<lparr>srv_locks = \<lparr>locks = {ex_id, ''pvc-1''}\<rparr>, srv_world = Some ex_disk\<rparr>"
  have "ex_id \<in> srv_held ?s" "''pvc-1'' \<in> srv_held ?s" by simp_all
  from busy_volume_is_untouched [OF ex_vol_id_parses this] show ?thesis by blast
qed


section \<open>Publishing\<close>

text \<open>\<open>ControllerPublishVolume\<close> attaches only a volume that is not attached anywhere, only to
  a running instance, and only to the node it was asked for: whenever it calls the cloud to
  change something, the calls so far were a lookup of this volume that showed no instance and
  a status query that showed this node running, and the change is the attach of this volume
  to this node.\<close>

theorem publish_attaches_only_free_volume:
  assumes "run_state (ControllerPublishVolume (traced_server cs) req) s = (r, t)" "srv_log s = []"
    and "list_ex cm_write (srv_log t)"
  shows "\<exists>volId ser. ParseCsiVolId (pv_VolumeId req) = Inr (volId, ser) \<and>
    attach_guard volId (pv_NodeId req) (srv_log t) \<and> \<not> pv_Readonly req \<and>
    (\<exists>cap. pv_VolumeCapability req = Some cap \<and> ValidateVolumeCapability (cs_driver cs) cap)"
proof -
  have "logs srv_log (\<lambda>r tr. list_ex cm_write tr \<longrightarrow> (\<exists>volId ser. ParseCsiVolId (pv_VolumeId req) = Inr (volId, ser) \<and>
      attach_guard volId (pv_NodeId req) tr \<and> \<not> pv_Readonly req \<and>
      (\<exists>cap. pv_VolumeCapability req = Some cap \<and> ValidateVolumeCapability (cs_driver cs) cap)))
    (ControllerPublishVolume (traced_server cs) req)"
    unfolding ControllerPublishVolume_def traced_server_simps
    by (intro logs_server logs_mono [OF logs_publish_locked]) auto
  from logsD [OF this assms(1)] assms(2,3) show ?thesis by auto
qed

theorem publish_attaches_only_free_volume_witness:
  "case run_state (ControllerPublishVolume (traced_server ex_server) ex_publish) (ex_state (Some ex_disk)) of
     (r, t) \<Rightarrow> r = Inr () \<and> attach_guard ex_id ''vm-1'' (srv_log t)"
proof -
  let ?run = "run_state (ControllerPublishVolume (traced_server ex_server) ex_publish) (ex_state (Some ex_disk))"
  obtain r t where run: "?run = (r, t)" by (cases ?run)
  have "fst ?run = Inr () \<and> list_ex cm_write (srv_log (snd ?run))" by code_simp
  moreover have "srv_log (ex_state (Some ex_disk)) = []" by (simp add: ex_state_def)
  ultimately have "\<exists>volId ser. ParseCsiVolId (pv_VolumeId ex_publish) = Inr (volId, ser) \<and>
      attach_guard volId (pv_NodeId ex_publish) (srv_log t)"
    using publish_attaches_only_free_volume [OF run] run by auto
  with \<open>fst ?run = Inr () \<and> _\<close> run show ?thesis
    using ex_vol_id_parses by (auto simp: ex_publish_def)
qed

text \<open>\<open>ControllerPublishVolume\<close> reports success only when the last lookup of the volume
  showed it attached to the requested node, and that node was running.\<close>

theorem publish_success_means_attached:
  assumes "run_state (ControllerPublishVolume (traced_server cs) req) s = (Inr (), t)" "srv_log s = []"
  shows "\<exists>volId ser. ParseCsiVolId (pv_VolumeId req) = Inr (volId, ser) \<and>
    attached_to volId (pv_NodeId req) (srv_log t) \<and>
    m_GetVmStatus (pv_NodeId req) (Inr (True, VmStatusRunning)) \<in> set (srv_log t)"
proof -
  have "logs srv_log (\<lambda>r tr. r = Inr () \<longrightarrow> (\<exists>volId ser. ParseCsiVolId (pv_VolumeId req) = Inr (volId, ser) \<and>
      attached_to volId (pv_NodeId req) tr \<and>
      m_GetVmStatus (pv_NodeId req) (Inr (True, VmStatusRunning)) \<in> set tr))
    (ControllerPublishVolume (traced_server cs) req)"
    unfolding ControllerPublishVolume_def traced_server_simps
    by (intro logs_server logs_mono [OF logs_publish_locked]) auto
  from logsD [OF this assms(1)] assms(2) show ?thesis by auto
qed

theorem publish_success_means_attached_witness:
  "case run_state (ControllerPublishVolume (traced_server ex_server) ex_publish) (ex_state (Some ex_disk)) of
     (r, t) \<Rightarrow> r = Inr () \<and> attached_to ex_id ''vm-1'' (srv_log t)"
proof -
  let ?run = "run_state (ControllerPublishVolume (traced_server ex_server) ex_publish) (ex_state (Some ex_disk))"
  have "fst ?run = Inr ()" by code_simp
  then obtain t where run: "?run = (Inr (), t)" by (cases ?run) auto
  show ?thesis using publish_success_means_attached [OF run] run ex_vol_id_parses
    by (auto simp: ex_state_def ex_publish_def)
qed

text \<open>\<open>ControllerUnpublishVolume\<close> never detaches a volume from another node: the only change
  it makes is to detach this volume, right after a lookup that showed it attached to the node
  of the request.\<close>

theorem unpublish_detaches_only_that_node:
  assumes "run_state (ControllerUnpublishVolume (traced_server cs) req) s = (r, t)" "srv_log s = []"
    and "list_ex cm_write (srv_log t)"
  shows "\<exists>volId ser v a. ParseCsiVolId (uv_VolumeId req) = Inr (volId, ser) \<and>
    ZecVolume_InstanceId v = uv_NodeId req \<and>
    srv_log t = [m_FindVolume volId (Inr (Some v)), m_DetachVolume volId a]"
proof -
  have "logs srv_log (\<lambda>r tr. list_ex cm_write tr \<longrightarrow> (\<exists>volId ser v a.
      ParseCsiVolId (uv_VolumeId req) = Inr (volId, ser) \<and> ZecVolume_InstanceId v = uv_NodeId req \<and>
      tr = [m_FindVolume volId (Inr (Some v)), m_DetachVolume volId a]))
    (ControllerUnpublishVolume (traced_server cs) req)"
    unfolding ControllerUnpublishVolume_def traced_server_simps
    by (intro logs_server logs_mono [OF logs_unpublish_locked]) auto
  from logsD [OF this assms(1)] assms(2,3) show ?thesis by auto
qed

definition ex_unpublish :: UnpublishVolumeRequest where
  "ex_unpublish = \<lparr>uv_VolumeId = ex_vol_id, uv_NodeId = ''vm-1''\<rparr>"

theorem unpublish_detaches_only_that_node_witness:
  "\<exists>v a. srv_log (snd (run_state (ControllerUnpublishVolume (traced_server ex_server) ex_unpublish)
       (ex_state (Some (ex_disk\<lparr>ZecVolume_InstanceId := ''vm-1''\<rparr>))))) =
     [m_FindVolume ex_id (Inr (Some v)), m_DetachVolume ex_id a]"
proof -
  let ?s = "ex_state (Some (ex_disk\<lparr>ZecVolume_InstanceId := ''vm-1''\<rparr>))"
  let ?run = "run_state (ControllerUnpublishVolume (traced_server ex_server) ex_unpublish) ?s"
  obtain r t where run: "?run = (r, t)" by (cases ?run)
  have "list_ex cm_write (srv_log (snd ?run))" by code_simp
  with unpublish_detaches_only_that_node [OF run] run ex_vol_id_parses show ?thesis
    by (auto simp: ex_state_def ex_unpublish_def)
qed

text \<open>\<open>ControllerUnpublishVolume\<close> succeeds on a volume identifier of this driver only when
  the lookup showed that the volume does not exist or is not attached to the node, or the
  detach succeeded. An identifier it did not issue is answered with success and without any
  cloud call.\<close>

theorem unpublish_success_means_detached:
  assumes "run_state (ControllerUnpublishVolume (traced_server cs) req) s = (Inr (), t)" "srv_log s = []"
  shows "case ParseCsiVolId (uv_VolumeId req) of
      Inl _ \<Rightarrow> t = s
    | Inr (volId, _) \<Rightarrow> \<exists>ov. hd (srv_log t) = m_FindVolume volId (Inr ov) \<and>
        (map_option ZecVolume_InstanceId ov = Some (uv_NodeId req) \<longrightarrow>
           last (srv_log t) = m_DetachVolume volId (Inr ()))"
proof (cases "ParseCsiVolId (uv_VolumeId req)")
  case (Inl e)
  with assms(1) show ?thesis by (auto simp: ControllerUnpublishVolume_def split: if_splits)
next
  case (Inr p)
  obtain volId ser where p: "p = (volId, ser)" by (cases p)
  have "logs srv_log (\<lambda>r tr. r = Inr () \<longrightarrow> (\<exists>ov. hd tr = m_FindVolume volId (Inr ov) \<and>
        (map_option ZecVolume_InstanceId ov = Some (uv_NodeId req) \<longrightarrow> last tr = m_DetachVolume volId (Inr ()))))
    (ControllerUnpublishVolume (traced_server cs) req)"
    unfolding ControllerUnpublishVolume_def traced_server_simps Inr p
    by (auto intro!: logs_server logs_mono [OF logs_unpublish_locked])
  from logsD [OF this assms(1)] assms(2) Inr p show ?thesis by auto
qed

theorem unpublish_success_means_detached_witness:
  "last (srv_log (snd (run_state (ControllerUnpublishVolume (traced_server ex_server) ex_unpublish)
       (ex_state (Some (ex_disk\<lparr>ZecVolume_InstanceId := ''vm-1''\<rparr>)))))) = m_DetachVolume ex_id (Inr ())"
proof -
  let ?s = "ex_state (Some (ex_disk\<lparr>ZecVolume_InstanceId := ''vm-1''\<rparr>))"
  let ?run = "run_state (ControllerUnpublishVolume (traced_server ex_server) ex_unpublish) ?s"
  have "fst ?run = Inr ()" by code_simp
  then obtain t where run: "?run = (Inr (), t)" by (cases ?run) auto
  have "hd (srv_log (snd ?run)) = m_FindVolume ex_id (Inr (Some (ex_disk\<lparr>ZecVolume_InstanceId := ''vm-1''\<rparr>)))"
    by code_simp
  with unpublish_success_means_detached [OF run] run ex_vol_id_parses show ?thesis
    by (auto simp: ex_state_def ex_unpublish_def)
qed


section \<open>Expanding\<close>

lemma logs_ControllerExpandVolume:
  "logs srv_log (\<lambda>r tr. (list_ex cm_write tr \<longrightarrow> (\<exists>volId ser v n a. ParseCsiVolId (ev_VolumeId req) = Inr (volId, ser) \<and>
         tr = [m_FindVolume volId (Inr (Some v)), m_ResizeVolume volId n a] \<and>
         GibToByte (ZecVolume_Size v) < GibToByte n)) \<and>
       (\<forall>resp. r = Inr resp \<longrightarrow> (\<exists>volId ser v sc n. ParseCsiVolId (ev_VolumeId req) = Inr (volId, ser) \<and>
          hd tr = m_FindVolume volId (Inr (Some v)) \<and>
          NewDefaultZecStorageClassFromType (ZecVolume_Type v) = Some sc \<and>
          GetRequiredVolumeSizeByte sc (ev_CapacityRange req) = Inr n \<and>
          er_CapacityBytes resp = max (GibToByte (ZecVolume_Size v)) (GibToByte (ByteCeilToGib n)) \<and>
          (tr = [m_FindVolume volId (Inr (Some v))] \<and> GibToByte (ByteCeilToGib n) \<le> GibToByte (ZecVolume_Size v) \<or>
           tr = [m_FindVolume volId (Inr (Some v)), m_ResizeVolume volId (ByteCeilToGib n) (Inr ())] \<and>
             GibToByte (ZecVolume_Size v) < GibToByte (ByteCeilToGib n)))))
     (ControllerExpandVolume (traced_server cs) req)"
  unfolding ControllerExpandVolume_def traced_server_simps
  by (intro logs_server logs_mono [OF logs_expand_locked]) auto

lemma GibToByte_ByteCeilToGib_fits:
  assumes "wf_sc sc" "fits sc r n"
  shows "GibToByte (ByteCeilToGib n) = n"
proof -
  obtain q where q: "n = Gib * q" using assms(2) by (auto simp: fits_def dvd_def)
  have "20 * Gib \<le> n" "n \<le> 32768 * Gib" using assms wf_sc_sizes by (auto simp: fits_def)
  then have bounds: "0 \<le> q" "q < 8589934592" using q by simp_all
  then have n: "n = GibToByte q" using q by (simp add: GibToByte_small mult.commute)
  show ?thesis unfolding n using ByteCeilToGib_GibToByte [OF bounds] by simp
qed

lemma expand_required:
  assumes "run_state (ControllerExpandVolume (traced_server cs) req) s = (Inr resp, t)" "srv_log s = []"
    and "ev_CapacityRange req = Some rng" "no_overflow rng"
  shows "RequiredBytes rng \<le> er_CapacityBytes resp"
proof -
  obtain sc n z where sc: "NewDefaultZecStorageClassFromType z = Some sc"
    and n: "GetRequiredVolumeSizeByte sc (Some rng) = Inr n"
    and cap: "GibToByte (ByteCeilToGib n) \<le> er_CapacityBytes resp"
    using logsD [OF logs_ControllerExpandVolume assms(1)] assms(3) by auto
  have wf: "wf_sc sc" using wf_sc_default [OF sc] by simp
  have fits: "fits sc rng n" using GetRequiredVolumeSizeByte_least [OF wf assms(4) n] by simp
  show ?thesis using GibToByte_ByteCeilToGib_fits [OF wf fits] fits cap by (simp add: fits_def)
qed

lemma expand_answer_log:
  assumes "run_state (ControllerExpandVolume (traced_server cs) req) s = (Inr resp, t)" "srv_log s = []"
  shows "\<exists>volId ser v. ParseCsiVolId (ev_VolumeId req) = Inr (volId, ser) \<and>
    (srv_log t = [m_FindVolume volId (Inr (Some v))] \<and> er_CapacityBytes resp = GibToByte (ZecVolume_Size v) \<or>
     (\<exists>n. srv_log t = [m_FindVolume volId (Inr (Some v)), m_ResizeVolume volId n (Inr ())] \<and>
        er_CapacityBytes resp = GibToByte n \<and> GibToByte (ZecVolume_Size v) < GibToByte n))"
proof -
  obtain volId ser v n where "ParseCsiVolId (ev_VolumeId req) = Inr (volId, ser)"
    and "er_CapacityBytes resp = max (GibToByte (ZecVolume_Size v)) (GibToByte (ByteCeilToGib n))"
    and "srv_log t = [m_FindVolume volId (Inr (Some v))] \<and> GibToByte (ByteCeilToGib n) \<le> GibToByte (ZecVolume_Size v) \<or>
      srv_log t = [m_FindVolume volId (Inr (Some v)), m_ResizeVolume volId (ByteCeilToGib n) (Inr ())] \<and>
        GibToByte (ZecVolume_Size v) < GibToByte (ByteCeilToGib n)"
    using logsD [OF logs_ControllerExpandVolume assms(1)] assms(2) by auto
  then show ?thesis by (intro exI [of _ volId] exI [of _ ser] exI [of _ v]) (auto simp: max_def)
qed

text \<open>C19: \<open>ControllerExpandVolume\<close> never shrinks a volume. The only change it makes, whatever it answers,
  is one resize of the request's volume, right after a lookup of that volume that showed a smaller
  size than the new one. Every success has looked up the request's volume and either made no other
  call and answers the size the lookup showed, or has successfully resized it to a larger size and
  answers that; in both cases the capacity is at least the required bytes when the request has a
  range and rounding it does not overflow.\<close>

theorem expand_never_shrinks:
  assumes "run_state (ControllerExpandVolume (traced_server cs) req) s = (r, t)" "srv_log s = []"
  shows "(list_ex cm_write (srv_log t) \<longrightarrow> (\<exists>volId ser v n a. ParseCsiVolId (ev_VolumeId req) = Inr (volId, ser) \<and>
      srv_log t = [m_FindVolume volId (Inr (Some v)), m_ResizeVolume volId n a] \<and>
      GibToByte (ZecVolume_Size v) < GibToByte n)) \<and>
    (\<forall>resp. r = Inr resp \<longrightarrow>
      (\<exists>volId ser v. ParseCsiVolId (ev_VolumeId req) = Inr (volId, ser) \<and>
        (srv_log t = [m_FindVolume volId (Inr (Some v))] \<and> er_CapacityBytes resp = GibToByte (ZecVolume_Size v) \<or>
         (\<exists>n. srv_log t = [m_FindVolume volId (Inr (Some v)), m_ResizeVolume volId n (Inr ())] \<and>
            er_CapacityBytes resp = GibToByte n \<and> GibToByte (ZecVolume_Size v) < GibToByte n)))) \<and>
    (\<forall>resp rng. r = Inr resp \<longrightarrow> ev_CapacityRange req = Some rng \<longrightarrow> no_overflow rng \<longrightarrow>
      RequiredBytes rng \<le> er_CapacityBytes resp)"
proof (intro conjI allI impI)
  assume "list_ex cm_write (srv_log t)"
  then show "\<exists>volId ser v n a. ParseCsiVolId (ev_VolumeId req) = Inr (volId, ser) \<and>
      srv_log t = [m_FindVolume volId (Inr (Some v)), m_ResizeVolume volId n a] \<and> GibToByte (ZecVolume_Size v) < GibToByte n"
    using logsD [OF logs_ControllerExpandVolume assms(1)] assms(2) by auto
qed (use assms expand_answer_log expand_required in auto)

theorem expand_never_shrinks_witness:
  "\<exists>resp t v n a. run_state (ControllerExpandVolume (traced_server ex_server) (ex_expand (50 * Gib - 7))) (ex_state (Some ex_disk)) =
     (Inr resp, t) \<and> srv_log t = [m_FindVolume ex_id (Inr (Some v)), m_ResizeVolume ex_id n a] \<and>
     GibToByte (ZecVolume_Size v) < GibToByte n \<and> 50 * Gib - 7 \<le> er_CapacityBytes resp"
proof -
  let ?req = "ex_expand (50 * Gib - 7)"
  let ?run = "run_state (ControllerExpandVolume (traced_server ex_server) ?req) (ex_state (Some ex_disk))"
  have "fst ?run = Inr \<lparr>er_CapacityBytes = 50 * Gib, er_NodeExpansionRequired = False\<rparr>" by code_simp
  then obtain resp t where run: "?run = (Inr resp, t)" by (cases ?run) auto
  have "list_ex cm_write (srv_log (snd ?run))" by code_simp
  moreover have "ev_CapacityRange ?req = Some \<lparr>RequiredBytes = 50 * Gib - 7, LimitBytes = 0\<rparr>" "ev_VolumeId ?req = ex_vol_id"
    by (simp_all add: ex_expand_def)
  moreover have "no_overflow \<lparr>RequiredBytes = 50 * Gib - 7, LimitBytes = 0\<rparr>" by (simp add: no_overflow_def)
  moreover have "srv_log (ex_state (Some ex_disk)) = []" by (simp add: ex_state_def)
  ultimately show ?thesis
    using expand_never_shrinks [OF run] run ex_vol_id_parses by fastforce
qed

text \<open>C38: An expansion request within one GiB of the largest \<open>int64\<close> is not refused: for a volume
  of a known type the handler answers success with the unchanged size and does not resize.\<close>

theorem expand_overflow_reports_success:
  assumes "ParseCsiVolId (ev_VolumeId req) = Inr (volId, ser)" "volId \<notin> srv_held s"
    and "ValidateControllerServiceRequest (cs_driver cs) RPC_EXPAND_VOLUME"
    and "run_state (cm_FindVolume (cs_cloud cs) volId) (srv_world s) = (Inr (Some v), w)"
    and "VolumeType_IsValid (ZecVolume_Type v)" "0 \<le> GibToByte (ZecVolume_Size v)"
    and "ev_CapacityRange req = Some rng" "wf_range rng" "\<not> no_overflow rng" "LimitBytes rng = 0"
  shows "run_state (ControllerExpandVolume cs req) s =
    (Inr \<lparr>er_CapacityBytes = GibToByte (ZecVolume_Size v),
          er_NodeExpansionRequired = \<not> cap_is_block (ev_VolumeCapability req)\<rparr>, s\<lparr>srv_world := w\<rparr>)"
proof -
  obtain sc where sc: "NewDefaultZecStorageClassFromType (ZecVolume_Type v) = Some sc"
    using assms(5) by (simp add: NewDefaultZecStorageClassFromType_def)
  have "GetRequiredVolumeSizeByte sc (Some rng) = Inr int64_min"
    using wf_sc_default [OF sc] assms(8-10) by (intro GetRequiredVolumeSizeByte_overflow) auto
  moreover have "GibToByte (ByteCeilToGib int64_min) = 0"
    by (simp add: int64_min_def GibToByte_def wrap64_def)
  moreover have "ev_VolumeId req \<noteq> []"
    using assms(1) by (auto simp: ParseCsiVolId_Inr_iff ZECVOLID_LEN_def GenCsiVolId_def)
  ultimately show ?thesis
    using assms sc
    by (simp add: ControllerExpandVolume_def expand_locked_def with_lock_def on_locks_TryAcquire
      on_locks_Release on_world_def)
qed

theorem expand_overflow_reports_success_witness:
  "run_state (ControllerExpandVolume ex_server (ex_expand (2 ^ 63 - 1))) \<lparr>srv_locks = NewResourceLocks, srv_world = Some ex_disk\<rparr> =
     (Inr \<lparr>er_CapacityBytes = 40 * Gib, er_NodeExpansionRequired = False\<rparr>,
      \<lparr>srv_locks = NewResourceLocks, srv_world = Some ex_disk\<rparr>)"
proof -
  let ?req = "ex_expand (2 ^ 63 - 1)"
  let ?s = "\<lparr>srv_locks = NewResourceLocks, srv_world = Some ex_disk\<rparr>"
  have parse: "ParseCsiVolId (ev_VolumeId ?req) = Inr (ex_id, ex_serial)"
    using ex_vol_id_parses by (simp add: ex_expand_def)
  have free: "ex_id \<notin> srv_held ?s" by (simp add: NewResourceLocks_def)
  have rpc: "ValidateControllerServiceRequest (cs_driver ex_server) RPC_EXPAND_VOLUME" by code_simp
  have find: "run_state (cm_FindVolume (cs_cloud ex_server) ex_id) (srv_world ?s) = (Inr (Some ex_disk), Some ex_disk)"
    by (simp add: ex_server_def mem_cloud_def)
  have type: "VolumeType_IsValid (ZecVolume_Type ex_disk)" by code_simp
  have size40: "GibToByte (ZecVolume_Size ex_disk) = 40 * Gib" by code_simp
  have block: "cap_is_block (ev_VolumeCapability ?req)" by code_simp
  have rng: "ev_CapacityRange ?req = Some \<lparr>RequiredBytes = 2 ^ 63 - 1, LimitBytes = 0\<rparr>" by (simp add: ex_expand_def)
  from expand_overflow_reports_success [OF parse free rpc find type _ rng] size40 block show ?thesis
    by (simp add: wf_range_def no_overflow_def is_int64_def int64_min_def int64_max_def)
qed


section \<open>Creating\<close>

text \<open>C15: \<open>CreateVolume\<close> creates at most one disk, and only after the search by name answered that
  there is none; name, size, type, zone and resource group of the disk it creates are those it
  searched for. So a retry that finds the disk of an earlier attempt creates nothing.\<close>

theorem create_only_after_empty_search:
  assumes "run_state (CreateVolume (traced_server cs) req) s = (r, t)" "srv_log s = []"
  shows "length (filter cm_write (srv_log t)) \<le> 1 \<and>
    (list_ex cm_write (srv_log t) \<longrightarrow> (\<exists>z n ty g.
       hd (srv_log t) = m_FindVolumeByName (cv_Name req) z n ty g (None, None) \<and>
       (\<forall>e \<in> set (srv_log t). cm_write e \<longrightarrow> creates_key req z n ty g e)))"
proof -
  have "logs srv_log (\<lambda>r tr. length (filter cm_write tr) \<le> 1 \<and>
    (list_ex cm_write tr \<longrightarrow> (\<exists>z n ty g.
       hd tr = m_FindVolumeByName (cv_Name req) z n ty g (None, None) \<and>
       (\<forall>e \<in> set tr. cm_write e \<longrightarrow> creates_key req z n ty g e))))
     (CreateVolume (traced_server cs) req)"
    by (rule logs_mono [OF logs_CreateVolume])
      (auto simp: create_log_def new_log_def list_ex_iff split: if_splits)
  from logsD [OF this assms(1)] assms(2) show ?thesis by auto
qed

theorem create_only_after_empty_search_witness:
  "case run_state (CreateVolume (traced_server ex_server) ex_create) (ex_state None) of
     (r, t) \<Rightarrow> length (filter cm_write (srv_log t)) = 1 \<and>
       (\<exists>z n ty g. hd (srv_log t) = m_FindVolumeByName ''pvc-1'' z n ty g (None, None))"
proof -
  let ?run = "run_state (CreateVolume (traced_server ex_server) ex_create) (ex_state None)"
  obtain r t where run: "?run = (r, t)" by (cases ?run)
  have "length (filter cm_write (srv_log (snd ?run))) = 1 \<and> list_ex cm_write (srv_log (snd ?run))" by code_simp
  with create_only_after_empty_search [OF run] run show ?thesis
    by (auto simp: ex_state_def ex_create_def)
qed

text \<open>C16: The capacity that a successful \<open>CreateVolume\<close> answers lies in the requested range, for a
  new volume and for one that was found (when rounding the request does not overflow).\<close>

theorem create_capacity_in_range:
  assumes "run_state (CreateVolume (traced_server cs) req) s = (Inr vol, t)" "srv_log s = []"
    and "cv_CapacityRange req = Some rng" "no_overflow rng"
  shows "IsValidCapacityBytes (CapacityBytes vol) (cv_CapacityRange req)"
proof -
  have log: "create_log cs req (Inr vol) (srv_log t)"
    using logsD [OF logs_CreateVolume assms(1)] assms(2) by auto
  then show ?thesis
  proof (cases rule: create_log_success)
    case (new sc topo params b rest)
    have wf: "wf_sc sc" using new(1) sc_build_Inr(1) by (auto simp: NewZecStorageClassFromMap_def split: sum.splits)
    have fits: "fits sc rng b" using GetRequiredVolumeSizeByte_least [OF wf assms(4)] new(3) assms(3) by simp
    have "CapacityBytes vol = b"
      using new(5) GibToByte_ByteCeilToGib_fits [OF wf fits] by (simp add: new_log_def)
    with fits show ?thesis by (auto simp: assms(3) IsValidCapacityBytes_def fits_def)
  next
    case (existing sc topo params b v)
    then show ?thesis by (blast intro: cv_existing_Inr(1))
  qed
qed

theorem create_capacity_in_range_witness:
  "\<exists>vol t. run_state (CreateVolume (traced_server ex_server) ex_create) (ex_state None) = (Inr vol, t) \<and>
     IsValidCapacityBytes (CapacityBytes vol) (cv_CapacityRange ex_create)"
proof -
  let ?run = "run_state (CreateVolume (traced_server ex_server) ex_create) (ex_state None)"
  have "case fst ?run of Inl _ \<Rightarrow> False | Inr v \<Rightarrow> CapacityBytes v = 40 * Gib" by code_simp
  then obtain vol t where run: "?run = (Inr vol, t)" by (cases ?run) (auto split: sum.splits)
  have rng: "cv_CapacityRange ex_create = Some \<lparr>RequiredBytes = 40 * Gib - 1, LimitBytes = 0\<rparr>"
    by (simp add: ex_create_def)
  show ?thesis using create_capacity_in_range [OF run _ rng] run
    by (auto simp: ex_state_def no_overflow_def)
qed

text \<open>The cloud answered \<open>v\<close> to a lookup.\<close>

definition reported :: "cm_event list \<Rightarrow> ZecVolume \<Rightarrow> bool" where
  "reported tr v \<longleftrightarrow> (\<exists>i. m_FindVolume i (Inr (Some v)) \<in> set tr) \<or>
     (\<exists>nm z n ty g. m_FindVolumeByName nm z n ty g (Some v, None) \<in> set tr)"

lemma genCsiVolId_Some: "genCsiVolId (Some v) = Some i \<Longrightarrow> i = GenCsiVolId (ZecVolume_Id v) (ZecVolume_Serial v)"
  by (simp add: genCsiVolId_def split: if_splits)

text \<open>C30: The volume identifier a successful \<open>CreateVolume\<close> answers is that of a disk the cloud
  reported; if that disk's identifier and serial have the documented form, the other handlers
  parse it back to exactly this disk.\<close>

theorem create_answers_parseable_id:
  assumes "run_state (CreateVolume (traced_server cs) req) s = (Inr vol, t)" "srv_log s = []"
  shows "\<exists>v. reported (srv_log t) v \<and> VolumeId vol = GenCsiVolId (ZecVolume_Id v) (ZecVolume_Serial v) \<and>
    (length (ZecVolume_Id v) = ZECVOLID_LEN \<and> length (ZecVolume_Serial v) = ZECVOLSERIAL_LEN \<and>
       CHR ''-'' \<notin> set (ZecVolume_Id v) \<longrightarrow>
     ParseCsiVolId (VolumeId vol) = Inr (ZecVolume_Id v, ZecVolume_Serial v))"
proof -
  have log: "create_log cs req (Inr vol) (srv_log t)"
    using logsD [OF logs_CreateVolume assms(1)] assms(2) by auto
  then have "\<exists>v. reported (srv_log t) v \<and> genCsiVolId (Some v) = Some (VolumeId vol)"
  proof (cases rule: create_log_success)
    case (new sc topo params b rest)
    then obtain i v where "last rest = m_FindVolume i (Inr (Some v))" "rest \<noteq> []"
      "genCsiVolId (Some v) = Some (VolumeId vol)" by (cases rest) (auto simp: new_log_def)
    moreover from this have "m_FindVolume i (Inr (Some v)) \<in> set (srv_log t)"
      using last_in_set [of rest] new(4) by auto
    ultimately show ?thesis by (auto simp: reported_def)
  next
    case (existing sc topo params b v)
    then show ?thesis using cv_existing_Inr(2) by (intro exI [of _ v]) (auto simp: reported_def)
  qed
  then obtain v where "reported (srv_log t) v" "VolumeId vol = GenCsiVolId (ZecVolume_Id v) (ZecVolume_Serial v)"
    using genCsiVolId_Some by blast
  then show ?thesis by (auto simp: ParseCsiVolId_Inr_iff intro!: exI [of _ v])
qed

theorem create_answers_parseable_id_witness:
  "\<exists>vol t. run_state (CreateVolume (traced_server ex_server) ex_create) (ex_state None) = (Inr vol, t) \<and>
     (\<exists>v. reported (srv_log t) v \<and> VolumeId vol = GenCsiVolId (ZecVolume_Id v) (ZecVolume_Serial v))"
proof -
  let ?run = "run_state (CreateVolume (traced_server ex_server) ex_create) (ex_state None)"
  have "case fst ?run of Inl _ \<Rightarrow> False | Inr v \<Rightarrow> True" by code_simp
  then obtain vol t where run: "?run = (Inr vol, t)" by (cases ?run) (auto split: sum.splits)
  have "srv_log (ex_state None) = []" by (simp add: ex_state_def)
  from create_answers_parseable_id [OF run this] run show ?thesis by blast
qed

section \<open>Topology\<close>

lemma pick_segments_spec:
  assumes "pick_segments d segs topo = Inr t" "distinct (map fst segs)"
  shows "zoneId t = or_else (map_of segs (GetTopologyZoneKey d)) (zoneId topo) \<and>
    fst ` set segs \<subseteq> {GetTopologyZoneKey d, GetTopologyVmTypeKey d}"
  using assms
  by (induction d segs topo rule: pick_segments.induct)
    (auto simp: SetZone_topo_def SetVmType_def or_else_def map_of_eq_None_iff image_iff
      split: if_splits option.splits)

lemma map_sum_id_Some: "map_sum id Some x = Inr (Some t) \<longleftrightarrow> x = Inr t"
  by (cases x) simp_all

lemma PickTopology_pick:
  assumes "PickTopology d (Some rq) = Inr (Some t)"
  shows "\<exists>segs rest. Preferred rq @ Requisite rq = segs # rest \<and> pick_segments d segs empty_topology = Inr t"
  using assms unfolding PickTopology_def option.case
  by (cases "Preferred rq"; cases "Requisite rq") (simp_all add: map_sum_id_Some)

text \<open>The zone that \<open>PickTopology\<close> chooses is the zone segment of the first preferred topology,
  or of the first requisite one when none is preferred, whatever the order of the segments;
  topologies with other keys are refused.\<close>

theorem pick_topology_first_zone:
  assumes "PickTopology d (Some rq) = Inr (Some t)"
    and "\<forall>segs \<in> set (Preferred rq @ Requisite rq). distinct (map fst segs)"
  shows "\<exists>segs rest. Preferred rq @ Requisite rq = segs # rest \<and>
    zoneId t = or_else (map_of segs (GetTopologyZoneKey d)) [] \<and>
    fst ` set segs \<subseteq> {GetTopologyZoneKey d, GetTopologyVmTypeKey d}"
proof -
  obtain segs rest where first: "Preferred rq @ Requisite rq = segs # rest"
    "pick_segments d segs empty_topology = Inr t"
    using PickTopology_pick [OF assms(1)] by blast
  moreover have "distinct (map fst segs)" using assms(2) first(1) by auto
  ultimately show ?thesis
    using pick_segments_spec [OF first(2)] by (auto simp: empty_topology_def)
qed


definition ex_segments :: segments where
  "ex_segments = [(GetTopologyVmTypeKey ex_driver, BasicVmName), (GetTopologyZoneKey ex_driver, ''z7'')]"

theorem pick_topology_first_zone_witness:
  "\<exists>t. PickTopology ex_driver (Some \<lparr>Requisite = [], Preferred = [ex_segments]\<rparr>) = Inr (Some t) \<and> zoneId t = ''z7''"
proof -
  let ?rq = "\<lparr>Requisite = [], Preferred = [ex_segments]\<rparr>"
  have pick: "PickTopology ex_driver (Some ?rq) = Inr (Some \<lparr>zoneId = ''z7'', vmtp = BasicVmType\<rparr>)" by code_simp
  have "\<forall>segs \<in> set (Preferred ?rq @ Requisite ?rq). distinct (map fst segs)"
    by (simp add: ex_segments_def GetTopologyZoneKey_def GetTopologyVmTypeKey_def)
  from pick_topology_first_zone [OF pick this] pick show ?thesis by simp
qed

text \<open>The accessible topology that the driver reports for a volume leads back to it: picking
  it chooses the zone of the volume, and the volume is valid for any requirement that lists it
  as requisite.\<close>

theorem volume_topology_roundtrip:
  assumes "segs \<in> set (GetVolumeTopology d (Some v))" "Requisite rq = segs # rest" "Preferred rq = []"
  shows "PickTopology d (Some rq) = Inr (Some (NewTopology (ZecVolume_Zone v) BasicVmType)) \<and>
    IsValidTopology d (Some v) (Some rq)"
proof -
  have segs: "segs = [(GetTopologyVmTypeKey d, BasicVmName), (GetTopologyZoneKey d, ZecVolume_Zone v)]"
    using assms(1)
    by (auto simp: GetVolumeTopology_def VolumeType_IsValid_iff VolumeTypeAttachConstraint_def type_consts or_else_def
      split: if_splits)
  have "PickTopology d (Some rq) = Inr (Some (NewTopology (ZecVolume_Zone v) BasicVmType))"
    using topology_keys_differ [of d] unfolding PickTopology_def option.case assms(2,3) list.case segs
    by (simp add: NewTopology_def SetZone_topo_def SetVmType_def empty_topology_def VmTypeValue_def
      not_sym [OF topology_keys_differ])
  moreover have "IsValidTopology d (Some v) (Some rq)"
    using assms(1,2) by (auto simp: IsValidTopology_def list_ex_iff intro: map_eq_refl)
  ultimately show ?thesis ..
qed

theorem volume_topology_roundtrip_witness:
  "PickTopology ex_driver (Some \<lparr>Requisite = GetVolumeTopology ex_driver (Some ex_disk), Preferred = []\<rparr>) =
     Inr (Some (NewTopology ''z1'' BasicVmType))"
proof -
  define segs where "segs = hd (GetVolumeTopology ex_driver (Some ex_disk))"
  have "tl (GetVolumeTopology ex_driver (Some ex_disk)) = []" "GetVolumeTopology ex_driver (Some ex_disk) \<noteq> []"
    by code_simp+
  then have segs: "GetVolumeTopology ex_driver (Some ex_disk) = [segs]"
    unfolding segs_def by (metis list.collapse)
  then have "segs \<in> set (GetVolumeTopology ex_driver (Some ex_disk))" by simp
  from volume_topology_roundtrip [OF this, of "\<lparr>Requisite = [segs], Preferred = []\<rparr>"] segs
  show ?thesis by (simp add: ex_disk_def ex_volume_def)
qed


section \<open>What follows from the contract of the cloud manager\<close>

lemma capacity_of_required:
  assumes "wf_sc sc" "GetRequiredVolumeSizeByte sc rng = Inr b" "\<forall>r. rng = Some r \<longrightarrow> no_overflow r"
  shows "IsValidCapacityBytes (GibToByte (ByteCeilToGib b)) rng"
proof (cases rng)
  case None
  then show ?thesis by (simp add: IsValidCapacityBytes_def)
next
  case (Some r)
  then have fits: "fits sc r b" using GetRequiredVolumeSizeByte_least assms by blast
  with Some show ?thesis
    using GibToByte_ByteCeilToGib_fits [OF assms(1) fits]
    by (auto simp: IsValidCapacityBytes_def fits_def)
qed

context cloud_manager
begin

lemma existing_conflicts_only_by_topology:
  assumes sc: "wf_sc sc" and b: "GetRequiredVolumeSizeByte sc (cv_CapacityRange req) = Inr b"
    and no: "\<forall>r. cv_CapacityRange req = Some r \<longrightarrow> no_overflow r"
    and found: "run_state (cm_FindVolumeByName C (cv_Name req) z (ByteCeilToGib b) (VolumeType_String (diskType sc)) grp) w =
      ((Some v, None), w')"
  shows "cv_existing cs req params sc v = Inl AlreadyExists \<longleftrightarrow>
    \<not> IsValidTopology (cs_driver cs) (Some v) (cv_AccessibilityRequirements req)"
proof -
  have v: "ZecVolume_Size v = ByteCeilToGib b" "ZecVolume_Type v = StringToType (VolumeType_String (diskType sc))"
    using volume_found [OF found] by auto
  have "ZecVolume_Type v = diskType sc" using v(2) sc by (simp add: StringToType_String wf_sc_def)
  moreover have "IsValidCapacityBytes (GibToByte (ZecVolume_Size v)) (cv_CapacityRange req)"
    using capacity_of_required [OF sc b no] v(1) by simp
  ultimately show ?thesis by (auto simp: cv_existing_def Let_def split: option.splits)
qed

lemma snapshot_reused:
  assumes "cs_cloud cs = C"
    and "run_state (cm_FindVolume C src) (srv_world s) = (Inr (Some v), w1)" "ZecVolume_SnapshotAbility v"
    and found: "run_state (cm_FindSnapshotByName C (cs_Name req) src (ZecVolume_Zone v) (ZecVolume_ResourceGroupId v)) w1 =
      ((Some sn, None), w2)"
  shows "run_state (snapshot_locked cs now req src) s =
      (Inr (snapshot_response now (ZecVolume_Size v) sn), s\<lparr>srv_world := w2\<rparr>)"
    and "SourceVolumeId (snapshot_response now (ZecVolume_Size v) sn) = src"
  using assms snapshot_found [OF found]
  by (simp_all add: snapshot_locked_def on_world_def snapshot_response_def)

end

text \<open>With the driver's cloud manager, a volume that the search by name returns without error
  already has the requested capacity and type; \<open>CreateVolume\<close> refuses it as incompatible
  exactly when its topology is not among the requisite ones.\<close>

theorem existing_volume_conflicts_only_by_topology:
  assumes "wf_sc sc" "GetRequiredVolumeSizeByte sc (cv_CapacityRange req) = Inr b"
    and "\<forall>r. cv_CapacityRange req = Some r \<longrightarrow> no_overflow r"
    and "run_state (FindVolumeByName cm (cv_Name req) z (ByteCeilToGib b) (VolumeType_String (diskType sc)) grp) w =
      ((Some v, None), w')"
  shows "cv_existing cs req params sc v = Inl AlreadyExists \<longleftrightarrow>
    \<not> IsValidTopology (cs_driver cs) (Some v) (cv_AccessibilityRequirements req)"
  using zcm.existing_conflicts_only_by_topology [of sc req b cm z grp w v w'] assms
  by (simp add: zec_CloudManager_def)

definition ex_create40 :: CreateVolumeRequest where
  "ex_create40 = ex_create\<lparr>cv_AccessibilityRequirements := Some \<lparr>Requisite = [[(''topology/zone'', ''z9'')]], Preferred = []\<rparr>\<rparr>"

theorem existing_volume_conflicts_only_by_topology_witness:
  "\<exists>v. run_state (FindVolumeByName two_pages_cm ''pvc-1'' ''z1'' 40 BasicNvmeName ''g1'') Gone = ((Some v, None), Gone) \<and>
     cv_existing ex_server ex_create40 [] (sc_example\<lparr>diskType := 1\<rparr>) v = Inl AlreadyExists"
proof -
  let ?v = "toZecVolume (disk_named ''z1'' 40)"
  let ?sc = "sc_example\<lparr>diskType := 1\<rparr>"
  have names: "cv_Name ex_create40 = ''pvc-1''" "VolumeType_String (diskType ?sc) = BasicNvmeName"
    "cv_CapacityRange ex_create40 = Some \<lparr>RequiredBytes = 40 * Gib - 1, LimitBytes = 0\<rparr>"
    by (simp_all add: ex_create40_def ex_create_def VolumeType_String_def type_consts)
  have sc: "wf_sc ?sc" using wf_sc_example by (simp add: wf_sc_def VolumeType_IsValid_iff)
  have b: "GetRequiredVolumeSizeByte ?sc (cv_CapacityRange ex_create40) = Inr (40 * Gib)" by code_simp
  have gib: "ByteCeilToGib (40 * Gib) = 40" by code_simp
  have run: "run_state (FindVolumeByName two_pages_cm ''pvc-1'' ''z1'' 40 BasicNvmeName ''g1'') Gone = ((Some ?v, None), Gone)"
    by code_simp
  have "\<not> IsValidTopology (cs_driver ex_server) (Some ?v) (cv_AccessibilityRequirements ex_create40)" by code_simp
  with existing_volume_conflicts_only_by_topology [OF sc b, of two_pages_cm "''z1''" "''g1''" Gone ?v Gone ex_server "[]"]
    run names gib show ?thesis by (simp add: no_overflow_def)
qed

text \<open>C39: \<open>CreateSnapshot\<close> is idempotent: when the volume can be snapshotted and the search by name
  finds a snapshot without error, it answers that snapshot and calls the cloud for nothing
  else. The source volume it answers is the bare disk identifier, which is not a volume
  identifier that this driver's handlers accept.\<close>

theorem create_snapshot_reuses:
  assumes "ValidateControllerServiceRequest (cs_driver cs) RPC_CREATE_DELETE_SNAPSHOT"
    and "cs_cloud cs = zec_CloudManager cm" "ParseCsiVolId (cs_SourceVolumeId req) = Inr (src, ser)"
    and "src \<notin> srv_held s" "cs_Name req \<noteq> []" "length (cs_Name req) \<le> 64"
    and "run_state (FindVolume cm src) (srv_world s) = (Inr (Some v), w1)" "ZecVolume_SnapshotAbility v"
    and "run_state (FindSnapshotByName cm (cs_Name req) src (ZecVolume_Zone v) (ZecVolume_ResourceGroupId v)) w1 =
      ((Some sn, None), w2)"
  shows "\<exists>snap. run_state (CreateSnapshot cs now req) s = (Inr snap, s\<lparr>srv_world := w2\<rparr>) \<and>
    SnapshotId snap = ZecVolumeSnap_Id sn \<and> SourceVolumeId snap = src \<and>
    ParseCsiVolId (SourceVolumeId snap) = Inl NoSeparator"
proof -
  let ?t = "s\<lparr>srv_locks := srv_locks s\<lparr>locks := insert src (srv_held s)\<rparr>\<rparr>"
  have zec: "cm_FindVolume (zec_CloudManager cm) = FindVolume cm"
    "cm_FindSnapshotByName (zec_CloudManager cm) = FindSnapshotByName cm"
    by (simp_all add: zec_CloudManager_def)
  have body: "run_state (snapshot_locked cs now req src) ?t =
      (Inr (snapshot_response now (ZecVolume_Size v) sn), ?t\<lparr>srv_world := w2\<rparr>)"
    "SourceVolumeId (snapshot_response now (ZecVolume_Size v) sn) = src"
    using zcm.snapshot_reused [OF assms(2), of src ?t v w1 req sn w2 now] assms(7-9)
    unfolding zec by simp_all
  have src: "CHR ''-'' \<notin> set src" "cs_SourceVolumeId req \<noteq> []"
    using assms(3) by (auto simp: ParseCsiVolId_Inr_iff GenCsiVolId_def ZECVOLID_LEN_def)
  then have bare: "ParseCsiVolId src = Inl NoSeparator"
    by (simp add: ParseCsiVolId_def strings_Cut_def cut_char_None [THEN iffD2])
  show ?thesis
    using assms(1,3-6) src body bare
    by (intro exI [of _ "snapshot_response now (ZecVolume_Size v) sn"])
      (simp add: CreateSnapshot_def with_lock_def on_locks_TryAcquire on_locks_Release snapshot_response_def)
qed


text \<open>A client with one disk and one snapshot of it.\<close>

definition snap_client :: "disk_phase zec_client" where
  "snap_client = bin_client\<lparr>
     api_DescribeDisks := (\<lambda>q. State_Monad.return (Inr (Some \<lparr>TotalCount = Some 1, DataSet =
       [Some ((disk_named ''z1'' 40)\<lparr>di_DiskId := Some ex_id, di_SnapshotAbility := Some True\<rparr>)]\<rparr>))),
     api_DescribeSnapshots := (\<lambda>q. State_Monad.return (Inr (Some \<lparr>TotalCount = Some 1, DataSet =
       [Some \<lparr>si_SnapshotId = Some ''snap-1'', si_SnapshotName = Some ''s1'', si_Status = Some SnapStatusAvailable,
          si_DiskId = Some ex_id, si_DiskAbility = Some True, si_ZoneId = Some ''z1'', si_ResourceGroup = None,
          si_CreateTime = Some ''2025-01-02T03:04:05Z''\<rparr>]\<rparr>)))\<rparr>"

definition snap_cm :: "disk_phase zecCloudManager" where
  "snap_cm = bin_cm\<lparr>zecClient := Some snap_client\<rparr>"

definition snap_server :: "disk_phase ControllerServer" where
  "snap_server = \<lparr>cs_driver = ex_driver, cs_cloud = zec_CloudManager snap_cm, cs_globals = no_globals\<rparr>"

definition ex_snapshot :: CreateSnapshotRequest where
  "ex_snapshot = \<lparr>cs_SourceVolumeId = ex_vol_id, cs_Name = ''s1'', cs_Parameters = []\<rparr>"

theorem create_snapshot_reuses_witness:
  "\<exists>snap t. run_state (CreateSnapshot snap_server (0, 0) ex_snapshot) \<lparr>srv_locks = NewResourceLocks, srv_world = Gone\<rparr> = (Inr snap, t) \<and>
     SnapshotId snap = ''snap-1'' \<and> ParseCsiVolId (SourceVolumeId snap) = Inl NoSeparator"
proof -
  let ?s = "\<lparr>srv_locks = NewResourceLocks, srv_world = Gone\<rparr>"
  let ?v = "toZecVolume ((disk_named ''z1'' 40)\<lparr>di_DiskId := Some ex_id, di_SnapshotAbility := Some True\<rparr>)"
  let ?find = "run_state (FindSnapshotByName snap_cm (cs_Name ex_snapshot) ex_id (ZecVolume_Zone ?v) (ZecVolume_ResourceGroupId ?v)) Gone"
  have cap: "ValidateControllerServiceRequest (cs_driver snap_server) RPC_CREATE_DELETE_SNAPSHOT" by code_simp
  have cloud: "cs_cloud snap_server = zec_CloudManager snap_cm" by (simp add: snap_server_def)
  have parse: "ParseCsiVolId (cs_SourceVolumeId ex_snapshot) = Inr (ex_id, ex_serial)"
    using ex_vol_id_parses by (simp add: ex_snapshot_def)
  have free: "ex_id \<notin> srv_held ?s" by (simp add: NewResourceLocks_def)
  have nm: "cs_Name ex_snapshot \<noteq> []" "length (cs_Name ex_snapshot) \<le> 64" by (simp_all add: ex_snapshot_def)
  have vol: "run_state (FindVolume snap_cm ex_id) (srv_world ?s) = (Inr (Some ?v), Gone)" by code_simp
  have ability: "ZecVolume_SnapshotAbility ?v" by code_simp
  have "map_option ZecVolumeSnap_Id (fst (fst ?find)) = Some ''snap-1'' \<and> snd (fst ?find) = None \<and> snd ?find = Gone"
    by code_simp
  then obtain sn where find: "?find = ((Some sn, None), Gone)" and sn: "ZecVolumeSnap_Id sn = ''snap-1''"
    by (cases ?find) auto
  from create_snapshot_reuses [OF cap cloud parse free nm vol ability find, of "(0, 0)"] sn show ?thesis by auto
qed

text \<open>\<open>ValidateVolumeCapabilities\<close> confirms a request exactly when the volume exists and every
  capability of the request is one that \<open>ControllerPublishVolume\<close> accepts; an unsupported
  capability of an existing volume is not an error but a response without confirmation.\<close>

theorem validate_capabilities_agrees_with_publish:
  assumes "vc_VolumeCapabilities req \<noteq> []" "ParseCsiVolId (vc_VolumeId req) = Inr (volId, ser)"
    and "run_state (cm_FindVolume (cs_cloud cs) volId) (srv_world s) = (Inr (Some v), w)"
  shows "\<exists>resp. run_state (ValidateVolumeCapabilities cs req) s = (Inr resp, s\<lparr>srv_world := w\<rparr>) \<and>
    (resp \<noteq> None \<longleftrightarrow> (\<forall>c \<in> set (vc_VolumeCapabilities req). ValidateVolumeCapability (cs_driver cs) c)) \<and>
    (\<forall>c. resp = Some c \<longrightarrow> cc_VolumeCapabilities c = vc_VolumeCapabilities req)"
proof -
  have id: "vc_VolumeId req \<noteq> []" using assms(2) by (auto simp: ParseCsiVolId_Inr_iff GenCsiVolId_def)
  have modes: "list_ex (\<lambda>c1. GetMode c1 = cap_mode c) (volumeCap (cs_driver cs)) \<longleftrightarrow>
      ValidateVolumeCapability (cs_driver cs) c" for c
    unfolding ValidateVolumeCapability_def ValidateVolumeAccessMode_def by (simp add: eq_commute)
  show ?thesis
    using assms id by (simp add: ValidateVolumeCapabilities_def on_world_def modes list_all_iff)
qed

theorem validate_capabilities_agrees_with_publish_witness:
  "\<exists>c t. run_state (ValidateVolumeCapabilities ex_server \<lparr>vc_VolumeId = ex_vol_id, vc_VolumeContext = [],
       vc_VolumeCapabilities = [ex_cap], vc_Parameters = []\<rparr>) \<lparr>srv_locks = NewResourceLocks, srv_world = Some ex_disk\<rparr> =
     (Inr (Some c), t)"
proof -
  let ?req = "\<lparr>vc_VolumeId = ex_vol_id, vc_VolumeContext = [], vc_VolumeCapabilities = [ex_cap], vc_Parameters = []\<rparr>"
  let ?s = "\<lparr>srv_locks = NewResourceLocks, srv_world = Some ex_disk\<rparr>"
  have parse: "ParseCsiVolId (vc_VolumeId ?req) = Inr (ex_id, ex_serial)" using ex_vol_id_parses by simp
  have find: "run_state (cm_FindVolume (cs_cloud ex_server) ex_id) (srv_world ?s) = (Inr (Some ex_disk), Some ex_disk)"
    by (simp add: ex_server_def mem_cloud_def)
  have "\<forall>c \<in> set (vc_VolumeCapabilities ?req). ValidateVolumeCapability (cs_driver ex_server) c" by code_simp
  with validate_capabilities_agrees_with_publish [OF _ parse find] show ?thesis by auto
qed

end
