(* ===== verification/NodeProps.thy ===== *)
theory NodeProps
  imports NodeProofs ControllerProps
begin

text \<open>
  The properties of the node server, for every node environment, with witnesses on a small
  in-memory node that has one attached disk.
\<close>

section \<open>An example node\<close>

text \<open>The format of the disk (empty when there is none) and the mounted targets.\<close>

record node_world =
  nw_format :: string
  nw_mounts :: "string list"

definition ex_env :: "node_world node_env" where
  "ex_env =
     \<lparr>mnt_Mount = (\<lambda>s t f opt. State (\<lambda>w.
        if ''bind'' \<in> set opt \<or> nw_format w = f then (True, w\<lparr>nw_mounts := t # nw_mounts w\<rparr>) else (False, w))),
      mnt_GetDiskFormat = (\<lambda>d. State (\<lambda>w. (Some (nw_format w), w))),
      mnt_IsMountPoint = (\<lambda>p. State (\<lambda>w. (Inr (p \<in> set (nw_mounts w)), w))),
      mnt_IsLikelyNotMountPoint = (\<lambda>p. State (\<lambda>w. (Inr (p \<notin> set (nw_mounts w)), w))),
      mnt_CleanupMountPoint = (\<lambda>p b. State (\<lambda>w. (True, w\<lparr>nw_mounts := removeAll p (nw_mounts w)\<rparr>))),
      mnt_NeedResize = (\<lambda>d p. State (\<lambda>w. (Some False, w))),
      mnt_Resize = (\<lambda>d p. State (\<lambda>w. (Some True, w))),
      mnt_Exec = (\<lambda>c a. State (\<lambda>w.
        if strings_HasPrefix c ''mkfs.'' then ((None, []), w\<lparr>nw_format := drop 5 c\<rparr>)
        else if c = ''lsblk'' then ((None, ''vda'' @ [CHR 0x0A] @ ''vdb'' @ [CHR 0x0A]), w)
        else if c = ''blockdev'' then ((None, ''4096'' @ [CHR 0x0A]), w)
        else ((None, []), w))),
      os_Exec = (\<lambda>c a. State (\<lambda>w. ((None, []), w))),
      os_Stat = (\<lambda>p. State (\<lambda>w. (Inr \<lparr>ModeDevice = False, ModeCharDevice = False\<rparr>, w))),
      os_MkdirAll = (\<lambda>p. State (\<lambda>w. (True, w))),
      os_CreateFile = (\<lambda>p. State (\<lambda>w. (True, w))),
      os_ReadFile = (\<lambda>p. State (\<lambda>w. (if p = serial_path ''vdb'' then Some (ex_serial @ [CHR 0x0A]) else None, w))),
      unix_Statfs = (\<lambda>p. State (\<lambda>w. (Some \<lparr>Blocks = 100, Bfree = 60, Bavail = 50, Bsize = 4096\<rparr>, w)))\<rparr>"

definition ex_node :: "node_world NodeServer" where
  "ex_node = \<lparr>ns_driver = ex_driver, ns_env = ex_env, ns_globals = no_globals\<rparr>"

definition ex_node_state :: "string \<Rightarrow> string list \<Rightarrow> (node_world \<times> node_event list) server" where
  "ex_node_state fmt ms = \<lparr>srv_locks = NewResourceLocks, srv_world = (\<lparr>nw_format = fmt, nw_mounts = ms\<rparr>, [])\<rparr>"

definition ex_mount_cap :: VolumeCapability where
  "ex_mount_cap = \<lparr>cap_AccessMode = Some (VolumeCapability_AccessMode SINGLE_NODE_WRITER),
     cap_AccessType = AccessType_Mount \<lparr>FsType = ''xfs'', MountFlags = []\<rparr>\<rparr>"

definition ex_stage :: NodeStageRequest where
  "ex_stage = \<lparr>nst_VolumeId = ex_vol_id, nst_StagingTargetPath = ''/stage'', nst_VolumeCapability = Some ex_mount_cap\<rparr>"

definition ex_node_publish :: NodePublishRequest where
  "ex_node_publish = \<lparr>np_VolumeId = ex_vol_id, np_TargetPath = ''/pod'', np_StagingTargetPath = ''/stage'',
     np_VolumeCapability = Some ex_mount_cap, np_Readonly = True\<rparr>"

section \<open>Finding the device\<close>

text \<open>C25: The lookup of a device by serial number answers a path exactly when one, and only one, of
  the listed devices has that serial, and the path is that device; no device and two devices with
  the serial are both errors.\<close>

theorem device_by_serial_unique:
  assumes files: "\<And>v. reads_files env f v"
    and lsblk: "run_state (mnt_Exec env ''lsblk'' [''-d'', ''-o'', ''NAME'', ''-n'', ''-i'']) w = ((None, out), w')"
  shows "fst (run_state (getDevPathBySerial env serial) w) = Some p \<longleftrightarrow>
    (\<exists>d. filter (has_serial f serial) (strings_Split (strings_TrimSpace out) (CHR 0x0A)) = [d] \<and> p = ''/dev/'' @ d)"
proof -
  let ?devs = "strings_Split (strings_TrimSpace out) (CHR 0x0A)"
  note scan = scan_devs_result [OF files, of serial ?devs w']
  show ?thesis
    using lsblk scan
    by (cases "filter (has_serial f serial) ?devs"; cases "tl (filter (has_serial f serial) ?devs)")
      (auto simp: getDevPathBySerial_def)
qed

definition ex_file :: "string \<Rightarrow> string option" where
  "ex_file p = (if p = serial_path ''vdb'' then Some (ex_serial @ [CHR 0x0A]) else None)"

lemma ex_reads_files: "reads_files ex_env ex_file w"
  by (simp add: reads_files_def ex_env_def ex_file_def)

theorem device_by_serial_unique_witness:
  "fst (run_state (getDevPathBySerial ex_env ex_serial) \<lparr>nw_format = [], nw_mounts = []\<rparr>) = Some ''/dev/vdb''"
proof -
  let ?out = "''vda'' @ [CHR 0x0A] @ ''vdb'' @ [CHR 0x0A]"
  let ?w = "\<lparr>nw_format = [], nw_mounts = []\<rparr>"
  have "run_state (mnt_Exec ex_env ''lsblk'' [''-d'', ''-o'', ''NAME'', ''-n'', ''-i'']) ?w = ((None, ?out), ?w)"
    by (simp add: ex_env_def strings_HasPrefix_def)
  moreover have "filter (has_serial ex_file ex_serial) (strings_Split (strings_TrimSpace ?out) (CHR 0x0A)) = [''vdb'']"
    by code_simp
  ultimately show ?thesis
    using device_by_serial_unique [OF ex_reads_files, where w = ?w and serial = ex_serial] by simp
qed

section \<open>Staging\<close>

lemma set_gated_flags:
  "set (gated_flags g m) = (if FEAT_MOUNTOPT_ENABLE \<in> set (FeatureGates g) then set (MountFlags m) else {})"
  by (auto simp: gated_flags_def)

lemma logs_NodeStageVolume:
  assumes "ParseCsiVolId (nst_VolumeId req) = Inr (v, serial)"
    and "nst_VolumeCapability req = Some c" "cap_mount c = Some m"
  shows "logs srv_log
    (\<lambda>r. stage_guard serial (request_fsType (Some m)) (''ro'' \<in> set (gated_flags (ns_globals ns) m)))
    (NodeStageVolume (traced_node ns) req)"
  using logs_stage_locked [of serial c ns] unfolding NodeStageVolume_def assms traced_node_simps
  by (intro logs_cases) (auto simp: no_mkfs_stage_guard intro!: logs_return logs_with_lock)

text \<open>C5: Staging a volume creates a file system at most once. It does so with the command for the
  requested file system on the device whose serial file was read and names this volume, and only
  after a mount of that device failed and the device was found to be empty. With the feature gate
  \<open>enable_mount_opt\<close> on it never does so when the request's mount flags contain \<open>ro\<close>; with the gate
  off the driver drops the request's mount flags, \<open>ro\<close> included, and they do not keep it from
  formatting.\<close>

theorem stage_formats_only_empty_disk:
  assumes "ParseCsiVolId (nst_VolumeId req) = Inr (v, serial)"
    and "nst_VolumeCapability req = Some c" "cap_mount c = Some m"
    and "run_state (NodeStageVolume (traced_node ns) req) s = (r, t)" "srv_log s = []"
    and "list_ex is_mkfs (srv_log t)"
  shows "(FEAT_MOUNTOPT_ENABLE \<in> set (FeatureGates (ns_globals ns)) \<longrightarrow> ''ro'' \<notin> set (MountFlags m)) \<and>
    (\<exists>dev pre e post. srv_log t = pre @ e # post \<and> formats dev (request_fsType (Some m)) [] e \<and>
       filter is_mkfs pre = [] \<and> filter is_mkfs post = [] \<and>
       serial_read serial dev pre \<and> shown_empty dev pre \<and> (\<exists>tgt f opt. nv_Mount dev tgt f opt False \<in> set pre))"
proof -
  from logsD [OF logs_NodeStageVolume [OF assms(1-3)] assms(4)] assms(5)
  have "stage_guard serial (request_fsType (Some m)) (''ro'' \<in> set (gated_flags (ns_globals ns) m)) (srv_log t)" by simp
  moreover have "filter is_mkfs (srv_log t) \<noteq> []" using assms(6) by (auto simp: filter_empty_conv list_ex_iff)
  ultimately show ?thesis
    using set_gated_flags [of "ns_globals ns" m] unfolding stage_guard_def formats_after_def may_format_def by auto
qed

theorem stage_formats_only_empty_disk_witness:
  "case run_state (NodeStageVolume (traced_node ex_node) ex_stage) (ex_node_state [] []) of
     (r, t) \<Rightarrow> r = Inr () \<and> nw_mounts (fst (srv_world t)) = [''/stage''] \<and>
       (\<exists>dev pre e post. srv_log t = pre @ e # post \<and> formats dev ''xfs'' [] e \<and> shown_empty dev pre)"
proof -
  let ?run = "run_state (NodeStageVolume (traced_node ex_node) ex_stage) (ex_node_state [] [])"
  obtain r t where run: "?run = (r, t)" by (cases ?run)
  have facts: "fst ?run = Inr () \<and> nw_mounts (fst (srv_world (snd ?run))) = [''/stage''] \<and>
      list_ex is_mkfs (srv_log (snd ?run))"
    by code_simp
  have hyps: "ParseCsiVolId (nst_VolumeId ex_stage) = Inr (ex_id, ex_serial)"
    "nst_VolumeCapability ex_stage = Some ex_mount_cap"
    "cap_mount ex_mount_cap = Some \<lparr>FsType = ''xfs'', MountFlags = []\<rparr>"
    "srv_log (ex_node_state [] []) = []" "request_fsType (Some \<lparr>FsType = ''xfs'', MountFlags = []\<rparr>) = ''xfs''"
    using ex_vol_id_parses
    by (simp_all add: ex_stage_def ex_mount_cap_def cap_mount_def ex_node_state_def request_fsType_def)
  have log: "list_ex is_mkfs (srv_log t)" using facts run by simp
  show ?thesis
    using stage_formats_only_empty_disk [OF hyps(1-3) run hyps(4) log] facts run unfolding hyps(5) by auto
qed

text \<open>Staging is idempotent: when the staging path is already a mount point the request succeeds
  after that one check, without a lookup, a mount or a format, and nothing on the node changes
  beyond what the check itself does.\<close>

theorem stage_already_mounted:
  assumes "ValidateNodeServiceRequest (ns_driver ns) NODE_STAGE_UNSTAGE_VOLUME"
    and "nst_VolumeId req \<noteq> []" "nst_StagingTargetPath req \<noteq> []"
    and "nst_VolumeCapability req = Some c" "cap_mount c = Some m" "checkfsType (request_fsType (Some m))"
    and "ParseCsiVolId (nst_VolumeId req) = Inr (v, serial)" "v \<notin> srv_held s"
    and "run_state (mnt_IsLikelyNotMountPoint (ns_env ns) (nst_StagingTargetPath req)) (srv_world s) = (Inr False, w)"
  shows "run_state (NodeStageVolume ns req) s = (Inr (), s\<lparr>srv_world := w\<rparr>)"
proof -
  have free: "run_state (on_world (stage_path_free (ns_env ns) (nst_StagingTargetPath req))) t = (Some False, t\<lparr>srv_world := w\<rparr>)"
    if "srv_world t = srv_world s" for t
    using assms(9) that by (simp add: on_world_def stage_path_free_def)
  have "cap_AccessType c \<noteq> AccessType_Block" using assms(5) by (auto simp: cap_mount_def)
  then show ?thesis
    using assms(1-8) by (simp add: NodeStageVolume_def with_lock_def on_locks_TryAcquire on_locks_Release
      stage_locked_def free insert_absorb)
qed

theorem stage_already_mounted_witness:
  "run_state (NodeStageVolume ex_node ex_stage) \<lparr>srv_locks = NewResourceLocks, srv_world = \<lparr>nw_format = ''xfs'', nw_mounts = [''/stage'']\<rparr>\<rparr> =
     (Inr (), \<lparr>srv_locks = NewResourceLocks, srv_world = \<lparr>nw_format = ''xfs'', nw_mounts = [''/stage'']\<rparr>\<rparr>)"
proof -
  let ?s = "\<lparr>srv_locks = NewResourceLocks, srv_world = \<lparr>nw_format = ''xfs'', nw_mounts = [''/stage'']\<rparr>\<rparr>"
  have "run_state (NodeStageVolume ex_node ex_stage) ?s = (Inr (), ?s\<lparr>srv_world := srv_world ?s\<rparr>)"
  proof (rule stage_already_mounted)
    show "ValidateNodeServiceRequest (ns_driver ex_node) NODE_STAGE_UNSTAGE_VOLUME" by code_simp
    show "ParseCsiVolId (nst_VolumeId ex_stage) = Inr (ex_id, ex_serial)" using ex_vol_id_parses by (simp add: ex_stage_def)
    show "nst_VolumeCapability ex_stage = Some ex_mount_cap" by (simp add: ex_stage_def)
    show "cap_mount ex_mount_cap = Some \<lparr>FsType = ''xfs'', MountFlags = []\<rparr>" by (simp add: ex_mount_cap_def cap_mount_def)
  qed (simp_all add: ex_stage_def ex_vol_id_def GenCsiVolId_def NewResourceLocks_def ex_node_def ex_env_def
      request_fsType_def checkfsType_def)
  then show ?thesis by simp
qed

section \<open>Publishing on the node\<close>

text \<open>The source of the bind mount: the staging path, or for a block volume the device whose serial
  was read.\<close>

definition publish_source :: "NodePublishRequest \<Rightarrow> VolumeCapability \<Rightarrow> string \<Rightarrow> string \<Rightarrow> node_event list \<Rightarrow> bool" where
  "publish_source req c serial src tr \<longleftrightarrow>
     (if cap_AccessType c = AccessType_Block then serial_read serial src tr else src = np_StagingTargetPath req)"

definition publish_guard :: "globals \<Rightarrow> NodePublishRequest \<Rightarrow> VolumeCapability \<Rightarrow> string \<Rightarrow> code + unit \<Rightarrow> node_event list \<Rightarrow> bool" where
  "publish_guard g req c serial r tr \<longleftrightarrow> filter is_mkfs tr = [] \<and> length (filter is_mount tr) \<le> 1 \<and>
     (\<forall>e \<in> set tr. is_mount e \<longrightarrow> (\<exists>src. publish_source req c serial src tr \<and> bind_of g c req src e)) \<and>
     (r = Inr () \<longrightarrow> seen_mounted (np_TargetPath req) tr \<or>
        (\<exists>src fs opts. nv_Mount src (np_TargetPath req) fs opts True \<in> set tr))"

lemma publish_guard_Nil: "publish_guard g req c serial (Inl e) []"
  by (simp add: publish_guard_def)

lemma publish_log_guard:
  assumes "publish_log g c req src r tr" "list_all is_lookup pre" "publish_source req c serial src pre"
  shows "publish_guard g req c serial r (pre @ tr)"
proof -
  have mounts: "\<forall>e \<in> set pre. \<not> is_mount e" using lookup_no_mount [OF assms(2)] by (simp add: filter_empty_conv)
  have "publish_source req c serial src (pre @ tr)"
    using assms(3) by (auto simp: publish_source_def serial_read_append)
  then show ?thesis
    using assms(1) lookup_no_mkfs [OF assms(2)] lookup_no_mount [OF assms(2)] mounts
    by (auto simp: publish_guard_def publish_log_def)
qed

lemma logs_NodePublishVolume:
  assumes "np_VolumeCapability req = Some c" "ParseCsiVolId (np_VolumeId req) = Inr (v, serial)"
  shows "logs srv_log (publish_guard (ns_globals ns) req c serial) (NodePublishVolume (traced_node ns) req)"
proof -
  have fs: "logs srv_log (publish_guard (ns_globals ns) req c serial) (node_publish_mount (traced_node ns) req c (np_StagingTargetPath req))"
    if "cap_AccessType c \<noteq> AccessType_Block"
    using publish_log_guard [where pre = "[]"] that
    by (intro logs_mono [OF logs_node_publish_mount]) (auto simp: publish_source_def)
  have dev: "logs srv_log (\<lambda>r tr. publish_guard (ns_globals ns) req c serial r (pre @ tr)) (node_publish_mount (traced_node ns) req c src)"
    if "list_all is_lookup pre" "publish_source req c serial src pre" for pre src
    by (rule logs_mono [OF logs_node_publish_mount]) (rule publish_log_guard [OF _ that])
  have lookup: "publish_guard (ns_globals ns) req c serial (Inl e) pre" if "list_all is_lookup pre" for e pre
    using lookup_no_mkfs [OF that] lookup_no_mount [OF that] by (auto simp: publish_guard_def filter_empty_conv)
  show ?thesis
    unfolding NodePublishVolume_def node_publish_locked_def assms traced_node_simps option.case sum.case prod.case
    by (intro logs_cases logs_with_lock publish_guard_Nil fs
        logs_bind [OF logs_on_world [OF logs_conj [OF logs_getDevPathBySerial logs_getDevPathBySerial_serial]]])
      (auto intro!: dev lookup simp: publish_source_def)
qed

text \<open>C26: \<open>NodePublishVolume\<close> never formats and makes at most one mount: a bind mount onto the target
  path whose source is the staging path, or for a block volume the device whose serial names the
  volume. Its options are \<open>bind\<close>, then \<open>ro\<close> when the request is read-only, then the mount flags of the
  capability when the feature gate lets them through. For a read-only request the mount is therefore
  read-only exactly when these flags say nothing about the access mode or end with \<open>ro\<close>: the last
  such option wins, and a later \<open>rw\<close> in the flags undoes the request's \<open>ro\<close>. The request succeeds
  only when the target was seen to be a mount point or that mount succeeded.\<close>

theorem node_publish_binds:
  assumes "np_VolumeCapability req = Some c" "ParseCsiVolId (np_VolumeId req) = Inr (v, serial)"
    and "run_state (NodePublishVolume (traced_node ns) req) s = (r, t)" "srv_log s = []"
  shows "let flags = (case cap_mount c of None \<Rightarrow> [] | Some m \<Rightarrow> gated_flags (ns_globals ns) m);
      opts = ''bind'' # (if np_Readonly req then [''ro''] else []) @ flags in
    filter is_mkfs (srv_log t) = [] \<and> length (filter is_mount (srv_log t)) \<le> 1 \<and>
    (\<forall>e \<in> set (srv_log t). is_mount e \<longrightarrow> (\<exists>src fs ok. e = nv_Mount src (np_TargetPath req) fs opts ok \<and> checkfsType fs \<and>
       (if cap_AccessType c = AccessType_Block then serial_read serial src (srv_log t) else src = np_StagingTargetPath req))) \<and>
    (np_Readonly req \<longrightarrow> read_only_mount opts = (access_options flags = [] \<or> last (access_options flags) = ''ro'')) \<and>
    (r = Inr () \<longrightarrow> seen_mounted (np_TargetPath req) (srv_log t) \<or>
       (\<exists>src fs. nv_Mount src (np_TargetPath req) fs opts True \<in> set (srv_log t)))"
proof -
  let ?g = "ns_globals ns"
  have opts: "''bind'' # (if np_Readonly req then [''ro''] else []) @ (case cap_mount c of None \<Rightarrow> [] | Some m \<Rightarrow> gated_flags ?g m) =
      publish_options ?g c req" "(case cap_mount c of None \<Rightarrow> [] | Some m \<Rightarrow> gated_flags ?g m) = publish_flags ?g c"
    by (simp_all add: publish_options_def publish_flags_def)
  from logsD [OF logs_NodePublishVolume [OF assms(1,2)] assms(3)] assms(4)
  have guard: "publish_guard ?g req c serial r (srv_log t)" by simp
  then have mounts: "\<forall>e \<in> set (srv_log t). is_mount e \<longrightarrow>
      (\<exists>src fs ok. e = nv_Mount src (np_TargetPath req) fs (publish_options ?g c req) ok \<and> checkfsType fs \<and>
        publish_source req c serial src (srv_log t))"
    unfolding publish_guard_def bind_of_def by blast
  have success: "\<exists>src fs. nv_Mount src (np_TargetPath req) fs (publish_options ?g c req) True \<in> set (srv_log t)"
    if "r = Inr ()" "\<not> seen_mounted (np_TargetPath req) (srv_log t)"
    using guard that mounts unfolding publish_guard_def by fastforce
  have counts: "filter is_mkfs (srv_log t) = []" "length (filter is_mount (srv_log t)) \<le> 1"
    using guard unfolding publish_guard_def by blast+
  have ro: "np_Readonly req \<longrightarrow> read_only_mount (publish_options ?g c req) =
      (access_options (publish_flags ?g c) = [] \<or> last (access_options (publish_flags ?g c)) = ''ro'')"
    using read_only_publish [of req ?g c] unfolding read_only_mount_def by blast
  show ?thesis
    unfolding Let_def opts(1) unfolding opts(2)
    by (intro conjI counts ro mounts [unfolded publish_source_def]) (use success in blast)
qed

theorem node_publish_binds_witness:
  "case run_state (NodePublishVolume (traced_node ex_node) ex_node_publish) (ex_node_state ''xfs'' [''/stage'']) of
     (r, t) \<Rightarrow> r = Inr () \<and> filter is_mount (srv_log t) = [nv_Mount ''/stage'' ''/pod'' ''xfs'' [''bind'', ''ro''] True] \<and>
       read_only_mount [''bind'', ''ro'']"
proof -
  let ?run = "run_state (NodePublishVolume (traced_node ex_node) ex_node_publish) (ex_node_state ''xfs'' [''/stage''])"
  obtain r t where run: "?run = (r, t)" by (cases ?run)
  have facts: "fst ?run = Inr () \<and> filter is_mount (srv_log (snd ?run)) = [nv_Mount ''/stage'' ''/pod'' ''xfs'' [''bind'', ''ro''] True]"
    by code_simp
  have hyps: "np_VolumeCapability ex_node_publish = Some ex_mount_cap"
    "ParseCsiVolId (np_VolumeId ex_node_publish) = Inr (ex_id, ex_serial)" "srv_log (ex_node_state ''xfs'' [''/stage'']) = []"
    using ex_vol_id_parses by (simp_all add: ex_node_publish_def ex_node_state_def)
  have flags: "(case cap_mount ex_mount_cap of None \<Rightarrow> [] | Some m \<Rightarrow> gated_flags (ns_globals ex_node) m) = []" "np_Readonly ex_node_publish"
    by code_simp+
  show ?thesis
    using node_publish_binds [OF hyps(1,2) run hyps(3)] facts run flags(2) unfolding flags(1) Let_def
    by (simp add: access_options_def)
qed

text \<open>With the gate on and the flag \<open>rw\<close> in the capability, a read-only request is answered with success
  and the target is mounted with \<open>bind,ro,rw\<close>, which is a read-write mount.\<close>

lemma read_only_request_mounted_read_write:
  "case run_state (NodePublishVolume (traced_node (ex_node\<lparr>ns_globals := no_globals\<lparr>FeatureGates := [FEAT_MOUNTOPT_ENABLE]\<rparr>\<rparr>))
       (ex_node_publish\<lparr>np_VolumeCapability := Some (ex_mount_cap\<lparr>cap_AccessType :=
          AccessType_Mount \<lparr>FsType = ''xfs'', MountFlags = [''rw'']\<rparr>\<rparr>)\<rparr>)) (ex_node_state ''xfs'' [''/stage'']) of
     (r, t) \<Rightarrow> r = Inr () \<and> filter is_mount (srv_log t) = [nv_Mount ''/stage'' ''/pod'' ''xfs'' [''bind'', ''ro'', ''rw''] True] \<and>
       \<not> read_only_mount [''bind'', ''ro'', ''rw'']"
  by code_simp

section \<open>Unpublishing and unstaging\<close>

text \<open>Unpublishing and unstaging clean up the mount point for every non-empty volume identifier,
  also one that this driver cannot parse: with a free lock they run exactly the cleanup of the given
  path, answer success exactly when it succeeds, and leave the lock free.\<close>

theorem unmount_cleans_any_id:
  assumes "vid \<noteq> []" "p \<noteq> []" "unmount_lock_key vid \<notin> srv_held s"
    and "run_state (mnt_CleanupMountPoint (ns_env ns) p True) (srv_world s) = (ok, w)"
  shows "run_state (NodeUnpublishVolume ns vid p) s = (if ok then Inr () else Inl Internal, s\<lparr>srv_world := w\<rparr>) \<and>
    (ValidateNodeServiceRequest (ns_driver ns) NODE_STAGE_UNSTAGE_VOLUME \<longrightarrow>
      run_state (NodeUnstageVolume ns vid p) s = (if ok then Inr () else Inl Internal, s\<lparr>srv_world := w\<rparr>))"
  using assms by (simp add: NodeUnpublishVolume_def NodeUnstageVolume_def unmount_locked_def with_lock_def on_locks_TryAcquire
      on_locks_Release on_world_def insert_absorb)

theorem unmount_cleans_any_id_witness:
  "run_state (NodeUnpublishVolume ex_node ''legacy'' ''/pod'')
       \<lparr>srv_locks = NewResourceLocks, srv_world = \<lparr>nw_format = ''xfs'', nw_mounts = [''/pod'', ''/stage'']\<rparr>\<rparr> =
     (Inr (), \<lparr>srv_locks = NewResourceLocks, srv_world = \<lparr>nw_format = ''xfs'', nw_mounts = [''/stage'']\<rparr>\<rparr>)"
  using unmount_cleans_any_id [where ns = ex_node and vid = "''legacy''" and p = "''/pod''"
      and s = "\<lparr>srv_locks = NewResourceLocks, srv_world = \<lparr>nw_format = ''xfs'', nw_mounts = [''/pod'', ''/stage'']\<rparr>\<rparr>"]
  by (simp add: NewResourceLocks_def ex_node_def ex_env_def)

section \<open>Expanding on the node\<close>

text \<open>The log of a successful expansion of a file system.\<close>

definition expand_log :: "string \<Rightarrow> string \<Rightarrow> int64 \<Rightarrow> node_event list \<Rightarrow> bool" where
  "expand_log serial path blk tr \<longleftrightarrow> (\<exists>dev out. serial_read serial dev tr \<and> nv_Resize dev path (Some True) \<in> set tr \<and>
     nv_Exec ''blockdev'' [''--getsize64'', dev] (None, out) \<in> set tr \<and> strconv_ParseInt (strings_TrimSpace out) = Some blk)"

lemma logs_getBlockSizeBytes:
  "logs snd (\<lambda>r tr. \<forall>blk. r = Some blk \<longrightarrow> (\<exists>out. nv_Exec ''blockdev'' [''--getsize64'', dev] (None, out) \<in> set tr \<and>
       strconv_ParseInt (strings_TrimSpace out) = Some blk))
     (getBlockSizeBytes (traced_env env) dev)"
  unfolding getBlockSizeBytes_def traced_env_simps
  by (intro logs_cases logs_call) auto

lemma logs_node_expand_locked:
  "logs srv_log (\<lambda>r tr. \<forall>blk. r = Inr blk \<longrightarrow> need \<le> blk \<and> expand_log serial path blk tr)
     (node_expand_locked (traced_node ns) serial path need)"
  unfolding node_expand_locked_def traced_node_simps traced_env_simps
  by (intro logs_cases logs_on_world_call logs_bind [OF logs_on_world [OF logs_getDevPathBySerial_serial]]
      logs_bind [OF logs_on_world [OF logs_getBlockSizeBytes]])
    (auto simp: expand_log_def serial_read_append intro!: exI)

text \<open>The file system part of a successful expansion, from the log of its calls.\<close>

definition fs_expanded :: "NodeExpandRequest \<Rightarrow> int64 \<Rightarrow> node_event list \<Rightarrow> bool" where
  "fs_expanded req blk tr \<longleftrightarrow> (\<exists>v serial need. ParseCsiVolId (ne_VolumeId req) = Inr (v, serial) \<and>
     GetRequestSizeBytes (ne_CapacityRange req) = Inr need \<and> need \<le> blk \<and> expand_log serial (ne_VolumePath req) blk tr)"

definition expand_answer :: "NodeExpandRequest \<Rightarrow> int64 \<Rightarrow> node_event list \<Rightarrow> bool" where
  "expand_answer req blk tr \<longleftrightarrow>
     (case ne_VolumeCapability req of
        Some c \<Rightarrow> if cap_AccessType c = AccessType_Block then blk = 0 \<and> tr = [] else fs_expanded req blk tr
      | None \<Rightarrow> \<exists>mode rest. tr = nv_Stat (ne_VolumePath req) (Inr mode) # rest \<and>
          (if ModeDevice mode \<and> \<not> ModeCharDevice mode then blk = 0 \<and> rest = [] else fs_expanded req blk rest))"

lemma logs_expand_fs:
  "logs srv_log (\<lambda>r tr. \<forall>blk. r = Inr blk \<longrightarrow> fs_expanded req blk tr)
     (case GetRequestSizeBytes (ne_CapacityRange req) of Inl _ \<Rightarrow> State_Monad.return (Inl OutOfRange)
      | Inr need \<Rightarrow> (case ParseCsiVolId (ne_VolumeId req) of Inl _ \<Rightarrow> State_Monad.return (Inl NotFound)
          | Inr (v, serial) \<Rightarrow> with_lock v Aborted (node_expand_locked (traced_node ns) serial (ne_VolumePath req) need)))"
proof (intro logs_case_sum logs_case_prod)
  fix need x v serial
  assume eqs: "GetRequestSizeBytes (ne_CapacityRange req) = Inr need" "ParseCsiVolId (ne_VolumeId req) = Inr x" "x = (v, serial)"
  show "logs srv_log (\<lambda>r tr. \<forall>blk. r = Inr blk \<longrightarrow> fs_expanded req blk tr)
      (with_lock v Aborted (node_expand_locked (traced_node ns) serial (ne_VolumePath req) need))"
    by (intro logs_with_lock logs_mono [OF logs_node_expand_locked]) (auto simp: fs_expanded_def eqs)
qed (auto intro: logs_return)

lemma logs_isBlockDevicePath:
  "logs snd (\<lambda>r tr. \<forall>b. r = Some b \<longrightarrow> (\<exists>mode. tr = [nv_Stat p (Inr mode)] \<and> b = (ModeDevice mode \<and> \<not> ModeCharDevice mode)))
     (isBlockDevicePath (traced_env env) p)"
  unfolding isBlockDevicePath_def traced_env_simps
  by (intro logs_cases logs_call) (auto intro!: logs_return)

lemma expand_answer_stat:
  assumes "ne_VolumeCapability req = None"
  shows "expand_answer req blk (nv_Stat (ne_VolumePath req) (Inr mode) # rest) \<longleftrightarrow>
    (if ModeDevice mode \<and> \<not> ModeCharDevice mode then blk = 0 \<and> rest = [] else fs_expanded req blk rest)"
  using assms by (simp add: expand_answer_def)

lemma logs_NodeExpandVolume:
  "logs srv_log (\<lambda>r tr. \<forall>blk. r = Inr blk \<longrightarrow> expand_answer req blk tr) (NodeExpandVolume (traced_node ns) req)"
proof (cases "ne_VolumeCapability req")
  case None
  show ?thesis
    unfolding NodeExpandVolume_def None option.case traced_node_simps
    by (intro logs_if logs_return logs_bind [OF logs_on_world [OF logs_isBlockDevicePath]] logs_case_option
        logs_mono [OF logs_expand_fs]) (auto simp: expand_answer_stat [OF None])
next
  case (Some c)
  show ?thesis
    unfolding NodeExpandVolume_def Some option.case traced_node_simps State_Monad.bind_left_identity
    by (intro logs_if logs_return logs_mono [OF logs_expand_fs]) (auto simp: expand_answer_def Some)
qed

text \<open>C27: What a successful \<open>NodeExpandVolume\<close> has done, for every request. With a capability, a block
  volume is answered with no capacity and no operation on the node at all. Without a capability the
  first operation is a stat of the volume path, and when it is a block device that is the only one.
  In every other case the file system on the device with the volume's serial was grown at the
  volume path, and the capacity answered is the size of that device, which is at least the
  requested size.\<close>

theorem node_expand_success:
  assumes "run_state (NodeExpandVolume (traced_node ns) req) s = (Inr blk, t)" "srv_log s = []"
  shows "let expanded = (\<lambda>tr. \<exists>v serial need. ParseCsiVolId (ne_VolumeId req) = Inr (v, serial) \<and>
      GetRequestSizeBytes (ne_CapacityRange req) = Inr need \<and> need \<le> blk \<and> expand_log serial (ne_VolumePath req) blk tr) in
    (case ne_VolumeCapability req of
       Some c \<Rightarrow> if cap_AccessType c = AccessType_Block then blk = 0 \<and> srv_log t = [] else expanded (srv_log t)
     | None \<Rightarrow> \<exists>mode rest. srv_log t = nv_Stat (ne_VolumePath req) (Inr mode) # rest \<and>
         (if ModeDevice mode \<and> \<not> ModeCharDevice mode then blk = 0 \<and> rest = [] else expanded rest))"
proof -
  have "expand_answer req blk (srv_log t)" using logsD [OF logs_NodeExpandVolume assms(1)] assms(2) by simp
  then show ?thesis unfolding expand_answer_def fs_expanded_def Let_def .
qed

definition ex_node_expand :: NodeExpandRequest where
  "ex_node_expand = \<lparr>ne_VolumeId = ex_vol_id, ne_VolumePath = ''/pod'',
     ne_CapacityRange = Some \<lparr>RequiredBytes = 4000, LimitBytes = 0\<rparr>, ne_VolumeCapability = None\<rparr>"

theorem node_expand_success_witness:
  "case run_state (NodeExpandVolume (traced_node ex_node) ex_node_expand) (ex_node_state ''xfs'' [''/pod'']) of
     (r, t) \<Rightarrow> r = Inr 4096 \<and> (\<exists>mode rest. srv_log t = nv_Stat ''/pod'' (Inr mode) # rest \<and> expand_log ex_serial ''/pod'' 4096 rest)"
proof -
  let ?run = "run_state (NodeExpandVolume (traced_node ex_node) ex_node_expand) (ex_node_state ''xfs'' [''/pod''])"
  have "fst ?run = Inr 4096" by code_simp
  then obtain t where run: "?run = (Inr 4096, t)" by (cases ?run) auto
  have hyps: "srv_log (ex_node_state ''xfs'' [''/pod'']) = []"
    "ParseCsiVolId (ne_VolumeId ex_node_expand) = Inr (ex_id, ex_serial)"
    "ne_VolumeCapability ex_node_expand = None" "ne_VolumePath ex_node_expand = ''/pod''"
    using ex_vol_id_parses by (simp_all add: ex_node_expand_def ex_node_state_def)
  show ?thesis
    using node_expand_success [OF run hyps(1)] run hyps(2-4) by (auto split: if_splits)
qed

section \<open>Volume statistics\<close>

lemma stat_bytes_exact:
  assumes "uint b * uint z < 2 ^ 63"
  shows "stat_bytes b z = uint b * uint z"
proof -
  have "uint (b * z) = uint b * uint z"
    using assms by (simp add: uint_word_ariths(3) mod_pos_pos_trivial)
  moreover have "sint w = uint w" if "uint w < 2 ^ 63" for w :: "64 word"
    unfolding sint_uint using that
    by (intro signed_take_bit_int_eq_self order_trans [OF _ unsigned_greater_eq]) simp_all
  ultimately show ?thesis using assms by (simp add: stat_bytes_def)
qed

text \<open>C28: For a file system whose size in bytes fits \<open>int64\<close> and whose free block counts do not exceed
  its size, the statistics are exact and consistent although they are computed with wrapping 64-bit
  products: the used bytes are the blocks that are not free times the block size, and used plus free
  bytes are the total.\<close>

theorem volume_stats_exact:
  assumes "vid \<noteq> []" "p \<noteq> []"
    and "run_state (os_Stat (ns_env ns) p) (srv_world s) = (Inr mode, w)" "\<not> (ModeDevice mode \<and> \<not> ModeCharDevice mode)"
    and "run_state (unix_Statfs (ns_env ns) p) w = (Some st, w')"
    and "uint (Blocks st) * uint (Bsize st) < 2 ^ 63" "Bfree st \<le> Blocks st" "Bavail st \<le> Blocks st"
  shows "\<exists>u. run_state (NodeGetVolumeStats ns vid p) s = (Inr u, s\<lparr>srv_world := w'\<rparr>) \<and>
    vu_Total u = uint (Blocks st) * uint (Bsize st) \<and> vu_Available u = uint (Bavail st) * uint (Bsize st) \<and>
    vu_Used u = (uint (Blocks st) - uint (Bfree st)) * uint (Bsize st) \<and> 0 \<le> vu_Used u \<and> vu_Used u \<le> vu_Total u"
proof -
  have le: "uint b * uint (Bsize st) \<le> uint (Blocks st) * uint (Bsize st)" if "b \<le> Blocks st" for b
    using that by (simp add: mult_right_mono word_le_def)
  have exact: "stat_bytes b (Bsize st) = uint b * uint (Bsize st)" if "b \<le> Blocks st" for b
    using le [OF that] assms(6) by (intro stat_bytes_exact) simp
  let ?used = "uint (Blocks st) * uint (Bsize st) - uint (Bfree st) * uint (Bsize st)"
  have used: "0 \<le> ?used" "?used \<le> uint (Blocks st) * uint (Bsize st)" using le [OF assms(7)] by simp_all
  have "is_int64 ?used"
    using used(1) le_less_trans [OF used(2) assms(6)] by (auto simp: is_int64_def int64_min_def int64_max_def)
  then have "wrap64 ?used = ?used" by (rule wrap64_id)
  then show ?thesis
    using assms(1-5) used exact [OF assms(7)] exact [OF assms(8)] exact [of "Blocks st"]
    by (auto simp: NodeGetVolumeStats_def isBlockDevicePath_def on_world_def left_diff_distrib Let_def)
qed

theorem volume_stats_exact_witness:
  "\<exists>u. fst (run_state (NodeGetVolumeStats ex_node ''v'' ''/pod'')
       \<lparr>srv_locks = NewResourceLocks, srv_world = \<lparr>nw_format = ''xfs'', nw_mounts = []\<rparr>\<rparr>) = Inr u \<and>
     vu_Total u = 409600 \<and> vu_Available u = 204800 \<and> vu_Used u = 163840"
proof -
  let ?w = "\<lparr>nw_format = ''xfs'', nw_mounts = []\<rparr>" and ?st = "\<lparr>Blocks = 100, Bfree = 60, Bavail = 50, Bsize = 4096\<rparr>"
  let ?s = "\<lparr>srv_locks = NewResourceLocks, srv_world = ?w\<rparr>"
  have stat: "run_state (os_Stat (ns_env ex_node) ''/pod'') (srv_world ?s) = (Inr \<lparr>ModeDevice = False, ModeCharDevice = False\<rparr>, ?w)"
    by (simp add: ex_node_def ex_env_def)
  have statfs: "run_state (unix_Statfs (ns_env ex_node) ''/pod'') ?w = (Some ?st, ?w)"
    by (simp add: ex_node_def ex_env_def)
  show ?thesis
    using volume_stats_exact [OF _ _ stat _ statfs, where vid = "''v''"] by auto
qed

end
