(* ===== verification/ServerProps.thy ===== *)
theory ServerProps
  imports Startup NodeProps
begin

text \<open>
  The properties of the endpoint parser, of the life cycle of the gRPC server, of the identity
  server and of the start of the process.
\<close>

definition ex_node_cloud :: "node_world CloudManager" where
  "ex_node_cloud = zec_CloudManager \<lparr>zecClient = None, Iscontroller = False, select_ticks = (\<lambda>_ _ _. 0)\<rparr>"

definition ex_servers :: "node_world Servers" where
  "ex_servers = Run_servers no_globals ex_driver ex_node_cloud ex_env NodeDriverType"

section \<open>Endpoints\<close>

lemma cut_at_first: "c \<notin> set a \<Longrightarrow> cut (c # sep) (a @ (c # sep) @ b) = Some (a, b)"
  by (induction a) (auto simp: strings_HasPrefix_def)

lemma strings_ToLower_append [simp]: "strings_ToLower (a @ b) = strings_ToLower a @ strings_ToLower b"
  by (simp add: strings_ToLower_def)

text \<open>Lower case does not touch punctuation.\<close>

lemma char_lower_punct:
  assumes "(of_char d :: nat) < 65"
  shows "char_lower c = d \<longleftrightarrow> c = d"
proof (cases "65 \<le> (of_char c :: nat) \<and> (of_char c :: nat) \<le> 90")
  case True
  then have "(of_char (char_lower c) :: nat) = of_char c + 32" by (simp add: char_lower_def)
  with True assms show ?thesis by auto
qed (auto simp: char_lower_def)

lemma ToLower_sep: "strings_ToLower q = ''://'' \<longleftrightarrow> q = ''://''"
  by (auto simp: strings_ToLower_def char_lower_punct map_eq_Cons_conv)

lemma ToLower_no_colon: "CHR '':'' \<notin> set (strings_ToLower p) \<Longrightarrow> CHR '':'' \<notin> set p"
  using char_lower_punct [of "CHR '':''" "CHR '':''"] by (force simp: strings_ToLower_def)

lemma ToLower_eq_appendE:
  assumes "strings_ToLower s = x @ y"
  obtains u v where "s = u @ v" "strings_ToLower u = x" "strings_ToLower v = y"
  using assms unfolding strings_ToLower_def map_eq_append_conv by blast

lemma ToLower_has_scheme:
  "strings_HasPrefix (strings_ToLower ep) (sch @ ''://'') \<longleftrightarrow>
    (\<exists>p a. ep = p @ ''://'' @ a \<and> strings_ToLower p = sch)"
proof
  assume "strings_HasPrefix (strings_ToLower ep) (sch @ ''://'')"
  then obtain r where "strings_ToLower ep = sch @ ''://'' @ r" by (auto elim: strings_HasPrefixE)
  then obtain p b where b: "ep = p @ b" "strings_ToLower p = sch" "strings_ToLower b = ''://'' @ r"
    by (rule ToLower_eq_appendE)
  from b(3) obtain q a where "b = q @ a" "strings_ToLower q = ''://''" by (rule ToLower_eq_appendE)
  then have "ep = p @ ''://'' @ a" using b(1) by (simp only: ToLower_sep)
  with b(2) show "\<exists>p a. ep = p @ ''://'' @ a \<and> strings_ToLower p = sch" by (intro exI conjI)
next
  assume "\<exists>p a. ep = p @ ''://'' @ a \<and> strings_ToLower p = sch"
  then obtain p a where pa: "ep = p @ ''://'' @ a" "strings_ToLower p = sch" by (elim exE conjE)
  have "strings_ToLower ep = (sch @ ''://'') @ strings_ToLower a"
    unfolding pa(1) strings_ToLower_append pa(2) iffD2 [OF ToLower_sep refl] append_assoc ..
  then show "strings_HasPrefix (strings_ToLower ep) (sch @ ''://'')" by (simp only: strings_HasPrefix_append)
qed

lemma ParseEndpoint_scheme:
  assumes "strings_ToLower p \<in> {''unix'', ''tcp''}"
  shows "ParseEndpoint (p @ ''://'' @ a) = (if a \<noteq> [] then Some (p, a) else None)"
proof -
  have "CHR '':'' \<notin> set (strings_ToLower p)" using assms by (elim insertE emptyE) simp_all
  then have "CHR '':'' \<notin> set p" by (rule ToLower_no_colon)
  then have "cut ''://'' (p @ ''://'' @ a) = Some (p, a)" by (rule cut_at_first)
  moreover have "strings_HasPrefix (strings_ToLower (p @ ''://'' @ a)) (strings_ToLower p @ ''://'')"
    unfolding ToLower_has_scheme by (intro exI conjI) (rule refl)+
  ultimately show ?thesis using assms by (auto simp: ParseEndpoint_def strings_SplitN2_def)
qed

text \<open>An endpoint is accepted exactly when it has the form \<open>scheme://address\<close> with a non-empty
  address and the scheme \<open>unix\<close> or \<open>tcp\<close> in any letter case; scheme and address are then returned as
  they were written.\<close>

theorem parse_endpoint_iff:
  "ParseEndpoint ep = Some (p, a) \<longleftrightarrow>
     ep = p @ ''://'' @ a \<and> a \<noteq> [] \<and> strings_ToLower p \<in> {''unix'', ''tcp''}"
proof
  assume parsed: "ParseEndpoint ep = Some (p, a)"
  then have "strings_HasPrefix (strings_ToLower ep) (''unix'' @ ''://'') \<or> strings_HasPrefix (strings_ToLower ep) (''tcp'' @ ''://'')"
    by (simp add: ParseEndpoint_def split: if_splits)
  then obtain q b where ep: "ep = q @ ''://'' @ b" and q: "strings_ToLower q \<in> {''unix'', ''tcp''}"
    unfolding ToLower_has_scheme by blast
  with parsed ParseEndpoint_scheme [OF q, of b] show "ep = p @ ''://'' @ a \<and> a \<noteq> [] \<and> strings_ToLower p \<in> {''unix'', ''tcp''}"
    by (auto split: if_splits)
next
  assume "ep = p @ ''://'' @ a \<and> a \<noteq> [] \<and> strings_ToLower p \<in> {''unix'', ''tcp''}"
  then show "ParseEndpoint ep = Some (p, a)" using ParseEndpoint_scheme [of p a] by auto
qed

text \<open>C40: A scheme that is not written in lower case is accepted by \<open>ParseEndpoint\<close> but names no network
  that \<open>net.Listen\<close> knows, so the server never serves: it can only end the process.\<close>

theorem mixed_case_endpoint_never_serves:
  assumes "strings_ToLower p \<in> {''unix'', ''tcp''}" "p \<noteq> strings_ToLower p" "a \<noteq> []"
  shows "ParseEndpoint (p @ ''://'' @ a) = Some (p, a) \<and>
    (\<forall>s. grpc_reachable (p @ ''://'' @ a) servers s \<longrightarrow> serve_at s \<in> {NotSpawned, Spawned})"
proof -
  have parsed: "ParseEndpoint (p @ ''://'' @ a) = Some (p, a)" using assms ParseEndpoint_scheme by simp
  have "p \<notin> net_networks"
  proof
    assume "p \<in> net_networks"
    moreover have "length p = length (strings_ToLower p)" by simp
    ultimately show False using assms(1,2) by (auto simp: net_networks_def strings_ToLower_def char_lower_def)
  qed
  then have unknown: "q \<notin> net_networks" if "listen_address (p @ ''://'' @ a) = Some (q, b)" for q b
    using that parsed by (simp add: listen_address_def)
  have "serve_at s \<in> {NotSpawned, Spawned}" if "grpc_reachable (p @ ''://'' @ a) servers s" for s
    using that
  proof induction
    case init
    then show ?case by (simp add: NewNonBlockingGRPCServer_def)
  next
    case (step s t)
    from step.hyps(2) step.IH show ?case by (cases rule: grpc_step.cases) (auto dest: unknown [simplified])
  qed
  with parsed show ?thesis by blast
qed

definition spawned_state :: grpc_state where
  "spawned_state = \<lparr>wg = 1, main_at = AtWait, serve_at = Spawned, services = []\<rparr>"

lemma spawned_reachable: "grpc_reachable ep servers spawned_state"
  using grpc_step.Start [of NewNonBlockingGRPCServer ep servers]
  by (auto simp: NewNonBlockingGRPCServer_def spawned_state_def intro: grpc_reachable.intros)

theorem mixed_case_endpoint_never_serves_witness:
  "ParseEndpoint ''UNIX://csi/csi.sock'' = Some (''UNIX'', ''csi/csi.sock'') \<and> serve_at spawned_state \<in> {NotSpawned, Spawned}"
proof -
  have "strings_ToLower ''UNIX'' = ''unix''" by code_simp
  then show ?thesis
    using mixed_case_endpoint_never_serves [of "''UNIX''" "''csi/csi.sock''" ex_servers]
      spawned_reachable [of "''UNIX://csi/csi.sock''" ex_servers] by simp
qed

section \<open>The life cycle\<close>

definition grpc_inv :: "grpc_state \<Rightarrow> bool" where
  "grpc_inv s \<longleftrightarrow>
     (case main_at s of
        AtStart \<Rightarrow> wg s = 0 \<and> serve_at s = NotSpawned
      | AtWait \<Rightarrow> wg s = 1 \<and> serve_at s \<noteq> NotSpawned
      | PastWait \<Rightarrow> False
      | Fatal \<Rightarrow> wg s = 1 \<and> serve_at s = Spawned)"

lemma grpc_inv_reachable: "grpc_reachable endpoint servers s \<Longrightarrow> grpc_inv s"
proof (induction rule: grpc_reachable.induct)
  case init
  then show ?case by (simp add: grpc_inv_def NewNonBlockingGRPCServer_def)
next
  case (step s t)
  from step.hyps(2) step.IH show ?case by (cases rule: grpc_step.cases) (auto simp: grpc_inv_def)
qed

text \<open>C36: \<open>Wait\<close> never returns: \<open>Start\<close> adds one to the wait group and nothing ever calls \<open>Done\<close>, so
  also after the server has been stopped the main goroutine stays blocked and the exit at the end of
  \<open>main\<close> is not reached.\<close>

theorem grpc_wait_never_returns:
  assumes "grpc_reachable endpoint servers s"
  shows "main_at s \<noteq> PastWait \<and> (serve_at s = Returned \<longrightarrow> main_at s = AtWait \<and> (\<forall>t. \<not> grpc_step endpoint servers s t))"
  using grpc_inv_reachable [OF assms] by (auto simp: grpc_inv_def split: main_pc.splits elim!: grpc_stepE)

definition stopped_state :: grpc_state where
  "stopped_state = \<lparr>wg = 1, main_at = AtWait, serve_at = Returned, services = [IdentityService, NodeService]\<rparr>"

lemma stopped_reachable: "grpc_reachable ''unix://csi/csi.sock'' ex_servers stopped_state"
proof -
  let ?ep = "''unix://csi/csi.sock''"
  let ?s2 = "spawned_state\<lparr>serve_at := Serving, services := registered ex_servers\<rparr>"
  have addr: "listen_address ?ep = Some (''unix'', ''/csi/csi.sock'')" by code_simp
  have reg: "registered ex_servers = [IdentityService, NodeService]"
    by (simp add: registered_def ex_servers_def Run_servers_def NodeDriverType_def ControllerDriverType_def)
  have "grpc_step ?ep ex_servers spawned_state ?s2"
    by (rule serve_listens [OF _ _ addr]) (simp_all add: net_networks_def spawned_state_def)
  moreover have "grpc_step ?ep ex_servers ?s2 stopped_state"
    using grpc_step.Stop [of ?s2 ?ep ex_servers] by (simp add: stopped_state_def spawned_state_def reg)
  ultimately show ?thesis using spawned_reachable by (blast intro: grpc_reachable.intros)
qed

theorem grpc_wait_never_returns_witness:
  "\<forall>t. \<not> grpc_step ''unix://csi/csi.sock'' ex_servers stopped_state t"
  using grpc_wait_never_returns [OF stopped_reachable] by (simp add: stopped_state_def)

section \<open>The identity server\<close>

lemma logs_GetZoneList:
  "logs snd (\<lambda>r tr. length tr \<le> 1 \<and> (\<forall>zs. r = Inr zs \<longleftrightarrow> tr = [ev_DescribeDiskRegions (Inr (Some zs))]))
     (GetZoneList (traced_cm cm))"
proof (cases "zecClient cm")
  case None
  then show ?thesis by (simp add: GetZoneList_def logs_return)
next
  case (Some c)
  show ?thesis
    unfolding GetZoneList_def traced_cm_simps Some option.map option.case traced_client_simps
    by (intro logs_cases logs_call) auto
qed

text \<open>The answer of \<open>Probe\<close> is never an error. A node process reports ready without calling the
  cloud; a controller makes at most one call, the listing of the disk regions, and reports ready
  exactly when that call was answered with a list.\<close>

theorem identity_probe:
  assumes "is_cloud is = zec_CloudManager (traced_cm cm)"
    and "run_state (Probe is) (w, []) = (r, (w', tr))"
  shows "\<exists>ready. r = Inr ready \<and>
    (if Iscontroller cm then length tr \<le> 1 \<and> (ready \<longleftrightarrow> (\<exists>zs. tr = [ev_DescribeDiskRegions (Inr (Some zs))]))
     else ready \<and> tr = [])"
proof -
  have "logs snd (\<lambda>r tr. \<exists>ready. r = Inr ready \<and>
      (if Iscontroller cm then length tr \<le> 1 \<and> (ready \<longleftrightarrow> (\<exists>zs. tr = [ev_DescribeDiskRegions (Inr (Some zs))]))
       else ready \<and> tr = [])) (Probe is)"
    unfolding Probe_def assms(1) zec_CloudManager_def CloudManager.simps traced_cm_simps
    by (intro logs_cases logs_bind [OF logs_GetZoneList]) auto
  from logsD [OF this assms(2)] show ?thesis by simp
qed

definition bin_identity :: "(disk_phase \<times> api_event list) IdentityServer" where
  "bin_identity = NewIdentityServer ex_driver (zec_CloudManager (traced_cm bin_cm))"

theorem identity_probe_witness:
  "fst (run_state (Probe bin_identity) (Live DiskStatusAvailable, [])) = Inr True"
proof -
  let ?run = "run_state (Probe bin_identity) (Live DiskStatusAvailable, [])"
  obtain r w tr where run: "?run = (r, (w, tr))" by (cases ?run) auto
  have "is_cloud bin_identity = zec_CloudManager (traced_cm bin_cm)" by (simp add: bin_identity_def NewIdentityServer_def)
  from identity_probe [OF this run] have "\<exists>ready. r = Inr ready \<and>
      (ready \<longleftrightarrow> (\<exists>zs. tr = [ev_DescribeDiskRegions (Inr (Some zs))]))" by (simp add: bin_cm_def)
  moreover have "snd (snd ?run) = [ev_DescribeDiskRegions (Inr (Some []))]" by code_simp
  ultimately show ?thesis using run by auto
qed

section \<open>The start of the process\<close>

lemma logs_on_fst: "logs snd (\<lambda>_ ext. ext = []) (on_fst m)"
  by (auto simp: logs_def wp_def on_fst_def split: prod.splits)

text \<open>The log of a probe loop that may still make \<open>left\<close> attempts.\<close>

definition probe_log :: "nat \<Rightarrow> cloud_error + unit \<Rightarrow> api_event list \<Rightarrow> bool" where
  "probe_log left r tr \<longleftrightarrow> tr \<noteq> [] \<and> length tr \<le> left \<and>
     (\<forall>e \<in> set (butlast tr). \<exists>x. e = ev_DescribeDiskRegions (Inl x)) \<and>
     (case r of
        Inr _ \<Rightarrow> \<exists>a. last tr = ev_DescribeDiskRegions (Inr a)
      | Inl err \<Rightarrow> length tr = left \<and> (\<exists>x. last tr = ev_DescribeDiskRegions (Inl x) \<and> err = ApiError x))"

lemma probe_log_Cons: "probe_log k r tr \<Longrightarrow> probe_log (Suc k) r (ev_DescribeDiskRegions (Inl x) # tr)"
  by (auto simp: probe_log_def split: sum.splits)

lemma probe_log_answered: "probe_log (Suc k) (Inr ()) [ev_DescribeDiskRegions (Inr a)]"
  by (simp add: probe_log_def)

lemma logs_Probe_cm:
  assumes "zecClient cm = Some c"
  shows "logs snd (\<lambda>r tr. (\<exists>x. tr = [ev_DescribeDiskRegions (Inl x)] \<and> r = Inl (ApiError x)) \<or>
      (\<exists>a. tr = [ev_DescribeDiskRegions (Inr a)] \<and> r = Inr ())) (Probe_cm (traced_cm cm))"
  unfolding Probe_cm_def traced_cm_simps assms option.map option.case traced_client_simps
  by (intro logs_cases logs_call) auto

lemma logs_probe_loop:
  assumes "zecClient cm = Some c" "n \<le> 5"
  shows "logs snd (probe_log (6 - n)) (probe_loop (\<lambda>k. on_fst (sleep k)) (traced_cm cm) n)"
  using assms(2)
proof (induction "5 - n" arbitrary: n)
  case 0
  then have n: "n = 5" by simp
  show ?case unfolding n probe_loop.simps [of _ _ 5]
    by (intro logs_cases logs_bind [OF logs_Probe_cm [OF assms(1)]] logs_bind [OF logs_on_fst])
      (auto simp: probe_log_def split: sum.splits)
next
  case (Suc k)
  have IH: "logs snd (probe_log (5 - n)) (probe_loop (\<lambda>k. on_fst (sleep k)) (traced_cm cm) (n + 1))"
    using Suc.hyps(1) [of "n + 1"] Suc.hyps(2) by simp
  have k: "6 - n = Suc (5 - n)" using Suc.hyps(2) by simp
  show ?case unfolding probe_loop.simps [of _ _ n] k
    using Suc.hyps(2)
    by (intro logs_cases logs_bind [OF logs_Probe_cm [OF assms(1)]] logs_bind [OF logs_on_fst])
      (auto intro!: logs_mono [OF IH [simplified]] probe_log_Cons probe_log_answered)
qed

text \<open>C35: A controller process probes the cloud at most six times before it serves: it goes on after
  the first probe that is answered, and gives up, with the error of the last one, exactly when all
  six failed.\<close>

theorem startup_probes_at_most_six:
  assumes "zecClient cm = Some c"
    and "run_state (probe_loop (\<lambda>k. on_fst (sleep k)) (traced_cm cm) 0) (w, []) = (r, (w', tr))"
  shows "tr \<noteq> [] \<and> length tr \<le> 6 \<and> (\<forall>e \<in> set (butlast tr). \<exists>x. e = ev_DescribeDiskRegions (Inl x)) \<and>
    (case r of
       Inr _ \<Rightarrow> \<exists>a. last tr = ev_DescribeDiskRegions (Inr a)
     | Inl err \<Rightarrow> length tr = 6 \<and> (\<exists>x. last tr = ev_DescribeDiskRegions (Inl x) \<and> err = ApiError x))"
  using logsD [OF logs_probe_loop [OF assms(1), of 0] assms(2)] by (simp add: probe_log_def)

text \<open>A cloud that fails the given number of times before it answers.\<close>

fun flaky_regions :: "disk_phase \<Rightarrow> (sdk_error + string list option) \<times> disk_phase" where
  "flaky_regions (Purging (Suc n)) = (Inl PlainError, Purging n)"
| "flaky_regions p = (Inr (Some []), p)"

definition flaky_cm :: "disk_phase zecCloudManager" where
  "flaky_cm = bin_cm\<lparr>zecClient := Some (bin_client\<lparr>api_DescribeDiskRegions := State flaky_regions\<rparr>)\<rparr>"

theorem startup_probes_at_most_six_witness:
  "case run_state (probe_loop (\<lambda>k. on_fst (State_Monad.return ())) (traced_cm flaky_cm) 0) (Purging 2, []) of
     (r, (w, tr)) \<Rightarrow> r = Inr () \<and> length tr = 3 \<and> (\<exists>a. last tr = ev_DescribeDiskRegions (Inr a))"
proof -
  let ?run = "run_state (probe_loop (\<lambda>k. on_fst (State_Monad.return ())) (traced_cm flaky_cm) 0) (Purging 2, [])"
  obtain r w tr where run: "?run = (r, (w, tr))" by (cases ?run) auto
  have facts: "fst ?run = Inr () \<and> length (snd (snd ?run)) = 3" by code_simp
  have "zecClient flaky_cm = Some (bin_client\<lparr>api_DescribeDiskRegions := State flaky_regions\<rparr>)"
    by (simp add: flaky_cm_def)
  from startup_probes_at_most_six [OF this run] show ?thesis using facts run by auto
qed

lemma main_globals_pair:
  "main_globals fl = Some g \<Longrightarrow> (DefaultZone g = [] \<longleftrightarrow> DefaultResourceGroup g = []) \<and> MixDriver g = fl_mixDriver fl"
  by (auto simp: main_globals_def Let_def split: if_splits)

text \<open>With the constant empty log, \<open>logs\<close> speaks of results only.\<close>

abbreviation returns :: "('a \<Rightarrow> bool) \<Rightarrow> ('s, 'a) state \<Rightarrow> bool" where
  "returns P m \<equiv> logs (\<lambda>_. [] :: unit list) (\<lambda>r _. P r) m"

lemma returns_any: "returns (\<lambda>_. True) m"
  by (simp add: logs_def)

lemma returns_GetZecEnv:
  "returns (\<lambda>r. \<forall>vmid zone. r = Some (vmid, zone) \<longrightarrow> length vmid = ZECVMID_LEN \<and> zone \<noteq> []) (GetZecEnv env)"
  unfolding GetZecEnv_def Let_def
  by (intro logs_cases logs_bind [OF returns_any]) auto

text \<open>What holds of every process that reaches the gRPC server.\<close>

definition launched :: "'w node_env \<Rightarrow> flags \<Rightarrow> 'w Servers \<Rightarrow> bool" where
  "launched env fl servers \<longleftrightarrow> (\<exists>g d cm.
     (DefaultZone g = [] \<longleftrightarrow> DefaultResourceGroup g = []) \<and>
     length (drv_nodeId d) = ZECVMID_LEN \<and> drv_zoneId d \<noteq> [] \<and>
     (if fl_driverType fl = ControllerDriverType
      then Iscontroller cm \<and> zecClient cm \<noteq> None else \<not> Iscontroller cm \<and> zecClient cm = None) \<and>
     servers = Run_servers g d (zec_CloudManager cm) env (fl_driverType fl) \<and> MixDriver g = fl_mixDriver fl)"

lemma NewZecCloudManager_client:
  assumes "NewZecCloudManager nc ticks ak pw dt = Inr cm" "dt \<in> {NodeDriverType, ControllerDriverType}"
  shows "if dt = ControllerDriverType then Iscontroller cm \<and> zecClient cm \<noteq> None else \<not> Iscontroller cm \<and> zecClient cm = None"
  using assms by (auto simp: NewZecCloudManager_def Let_def NodeDriverType_def ControllerDriverType_def
    split: if_splits sum.splits option.splits)

lemma main_run_launched:
  assumes "main_globals fl = Some g" "length vmid = ZECVMID_LEN" "zone \<noteq> []"
    and "NewZecCloudManager nc ticks ak pw (fl_driverType fl) = Inr cm"
    and "fl_driverType fl \<in> {NodeDriverType, ControllerDriverType}"
  shows "returns (\<lambda>r. \<forall>servers. r = Inr servers \<longrightarrow> launched env fl servers) (main_run sleep env fl g vmid zone cm)"
proof -
  have "launched env fl (Run_servers g (main_driver fl vmid zone) (zec_CloudManager cm) env (fl_driverType fl))"
    unfolding launched_def
    using main_globals_pair [OF assms(1)] assms(2,3) NewZecCloudManager_client [OF assms(4,5)]
    by (intro exI [of _ g] exI [of _ "main_driver fl vmid zone"] exI [of _ cm])
      (simp add: main_driver_def InitDiskDriver_def addPluginCapabilities_def addNodeServiceCapabilities_def
        addControllerServiceCapabilities_def addVolumeCapabilityAccessModes_def)
  then show ?thesis
    unfolding main_run_def by (intro logs_cases logs_bind [OF returns_any]) auto
qed

lemma returns_main:
  "returns (\<lambda>r. \<forall>servers. r = Inr servers \<longrightarrow>
      fl_driverType fl \<in> {NodeDriverType, ControllerDriverType} \<and> launched env fl servers) (main nc ticks sleep env fl)"
proof (cases "fl_driverType fl \<in> {NodeDriverType, ControllerDriverType}")
  case False
  then show ?thesis by (simp add: main_def logs_return)
next
  case True
  note run = logs_mono [OF main_run_launched [OF _ _ _ _ True]]
  from True show ?thesis
    unfolding main_def
    by (intro logs_cases logs_bind [OF returns_GetZecEnv] logs_bind [OF returns_any]) (auto intro: run)
qed

lemma registered_Run_servers:
  "registered (Run_servers g d c env dt) = (if dt = ControllerDriverType
     then [IdentityService, ControllerService] @ (if MixDriver g then [NodeService] else [])
     else [IdentityService, NodeService])"
  by (cases "dt = ControllerDriverType"; cases "MixDriver g") (simp_all add: Run_servers_def registered_def)

text \<open>C34: A process reaches the gRPC server only with a valid driver type, with both defaults for zone
  and resource group or neither, with a 19-character instance identifier and a non-empty zone. A
  controller then has a cloud client, a node process has none. A controller registers the identity
  and controller services, and the node service too in mixed mode; a node process registers the
  identity and node services.\<close>

theorem launch_invariant:
  assumes "run_state (main nc ticks sleep env fl) w = (Inr servers, w')"
  shows "fl_driverType fl \<in> {NodeDriverType, ControllerDriverType} \<and> launched env fl servers \<and>
    registered servers = (if fl_driverType fl = ControllerDriverType
      then [IdentityService, ControllerService] @ (if fl_mixDriver fl then [NodeService] else [])
      else [IdentityService, NodeService])"
proof -
  from logsD [OF returns_main assms]
  have ok: "fl_driverType fl \<in> {NodeDriverType, ControllerDriverType}" "launched env fl servers" by auto
  from ok(2) have "registered servers = (if fl_driverType fl = ControllerDriverType
      then [IdentityService, ControllerService] @ (if fl_mixDriver fl then [NodeService] else [])
      else [IdentityService, NodeService])"
    by (auto simp: launched_def registered_Run_servers)
  with ok show ?thesis by blast
qed

definition ex_dmi :: "string \<Rightarrow> string option" where
  "ex_dmi p =
     (if p = ZEC_SYS_VENDOR_PATH then Some (ZEC_PLATFORM @ [CHR 0x0A])
      else if p = ZEC_PRODUCT_SERIAL_PATH then Some (ex_id @ [CHR 0x0A])
      else if p = ZEC_PRODUCT_FAMILY_PATH then Some ''z7'' else None)"

definition ex_host :: "node_world node_env" where
  "ex_host = ex_env\<lparr>os_ReadFile := (\<lambda>p. State_Monad.return (ex_dmi p))\<rparr>"

definition ex_flags :: flags where
  "ex_flags = default_flags\<lparr>fl_driverType := NodeDriverType\<rparr>"

definition ex_main :: "(node_world, fatal + node_world Servers) state" where
  "ex_main = main (\<lambda>_ _. Inr None) (\<lambda>_ _ _. 0) (\<lambda>_. State_Monad.return ()) ex_host ex_flags"

theorem launch_invariant_witness:
  "\<exists>servers. fst (run_state ex_main \<lparr>nw_format = [], nw_mounts = []\<rparr>) = Inr servers \<and>
     launched ex_host ex_flags servers \<and> registered servers = [IdentityService, NodeService]"
proof -
  let ?w = "\<lparr>nw_format = [], nw_mounts = []\<rparr>"
  obtain r w where run: "run_state ex_main ?w = (r, w)" by (cases "run_state ex_main ?w")
  have "\<not> isl (fst (run_state ex_main ?w))" by code_simp
  then obtain servers where servers: "r = Inr servers" using run by (cases r) auto
  have "fl_driverType ex_flags \<noteq> ControllerDriverType"
    by (simp add: ex_flags_def NodeDriverType_def ControllerDriverType_def)
  with launch_invariant [OF run [unfolded servers ex_main_def]] run servers show ?thesis by auto
qed

section \<open>The interceptor\<close>

text \<open>The interceptor changes neither the answer nor the state, and what it logs of the messages is stripped.\<close>

lemma logGRPC_transparent:
  assumes "run_state (logGRPC strip_req strip_resp meth handler req) (s, out) = (r, (s', out'))"
  shows "run_state (handler req) s = (r, s')"
    and "\<exists>e. out' = out @ [GrpcCall meth, GrpcRequest (strip_req req), e] \<and> (\<forall>resp. e = GrpcResponse resp \<longrightarrow> resp \<in> range strip_resp)"
  using assms by (auto simp: logGRPC_def split: prod.splits sum.splits)

end
