(* ===== verification/Concurrency.thy ===== *)
theory Concurrency
  imports Locks
begin

text \<open>
  Requests that run at the same time. A request that got its lock is a session: the key it holds, the
  calls it has made and the calls it will make, with their answers. One step of the system starts a
  session, makes one call of one session on the shared world, or ends a session; the calls of
  different sessions interleave arbitrarily. The calls of a session are chosen when it starts, among
  the sequences its code can produce (\<open>script\<close>), and a call can only be made when the world gives the
  chosen answer: so a run of the system is a run of the code in which every answer comes from the
  world as it is at that moment.
\<close>

datatype 'e action = Begin string | Call 'e | End

record ('l, 'e) session =
  s_label :: 'l
  s_key :: string
  s_done :: "'e list"
  s_rest :: "'e list"

record ('w, 'l, 'e) conc =
  c_locks :: ResourceLocks
  c_world :: 'w
  c_session :: "nat \<Rightarrow> ('l, 'e) session option"
  c_history :: "(nat \<times> 'e action) list"

definition init_conc :: "'w \<Rightarrow> ('w, 'l, 'e) conc" where
  "init_conc w = \<lparr>c_locks = NewResourceLocks, c_world = w, c_session = (\<lambda>_. None), c_history = []\<rparr>"

definition new_session :: "'l \<Rightarrow> string \<Rightarrow> 'e list \<Rightarrow> ('l, 'e) session" where
  "new_session l k evs = \<lparr>s_label = l, s_key = k, s_done = [], s_rest = evs\<rparr>"

definition after_call :: "('l, 'e) session \<Rightarrow> 'e \<Rightarrow> 'e list \<Rightarrow> ('l, 'e) session" where
  "after_call p e es = p\<lparr>s_done := s_done p @ [e], s_rest := es\<rparr>"

lemma session_simps [simp]:
  "s_key (new_session l k evs) = k" "s_label (new_session l k evs) = l"
  "s_done (new_session l k evs) = []" "s_rest (new_session l k evs) = evs"
  "s_key (after_call p e es) = s_key p" "s_label (after_call p e es) = s_label p"
  "s_done (after_call p e es) = s_done p @ [e]" "s_rest (after_call p e es) = es"
  by (simp_all add: new_session_def after_call_def)

inductive conc_step ::
  "('w \<Rightarrow> 'e \<Rightarrow> 'w \<Rightarrow> bool) \<Rightarrow> ('l \<Rightarrow> string \<Rightarrow> 'e list \<Rightarrow> bool) \<Rightarrow> ('w, 'l, 'e) conc \<Rightarrow> ('w, 'l, 'e) conc \<Rightarrow> bool"
  for performs script where
  granted: "i \<notin> fst ` set (c_history s) \<Longrightarrow> script l k evs \<Longrightarrow>
     run_state (TryAcquire k) (c_locks s) = (True, L) \<Longrightarrow>
     conc_step performs script s (s\<lparr>c_locks := L, c_session := (c_session s)(i \<mapsto> new_session l k evs),
       c_history := c_history s @ [(i, Begin k)]\<rparr>)"
| refused: "run_state (TryAcquire k) (c_locks s) = (False, L) \<Longrightarrow>
     conc_step performs script s (s\<lparr>c_locks := L\<rparr>)"
| call: "c_session s i = Some p \<Longrightarrow> s_rest p = e # es \<Longrightarrow> performs (c_world s) e w \<Longrightarrow>
     conc_step performs script s (s\<lparr>c_world := w, c_session := (c_session s)(i \<mapsto> after_call p e es),
       c_history := c_history s @ [(i, Call e)]\<rparr>)"
| finished: "c_session s i = Some p \<Longrightarrow> s_rest p = [] \<Longrightarrow>
     run_state (Release (s_key p)) (c_locks s) = ((), L) \<Longrightarrow>
     conc_step performs script s (s\<lparr>c_locks := L, c_session := (c_session s)(i := None),
       c_history := c_history s @ [(i, End)]\<rparr>)"

inductive conc_reachable ::
  "('w \<Rightarrow> 'e \<Rightarrow> 'w \<Rightarrow> bool) \<Rightarrow> ('l \<Rightarrow> string \<Rightarrow> 'e list \<Rightarrow> bool) \<Rightarrow> 'w \<Rightarrow> ('w, 'l, 'e) conc \<Rightarrow> bool"
  for performs script w where
  init: "conc_reachable performs script w (init_conc w)"
| step: "conc_reachable performs script w s \<Longrightarrow> conc_step performs script s t \<Longrightarrow> conc_reachable performs script w t"

section \<open>Running a session\<close>

text \<open>A session that starts can make its calls one after the other as long as the world answers as it expects.\<close>

primrec performs_all :: "('w \<Rightarrow> 'e \<Rightarrow> 'w \<Rightarrow> bool) \<Rightarrow> 'w \<Rightarrow> 'e list \<Rightarrow> 'w \<Rightarrow> bool" where
  "performs_all performs w [] w' \<longleftrightarrow> w' = w"
| "performs_all performs w (e # es) w' \<longleftrightarrow> (\<exists>w1. performs w e w1 \<and> performs_all performs w1 es w')"

lemma session_calls:
  assumes "conc_reachable performs script w0 s" "c_session s i = Some p" "s_rest p = ds @ es"
    and "performs_all performs (c_world s) ds w"
  shows "\<exists>t. conc_reachable performs script w0 t \<and> c_world t = w \<and> c_locks t = c_locks s \<and>
    c_session t = (c_session s)(i \<mapsto> p\<lparr>s_done := s_done p @ ds, s_rest := es\<rparr>) \<and>
    c_history t = c_history s @ map (\<lambda>e. (i, Call e)) ds"
  using assms
proof (induction ds arbitrary: s p)
  case Nil
  then show ?case by (intro exI [of _ s]) (auto intro: session.equality)
next
  case (Cons e ds)
  obtain w1 where e: "performs (c_world s) e w1" and ds: "performs_all performs w1 ds w" using Cons.prems(4) by auto
  let ?t = "s\<lparr>c_world := w1, c_session := (c_session s)(i \<mapsto> after_call p e (ds @ es)),
    c_history := c_history s @ [(i, Call e)]\<rparr>"
  have "conc_step performs script s ?t"
    by (rule conc_step.call [where performs = performs, OF Cons.prems(2) _ e]) (simp add: Cons.prems(3))
  then have "conc_reachable performs script w0 ?t" by (rule conc_reachable.step [OF Cons.prems(1)])
  from Cons.IH [OF this, of "after_call p e (ds @ es)"] ds
  obtain t where "conc_reachable performs script w0 t" "c_world t = w" "c_locks t = c_locks s"
      "c_session t = (c_session s)(i \<mapsto> p\<lparr>s_done := s_done p @ e # ds, s_rest := es\<rparr>)"
      "c_history t = c_history s @ map (\<lambda>e. (i, Call e)) (e # ds)"
    by (auto simp: after_call_def fun_eq_iff)
  then show ?case by blast
qed

lemma session_starts:
  assumes "conc_reachable performs script w0 s" "i \<notin> fst ` set (c_history s)" "script l k (ds @ es)"
    and "k \<notin> locks (c_locks s)" "performs_all performs (c_world s) ds w"
  shows "\<exists>t. conc_reachable performs script w0 t \<and> c_world t = w \<and> locks (c_locks t) = insert k (locks (c_locks s)) \<and>
    c_session t = (c_session s)(i \<mapsto> \<lparr>s_label = l, s_key = k, s_done = ds, s_rest = es\<rparr>) \<and>
    c_history t = c_history s @ (i, Begin k) # map (\<lambda>e. (i, Call e)) ds"
proof -
  obtain L where acq: "run_state (TryAcquire k) (c_locks s) = (True, L)"
    using assms(4) by (simp add: TryAcquire_def)
  let ?t = "s\<lparr>c_locks := L, c_session := (c_session s)(i \<mapsto> new_session l k (ds @ es)),
    c_history := c_history s @ [(i, Begin k)]\<rparr>"
  have "conc_reachable performs script w0 ?t"
    by (rule conc_reachable.step [OF assms(1) conc_step.granted [where script = script, OF assms(2,3) acq]])
  from session_calls [OF this, of i "new_session l k (ds @ es)" ds es w] assms(5) rl.acquire_held [OF acq]
  show ?thesis by (auto simp: new_session_def)
qed

lemma session_ends:
  assumes "conc_reachable performs script w0 s" "c_session s i = Some p" "s_rest p = []"
  shows "\<exists>t. conc_reachable performs script w0 t \<and> c_world t = c_world s \<and> c_session t = (c_session s)(i := None) \<and>
    locks (c_locks t) = locks (c_locks s) - {s_key p} \<and> c_history t = c_history s @ [(i, End)]"
proof -
  obtain L where rel: "run_state (Release (s_key p)) (c_locks s) = ((), L)" by (simp add: Release_def)
  let ?t = "s\<lparr>c_locks := L, c_session := (c_session s)(i := None), c_history := c_history s @ [(i, End)]\<rparr>"
  have "conc_reachable performs script w0 ?t"
    by (rule conc_reachable.step [OF assms(1) conc_step.finished [OF assms(2,3) rel]])
  then show ?thesis using rl.release_held [OF rel] by (intro exI [of _ ?t]) simp
qed

lemma session_in_history:
  "conc_reachable performs script w0 s \<Longrightarrow> c_session s i = Some p \<Longrightarrow> i \<in> fst ` set (c_history s)"
proof (induction arbitrary: p rule: conc_reachable.induct)
  case init
  then show ?case by (simp add: init_conc_def)
next
  case (step s t)
  from step.hyps(2) show ?case using step.prems by cases (auto split: if_splits dest: step.IH)
qed

text \<open>A session that starts, makes its calls and ends without interruption.\<close>

lemma session_alone:
  assumes "conc_reachable performs script w0 s" "i \<notin> fst ` set (c_history s)" "script l k evs"
    and "k \<notin> locks (c_locks s)" "performs_all performs (c_world s) evs w"
  shows "\<exists>u. conc_reachable performs script w0 u \<and> c_world u = w \<and> locks (c_locks u) = locks (c_locks s) \<and>
    c_session u = c_session s \<and> c_history u = c_history s @ (i, Begin k) # map (\<lambda>e. (i, Call e)) evs @ [(i, End)]"
proof -
  have "script l k (evs @ [])" using assms(3) by simp
  from session_starts [OF assms(1,2) this assms(4,5)] obtain t where
    t: "conc_reachable performs script w0 t" "c_world t = w" "locks (c_locks t) = insert k (locks (c_locks s))"
      "c_session t = (c_session s)(i \<mapsto> \<lparr>s_label = l, s_key = k, s_done = evs, s_rest = []\<rparr>)"
      "c_history t = c_history s @ (i, Begin k) # map (\<lambda>e. (i, Call e)) evs" by blast
  have "c_session s i = None" using session_in_history [OF assms(1)] assms(2) by (cases "c_session s i") auto
  then show ?thesis using session_ends [OF t(1), of i] t(2-) assms(4) by (auto simp: fun_upd_idem)
qed

text \<open>A run is a run with any larger set of scripts.\<close>

lemma conc_reachable_mono:
  assumes "\<And>l k evs. script l k evs \<Longrightarrow> script' l k evs"
  shows "conc_reachable performs script w s \<Longrightarrow> conc_reachable performs script' w s"
proof (induction rule: conc_reachable.induct)
  case (step s t)
  have "conc_step performs script' s t"
    using step.hyps(2) by cases (auto intro: conc_step.intros assms)
  then show ?case by (rule conc_reachable.step [OF step.IH])
qed (rule conc_reachable.init)

section \<open>Calls that depend on what was seen\<close>

text \<open>
  Each call of a sequence is allowed by what the calls before it have shown: \<open>observe\<close> is what a call
  adds to or removes from the knowledge.
\<close>

primrec obeys_by :: "('n \<Rightarrow> 'e \<Rightarrow> bool) \<Rightarrow> ('n \<Rightarrow> 'e \<Rightarrow> 'n) \<Rightarrow> 'n \<Rightarrow> 'e list \<Rightarrow> bool" where
  "obeys_by allowed observe kn [] \<longleftrightarrow> True"
| "obeys_by allowed observe kn (e # es) \<longleftrightarrow> allowed kn e \<and> obeys_by allowed observe (observe kn e) es"

lemma obeys_by_append [simp]:
  "obeys_by allowed observe kn (xs @ ys) \<longleftrightarrow>
     obeys_by allowed observe kn xs \<and> obeys_by allowed observe (foldl observe kn xs) ys"
  by (induction xs arbitrary: kn) auto

lemma obeys_by_all: "(\<And>kn e. e \<in> set evs \<Longrightarrow> allowed kn e) \<Longrightarrow> obeys_by allowed observe kn evs"
  by (induction evs arbitrary: kn) auto

lemma obeys_by_member: "obeys_by allowed observe kn evs \<Longrightarrow> e \<in> set evs \<Longrightarrow> \<exists>kn. allowed kn e"
  by (induction evs arbitrary: kn) auto

section \<open>Well-formed histories\<close>

text \<open>
  What may follow a history: a new session only when every earlier session with its key has ended, a
  call or the end of a session only while it runs, and a call only touches the key of its session.
\<close>

fun may_follow :: "('e \<Rightarrow> string set) \<Rightarrow> (nat \<times> 'e action) list \<Rightarrow> nat \<times> 'e action \<Rightarrow> bool" where
  "may_follow touches h (j, Begin k) \<longleftrightarrow>
     j \<notin> fst ` set h \<and> (\<forall>i. (i, Begin k) \<in> set h \<longrightarrow> (i, End) \<in> set h)"
| "may_follow touches h (i, Call e) \<longleftrightarrow>
     (i, End) \<notin> set h \<and> (\<exists>k. (i, Begin k) \<in> set h \<and> touches e \<subseteq> {k})"
| "may_follow touches h (i, End) \<longleftrightarrow> (i, End) \<notin> set h \<and> (\<exists>k. (i, Begin k) \<in> set h)"

definition good_history :: "('e \<Rightarrow> string set) \<Rightarrow> (nat \<times> 'e action) list \<Rightarrow> bool" where
  "good_history touches h \<longleftrightarrow> (\<forall>xs a ys. h = xs @ a # ys \<longrightarrow> may_follow touches xs a)"

lemma good_history_Nil [simp]: "good_history touches []"
  by (simp add: good_history_def)

lemma good_historyD: "good_history touches (xs @ a # ys) \<Longrightarrow> may_follow touches xs a"
  unfolding good_history_def by blast

lemma good_history_snoc [simp]:
  "good_history touches (h @ [a]) \<longleftrightarrow> good_history touches h \<and> may_follow touches h a"
proof
  assume good: "good_history touches (h @ [a])"
  have "may_follow touches xs b" if "h = xs @ b # ys" for xs b ys
    using good that unfolding good_history_def by (metis append_Cons append_assoc)
  moreover have "may_follow touches h a"
    by (rule good [unfolded good_history_def, rule_format, of h a "[]"]) simp
  ultimately show "good_history touches h \<and> may_follow touches h a" by (simp add: good_history_def)
next
  assume good: "good_history touches h \<and> may_follow touches h a"
  show "good_history touches (h @ [a])" unfolding good_history_def
  proof (intro allI impI)
    fix xs b ys assume split: "h @ [a] = xs @ b # ys"
    show "may_follow touches xs b"
    proof (cases ys rule: rev_cases)
      case Nil
      then show ?thesis using good split by simp
    next
      case (snoc zs c)
      then have "h = xs @ b # zs" using split by simp
      then show ?thesis using good by (blast dest: good_historyD)
    qed
  qed
qed

lemma good_history_prefix: "good_history touches (xs @ ys) \<Longrightarrow> good_history touches xs"
  unfolding good_history_def by (metis append_assoc append_Cons)

text \<open>Two sessions with one key do not overlap.\<close>

lemma begin_excludes:
  assumes good: "good_history touches h" and i: "(i, Begin k) \<in> set h" and j: "(j, Begin k) \<in> set h" and "i \<noteq> j"
  shows "(i, End) \<in> set h \<or> (j, End) \<in> set h"
  using assms
proof (induction h rule: rev_induct)
  case (snoc a h)
  then show ?case by (cases a) (auto split: if_splits)
qed simp

text \<open>
  When two sessions make calls that touch the same key, the first has ended before the second begins.
\<close>

lemma good_history_serial:
  assumes good: "good_history touches (xs @ (i, Call e) # ys @ (j, Call f) # zs)"
    and "i \<noteq> j" "d \<in> touches e" "d \<in> touches f"
  shows "\<exists>us vs. ys = us @ (j, Begin d) # vs \<and> (i, End) \<in> set us"
proof -
  have xs: "good_history touches xs" using good by (rule good_history_prefix)
  have i: "(i, End) \<notin> set xs" "(i, Begin d) \<in> set xs"
    using good_historyD [OF good] assms(3) by auto
  have "good_history touches ((xs @ (i, Call e) # ys) @ (j, Call f) # zs)" using good by simp
  note at_j = good_historyD [OF this]
  have j: "(j, End) \<notin> set xs" "(j, Begin d) \<in> set xs \<or> (j, Begin d) \<in> set ys"
    using at_j assms(4) by auto
  have "(j, Begin d) \<notin> set xs"
    using begin_excludes [OF xs i(2) _ assms(2)] i(1) j(1) by blast
  then obtain us vs where ys: "ys = us @ (j, Begin d) # vs" using j(2) by (metis split_list)
  have "good_history touches ((xs @ (i, Call e) # us) @ (j, Begin d) # vs @ (j, Call f) # zs)"
    using good ys by simp
  from good_historyD [OF this] i have "(i, End) \<in> set us" by auto
  with ys show ?thesis by blast
qed

section \<open>What the sessions respect\<close>

text \<open>The keys of the sessions of a table.\<close>

lemma keys_start: "m i = None \<Longrightarrow> s_key ` ran (m(i \<mapsto> p)) = insert (s_key p) (s_key ` ran m)"
  by simp

lemma keys_call: "m i = Some p \<Longrightarrow> s_key p' = s_key p \<Longrightarrow> s_key ` ran (m(i \<mapsto> p')) = s_key ` ran m"
  unfolding ran_map_option [symmetric] by (rule arg_cong [of _ _ ran]) auto

lemma keys_end:
  assumes "m i = Some p" "\<And>j q. m j = Some q \<Longrightarrow> s_key q = s_key p \<Longrightarrow> j = i"
  shows "s_key ` ran (m(i := None)) = s_key ` ran m - {s_key p}"
proof -
  have "ran (m(i := None)) = {q. \<exists>j. j \<noteq> i \<and> m j = Some q}" by (auto simp: ran_def)
  moreover have "j \<noteq> i \<longleftrightarrow> s_key q \<noteq> s_key p" if "m j = Some q" for j q
    using assms that by (metis option.inject)
  ultimately show ?thesis by (auto simp: ran_def image_iff) metis+
qed

text \<open>
  The invariant of the system: the locked keys are those of the running sessions, no two of which
  have the same key, the sessions follow their scripts, and the history is well-formed.
\<close>

definition conc_inv ::
  "('l \<Rightarrow> string \<Rightarrow> 'e list \<Rightarrow> bool) \<Rightarrow> ('e \<Rightarrow> string set) \<Rightarrow> ('w, 'l, 'e) conc \<Rightarrow> bool" where
  "conc_inv script touches s \<longleftrightarrow>
     locks (c_locks s) = s_key ` ran (c_session s) \<and>
     (\<forall>i j p q. c_session s i = Some p \<longrightarrow> c_session s j = Some q \<longrightarrow> s_key p = s_key q \<longrightarrow> i = j) \<and>
     (\<forall>i p. c_session s i = Some p \<longrightarrow> (i, Begin (s_key p)) \<in> set (c_history s) \<and>
        (i, End) \<notin> set (c_history s) \<and> script (s_label p) (s_key p) (s_done p @ s_rest p)) \<and>
     (\<forall>i k. (i, Begin k) \<in> set (c_history s) \<longrightarrow> (i, End) \<notin> set (c_history s) \<longrightarrow>
        (\<exists>p. c_session s i = Some p \<and> s_key p = k)) \<and>
     good_history touches (c_history s)"

text \<open>The contract of the scripts: the calls of a session touch only the key it holds.\<close>

locale lock_discipline =
  fixes performs :: "'w \<Rightarrow> 'e \<Rightarrow> 'w \<Rightarrow> bool"
    and script :: "'l \<Rightarrow> string \<Rightarrow> 'e list \<Rightarrow> bool"
    and touches :: "'e \<Rightarrow> string set"
  assumes script_touches: "script l k evs \<Longrightarrow> e \<in> set evs \<Longrightarrow> touches e \<subseteq> {k}"
begin

lemma conc_invD:
  assumes "conc_inv script touches s"
  shows "locks (c_locks s) = s_key ` ran (c_session s)"
    and "c_session s i = Some p \<Longrightarrow> c_session s j = Some q \<Longrightarrow> s_key p = s_key q \<Longrightarrow> i = j"
    and "c_session s i = Some p \<Longrightarrow> (i, Begin (s_key p)) \<in> set (c_history s)"
    and "c_session s i = Some p \<Longrightarrow> (i, End) \<notin> set (c_history s)"
    and "c_session s i = Some p \<Longrightarrow> script (s_label p) (s_key p) (s_done p @ s_rest p)"
    and "(i, Begin k) \<in> set (c_history s) \<Longrightarrow> (i, End) \<notin> set (c_history s) \<Longrightarrow>
      \<exists>p. c_session s i = Some p \<and> s_key p = k"
    and "good_history touches (c_history s)"
  using assms unfolding conc_inv_def by blast+

lemma conc_invI:
  assumes "locks (c_locks s) = s_key ` ran (c_session s)"
    and "\<And>i j p q. c_session s i = Some p \<Longrightarrow> c_session s j = Some q \<Longrightarrow> s_key p = s_key q \<Longrightarrow> i = j"
    and "\<And>i p. c_session s i = Some p \<Longrightarrow> (i, Begin (s_key p)) \<in> set (c_history s) \<and>
      (i, End) \<notin> set (c_history s) \<and> script (s_label p) (s_key p) (s_done p @ s_rest p)"
    and "\<And>i k. (i, Begin k) \<in> set (c_history s) \<Longrightarrow> (i, End) \<notin> set (c_history s) \<Longrightarrow>
      \<exists>p. c_session s i = Some p \<and> s_key p = k"
    and "good_history touches (c_history s)"
  shows "conc_inv script touches s"
  unfolding conc_inv_def
  by (intro conjI allI impI;
      (rule assms(1) | rule assms(5) | erule (2) assms(2) | erule (1) assms(4) | (drule assms(3), elim conjE, assumption)))

lemma conc_inv_init: "conc_inv script touches (init_conc w)"
  by (simp add: conc_inv_def init_conc_def NewResourceLocks_def)

lemma conc_inv_granted:
  assumes inv: "conc_inv script touches s" and fresh: "i \<notin> fst ` set (c_history s)" and scr: "script l k evs"
    and acq: "run_state (TryAcquire k) (c_locks s) = (True, L)"
  shows "conc_inv script touches (s\<lparr>c_locks := L, c_session := (c_session s)(i \<mapsto> new_session l k evs),
    c_history := c_history s @ [(i, Begin k)]\<rparr>)"
proof -
  have free: "s_key q \<noteq> k" if "c_session s j = Some q" for j q
    using rl.acquire_result [OF acq] conc_invD(1) [OF inv] that by (auto intro: ranI)
  have idle: "c_session s i = None"
    using conc_invD(3) [OF inv, of i] fresh by (cases "c_session s i") (auto intro: rev_image_eqI)
  have hist: "(i, a) \<notin> set (c_history s)" for a using fresh by (auto intro: rev_image_eqI)
  have ended: "(j, End) \<in> set (c_history s)" if "(j, Begin k) \<in> set (c_history s)" for j
    using conc_invD(6) [OF inv that] free by blast
  have held: "locks L = insert k (locks (c_locks s))" using acq by (rule rl.acquire_held)
  have "locks L = s_key ` ran ((c_session s)(i \<mapsto> new_session l k evs))"
    unfolding keys_start [where m = "c_session s", OF idle] using held conc_invD(1) [OF inv] by simp
  moreover have "good_history touches (c_history s @ [(i, Begin k)])"
    using conc_invD(7) [OF inv] fresh ended by simp
  ultimately show ?thesis
  proof (intro conc_invI; simp)
    fix j m p q
    assume "(if j = i then Some (new_session l k evs) else c_session s j) = Some p"
      "(if m = i then Some (new_session l k evs) else c_session s m) = Some q" "s_key p = s_key q"
    then show "j = m" by (auto split: if_splits dest: free conc_invD(2) [OF inv])
  next
    fix j p
    assume "(if j = i then Some (new_session l k evs) else c_session s j) = Some p"
    then show "(j = i \<and> s_key p = k \<or> (j, Begin (s_key p)) \<in> set (c_history s)) \<and>
        (j, End) \<notin> set (c_history s) \<and> script (s_label p) (s_key p) (s_done p @ s_rest p)"
      using scr hist conc_invD(3-5) [OF inv] by (auto split: if_splits)
  next
    fix j m
    assume "j = i \<and> m = k \<or> (j, Begin m) \<in> set (c_history s)" "(j, End) \<notin> set (c_history s)"
    then show "(j = i \<longrightarrow> k = m) \<and> (j \<noteq> i \<longrightarrow> (\<exists>p. c_session s j = Some p \<and> s_key p = m))"
      using hist conc_invD(6) [OF inv] by auto
  qed
qed

lemma conc_inv_call:
  assumes inv: "conc_inv script touches s" and i: "c_session s i = Some p" "s_rest p = e # es"
  shows "conc_inv script touches (s\<lparr>c_world := w, c_session := (c_session s)(i \<mapsto> after_call p e es),
    c_history := c_history s @ [(i, Call e)]\<rparr>)"
proof -
  have "touches e \<subseteq> {s_key p}"
    using script_touches [OF conc_invD(5) [OF inv i(1)], of e] i(2) by simp
  then have "good_history touches (c_history s @ [(i, Call e)])"
    using conc_invD(3,4,7) [OF inv] i(1) by auto
  moreover have "locks (c_locks s) = s_key ` ran ((c_session s)(i \<mapsto> after_call p e es))"
    unfolding conc_invD(1) [OF inv] by (rule keys_call [where m = "c_session s", OF i(1), symmetric]) simp
  ultimately show ?thesis
  proof (intro conc_invI; simp)
    fix j m q r
    assume "(if j = i then Some (after_call p e es) else c_session s j) = Some q"
      "(if m = i then Some (after_call p e es) else c_session s m) = Some r" "s_key q = s_key r"
    then show "j = m" using conc_invD(2) [OF inv] i(1) by (auto split: if_splits)
  next
    fix j q
    assume "(if j = i then Some (after_call p e es) else c_session s j) = Some q"
    then show "(j, Begin (s_key q)) \<in> set (c_history s) \<and> (j, End) \<notin> set (c_history s) \<and>
        script (s_label q) (s_key q) (s_done q @ s_rest q)"
      using i conc_invD(3-5) [OF inv] by (auto split: if_splits) (metis append.assoc append_Cons append_Nil)
  next
    fix j m
    assume "(j, Begin m) \<in> set (c_history s)" "(j, End) \<notin> set (c_history s)"
    from conc_invD(6) [OF inv this]
    show "(j = i \<longrightarrow> s_key p = m) \<and> (j \<noteq> i \<longrightarrow> (\<exists>q. c_session s j = Some q \<and> s_key q = m))"
      using i(1) by auto
  qed
qed

lemma conc_inv_finished:
  assumes inv: "conc_inv script touches s" and i: "c_session s i = Some p"
    and rel: "run_state (Release (s_key p)) (c_locks s) = ((), L)"
  shows "conc_inv script touches (s\<lparr>c_locks := L, c_session := (c_session s)(i := None), c_history := c_history s @ [(i, End)]\<rparr>)"
proof -
  have held: "locks L = locks (c_locks s) - {s_key p}" using rel by (rule rl.release_held)
  have "locks L = s_key ` ran ((c_session s)(i := None))"
    unfolding held conc_invD(1) [OF inv] by (rule keys_end [where m = "c_session s", OF i, symmetric]) (rule conc_invD(2) [OF inv _ i])
  moreover have "good_history touches (c_history s @ [(i, End)])"
    using conc_invD(3,4,7) [OF inv] i by auto
  ultimately show ?thesis
  proof (intro conc_invI; simp)
    fix j m q r
    assume "(if j = i then None else c_session s j) = Some q" "(if m = i then None else c_session s m) = Some r"
      "s_key q = s_key r"
    then show "j = m" using conc_invD(2) [OF inv] by (auto split: if_splits)
  next
    fix j q
    assume "(if j = i then None else c_session s j) = Some q"
    then show "(j, Begin (s_key q)) \<in> set (c_history s) \<and> j \<noteq> i \<and> (j, End) \<notin> set (c_history s) \<and>
        script (s_label q) (s_key q) (s_done q @ s_rest q)"
      using conc_invD(3-5) [OF inv] by (auto split: if_splits)
  next
    fix j m
    assume "(j, Begin m) \<in> set (c_history s)" "j \<noteq> i \<and> (j, End) \<notin> set (c_history s)"
    with conc_invD(6) [OF inv this(1)] show "\<exists>q. c_session s j = Some q \<and> s_key q = m" by blast
  qed
qed

lemma conc_step_inv: "conc_step performs script s t \<Longrightarrow> conc_inv script touches s \<Longrightarrow> conc_inv script touches t"
proof (induction rule: conc_step.induct)
  case (refused k s L)
  then show ?case using rl.acquire_refused [OF refused.hyps] by simp
qed (blast intro: conc_inv_granted conc_inv_call conc_inv_finished)+

lemma conc_reachable_inv: "conc_reachable performs script w s \<Longrightarrow> conc_inv script touches s"
  by (induction rule: conc_reachable.induct) (blast intro: conc_inv_init conc_step_inv)+

lemma serial:
  assumes "conc_reachable performs script w s" "c_history s = xs @ (i, Call e) # ys @ (j, Call f) # zs"
    and "i \<noteq> j" "d \<in> touches e" "d \<in> touches f"
  shows "\<exists>us vs. ys = us @ (j, Begin d) # vs \<and> (i, End) \<in> set us"
  using conc_invD(7) [OF conc_reachable_inv [OF assms(1)]] assms(3-5) unfolding assms(2)
  by (rule good_history_serial)

end

text \<open>
  What a session knows. \<open>knows l k ds v\<close> is what a session with key \<open>k\<close> may conclude from the calls \<open>ds\<close>
  it has made about \<open>v\<close>, the part of the world its key stands for. If the conclusion is right after
  each of its own calls, and calls of a session do not falsify what a session with another key has
  concluded, it is right at any time, whatever the other sessions do.
\<close>

locale session_knowledge = lock_discipline performs script touches
  for performs :: "'w \<Rightarrow> 'e \<Rightarrow> 'w \<Rightarrow> bool"
    and script :: "'l \<Rightarrow> string \<Rightarrow> 'e list \<Rightarrow> bool"
    and touches :: "'e \<Rightarrow> string set" +
  fixes part :: "'w \<Rightarrow> string \<Rightarrow> 'v"
    and knows :: "'l \<Rightarrow> string \<Rightarrow> 'e list \<Rightarrow> 'v \<Rightarrow> bool"
  assumes knows_nothing: "knows l k [] v"
    and call_own: "script l k (ds @ e # es) \<Longrightarrow> knows l k ds (part w k) \<Longrightarrow> performs w e w' \<Longrightarrow>
      knows l k (ds @ [e]) (part w' k)"
    and call_other: "script l k (ds @ e # es) \<Longrightarrow> knows l k ds (part w k) \<Longrightarrow> performs w e w' \<Longrightarrow>
      d \<noteq> k \<Longrightarrow> knows l' d ds' (part w d) \<Longrightarrow> knows l' d ds' (part w' d)"
begin

lemma knowledge_step:
  assumes "conc_step performs script s t" "conc_inv script touches s"
    and "\<And>i p. c_session s i = Some p \<Longrightarrow> knows (s_label p) (s_key p) (s_done p) (part (c_world s) (s_key p))"
  shows "c_session t j = Some q \<Longrightarrow> knows (s_label q) (s_key q) (s_done q) (part (c_world t) (s_key q))"
  using assms
proof (induction rule: conc_step.induct)
  case (granted i s l k evs L)
  then show ?case by (auto simp: knows_nothing split: if_splits)
next
  case (call s i p e es w)
  have scr: "script (s_label p) (s_key p) (s_done p @ e # es)"
    using conc_invD(5) [OF call.prems(2) call.hyps(1)] call.hyps(2) by simp
  note know = call.prems(3) [OF call.hyps(1)]
  show ?case
  proof (cases "j = i")
    case True
    then show ?thesis using call_own [OF scr know call.hyps(3)] call.prems(1) by auto
  next
    case False
    then have q: "c_session s j = Some q" using call.prems(1) by simp
    then have "s_key q \<noteq> s_key p" using conc_invD(2) [OF call.prems(2) q call.hyps(1)] False by blast
    then show ?thesis using call_other [OF scr know call.hyps(3) _ call.prems(3) [OF q]] by simp
  qed
qed (auto split: if_splits)

lemma knowledge:
  assumes "conc_reachable performs script w s" "c_session s i = Some p"
  shows "knows (s_label p) (s_key p) (s_done p) (part (c_world s) (s_key p))"
  using assms
proof (induction arbitrary: i p rule: conc_reachable.induct)
  case init
  then show ?case by (simp add: init_conc_def)
next
  case (step s t)
  show ?case by (rule knowledge_step [OF step.hyps(2) conc_reachable_inv [OF step.hyps(1)] step.IH step.prems])
qed

lemma session_script: "conc_reachable performs script w s \<Longrightarrow> c_session s i = Some p \<Longrightarrow>
    script (s_label p) (s_key p) (s_done p @ s_rest p)"
  by (rule conc_invD(5) [OF conc_reachable_inv])

end

end
