(* ===== verification/Abstraction.thy ===== *)
theory Abstraction
  imports Locks
begin

text \<open>
  Refinement proofs. \<open>tracks f M m Q\<close> says of code \<open>m\<close> that whenever the abstraction \<open>f\<close> of the
  state is \<open>M\<close> before, the result and the abstraction of the state afterwards satisfy \<open>Q\<close>. It is
  a weakest precondition on the abstract state, with one rule for each construct of the monad.
\<close>

definition tracks :: "('s \<Rightarrow> 'm) \<Rightarrow> 'm \<Rightarrow> ('s, 'a) state \<Rightarrow> ('a \<Rightarrow> 'm \<Rightarrow> bool) \<Rightarrow> bool" where
  "tracks f M m Q \<longleftrightarrow> (\<forall>s. f s = M \<longrightarrow> wp m (\<lambda>r t. Q r (f t)) s)"

lemma tracksD: "tracks f (f s) m Q \<Longrightarrow> run_state m s = (r, t) \<Longrightarrow> Q r (f t)"
  unfolding tracks_def by (blast dest: wpD)

lemma tracksI: "(\<And>s r t. f s = M \<Longrightarrow> run_state m s = (r, t) \<Longrightarrow> Q r (f t)) \<Longrightarrow> tracks f M m Q"
  unfolding tracks_def by (blast intro: wpI)

lemma tracks_mono: "tracks f M m Q \<Longrightarrow> (\<And>r M'. Q r M' \<Longrightarrow> R r M') \<Longrightarrow> tracks f M m R"
  unfolding tracks_def by (blast intro: wp_mono)

lemma tracks_return: "Q r M \<Longrightarrow> tracks f M (State_Monad.return r) Q"
  by (simp add: tracks_def wp_simps)

lemma tracks_bind:
  assumes "tracks f M m R" "\<And>a M'. R a M' \<Longrightarrow> tracks f M' (k a) Q"
  shows "tracks f M (State_Monad.bind m k) Q"
  unfolding tracks_def wp_bind
proof (intro allI impI)
  fix s assume "f s = M"
  with assms(1) have "wp m (\<lambda>a t. R a (f t)) s" by (simp add: tracks_def)
  then show "wp m (\<lambda>a. wp (k a) (\<lambda>r t. Q r (f t))) s"
    by (rule wp_mono) (use assms(2) in \<open>auto simp: tracks_def\<close>)
qed

text \<open>Code that leaves the abstraction alone.\<close>

lemma keeps_tracks: "keeps f m \<Longrightarrow> tracks f M m (\<lambda>_ M'. M' = M)"
  by (auto intro!: tracksI dest: keepsD)

lemma tracks_keepsI:
  assumes "\<And>M. tracks f M m (\<lambda>r M'. M' = M \<and> P M r)"
  shows "keeps f m"
proof (rule keepsI)
  fix s
  show "f (snd (run_state m s)) = f s"
    using tracksD [OF assms, of s "fst (run_state m s)" "snd (run_state m s)"] by simp
qed

lemma tracks_keeps_bind: "keeps f m \<Longrightarrow> (\<And>a. tracks f M (k a) Q) \<Longrightarrow> tracks f M (State_Monad.bind m k) Q"
  by (rule tracks_bind [OF keeps_tracks]) auto

lemma tracks_if:
  "(b \<Longrightarrow> tracks f M m Q) \<Longrightarrow> (\<not> b \<Longrightarrow> tracks f M k Q) \<Longrightarrow> tracks f M (if b then m else k) Q"
  by simp

lemma tracks_case_sum:
  "(\<And>x. z = Inl x \<Longrightarrow> tracks f M (m x) Q) \<Longrightarrow> (\<And>x. z = Inr x \<Longrightarrow> tracks f M (k x) Q) \<Longrightarrow>
   tracks f M (case z of Inl x \<Rightarrow> m x | Inr x \<Rightarrow> k x) Q"
  by (cases z) simp_all

lemma tracks_case_option:
  "(z = None \<Longrightarrow> tracks f M m Q) \<Longrightarrow> (\<And>x. z = Some x \<Longrightarrow> tracks f M (k x) Q) \<Longrightarrow>
   tracks f M (case z of None \<Rightarrow> m | Some x \<Rightarrow> k x) Q"
  by (cases z) simp_all

lemma tracks_case_prod:
  "(\<And>x y. z = (x, y) \<Longrightarrow> tracks f M (m x y) Q) \<Longrightarrow> tracks f M (case z of (x, y) \<Rightarrow> m x y) Q"
  by (cases z) simp_all

lemma tracks_case_list:
  "(z = [] \<Longrightarrow> tracks f M m Q) \<Longrightarrow> (\<And>x xs. z = x # xs \<Longrightarrow> tracks f M (k x xs) Q) \<Longrightarrow>
   tracks f M (case z of [] \<Rightarrow> m | x # xs \<Rightarrow> k x xs) Q"
  by (cases z) simp_all

lemmas tracks_cases =
  tracks_if tracks_case_sum tracks_case_option tracks_case_prod tracks_case_list tracks_return

section \<open>Behind a server\<close>

lemma tracks_on_world: "tracks f M m Q \<Longrightarrow> tracks (\<lambda>s. f (srv_world s)) M (on_world m) Q"
  by (simp add: tracks_def wp_on_world)

lemma tracks_with_lock:
  fixes f :: "'w \<Rightarrow> 'm" and body :: "('w server, 'e + 'a) state"
  assumes "Q (Inl e) M" "tracks (\<lambda>s. f (srv_world s)) M body Q"
  shows "tracks (\<lambda>s. f (srv_world s)) M (with_lock k e body) Q"
  unfolding tracks_def wp_with_lock
proof (intro allI impI)
  fix s :: "'w server" assume s: "f (srv_world s) = M"
  let ?t = "s\<lparr>srv_locks := srv_locks s\<lparr>locks := insert k (srv_held s)\<rparr>\<rparr>"
  have "wp body (\<lambda>r t. Q r (f (srv_world t))) ?t" using assms(2) s by (simp add: tracks_def)
  then show "if k \<in> srv_held s then Q (Inl e) (f (srv_world s))
      else wp body (\<lambda>r t. Q r (f (srv_world (t\<lparr>srv_locks := srv_locks t\<lparr>locks := srv_held t - {k}\<rparr>\<rparr>)))) ?t"
    using assms(1) s by simp
qed

lemma keeps_on_world_of: "keeps f m \<Longrightarrow> keeps (\<lambda>s. f (srv_world s)) (on_world m)"
  by (auto simp: keeps_def on_world_def split: prod.splits) (metis snd_conv)

section \<open>Sequences of requests\<close>

text \<open>A server that answers one request after the other, and the runs of an abstract machine.\<close>

primrec serve_list :: "('q \<Rightarrow> ('s, 'r) state) \<Rightarrow> 'q list \<Rightarrow> ('s, 'r list) state" where
  "serve_list serve [] = State_Monad.return []"
| "serve_list serve (q # qs) = do {
     r \<leftarrow> serve q;
     rs \<leftarrow> serve_list serve qs;
     State_Monad.return (r # rs)
   }"

primrec step_run :: "('q \<Rightarrow> 'r \<Rightarrow> 'm \<Rightarrow> 'm \<Rightarrow> bool) \<Rightarrow> ('q \<times> 'r) list \<Rightarrow> 'm \<Rightarrow> 'm \<Rightarrow> bool" where
  "step_run step [] M M' \<longleftrightarrow> M' = M"
| "step_run step (qr # qrs) M M' \<longleftrightarrow> (\<exists>M1. step (fst qr) (snd qr) M M1 \<and> step_run step qrs M1 M')"

lemma step_run_append:
  "step_run step (xs @ ys) M M' \<longleftrightarrow> (\<exists>M1. step_run step xs M M1 \<and> step_run step ys M1 M')"
  by (induction xs arbitrary: M) auto

lemma step_run_inv:
  assumes "step_run step qrs M M'" "I M"
    and "\<And>q r M M'. q \<in> fst ` set qrs \<Longrightarrow> step q r M M' \<Longrightarrow> I M \<Longrightarrow> I M'"
  shows "I M'"
  using assms by (induction qrs arbitrary: M) (auto, blast)

text \<open>
  The contract between a server and an abstract machine: every request is a step. Then every
  sequence of requests is a run of the machine, and what its steps preserve holds after it.
\<close>

locale simulation =
  fixes serve :: "'q \<Rightarrow> ('s, 'r) state"
    and abs :: "'s \<Rightarrow> 'm"
    and step :: "'q \<Rightarrow> 'r \<Rightarrow> 'm \<Rightarrow> 'm \<Rightarrow> bool"
  assumes simulates: "tracks abs M (serve q) (\<lambda>r. step q r M)"
begin

lemma tracks_serve_list:
  "tracks abs M (serve_list serve qs) (\<lambda>rs M'. length rs = length qs \<and> step_run step (zip qs rs) M M')"
proof (induction qs arbitrary: M)
  case Nil
  then show ?case by (simp add: tracks_return)
next
  case (Cons q qs)
  show ?case unfolding serve_list.simps
    by (rule tracks_bind [OF simulates], rule tracks_bind [OF Cons.IH], rule tracks_return) auto
qed

lemma serve_list_run:
  "run_state (serve_list serve qs) s = (rs, t) \<Longrightarrow> length rs = length qs \<and> step_run step (zip qs rs) (abs s) (abs t)"
  by (rule tracksD [OF tracks_serve_list])

lemma serve_list_inv:
  assumes "I (abs s)" "\<And>q r M M'. q \<in> set qs \<Longrightarrow> step q r M M' \<Longrightarrow> I M \<Longrightarrow> I M'"
  shows "I (abs (snd (run_state (serve_list serve qs) s)))"
proof -
  obtain rs t where run: "run_state (serve_list serve qs) s = (rs, t)" by (cases "run_state (serve_list serve qs) s")
  from serve_list_run [OF run] have "step_run step (zip qs rs) (abs s) (abs t)" by blast
  then have "I (abs t)"
    by (rule step_run_inv [where I = I]) (use assms in \<open>auto dest: set_zip_leftD\<close>)
  with run show ?thesis by simp
qed

end

end
