(* ===== verification/Requests.thy ===== *)
theory Requests
  imports Abstraction ControllerProofs NodeProofs
begin

text \<open>
  The requests that change something, as data, and the dispatch to the handlers, so that statements
  can quantify over arbitrary sequences of requests to one server.
\<close>

section \<open>The controller\<close>

datatype controller_request =
    RpcCreateVolume CreateVolumeRequest
  | RpcDeleteVolume string
  | RpcPublish PublishVolumeRequest
  | RpcUnpublish UnpublishVolumeRequest
  | RpcExpand ExpandVolumeRequest
  | RpcCreateSnapshot CreateSnapshotRequest
  | RpcDeleteSnapshot string

text \<open>The gRPC status of an answer: \<open>None\<close> is OK.\<close>

definition status_of :: "('s, code + 'a) state \<Rightarrow> ('s, code option) state" where
  "status_of m = do {
     r \<leftarrow> m;
     State_Monad.return (case r of Inl e \<Rightarrow> Some e | Inr _ \<Rightarrow> None)
   }"

definition serve_controller :: "'w ControllerServer \<Rightarrow> instant \<Rightarrow> controller_request \<Rightarrow> ('w server, code option) state" where
  "serve_controller cs now q =
     (case q of
        RpcCreateVolume req \<Rightarrow> status_of (CreateVolume cs req)
      | RpcDeleteVolume vid \<Rightarrow> status_of (DeleteVolume cs vid)
      | RpcPublish req \<Rightarrow> status_of (ControllerPublishVolume cs req)
      | RpcUnpublish req \<Rightarrow> status_of (ControllerUnpublishVolume cs req)
      | RpcExpand req \<Rightarrow> status_of (ControllerExpandVolume cs req)
      | RpcCreateSnapshot req \<Rightarrow> status_of (CreateSnapshot cs now req)
      | RpcDeleteSnapshot sid \<Rightarrow> status_of (DeleteSnapshot cs sid))"

section \<open>The node\<close>

datatype node_request =
    RpcStage NodeStageRequest
  | RpcUnstage string string
  | RpcNodePublish NodePublishRequest
  | RpcNodeUnpublish string string
  | RpcNodeExpand NodeExpandRequest
  | RpcStats string string

definition serve_node :: "'w NodeServer \<Rightarrow> node_request \<Rightarrow> ('w server, code option) state" where
  "serve_node ns q =
     (case q of
        RpcStage req \<Rightarrow> status_of (NodeStageVolume ns req)
      | RpcUnstage vid p \<Rightarrow> status_of (NodeUnstageVolume ns vid p)
      | RpcNodePublish req \<Rightarrow> status_of (NodePublishVolume ns req)
      | RpcNodeUnpublish vid p \<Rightarrow> status_of (NodeUnpublishVolume ns vid p)
      | RpcNodeExpand req \<Rightarrow> status_of (NodeExpandVolume ns req)
      | RpcStats vid p \<Rightarrow> status_of (NodeGetVolumeStats ns vid p))"

section \<open>Locks over sequences of requests\<close>

lemma keeps_status_of: "keeps f m \<Longrightarrow> keeps f (status_of m)"
  unfolding status_of_def by (intro keeps_intros)

lemma keeps_serve_controller: "keeps srv_locks (serve_controller cs now q)"
  by (cases q) (simp_all add: serve_controller_def keeps_status_of keeps_CreateVolume keeps_DeleteVolume
    keeps_ControllerPublishVolume keeps_ControllerUnpublishVolume keeps_ControllerExpandVolume
    keeps_CreateSnapshot keeps_DeleteSnapshot)

lemma keeps_NodeGetVolumeStats: "keeps srv_locks (NodeGetVolumeStats ns vid p)"
  unfolding NodeGetVolumeStats_def Let_def by (intro keeps_intros)

lemma keeps_serve_node: "keeps srv_locks (serve_node ns q)"
  by (cases q) (simp_all add: serve_node_def keeps_status_of keeps_NodeStageVolume keeps_NodeUnstageVolume
    keeps_NodePublishVolume keeps_NodeUnpublishVolume keeps_NodeExpandVolume keeps_NodeGetVolumeStats)

interpretation controller_locks: simulation "serve_controller cs now" srv_locks "\<lambda>_ _ L L'. L' = L"
  for cs :: "'w ControllerServer" and now
  by unfold_locales (rule keeps_tracks [OF keeps_serve_controller])

interpretation node_locks: simulation "serve_node ns" srv_locks "\<lambda>_ _ L L'. L' = L" for ns :: "'w NodeServer"
  by unfold_locales (rule keeps_tracks [OF keeps_serve_node])

end
