(* ===== verification/Sessions.thy ===== *)
theory Sessions
  imports Concurrency Requests
begin

text \<open>
  The locked part of a handler as a session of \<^verbatim>\<open>Concurrency\<close>: its answer and its calls, and that code which
  reaches the world through logged calls only makes exactly the calls of its log. \<open>follows wd lg P m\<close>
  says that the calls which \<open>m\<close> appends to the log \<open>lg\<close> are the calls it makes on the world \<open>wd\<close>, one after
  the other.
\<close>

section \<open>The locked part of a handler\<close>

definition no_result :: "('s, code + 'a) state \<Rightarrow> ('s, code + unit) state" where
  "no_result m = do {
     r \<leftarrow> m;
     State_Monad.return (map_sum id (\<lambda>_. ()) r)
   }"

lemma status_of_no_result: "status_of (with_lock k e (no_result m)) = status_of (with_lock k e m)"
  by (rule state.expand, rule ext)
    (auto simp: status_of_def no_result_def with_lock_def split: prod.splits sum.splits)

lemma status_of_return: "status_of (State_Monad.return r) = State_Monad.return (case r of Inl e \<Rightarrow> Some e | Inr _ \<Rightarrow> None)"
  by (simp add: status_of_def)

text \<open>The answer of a body and its calls.\<close>

definition body_run ::
  "(('v \<times> 'e list) server, code + unit) state \<Rightarrow> ResourceLocks \<Rightarrow> 'v \<Rightarrow> (code + unit) \<times> 'e list" where
  "body_run body L v =
     (case run_state body \<lparr>srv_locks = L, srv_world = (v, [])\<rparr> of (r, t) \<Rightarrow> (r, srv_log t))"

section \<open>Code and its log\<close>

definition follows :: "('s \<Rightarrow> 'w) \<Rightarrow> ('s \<Rightarrow> 'e list) \<Rightarrow> ('w \<Rightarrow> 'e \<Rightarrow> 'w \<Rightarrow> bool) \<Rightarrow> ('s, 'a) state \<Rightarrow> bool" where
  "follows wd lg P m \<longleftrightarrow> (\<forall>s. wp m (\<lambda>_ t. \<exists>ext. lg t = lg s @ ext \<and> performs_all P (wd s) ext (wd t)) s)"

named_theorems follows_intros "code whose log lists its calls"

lemma performs_all_append:
  "performs_all P w (xs @ ys) w' \<longleftrightarrow> (\<exists>w1. performs_all P w xs w1 \<and> performs_all P w1 ys w')"
  by (induction xs arbitrary: w) auto

lemma followsD:
  "follows wd lg P m \<Longrightarrow> run_state m s = (r, t) \<Longrightarrow> \<exists>ext. lg t = lg s @ ext \<and> performs_all P (wd s) ext (wd t)"
  unfolding follows_def by (blast dest: wpD)

lemma follows_return [follows_intros]: "follows wd lg P (State_Monad.return a)"
  by (simp add: follows_def wp_simps)

lemma follows_get [follows_intros]: "follows wd lg P State_Monad.get"
  by (simp add: follows_def wp_def State_Monad.get_def)

lemma follows_bind [follows_intros]:
  assumes "follows wd lg P m" "\<And>a. follows wd lg P (k a)"
  shows "follows wd lg P (State_Monad.bind m k)"
  unfolding follows_def wp_bind
proof (intro allI wp_mono [OF assms(1) [unfolded follows_def, rule_format]])
  fix s a t
  assume "\<exists>ext. lg t = lg s @ ext \<and> performs_all P (wd s) ext (wd t)"
  then obtain xs where xs: "lg t = lg s @ xs" "performs_all P (wd s) xs (wd t)" by blast
  show "wp (k a) (\<lambda>_ t'. \<exists>ext. lg t' = lg s @ ext \<and> performs_all P (wd s) ext (wd t')) t"
    using assms(2) [of a, unfolded follows_def, rule_format, of t]
  proof (rule wp_mono)
    fix r t'
    assume "\<exists>ext. lg t' = lg t @ ext \<and> performs_all P (wd t) ext (wd t')"
    then obtain ys where "lg t' = lg t @ ys" "performs_all P (wd t) ys (wd t')" by blast
    with xs show "\<exists>ext. lg t' = lg s @ ext \<and> performs_all P (wd s) ext (wd t')"
      by (intro exI [of _ "xs @ ys"]) (auto simp: performs_all_append)
  qed
qed

lemma follows_if [follows_intros]: "follows wd lg P m \<Longrightarrow> follows wd lg P k \<Longrightarrow> follows wd lg P (if b then m else k)"
  by simp

lemma follows_case_sum [follows_intros]:
  "(\<And>x. follows wd lg P (m x)) \<Longrightarrow> (\<And>x. follows wd lg P (k x)) \<Longrightarrow>
   follows wd lg P (case z of Inl x \<Rightarrow> m x | Inr x \<Rightarrow> k x)"
  by (cases z) simp_all

lemma follows_case_option [follows_intros]:
  "follows wd lg P m \<Longrightarrow> (\<And>x. follows wd lg P (k x)) \<Longrightarrow>
   follows wd lg P (case z of None \<Rightarrow> m | Some x \<Rightarrow> k x)"
  by (cases z) simp_all

lemma follows_case_prod [follows_intros]:
  "(\<And>x y. follows wd lg P (m x y)) \<Longrightarrow> follows wd lg P (case z of (x, y) \<Rightarrow> m x y)"
  by (cases z) simp_all

lemma follows_case_list [follows_intros]:
  "follows wd lg P m \<Longrightarrow> (\<And>x xs. follows wd lg P (k x xs)) \<Longrightarrow>
   follows wd lg P (case z of [] \<Rightarrow> m | x # xs \<Rightarrow> k x xs)"
  by (cases z) simp_all

lemma follows_case_content [follows_intros]:
  "(\<And>x. follows wd lg P (m x)) \<Longrightarrow> (\<And>x. follows wd lg P (k x)) \<Longrightarrow> follows wd lg P u \<Longrightarrow>
   follows wd lg P (case z of ContentSnapshot x \<Rightarrow> m x | ContentVolume x \<Rightarrow> k x | ContentUnset \<Rightarrow> u)"
  by (cases z) simp_all

lemma follows_logged:
  assumes "\<And>w a w'. run_state m w = (a, w') \<Longrightarrow> P w (ev a) w'"
  shows "follows fst snd P (logged ev m)"
  unfolding follows_def using assms by (fastforce simp: wp_def logged_def split: prod.splits)

section \<open>Servers\<close>

abbreviation server_follows ::
  "('w \<Rightarrow> 'e \<Rightarrow> 'w \<Rightarrow> bool) \<Rightarrow> (('w \<times> 'e list) server, 'a) state \<Rightarrow> bool" where
  "server_follows P m \<equiv> follows (\<lambda>s. fst (srv_world s)) srv_log P m"

lemma follows_on_world [follows_intros]: "follows fst snd P m \<Longrightarrow> server_follows P (on_world m)"
  unfolding follows_def wp_on_world by (intro allI, erule allE, erule wp_mono) simp

lemma follows_with_lock [follows_intros]:
  fixes body :: "(('w \<times> 'ev list) server, 'e + 'a) state"
  assumes "server_follows P body"
  shows "server_follows P (with_lock k e body)"
  unfolding follows_def wp_with_lock
proof (intro allI)
  fix s :: "('w \<times> 'ev list) server"
  let ?t = "s\<lparr>srv_locks := srv_locks s\<lparr>locks := insert k (srv_held s)\<rparr>\<rparr>"
  show "if k \<in> srv_held s then \<exists>ext. srv_log s = srv_log s @ ext \<and> performs_all P (fst (srv_world s)) ext (fst (srv_world s))
      else wp body (\<lambda>r t. \<exists>ext. srv_log (t\<lparr>srv_locks := srv_locks t\<lparr>locks := srv_held t - {k}\<rparr>\<rparr>) = srv_log s @ ext \<and>
        performs_all P (fst (srv_world s)) ext
          (fst (srv_world (t\<lparr>srv_locks := srv_locks t\<lparr>locks := srv_held t - {k}\<rparr>\<rparr>)))) ?t"
    using assms unfolding follows_def by (auto dest: spec [of _ ?t])
qed

text \<open>A request that got its lock: the calls of its locked part are those of the handler.\<close>

lemma locked_run:
  assumes "k \<notin> locks L"
    and run: "run_state (status_of (with_lock k Aborted body)) \<lparr>srv_locks = L, srv_world = (w, [])\<rparr> = (st, t)"
    and "server_follows P body"
  shows "\<exists>r. body_run body (L\<lparr>locks := insert k (locks L)\<rparr>) w = (r, srv_log t) \<and>
    performs_all P w (srv_log t) (fst (srv_world t)) \<and> st = (case r of Inl e \<Rightarrow> Some e | Inr _ \<Rightarrow> None)"
proof -
  let ?s = "\<lparr>srv_locks = L\<lparr>locks := insert k (locks L)\<rparr>, srv_world = (w, [])\<rparr>"
  obtain r u where u: "run_state body ?s = (r, u)" by (cases "run_state body ?s")
  then have t: "srv_log t = srv_log u" "srv_world t = srv_world u" "st = (case r of Inl e \<Rightarrow> Some e | Inr _ \<Rightarrow> None)"
    using run assms(1) by (auto simp: status_of_def with_lock_def on_locks_TryAcquire on_locks_Release split: prod.splits)
  from followsD [OF assms(3) u] have "performs_all P w (srv_log u) (fst (srv_world u))" by auto
  then show ?thesis using u t by (intro exI [of _ r]) (simp add: body_run_def)
qed

end
