(* ===== verification/Attachments.thy ===== *)
theory Attachments
  imports Sessions ControllerProps
begin

text \<open>
  Where a disk is attached, on a cloud that works asynchronously. The SDK documents attaching and
  detaching as asynchronous: an accepted call only starts them, the disk is then \<open>ATTACHING\<close> or
  \<open>DETACHING\<close>, and completes or fails at some later time (\<^verbatim>\<open>types.go\<close>, \<^verbatim>\<open>waitDiskStatus\<close> in
  \<^verbatim>\<open>cloud_manager.go\<close>). A disk is therefore in one of the places of \<open>disk_place\<close>, and the cloud moves it
  before and after every call. The law that the proofs rely on is \<open>attachment_cloud\<close>; \<open>learn\<close> is what a
  call tells about the place of a disk under this law.
\<close>

section \<open>The calls of the SDK\<close>

text \<open>A call on the real cloud, with its answer.\<close>

fun performs :: "'w zec_client \<Rightarrow> 'w \<Rightarrow> api_event \<Rightarrow> 'w \<Rightarrow> bool" where
  "performs c w (ev_DescribeDiskRegions a) w' \<longleftrightarrow> run_state (api_DescribeDiskRegions c) w = (a, w')"
| "performs c w (ev_CreateDisks q a) w' \<longleftrightarrow> run_state (api_CreateDisks c q) w = (a, w')"
| "performs c w (ev_ReleaseDisk i a) w' \<longleftrightarrow> run_state (api_ReleaseDisk c i) w = (a, w')"
| "performs c w (ev_AttachDisks is vm a) w' \<longleftrightarrow> run_state (api_AttachDisks c is vm) w = (a, w')"
| "performs c w (ev_DetachDisks is b a) w' \<longleftrightarrow> run_state (api_DetachDisks c is b) w = (a, w')"
| "performs c w (ev_ResizeDisk i n a) w' \<longleftrightarrow> run_state (api_ResizeDisk c i n) w = (a, w')"
| "performs c w (ev_DescribeDisks q a) w' \<longleftrightarrow> run_state (api_DescribeDisks c q) w = (a, w')"
| "performs c w (ev_DescribeInstances is a) w' \<longleftrightarrow> run_state (api_DescribeInstances c is) w = (a, w')"
| "performs c w (ev_DescribeInstancesStatus is a) w' \<longleftrightarrow> run_state (api_DescribeInstancesStatus c is) w = (a, w')"
| "performs c w (ev_DescribeZones a) w' \<longleftrightarrow> run_state (api_DescribeZones c) w = (a, w')"
| "performs c w (ev_CreateSnapshot n i a) w' \<longleftrightarrow> run_state (api_CreateSnapshot c n i) w = (a, w')"
| "performs c w (ev_DeleteSnapshots is a) w' \<longleftrightarrow> run_state (api_DeleteSnapshots c is) w = (a, w')"
| "performs c w (ev_DescribeSnapshots q a) w' \<longleftrightarrow> run_state (api_DescribeSnapshots c q) w = (a, w')"

text \<open>What a changing call touches: a disk, a snapshot, or the name of a new disk.\<close>

fun touches :: "api_event \<Rightarrow> string set" where
  "touches (ev_CreateDisks q _) = {cd_DiskName q}"
| "touches (ev_ReleaseDisk i _) = {i}"
| "touches (ev_AttachDisks is _ _) = set is"
| "touches (ev_DetachDisks is _ _) = set is"
| "touches (ev_ResizeDisk i _ _) = {i}"
| "touches (ev_CreateSnapshot _ i _) = {i}"
| "touches (ev_DeleteSnapshots is _) = set is"
| "touches _ = {}"

lemma touches_read: "\<not> is_write e \<Longrightarrow> touches e = {}"
  by (cases e) auto

text \<open>The instance that an answer shows for a disk: none when there is no such disk.\<close>

fun shows_instance :: "string \<Rightarrow> api_event \<Rightarrow> string option" where
  "shows_instance k (ev_DescribeDisks q (Inr (Some p))) =
     (if q \<noteq> describe_by_id k then None
      else if TotalCount p = Some 0 then Some []
      else if TotalCount p = Some 1 then map_option (\<lambda>d. or_else (di_InstanceId d) []) (first_item p)
      else None)"
| "shows_instance k _ = None"

lemma shows_instance_read: "shows_instance k e = Some u \<Longrightarrow> \<not> is_write e"
  by (cases e) auto

text \<open>The answer shows exactly this disk, in this status.\<close>

abbreviation seen_in :: "string \<Rightarrow> string \<Rightarrow> api_event \<Rightarrow> bool" where
  "seen_in k st \<equiv> disk_seen k (\<lambda>x. x = st)"

section \<open>Places of a disk\<close>

datatype disk_place = Free | Attaching string | On string | Detaching string

text \<open>The disk is on the instance, or on its way to or from it.\<close>

fun with_instance :: "string \<Rightarrow> disk_place \<Rightarrow> bool" where
  "with_instance u Free \<longleftrightarrow> False"
| "with_instance u (Attaching v) \<longleftrightarrow> v = u"
| "with_instance u (On v) \<longleftrightarrow> v = u"
| "with_instance u (Detaching v) \<longleftrightarrow> v = u"

definition settled :: "disk_place \<Rightarrow> bool" where
  "settled p \<longleftrightarrow> p = Free \<or> (\<exists>u. p = On u)"

text \<open>
  How the place of a disk moves by itself. A transition completes or fails at any time. Other users of
  the cloud may attach a free disk to instances of their own, the set \<open>X\<close>, and detach it from them; a disk
  that is on any other instance stays there.
\<close>

definition elsewhere :: "string set \<Rightarrow> disk_place \<Rightarrow> bool" where
  "elsewhere X p \<longleftrightarrow> p = Free \<or> (\<exists>u \<in> X. with_instance u p)"

fun later :: "string set \<Rightarrow> disk_place \<Rightarrow> disk_place \<Rightarrow> bool" where
  "later X Free p' \<longleftrightarrow> elsewhere X p'"
| "later X (Attaching u) p' \<longleftrightarrow> p' = Attaching u \<or> p' = On u \<or> elsewhere X p'"
| "later X (On u) p' \<longleftrightarrow> p' = On u \<or> u \<in> X \<and> elsewhere X p'"
| "later X (Detaching u) p' \<longleftrightarrow> p' = Detaching u \<or> p' = On u \<or> elsewhere X p'"

lemma later_refl [simp, intro]: "later X p p"
  by (cases p) (auto simp: elsewhere_def)

lemma elsewhere_Free [simp]: "elsewhere X Free"
  by (simp add: elsewhere_def)

lemma elsewhere_with: "with_instance u p \<Longrightarrow> elsewhere X p \<Longrightarrow> u \<in> X"
  by (cases p) (auto simp: elsewhere_def)

lemma with_unique: "with_instance u p \<Longrightarrow> with_instance v p \<Longrightarrow> u = v"
  by (cases p) auto

lemma elsewhere_later: "elsewhere X p \<Longrightarrow> later X p p' \<Longrightarrow> elsewhere X p'"
  by (cases p) (auto simp: elsewhere_def)

lemma later_trans: "later X p q \<Longrightarrow> later X q r \<Longrightarrow> later X p r"
  by (cases p) (auto dest: elsewhere_later)

lemma later_with: "later X p p' \<Longrightarrow> with_instance u p' \<Longrightarrow> u \<notin> X \<Longrightarrow> with_instance u p"
  by (cases p) (auto dest: elsewhere_with)

lemma later_On [simp]: "u \<notin> X \<Longrightarrow> later X (On u) p' \<longleftrightarrow> p' = On u"
  by simp

lemma place_with: "p = Free \<or> (\<exists>u. with_instance u p)"
  by (cases p) auto

lemma elsewhere_back:
  "elsewhere X p \<Longrightarrow> p' = Free \<or> (\<exists>u. with_instance u p \<and> p' = Detaching u) \<Longrightarrow> later X p p'"
  by (cases p) (auto simp: elsewhere_def)

section \<open>The law of the cloud\<close>

text \<open>
  What a description tells. The statuses are those that \<^verbatim>\<open>types.go\<close> documents; a disk may be in a status
  that says nothing about its attachment (\<open>CHANGING\<close>, for example). While a disk is on its way the
  answer may or may not show the instance.
\<close>

fun reported :: "string option \<Rightarrow> string \<Rightarrow> disk_place \<Rightarrow> bool" where
  "reported st inst Free \<longleftrightarrow> inst = [] \<and> st \<notin> {Some DiskStatusInUse, Some ''ATTACHING'', Some ''DETACHING''}"
| "reported st inst (On u) \<longleftrightarrow> inst = u \<and> st \<notin> {Some DiskStatusAvailable, Some ''ATTACHING'', Some ''DETACHING''}"
| "reported st inst (Attaching u) \<longleftrightarrow> inst \<in> {[], u} \<and> st \<notin> {Some DiskStatusAvailable, Some DiskStatusInUse, Some ''DETACHING''}"
| "reported st inst (Detaching u) \<longleftrightarrow> inst \<in> {[], u} \<and> st \<notin> {Some DiskStatusAvailable, Some DiskStatusInUse, Some ''ATTACHING''}"

definition description_fits :: "DiskInfo page \<Rightarrow> disk_place \<Rightarrow> bool" where
  "description_fits p x \<longleftrightarrow> (TotalCount p = Some 0 \<longrightarrow> x = Free) \<and>
     (\<forall>d. TotalCount p = Some 1 \<longrightarrow> first_item p = Some d \<longrightarrow> reported (di_DiskStatus d) (or_else (di_InstanceId d) []) x)"

text \<open>
  What a call does to the place of disk \<open>d\<close> at the moment it is made. Attaching only starts, or completes
  at once, and only on a free disk; detaching and releasing only start to end the attachment of their own
  disk. Whether they do is not said: a refused or failed call may have had its effect, an accepted one
  may have none. Any other call leaves the disk where it is.
\<close>

fun call_effect :: "string \<Rightarrow> api_event \<Rightarrow> disk_place \<Rightarrow> disk_place \<Rightarrow> bool" where
  "call_effect d (ev_AttachDisks is vm a) p p' \<longleftrightarrow> p' = p \<or> d \<in> set is \<and> p = Free \<and> p' \<in> {Attaching vm, On vm}"
| "call_effect d (ev_DetachDisks is b a) p p' \<longleftrightarrow>
     p' = p \<or> d \<in> set is \<and> (p' = Free \<or> (\<exists>u. with_instance u p \<and> p' = Detaching u))"
| "call_effect d (ev_ReleaseDisk i a) p p' \<longleftrightarrow> p' = p \<or> d = i \<and> (p' = Free \<or> (\<exists>u. with_instance u p \<and> p' = Detaching u))"
| "call_effect d (ev_DescribeDisks q a) p p' \<longleftrightarrow>
     p' = p \<and> (\<forall>pg. q = describe_by_id d \<longrightarrow> a = Inr (Some pg) \<longrightarrow> description_fits pg p)"
| "call_effect d _ p p' \<longleftrightarrow> p' = p"

text \<open>The places possible after a call when those in \<open>S\<close> were possible before it.\<close>

definition learn :: "string set \<Rightarrow> string \<Rightarrow> disk_place set \<Rightarrow> api_event \<Rightarrow> disk_place set" where
  "learn X d S e = {p'. \<exists>p \<in> S. \<exists>p1 p2. later X p p1 \<and> call_effect d e p1 p2 \<and> later X p2 p'}"

abbreviation learned :: "string set \<Rightarrow> string \<Rightarrow> disk_place set \<Rightarrow> api_event list \<Rightarrow> disk_place set" where
  "learned X d \<equiv> foldl (learn X d)"

definition attachment_cloud :: "string set \<Rightarrow> 'w zec_client \<Rightarrow> ('w \<Rightarrow> string \<Rightarrow> disk_place) \<Rightarrow> bool" where
  "attachment_cloud X c place \<longleftrightarrow>
     (\<forall>w e w' d. performs c w e w' \<longrightarrow> place w' d \<in> learn X d {place w d} e)"

section \<open>What is learned\<close>

definition ahead :: "string set \<Rightarrow> disk_place set \<Rightarrow> disk_place set" where
  "ahead X S = {p'. \<exists>p \<in> S. later X p p'}"

lemma ahead_ahead [simp]: "ahead X (ahead X S) = ahead X S"
  by (auto simp: ahead_def intro: later_trans)

lemma ahead_mono: "S \<subseteq> T \<Longrightarrow> ahead X S \<subseteq> ahead X T"
  by (auto simp: ahead_def)

lemma ahead_stays: "S \<subseteq> ahead X T \<Longrightarrow> ahead X S \<subseteq> ahead X T"
  using ahead_mono [of S "ahead X T" X] by simp

lemma learn_mono: "S \<subseteq> T \<Longrightarrow> learn X d S e \<subseteq> learn X d T e"
  by (auto simp: learn_def)

lemma learned_mono: "S \<subseteq> T \<Longrightarrow> learned X d S es \<subseteq> learned X d T es"
proof (induction es arbitrary: S T)
  case (Cons e es)
  then show ?case using learn_mono [OF Cons.prems, of X d e] by simp
qed simp

lemma learnI: "p \<in> S \<Longrightarrow> later X p p1 \<Longrightarrow> call_effect d e p1 p2 \<Longrightarrow> later X p2 p' \<Longrightarrow> p' \<in> learn X d S e"
  by (auto simp: learn_def)

lemma call_effect_still: "d \<notin> touches e \<Longrightarrow> call_effect d e p p' \<Longrightarrow> p' = p"
  by (cases e) auto

lemma learn_still: "d \<notin> touches e \<Longrightarrow> learn X d S e \<subseteq> ahead X S"
  by (auto simp: learn_def ahead_def dest: call_effect_still intro: later_trans)

lemma learned_still: "\<forall>e \<in> set es. d \<notin> touches e \<Longrightarrow> learned X d S es \<subseteq> ahead X S"
proof (induction es arbitrary: S)
  case (Cons e es)
  have "learned X d (learn X d S e) es \<subseteq> ahead X (learn X d S e)" using Cons by simp
  also have "\<dots> \<subseteq> ahead X S" using learn_still [of d e X S] Cons.prems by (intro ahead_stays) simp
  finally show ?case by simp
qed (auto simp: ahead_def)

lemma learned_reads: "only_reads es \<Longrightarrow> learned X d S es \<subseteq> ahead X S"
  by (rule learned_still) (auto simp: only_reads_def list_all_iff touches_read)

lemma learned_ahead: "p' \<in> learned X d S es \<Longrightarrow> es \<noteq> [] \<Longrightarrow> later X p' p'' \<Longrightarrow> p'' \<in> learned X d S es"
  by (cases es rule: rev_cases) (auto simp: learn_def intro: later_trans)

text \<open>Where the world is after calls of the cloud.\<close>

lemma performs_learned:
  assumes "attachment_cloud X c place"
  shows "performs_all (performs c) w es w' \<Longrightarrow> place w d \<in> S \<Longrightarrow> place w' d \<in> learned X d S es"
proof (induction es arbitrary: w S)
  case (Cons e es)
  then obtain w1 where w1: "performs c w e w1" "performs_all (performs c) w1 es w'" by auto
  have "place w1 d \<in> learn X d {place w d} e" using assms w1(1) unfolding attachment_cloud_def by blast
  then have "place w1 d \<in> learn X d S e" using learn_mono [of "{place w d}" S X d e] Cons.prems(2) by blast
  from Cons.IH [OF w1(2) this] show ?case by simp
qed simp

text \<open>What a description of the disk tells.\<close>

lemma learn_seen:
  assumes "disk_seen d want e"
  shows "learn X d S e \<subseteq> ahead X {p \<in> ahead X S. \<exists>st inst. want st \<and> reported (Some st) inst p}"
proof -
  obtain pg where e: "e = ev_DescribeDisks (describe_by_id d) (Inr (Some pg))"
    and pg: "TotalCount pg = Some 1" "case Option.bind (first_item pg) di_DiskStatus of None \<Rightarrow> False | Some st \<Rightarrow> want st"
    using assms by (cases "(d, want, e)" rule: disk_seen.cases) auto
  then obtain di st where "first_item pg = Some di" "di_DiskStatus di = Some st" "want st"
    by (auto simp: bind_eq_Some_conv split: option.splits)
  with pg show ?thesis by (fastforce simp: learn_def ahead_def e description_fits_def)
qed

lemma learn_shown:
  assumes "shows_instance d e = Some u"
  shows "learn X d S e \<subseteq> ahead X {p \<in> ahead X S. p = Free \<and> u = [] \<or> (\<exists>st. reported st u p)}"
proof -
  obtain pg where e: "e = ev_DescribeDisks (describe_by_id d) (Inr (Some pg))"
    using assms by (cases "(d, e)" rule: shows_instance.cases) (auto split: if_splits)
  with assms show ?thesis by (fastforce simp: learn_def ahead_def description_fits_def split: if_splits)
qed

lemma learn_gone: "disk_gone d e \<Longrightarrow> \<not> is_write e \<Longrightarrow> learn X d S e \<subseteq> ahead X {Free}"
  by (cases "(d, e)" rule: disk_gone.cases) (auto simp: learn_def ahead_def description_fits_def)

lemma learn_with:
  assumes "shows_instance d e = Some u" "u \<noteq> []"
  shows "learn X d S e \<subseteq> ahead X {p \<in> ahead X S. with_instance u p}"
proof -
  have "with_instance u p" if "reported st u p" for st p using that assms(2) by (cases p) auto
  then show ?thesis using learn_shown [OF assms(1), of X S] assms(2) unfolding ahead_def by blast
qed

lemma ahead_with: "p \<in> ahead X {p \<in> T. with_instance v p} \<Longrightarrow> with_instance u p \<Longrightarrow> u = v \<or> u \<in> X"
  unfolding ahead_def by (auto dest: later_with with_unique)

lemma learn_status:
  assumes "shows_instance d e = Some u" "seen_in d st e"
  shows "learn X d S e \<subseteq> ahead X {p. reported (Some st) u p}"
proof -
  obtain pg where e: "e = ev_DescribeDisks (describe_by_id d) (Inr (Some pg))"
    using assms(1) by (cases "(d, e)" rule: shows_instance.cases) (auto split: if_splits)
  with assms show ?thesis
    by (fastforce simp: learn_def ahead_def description_fits_def bind_eq_Some_conv split: if_splits option.splits)
qed

lemma learned_then_reads:
  assumes "learn X d S e \<subseteq> {On u}" "only_reads es" "u \<notin> X"
  shows "learned X d S (e # es) \<subseteq> {On u}"
proof -
  have "learned X d (learn X d S e) es \<subseteq> ahead X {On u}"
    using learned_reads [OF assms(2)] ahead_mono [OF assms(1)] by blast
  then show ?thesis using assms(3) by (simp add: ahead_def)
qed

lemma ahead_settled:
  assumes "\<forall>p \<in> S. settled p"
  shows "p \<in> ahead X S \<Longrightarrow> with_instance u p \<Longrightarrow> u \<notin> X \<Longrightarrow> p = On u \<and> On u \<in> S"
proof -
  assume "p \<in> ahead X S" and u: "with_instance u p" "u \<notin> X"
  then obtain q where q: "q \<in> S" "later X q p" by (auto simp: ahead_def)
  then have "with_instance u q" using u by (blast intro: later_with)
  then show "p = On u \<and> On u \<in> S" using q assms u by (auto simp: settled_def)
qed

section \<open>What the answers to a request show\<close>

text \<open>
  A publish answered with success: the first description showed the disk on the node, or the disk was
  seen in use and the description after that showed the node.
\<close>

definition publish_seen :: "string \<Rightarrow> string \<Rightarrow> api_event list \<Rightarrow> bool" where
  "publish_seen k node evs \<longleftrightarrow>
     (\<exists>e rs. evs = e # rs \<and> only_reads evs \<and> shows_instance k e = Some node) \<or>
     (\<exists>pre e1 e2. evs = pre @ [e1, e2] \<and> seen_in k DiskStatusInUse e1 \<and> shows_instance k e2 = Some node)"

text \<open>
  An unpublish answered with success: the only description showed no instance or another one, or the
  disk was seen available at the end.
\<close>

definition unpublish_seen :: "string \<Rightarrow> string \<Rightarrow> api_event list \<Rightarrow> bool" where
  "unpublish_seen k node evs \<longleftrightarrow>
     (\<exists>e u. evs = [e] \<and> shows_instance k e = Some u \<and> u \<noteq> node) \<or>
     (\<exists>pre e. evs = pre @ [e] \<and> seen_in k DiskStatusAvailable e)"

lemma seen_in_use: "seen_in d DiskStatusInUse e \<Longrightarrow> learn X d S e \<subseteq> ahead X {p. \<exists>u. p = On u}"
proof -
  assume "seen_in d DiskStatusInUse e"
  moreover have "\<exists>u. p = On u" if "reported (Some DiskStatusInUse) inst p" for inst p
    using that by (cases p) auto
  ultimately show ?thesis using learn_seen [of d "\<lambda>x. x = DiskStatusInUse" e X S] unfolding ahead_def by blast
qed

lemma seen_available: "seen_in d DiskStatusAvailable e \<Longrightarrow> learn X d S e \<subseteq> ahead X {Free}"
proof -
  assume "seen_in d DiskStatusAvailable e"
  moreover have "p = Free" if "reported (Some DiskStatusAvailable) inst p" for inst p
    using that by (cases p) auto
  ultimately show ?thesis using learn_seen [of d "\<lambda>x. x = DiskStatusAvailable" e X S] unfolding ahead_def by blast
qed

lemma shown_settled:
  assumes "shows_instance d e = Some u" "u \<noteq> []" "u \<notin> X" "S \<subseteq> ahead X T" "\<forall>p \<in> T. settled p"
  shows "learn X d S e \<subseteq> {On u}"
proof
  fix p assume "p \<in> learn X d S e"
  then obtain q where q: "q \<in> ahead X S" "with_instance u q" "later X q p"
    using learn_with [OF assms(1,2)] unfolding ahead_def by blast
  then have "q = On u" using ahead_settled [OF assms(5) _ q(2) assms(3)] ahead_stays [OF assms(4)] by blast
  then show "p \<in> {On u}" using q(3) assms(3) by simp
qed

text \<open>The disk is on the node after a publish, unless it was on its way when it was first read.\<close>

lemma published_settled:
  assumes "publish_seen d node evs" "node \<noteq> []" "node \<notin> X" "\<forall>p \<in> S. settled p"
  shows "learned X d S evs \<subseteq> {On node}"
proof -
  consider (first) e rs where "evs = e # rs" "only_reads rs" "shows_instance d e = Some node"
    | (attached) pre e1 e2 where "evs = pre @ [e1, e2]" "seen_in d DiskStatusInUse e1" "shows_instance d e2 = Some node"
    using assms(1) unfolding publish_seen_def by auto
  then show ?thesis
  proof cases
    case first
    have "learn X d S e \<subseteq> {On node}"
      by (rule shown_settled [OF first(3) assms(2,3) _ assms(4)]) (auto simp: ahead_def)
    then show ?thesis unfolding first(1) by (rule learned_then_reads [OF _ first(2) assms(3)])
  next
    case attached
    have "learn X d (learn X d (learned X d S pre) e1) e2 \<subseteq> {On node}"
      by (rule shown_settled [OF attached(3) assms(2,3) seen_in_use [OF attached(2)]]) (auto simp: settled_def)
    then show ?thesis by (simp add: attached(1))
  qed
qed

lemma published:
  assumes "publish_seen d node evs" "node \<noteq> []" "node \<notin> X"
  shows "learned X d S evs \<subseteq> {On node} \<or>
    (\<exists>e rs. evs = e # rs \<and> only_reads evs \<and> shows_instance d e = Some node \<and> \<not> seen_in d DiskStatusInUse e)"
proof -
  consider (first) e rs where "evs = e # rs" "only_reads evs" "shows_instance d e = Some node"
    | (attached) pre e1 e2 where "evs = pre @ [e1, e2]" "seen_in d DiskStatusInUse e1" "shows_instance d e2 = Some node"
    using assms(1) unfolding publish_seen_def by blast
  then show ?thesis
  proof cases
    case first
    have "learned X d S evs \<subseteq> {On node}" if "seen_in d DiskStatusInUse e"
    proof -
      have "{p. reported (Some DiskStatusInUse) node p} \<subseteq> {On node}" by (auto elim: reported.elims)
      then have "learn X d S e \<subseteq> ahead X {On node}"
        using learn_status [OF first(3) that, of X S] ahead_mono by blast
      then have "learn X d S e \<subseteq> {On node}" using assms(3) by (simp add: ahead_def)
      then show ?thesis using learned_then_reads [OF _ _ assms(3)] first(1,2) by simp
    qed
    then show ?thesis using first by blast
  next
    case attached
    have "learn X d (learn X d (learned X d S pre) e1) e2 \<subseteq> {On node}"
      by (rule shown_settled [OF attached(3) assms(2,3) seen_in_use [OF attached(2)]]) (auto simp: settled_def)
    then show ?thesis by (simp add: attached(1))
  qed
qed

text \<open>The disk is not with the node after an unpublish, unless it was on its way when it was read.\<close>

lemma available_away: "seen_in d DiskStatusAvailable e \<Longrightarrow> p \<in> learn X d S e \<Longrightarrow> with_instance node p \<Longrightarrow> node \<in> X"
  using seen_available [of d e X S] by (auto simp: ahead_def dest: elsewhere_with)

lemma shown_other:
  assumes "shows_instance d e = Some u" "u \<noteq> []" "p \<in> learn X d S e" "with_instance node p" "node \<notin> X"
  shows "u = node"
  using learn_with [OF assms(1,2), of X S] assms(3-5) ahead_with [of p X "ahead X S" u node] by blast

lemma unpublished:
  assumes "unpublish_seen d node evs" "node \<notin> X" "p \<in> learned X d S evs" "with_instance node p"
  shows "\<exists>e. evs = [e] \<and> shows_instance d e = Some [] \<and> \<not> seen_in d DiskStatusAvailable e \<and> \<not> disk_gone d e"
proof -
  consider (shown) e u where "evs = [e]" "shows_instance d e = Some u" "u \<noteq> node"
    | (detached) pre e where "evs = pre @ [e]" "seen_in d DiskStatusAvailable e"
    using assms(1) unfolding unpublish_seen_def by blast
  then show ?thesis
  proof cases
    case shown
    have p: "p \<in> learn X d S e" using assms(3) by (simp add: shown(1))
    have "u = []" using shown_other [OF shown(2) _ p assms(4,2)] shown(3) by blast
    moreover have "\<not> disk_gone d e"
      using learn_gone [of d e X S] shows_instance_read [OF shown(2)] p assms(2,4) by (auto simp: ahead_def dest: elsewhere_with)
    moreover have "\<not> seen_in d DiskStatusAvailable e" using available_away [OF _ p assms(4)] assms(2) by blast
    ultimately show ?thesis using shown by blast
  next
    case detached
    then have "p \<in> learn X d (learned X d S pre) e" using assms(3) by simp
    with available_away [OF detached(2) this assms(4)] assms(2) show ?thesis by blast
  qed
qed

lemma unpublished_settled:
  assumes "unpublish_seen d node evs" "node \<notin> X" "node \<noteq> []" "\<forall>p \<in> S. settled p" "p \<in> learned X d S evs"
  shows "\<not> with_instance node p"
proof
  assume node: "with_instance node p"
  then obtain e where e: "evs = [e]" "shows_instance d e = Some []" using unpublished [OF assms(1,2,5)] by blast
  then obtain q where q: "q \<in> ahead X S" "later X q p" "q = Free \<or> (\<exists>st. reported st [] q)"
    using learn_shown [OF e(2), of X S] assms(5) e(1) unfolding ahead_def by fastforce
  have "with_instance node q" using q(2) node assms(2) by (rule later_with)
  then show False using ahead_settled [OF assms(4) q(1) _ assms(2)] q(3) assms(3) by auto
qed


section \<open>An example cloud\<close>

text \<open>
  A cloud in which attaching and detaching take until the next description: that description still shows
  the transition, the one after it the result.
\<close>

type_synonym places = "string \<Rightarrow> disk_place"

fun next_place :: "disk_place \<Rightarrow> disk_place" where
  "next_place (Attaching u) = On u"
| "next_place (Detaching u) = Free"
| "next_place p = p"

fun place_status :: "disk_place \<Rightarrow> string" where
  "place_status Free = DiskStatusAvailable"
| "place_status (Attaching u) = ''ATTACHING''"
| "place_status (On u) = DiskStatusInUse"
| "place_status (Detaching u) = ''DETACHING''"

fun place_instance :: "disk_place \<Rightarrow> string option" where
  "place_instance (On u) = Some u"
| "place_instance (Detaching u) = Some u"
| "place_instance p = None"

definition place_page :: "string \<Rightarrow> disk_place \<Rightarrow> DiskInfo page" where
  "place_page d p = \<lparr>TotalCount = Some 1, DataSet = [Some ((disk_named ''z1'' 40)\<lparr>di_DiskId := Some d,
     di_DiskStatus := Some (place_status p), di_InstanceId := place_instance p\<rparr>)]\<rparr>"

fun store_attach :: "string list \<Rightarrow> string \<Rightarrow> places \<Rightarrow> (sdk_error + unit) \<times> places" where
  "store_attach [d] vm A = (if A d = Free then (Inr (), A(d := Attaching vm)) else (Inl PlainError, A))"
| "store_attach is vm A = (Inl PlainError, A)"

fun store_detach :: "string list \<Rightarrow> places \<Rightarrow> (sdk_error + string list option) \<times> places" where
  "store_detach [d] A = (case A d of On u \<Rightarrow> (Inr (Some []), A(d := Detaching u)) | _ \<Rightarrow> (Inr (Some [d]), A))"
| "store_detach is A = (Inr (Some is), A)"

definition store_client :: "places zec_client" where
  "store_client =
     \<lparr>api_DescribeDiskRegions = State_Monad.return (Inr (Some [])),
      api_CreateDisks = (\<lambda>q. State_Monad.return (Inl PlainError)),
      api_ReleaseDisk = (\<lambda>i. State_Monad.return (Inl PlainError)),
      api_AttachDisks = (\<lambda>is vm. State (store_attach is vm)),
      api_DetachDisks = (\<lambda>is b. State (store_detach is)),
      api_ResizeDisk = (\<lambda>i n. State_Monad.return (Inl PlainError)),
      api_DescribeDisks = (\<lambda>q. State (\<lambda>A. case dd_DiskIds q of
          [] \<Rightarrow> (Inr (Some \<lparr>TotalCount = Some 0, DataSet = []\<rparr>), A)
        | d # _ \<Rightarrow> (Inr (Some (place_page d (A d))), A(d := next_place (A d))))),
      api_DescribeInstances = (\<lambda>is. State_Monad.return (Inr None)),
      api_DescribeInstancesStatus = (\<lambda>is. State_Monad.return (Inr (Some \<lparr>TotalCount = Some 1, DataSet =
        [Some \<lparr>is_InstanceId = Some (hd is), is_InstanceStatus = Some VmStatusRunning\<rparr>]\<rparr>))),
      api_DescribeZones = State_Monad.return (Inr ()),
      api_CreateSnapshot = (\<lambda>n i. State_Monad.return (Inl PlainError)),
      api_DeleteSnapshots = (\<lambda>is. State_Monad.return (Inr None)),
      api_DescribeSnapshots = (\<lambda>q. State_Monad.return (Inr None))\<rparr>"

lemma later_next_place: "later X p (next_place p)"
  by (cases p) auto

lemma place_page_fits: "description_fits (place_page d p) p"
  by (cases p) (auto simp: description_fits_def place_page_def first_item_def or_else_def status_consts)

lemma store_attach_effect: "store_attach is vm w = (a, w') \<Longrightarrow> call_effect d (ev_AttachDisks is vm a) (w d) (w' d)"
  by (cases "(is, vm, w)" rule: store_attach.cases) (auto split: if_splits)

lemma store_detach_effect: "store_detach is w = (a, w') \<Longrightarrow> call_effect d (ev_DetachDisks is b a) (w d) (w' d)"
  by (cases "(is, w)" rule: store_detach.cases) (auto split: disk_place.splits if_splits)

text \<open>It keeps the law, even with no other users.\<close>

lemma store_attachment_cloud: "attachment_cloud {} store_client id"
  unfolding attachment_cloud_def
proof (intro allI impI)
  fix w e w' and d :: string
  assume perf: "performs store_client w e w'"
  have "\<exists>p2. call_effect d e (w d) p2 \<and> later {} p2 (w' d)"
  proof (cases "\<exists>is vm a. e = ev_AttachDisks is vm a \<or> (\<exists>b a. e = ev_DetachDisks is b a)")
    case True
    then have "call_effect d e (w d) (w' d)"
      using perf store_attach_effect store_detach_effect by (auto simp: store_client_def simp del: call_effect.simps)
    then show ?thesis by blast
  next
    case False
    then show ?thesis using perf
      by (cases e) (auto simp: store_client_def later_next_place place_page_fits
        describe_by_id_def NewDescribeDisksRequest_def split: if_splits list.splits)
  qed
  then show "id w' d \<in> learn {} d {id w d} e" by (auto simp: learn_def)
qed

definition store_cm :: "places zecCloudManager" where
  "store_cm = \<lparr>zecClient = Some store_client, Iscontroller = True, select_ticks = (\<lambda>_ _ _. 1)\<rparr>"

lemma store_cm_client: "zecClient store_cm = Some store_client"
  by (simp add: store_cm_def)

end
