(* ===== verification/ConcurrentController.thy ===== *)
theory ConcurrentController
  imports Attachments
begin

text \<open>
  The controller server under concurrent requests. The sessions of \<^verbatim>\<open>Concurrency\<close> are the locked parts
  of the handlers: a request that is not answered at once tries to lock its key and then runs its body,
  whose SDK calls interleave with those of the other requests on the shared cloud. Every changing
  call touches only the key its request holds, so requests on one disk are serial; a request attaches only
  a disk that it has read to be free and detaches only from the node it has read; and it answers with
  success only after the answers of \<^verbatim>\<open>Attachments\<close>.
\<close>

section \<open>The locked part of a handler\<close>

text \<open>The key a request locks and the code it runs under that lock.\<close>

definition locked_body ::
  "'w ControllerServer \<Rightarrow> instant \<Rightarrow> controller_request \<Rightarrow> (string \<times> ('w server, code + unit) state) option" where
  "locked_body cs now q =
     (case q of
        RpcCreateVolume req \<Rightarrow>
          if ValidateControllerServiceRequest (cs_driver cs) RPC_CREATE_DELETE_VOLUME \<and>
             (case cv_VolumeCapabilities req of None \<Rightarrow> False
              | Some caps \<Rightarrow> ValidateVolumeCapabilities_drv (cs_driver cs) caps) \<and>
             cv_Name req \<noteq> [] \<and> length (cv_Name req) \<le> 64
          then Some (cv_Name req, no_result (cv_locked cs req)) else None
      | RpcDeleteVolume vid \<Rightarrow>
          if ValidateControllerServiceRequest (cs_driver cs) RPC_CREATE_DELETE_VOLUME \<and> vid \<noteq> []
          then (case ParseCsiVolId vid of Inl _ \<Rightarrow> None | Inr (v, _) \<Rightarrow> Some (v, delete_locked cs v)) else None
      | RpcPublish req \<Rightarrow>
          if ValidateControllerServiceRequest (cs_driver cs) RPC_PUBLISH_UNPUBLISH_VOLUME \<and>
             pv_VolumeId req \<noteq> [] \<and> pv_NodeId req \<noteq> [] \<and>
             (case pv_VolumeCapability req of None \<Rightarrow> False
              | Some cap \<Rightarrow> ValidateVolumeCapability (cs_driver cs) cap) \<and> \<not> pv_Readonly req
          then (case ParseCsiVolId (pv_VolumeId req) of Inl _ \<Rightarrow> None
                | Inr (v, _) \<Rightarrow> Some (v, publish_locked cs v (pv_NodeId req))) else None
      | RpcUnpublish req \<Rightarrow>
          if ValidateControllerServiceRequest (cs_driver cs) RPC_PUBLISH_UNPUBLISH_VOLUME \<and>
             uv_VolumeId req \<noteq> [] \<and> uv_NodeId req \<noteq> []
          then (case ParseCsiVolId (uv_VolumeId req) of Inl _ \<Rightarrow> None
                | Inr (v, _) \<Rightarrow> Some (v, unpublish_locked cs v (uv_NodeId req))) else None
      | RpcExpand req \<Rightarrow>
          if ValidateControllerServiceRequest (cs_driver cs) RPC_EXPAND_VOLUME \<and> ev_VolumeId req \<noteq> []
          then (case ParseCsiVolId (ev_VolumeId req) of Inl _ \<Rightarrow> None
                | Inr (v, _) \<Rightarrow> Some (v, no_result (expand_locked cs req v))) else None
      | RpcCreateSnapshot req \<Rightarrow>
          if ValidateControllerServiceRequest (cs_driver cs) RPC_CREATE_DELETE_SNAPSHOT \<and>
             cs_SourceVolumeId req \<noteq> [] \<and> cs_Name req \<noteq> [] \<and> length (cs_Name req) \<le> 64
          then (case ParseCsiVolId (cs_SourceVolumeId req) of Inl _ \<Rightarrow> None
                | Inr (v, _) \<Rightarrow> Some (v, no_result (snapshot_locked cs now req v))) else None
      | RpcDeleteSnapshot sid \<Rightarrow>
          if ValidateControllerServiceRequest (cs_driver cs) RPC_CREATE_DELETE_SNAPSHOT \<and> sid \<noteq> []
          then Some (sid, delete_snapshot_locked cs sid) else None)"

text \<open>A request is its locked part behind its lock, or is answered at once.\<close>

lemma serve_controller_locked:
  "locked_body cs now q = Some (k, body) \<Longrightarrow> serve_controller cs now q = status_of (with_lock k Aborted body)"
  by (cases q) (auto simp: locked_body_def serve_controller_def status_of_no_result CreateVolume_def DeleteVolume_def
    ControllerPublishVolume_def ControllerUnpublishVolume_def ControllerExpandVolume_def CreateSnapshot_def
    DeleteSnapshot_def split: if_splits option.splits sum.splits prod.splits)

lemma serve_controller_at_once:
  "locked_body cs now q = None \<Longrightarrow> \<exists>st. serve_controller cs now q = State_Monad.return st"
  by (cases q) (auto simp: locked_body_def serve_controller_def status_of_return CreateVolume_def DeleteVolume_def
    ControllerPublishVolume_def ControllerUnpublishVolume_def ControllerExpandVolume_def CreateSnapshot_def
    DeleteSnapshot_def split: if_splits option.splits sum.splits prod.splits)

section \<open>The calls of a request\<close>

text \<open>
  The sessions of the controller: a request with its answer, its key, and calls that its locked part
  makes for some answers of the cloud. The answers are those of any client, on worlds of any type
  \<open>'v\<close>: under interference the answers that a request gets need not fit a world of its own. The
  scheduling of the polls, the time, and the state of the lock table (on which the second lock of a
  volume made from a snapshot depends) are arbitrary too.
\<close>

definition server_on :: "DiskDriver \<Rightarrow> globals \<Rightarrow> 'v zecCloudManager \<Rightarrow> ('v \<times> api_event list) ControllerServer" where
  "server_on D G cm = \<lparr>cs_driver = D, cs_cloud = zec_CloudManager (traced_cm cm), cs_globals = G\<rparr>"

type_synonym request_label = "controller_request \<times> (code + unit)"

definition controller_script ::
  "'v itself \<Rightarrow> DiskDriver \<Rightarrow> globals \<Rightarrow> request_label \<Rightarrow> string \<Rightarrow> api_event list \<Rightarrow> bool" where
  "controller_script T D G l k evs \<longleftrightarrow>
     (\<exists>(cm :: 'v zecCloudManager) now L v body.
        locked_body (server_on D G cm) now (fst l) = Some (k, body) \<and> body_run body L v = (snd l, evs))"

section \<open>What a request has read about its disk\<close>

text \<open>The first instance it has read since its last changing call.\<close>

definition observe :: "string \<Rightarrow> string option \<Rightarrow> api_event \<Rightarrow> string option" where
  "observe k kn e = (if is_write e then None else if kn = None then shows_instance k e else kn)"

abbreviation observed :: "string \<Rightarrow> string option \<Rightarrow> api_event list \<Rightarrow> string option" where
  "observed k \<equiv> foldl (observe k)"

text \<open>
  The calls a request may make, given what it has read: an attach only on a disk shown without an instance,
  a detach only on a disk shown on its node, and each kind of request only its own changing calls, on its key.
\<close>

fun allowed :: "controller_request \<Rightarrow> string \<Rightarrow> string option \<Rightarrow> api_event \<Rightarrow> bool" where
  "allowed q k kn (ev_CreateDisks rq _) \<longleftrightarrow> cd_DiskName rq = k \<and> (\<exists>req. q = RpcCreateVolume req)"
| "allowed q k kn (ev_ReleaseDisk i _) \<longleftrightarrow> i = k \<and> (\<exists>vid. q = RpcDeleteVolume vid)"
| "allowed q k kn (ev_AttachDisks is vm _) \<longleftrightarrow> is = [k] \<and> kn = Some [] \<and> (\<exists>req. q = RpcPublish req \<and> vm = pv_NodeId req)"
| "allowed q k kn (ev_DetachDisks is b _) \<longleftrightarrow> is = [k] \<and> \<not> b \<and> (\<exists>req. q = RpcUnpublish req \<and> kn = Some (uv_NodeId req) \<and> uv_NodeId req \<noteq> [])"
| "allowed q k kn (ev_ResizeDisk i _ _) \<longleftrightarrow> i = k \<and> (\<exists>req. q = RpcExpand req)"
| "allowed q k kn (ev_CreateSnapshot n i _) \<longleftrightarrow> i = k \<and> (\<exists>req. q = RpcCreateSnapshot req \<and> n = cs_Name req)"
| "allowed q k kn (ev_DeleteSnapshots is _) \<longleftrightarrow> is = [k] \<and> q = RpcDeleteSnapshot k"
| "allowed q k kn _ \<longleftrightarrow> True"

abbreviation obeys :: "controller_request \<Rightarrow> string \<Rightarrow> string option \<Rightarrow> api_event list \<Rightarrow> bool" where
  "obeys q k \<equiv> obeys_by (allowed q k) (observe k)"

text \<open>What the request has seen when it answers with success.\<close>

definition concluded :: "controller_request \<Rightarrow> string \<Rightarrow> code + unit \<Rightarrow> api_event list \<Rightarrow> bool" where
  "concluded q k r evs \<longleftrightarrow> r = Inr () \<longrightarrow>
     (case q of RpcPublish req \<Rightarrow> pv_NodeId req \<noteq> [] \<and> publish_seen k (pv_NodeId req) evs
      | RpcUnpublish req \<Rightarrow> uv_NodeId req \<noteq> [] \<and> unpublish_seen k (uv_NodeId req) evs
      | _ \<Rightarrow> True)"

section \<open>The handlers obey\<close>

lemma allowed_read: "\<not> is_write e \<Longrightarrow> allowed q k kn e"
  by (cases e) auto

lemma observe_read [simp]: "\<not> is_write e \<Longrightarrow> observe k (Some u) e = Some u"
  by (simp add: observe_def)

lemma observe_shown [simp]: "shows_instance k e = Some u \<Longrightarrow> observe k None e = Some u"
  by (simp add: observe_def shows_instance_read)

lemma observed_reads [simp]: "only_reads ext \<Longrightarrow> observed k (Some u) ext = Some u"
  by (induction ext) auto

text \<open>What a request knows it has read, and made no changing call since.\<close>

lemma observed_shown:
  "observed k None ds = Some u \<Longrightarrow> \<exists>xs e ys. ds = xs @ e # ys \<and> shows_instance k e = Some u \<and> only_reads ys"
proof (induction ds rule: rev_induct)
  case (snoc e ds)
  have last: "observe k (observed k None ds) e = Some u" using snoc.prems by simp
  show ?case
  proof (cases "observed k None ds")
    case None
    then have "shows_instance k e = Some u" using last by (auto simp: observe_def split: if_splits)
    then show ?thesis by (intro exI [of _ ds] exI [of _ e] exI [of _ "[]"]) simp
  next
    case (Some v)
    then have "\<not> is_write e" "v = u" using last by (auto simp: observe_def split: if_splits)
    moreover obtain xs d ys where "ds = xs @ d # ys" "shows_instance k d = Some u" "only_reads ys"
      using snoc.IH Some \<open>v = u\<close> by blast
    ultimately show ?thesis by (intro exI [of _ xs] exI [of _ d] exI [of _ "ys @ [e]"]) simp
  qed
qed simp

abbreviation writes_only :: "(api_event \<Rightarrow> bool) \<Rightarrow> api_event list \<Rightarrow> bool" where
  "writes_only P ext \<equiv> \<forall>e \<in> set ext. is_write e \<longrightarrow> P e"

lemma obeys_plain: "writes_only (\<lambda>e. \<forall>kn. allowed q k kn e) ext \<Longrightarrow> obeys q k kn ext"
  by (rule obeys_by_all) (auto intro: allowed_read)

lemma only_reads_writes: "only_reads ext \<Longrightarrow> writes_only P ext"
  by (auto simp: only_reads_def list_all_iff)

lemma obeys_reads [simp]: "only_reads ext \<Longrightarrow> obeys q k kn ext"
  by (intro obeys_plain only_reads_writes)

lemma obeys_touches: "obeys q k kn evs \<Longrightarrow> e \<in> set evs \<Longrightarrow> touches e \<subseteq> {k}"
  by (drule (1) obeys_by_member, cases e) auto

subsection \<open>Publish and unpublish\<close>

lemma logs_FindVolume_shown:
  "logs snd (\<lambda>r ext. only_reads ext \<and> (\<forall>vol. r = Inr vol \<longrightarrow> (\<exists>e. ext = [e] \<and>
       shows_instance k e = Some (case vol of None \<Rightarrow> [] | Some v \<Rightarrow> ZecVolume_InstanceId v))))
     (FindVolume (traced_cm cm) k)"
  unfolding FindVolume_def traced_cm_simps
  by (cases "zecClient cm") (auto intro!: logs_cases logs_call simp: toZecVolume_def NewZecVolume_def)

lemma last_read: "ext \<noteq> [] \<Longrightarrow> P (last ext) \<Longrightarrow> \<exists>pre e. c # ext = pre @ [e] \<and> P e"
  by (metis append_Cons append_butlast_last_id)

lemma logs_AttachVolume_obeys:
  "logs snd (\<lambda>r ext. obeys (RpcPublish req) k (Some []) ext \<and>
       (r = Inr () \<longrightarrow> (\<exists>pre e. ext = pre @ [e] \<and> seen_in k DiskStatusInUse e)))
     (AttachVolume (traced_cm cm) k (pv_NodeId req))"
  unfolding AttachVolume_def traced_cm_simps
  by (cases "zecClient cm") (auto intro!: logs_cases logs_call logs_mono [OF logs_wait_inuse] last_read)

lemma logs_DetachVolume_obeys:
  assumes "uv_NodeId req \<noteq> []"
  shows "logs snd (\<lambda>r ext. obeys (RpcUnpublish req) k (Some (uv_NodeId req)) ext \<and>
       (r = Inr () \<longrightarrow> (\<exists>pre e. ext = pre @ [e] \<and> seen_in k DiskStatusAvailable e)))
     (DetachVolume (traced_cm cm) k)"
  unfolding DetachVolume_def traced_cm_simps using assms
  by (cases "zecClient cm") (auto intro!: logs_cases logs_call logs_mono [OF logs_wait_available] last_read)

lemma logs_publish_attach_obeys:
  assumes "cs_cloud cs = zec_CloudManager (traced_cm cm)"
  shows "logs srv_log (\<lambda>r ext. obeys (RpcPublish req) k (Some []) ext \<and>
      (r = Inr () \<longrightarrow> (\<exists>pre e1 e2. ext = pre @ [e1, e2] \<and> seen_in k DiskStatusInUse e1 \<and>
         shows_instance k e2 = Some (pv_NodeId req))))
    (publish_attach cs k (pv_NodeId req))"
  unfolding publish_attach_def assms zec_CloudManager_def CloudManager.simps
proof (intro logs_bind [OF logs_on_world [OF logs_AttachVolume_obeys]] logs_cases
    logs_bind [OF logs_on_world [OF logs_FindVolume_shown]])
qed auto

lemma logs_publish_obeys:
  assumes "cs_cloud cs = zec_CloudManager (traced_cm cm)" "pv_NodeId req \<noteq> []"
  shows "logs srv_log (\<lambda>r ext. obeys (RpcPublish req) k None ext \<and> concluded (RpcPublish req) k r ext)
    (publish_locked cs k (pv_NodeId req))"
  unfolding publish_locked_def assms zec_CloudManager_def CloudManager.simps concluded_def
proof (intro logs_bind [OF logs_on_world [OF logs_FindVolume_shown]] logs_cases
    logs_bind [OF logs_on_world [OF logs_GetVmStatus]])
qed (use assms(2) in \<open>auto intro!: logs_mono [OF logs_publish_attach_obeys [OF assms(1)]] simp: publish_seen_def\<close>)

lemma logs_unpublish_obeys:
  assumes "cs_cloud cs = zec_CloudManager (traced_cm cm)" "uv_NodeId req \<noteq> []"
  shows "logs srv_log (\<lambda>r ext. obeys (RpcUnpublish req) k None ext \<and> concluded (RpcUnpublish req) k r ext)
    (unpublish_locked cs k (uv_NodeId req))"
  unfolding unpublish_locked_def assms zec_CloudManager_def CloudManager.simps concluded_def
proof (intro logs_bind [OF logs_on_world [OF logs_FindVolume_shown]] logs_cases
    logs_bind [OF logs_on_world [OF logs_DetachVolume_obeys [OF assms(2)]]])
qed (use assms(2) in \<open>auto simp: unpublish_seen_def\<close>)

subsection \<open>The other requests\<close>

text \<open>Which changing calls code makes, in any order: one rule for each construct.\<close>

abbreviation calls :: "('s \<Rightarrow> api_event list) \<Rightarrow> (api_event \<Rightarrow> bool) \<Rightarrow> ('s, 'a) state \<Rightarrow> bool" where
  "calls lg P m \<equiv> logs lg (\<lambda>_ ext. writes_only P ext) m"

lemma calls_reads: "logs lg (\<lambda>r ext. only_reads ext \<and> R r ext) m \<Longrightarrow> calls lg P m"
  by (erule logs_mono) (auto simp: only_reads_def list_all_iff)

lemma calls_bind:
  assumes "calls lg P m" "\<And>a. calls lg P (k a)"
  shows "calls lg P (State_Monad.bind m k)"
  by (rule logs_bind [OF assms(1)], rule logs_mono [OF assms(2)]) auto

lemma calls_logged: "(\<And>r. is_write (ev r) \<Longrightarrow> P (ev r)) \<Longrightarrow> calls snd P (logged ev m)"
  by (intro logs_logged) simp

lemma calls_no_result: "calls lg P m \<Longrightarrow> calls lg P (no_result m)"
  unfolding no_result_def by (intro calls_bind logs_return) auto

lemma calls_one_write: "logs lg (\<lambda>r ext. one_write P ext \<and> R r ext) m \<Longrightarrow> calls lg P m"
  by (erule logs_mono) (auto simp: one_write_def)

lemma calls_fetch_pages: "(\<And>k. calls snd P (call k)) \<Longrightarrow> calls snd P (fetch_pages call n j acc)"
  by (induction n arbitrary: j acc) (auto intro!: calls_bind logs_cases)

lemma calls_list_pages: "(\<And>k. calls snd P (call k)) \<Longrightarrow> calls snd P (list_pages call)"
  unfolding list_pages_def by (intro calls_bind logs_cases calls_fetch_pages) auto

lemma calls_FindVolumeByName: "calls snd P (FindVolumeByName (traced_cm cm) name z sz dt grp)"
  unfolding FindVolumeByName_def traced_cm_simps
  by (cases "zecClient cm") (auto intro!: logs_cases calls_bind calls_list_pages calls_logged)

lemma calls_FindSnapshotByName: "calls snd P (FindSnapshotByName (traced_cm cm) name v z grp)"
  unfolding FindSnapshotByName_def traced_cm_simps
  by (cases "zecClient cm") (auto intro!: logs_cases calls_bind calls_list_pages calls_logged)

lemma calls_create_disks: "(\<And>a. P (ev_CreateDisks rq a)) \<Longrightarrow> calls snd P (create_disks (traced_cm cm) rq)"
  unfolding create_disks_def traced_cm_simps
  by (cases "zecClient cm") (auto intro!: logs_cases calls_bind calls_logged calls_reads [OF logs_wait_available])

lemma calls_CreateVolume_cm:
  assumes "\<And>rq a. cd_DiskName rq = name \<Longrightarrow> P (ev_CreateDisks rq a)"
  shows "calls snd P (CreateVolume_cm (traced_cm cm) name sz dt z grp b)"
    and "calls snd P (CreateVolumeFromSnapshot_cm (traced_cm cm) name sz dt z grp sid b)"
  unfolding CreateVolume_cm_def CreateVolumeFromSnapshot_cm_def
  by (auto intro!: logs_cases calls_create_disks assms)

lemma calls_ResizeVolume: "(\<And>a. P (ev_ResizeDisk v n a)) \<Longrightarrow> calls snd P (ResizeVolume (traced_cm cm) v n)"
  unfolding ResizeVolume_def traced_cm_simps
  by (cases "zecClient cm") (auto intro!: logs_cases calls_bind calls_logged calls_reads [OF logs_wait_stable])

lemmas calls_server = calls_bind logs_cases logs_on_world calls_reads [OF logs_FindVolume] calls_reads [OF logs_FindSnapshot]
  calls_FindVolumeByName calls_FindSnapshotByName logs_with_lock

lemma calls_cv_locked:
  assumes "cs_cloud cs = zec_CloudManager (traced_cm cm)" "\<And>rq a. cd_DiskName rq = cv_Name req \<Longrightarrow> P (ev_CreateDisks rq a)"
  shows "calls srv_log P (cv_locked cs req)"
proof -
  have created: "calls srv_log P (cv_created cs params n src i)" for params n src i
    unfolding cv_created_def assms(1) zec_CloudManager_def CloudManager.simps by (intro calls_server) auto
  have "calls srv_log P (cv_from_snapshot cs (cv_Name req) params sc topo n sid)" for params sc topo n sid
    unfolding cv_from_snapshot_def assms(1) zec_CloudManager_def CloudManager.simps Let_def
    by (intro calls_server calls_CreateVolume_cm assms(2) created) auto
  then have "calls srv_log P (cv_new cs req params sc topo n)" for params sc topo n
    unfolding cv_new_def assms(1) zec_CloudManager_def CloudManager.simps Let_def
    by (auto intro!: calls_server calls_CreateVolume_cm assms(2) created split: option.split VolumeContentSource.split)
  then show ?thesis
    unfolding cv_locked_def assms(1) zec_CloudManager_def CloudManager.simps by (intro calls_server) auto
qed

lemma calls_expand_locked:
  assumes "cs_cloud cs = zec_CloudManager (traced_cm cm)" "\<And>n a. P (ev_ResizeDisk v n a)"
  shows "calls srv_log P (expand_locked cs req v)"
  unfolding expand_locked_def assms(1) zec_CloudManager_def CloudManager.simps Let_def
  by (intro calls_server calls_ResizeVolume assms(2)) auto

lemma calls_snapshot_locked:
  assumes "cs_cloud cs = zec_CloudManager (traced_cm cm)" "\<And>a. P (ev_CreateSnapshot (cs_Name req) v a)"
  shows "calls srv_log P (snapshot_locked cs now req v)"
proof -
  have "calls snd P (CreateSnapshot_cm (traced_cm cm) (cs_Name req) v)"
    by (rule logs_mono [OF logs_CreateSnapshot_cm]) (use assms(2) in \<open>auto simp: one_write_def\<close>)
  then have "calls srv_log P (snapshot_new cs now req v n)" for n
    unfolding snapshot_new_def assms(1) zec_CloudManager_def CloudManager.simps by (intro calls_server) auto
  then show ?thesis
    unfolding snapshot_locked_def assms(1) zec_CloudManager_def CloudManager.simps by (intro calls_server) auto
qed

lemma calls_delete_locked:
  assumes "cs_cloud cs = zec_CloudManager (traced_cm cm)" "\<And>a. P (ev_ReleaseDisk v a)"
  shows "calls srv_log P (delete_locked cs v)"
proof -
  have "calls snd P (DeleteVolume_cm (traced_cm cm) v)"
    by (rule logs_mono [OF logs_DeleteVolume_cm]) (use assms(2) in \<open>auto simp: release_log_def\<close>)
  then show ?thesis
    unfolding delete_locked_def assms(1) zec_CloudManager_def CloudManager.simps by (intro calls_server) auto
qed

lemma calls_delete_snapshot_locked:
  assumes "cs_cloud cs = zec_CloudManager (traced_cm cm)" "\<And>a. P (ev_DeleteSnapshots [i] a)"
  shows "calls srv_log P (delete_snapshot_locked cs i)"
proof -
  have "calls snd P (DeleteSnapshot_cm (traced_cm cm) i)"
    by (rule logs_mono [OF logs_DeleteSnapshot_cm]) (use assms(2) in \<open>auto simp: one_write_def\<close>)
  then show ?thesis
    unfolding delete_snapshot_locked_def assms(1) zec_CloudManager_def CloudManager.simps by (intro calls_server) auto
qed

text \<open>Every locked part obeys, from the moment it has its lock.\<close>

lemma obeys_of_calls:
  assumes "calls lg (\<lambda>e. \<forall>kn. allowed q k kn e) m" "\<And>r evs. concluded q k r evs"
  shows "logs lg (\<lambda>r ext. obeys q k None ext \<and> concluded q k r ext) m"
  using assms(1) by (rule logs_mono) (use assms(2) in \<open>auto intro: obeys_plain\<close>)

lemma logs_locked_body:
  assumes cloud: "cs_cloud cs = zec_CloudManager (traced_cm cm)" and body: "locked_body cs now q = Some (k, body)"
  shows "logs srv_log (\<lambda>r ext. obeys q k None ext \<and> concluded q k r ext) body"
proof (cases q)
  case (RpcPublish req)
  then show ?thesis using body by (auto simp: locked_body_def logs_publish_obeys [OF cloud] split: if_splits sum.splits)
next
  case (RpcUnpublish req)
  then show ?thesis using body by (auto simp: locked_body_def logs_unpublish_obeys [OF cloud] split: if_splits sum.splits)
qed ((rule obeys_of_calls; use body in \<open>auto simp: locked_body_def concluded_def intro!: calls_no_result calls_cv_locked [OF cloud]
    calls_expand_locked [OF cloud] calls_snapshot_locked [OF cloud] calls_delete_locked [OF cloud]
    calls_delete_snapshot_locked [OF cloud] split: if_splits sum.splits\<close>)+)

lemma controller_script_obeys:
  assumes "controller_script T D G l k evs"
  shows "obeys (fst l) k None evs \<and> concluded (fst l) k (snd l) evs"
proof -
  obtain cm :: "'a zecCloudManager" and now L v body where body: "locked_body (server_on D G cm) now (fst l) = Some (k, body)"
    and run: "body_run body L v = (snd l, evs)"
    using assms by (auto simp: controller_script_def)
  have "logs srv_log (\<lambda>r ext. obeys (fst l) k None ext \<and> concluded (fst l) k r ext) body"
    by (rule logs_locked_body [OF _ body]) (simp add: server_on_def)
  with run show ?thesis by (auto simp: body_run_def split: prod.splits dest: logsD)
qed

interpretation cd: lock_discipline "performs c" "controller_script T D G" touches for c :: "'w zec_client" and T D G
  by unfold_locales (blast dest: controller_script_obeys obeys_touches)

end
