(* ===== verification/ConcurrencyProps.thy ===== *)
theory ConcurrencyProps
  imports ConcurrentController
begin

text \<open>
  Properties of the controller under concurrent requests, on a cloud that attaches and detaches
  asynchronously: requests on one disk are serial; what a request has learned about the place of its disk
  is true at any time until its own next changing call, so it never detaches a disk from another node
  and answers with success only when the disk is where it should be; and only the request that
  holds a disk changes where the disk is attached.
\<close>

section \<open>What a request knows\<close>

text \<open>What a request has learned about the place of its disk is true, whatever the other requests do.\<close>

definition knows_place ::
  "string set \<Rightarrow> 'w zec_client \<Rightarrow> ('w \<Rightarrow> string \<Rightarrow> disk_place) \<Rightarrow> request_label \<Rightarrow> string \<Rightarrow> api_event list \<Rightarrow> disk_place \<Rightarrow> bool" where
  "knows_place X c place l k ds v \<longleftrightarrow> (attachment_cloud X c place \<longrightarrow> v \<in> learned X k UNIV ds)"

lemma attachment_cloudD:
  "attachment_cloud X c place \<Longrightarrow> performs c w e w' \<Longrightarrow> place w d \<in> S \<Longrightarrow> place w' d \<in> learn X d S e"
  using learn_mono [of "{place w d}" S X d e] unfolding attachment_cloud_def by blast

lemma attachment_cloud_other:
  "attachment_cloud X c place \<Longrightarrow> performs c w e w' \<Longrightarrow> d \<notin> touches e \<Longrightarrow> later X (place w d) (place w' d)"
  using attachment_cloudD [of X c place w e w' d "{place w d}"] learn_still [of d e X "{place w d}"] by (auto simp: ahead_def)

interpretation ck: session_knowledge "performs c" "controller_script T D G" touches place "knows_place X c place"
  for c :: "'w zec_client" and place X T D G
proof
  fix l :: request_label and k ds e es and w w' :: 'w
  assume script: "controller_script T D G l k (ds @ e # es)" and perf: "performs c w e w'"
  show "knows_place X c place l k (ds @ [e]) (place w' k)" if "knows_place X c place l k ds (place w k)"
    using that attachment_cloudD [OF _ perf] by (simp add: knows_place_def)
  show "knows_place X c place l' d ds' (place w' d)" if "d \<noteq> k" "knows_place X c place l' d ds' (place w d)" for d l' ds'
    unfolding knows_place_def
  proof
    assume cloud: "attachment_cloud X c place"
    have "d \<notin> touches e" using cd.script_touches [OF script, of e] that(1) by auto
    then have "later X (place w d) (place w' d)" by (rule attachment_cloud_other [OF cloud perf])
    then show "place w' d \<in> learned X d UNIV ds'"
      using that(2) cloud learned_ahead [of "place w d" X d UNIV ds'] by (cases "ds' = []") (simp_all add: knows_place_def)
  qed
qed (simp add: knows_place_def)

text \<open>What a request knows after it has read an instance, or no instance in an available disk.\<close>

lemma knows_with:
  assumes "observed k None ds = Some u" "u \<noteq> []" "p \<in> learned X k UNIV ds" "with_instance v p"
  shows "v = u \<or> v \<in> X"
proof -
  obtain xs e ys where ds: "ds = xs @ e # ys" "shows_instance k e = Some u" "only_reads ys"
    using observed_shown [OF assms(1)] by blast
  have "learned X k UNIV ds \<subseteq> ahead X {p \<in> ahead X (learned X k UNIV xs). with_instance u p}"
    unfolding ds(1) using learned_reads [OF ds(3)] ahead_stays [OF learn_with [OF ds(2) assms(2)]] by simp blast
  then show ?thesis using ahead_with assms(3,4) by blast
qed

lemma knows_available:
  assumes "ds = xs @ e # ys" "only_reads ys" "seen_in k DiskStatusAvailable e" "p \<in> learned X k UNIV ds"
  shows "elsewhere X p"
proof -
  have "learned X k UNIV ds \<subseteq> ahead X {Free}"
    unfolding assms(1) using learned_reads [OF assms(2)] ahead_stays [OF seen_available [OF assms(3)]] by simp blast
  then show ?thesis using assms(4) by (auto simp: ahead_def)
qed

text \<open>
  What the request that holds a disk does to its place: a publish attaches it to its node if it is or
  gets free; an unpublish detaches it if it is, or got, with its node; a deletion may do anything.
\<close>

fun holder_effect :: "string set \<Rightarrow> controller_request \<Rightarrow> disk_place \<Rightarrow> disk_place \<Rightarrow> bool" where
  "holder_effect X (RpcPublish req) p p' \<longleftrightarrow> later X p Free \<and> later X (Attaching (pv_NodeId req)) p'"
| "holder_effect X (RpcUnpublish req) p p' \<longleftrightarrow>
     (\<exists>m. later X p m \<and> with_instance (uv_NodeId req) m) \<and> later X (Detaching (uv_NodeId req)) p'"
| "holder_effect X (RpcDeleteVolume vid) p p' \<longleftrightarrow> True"
| "holder_effect X q p p' \<longleftrightarrow> False"

lemma holder_effect_trans:
  "later X p x \<Longrightarrow> holder_effect X q x y \<Longrightarrow> holder_effect X q p y"
  "holder_effect X q p x \<Longrightarrow> later X x y \<Longrightarrow> holder_effect X q p y"
  "holder_effect X q p x \<Longrightarrow> holder_effect X q x y \<Longrightarrow> holder_effect X q p y"
  by (cases q, auto simp del: later.simps elim: later_trans)+

lemma holder_effect_On:
  "holder_effect X q (On u) y \<Longrightarrow> u \<notin> X \<Longrightarrow>
   (\<exists>req. q = RpcUnpublish req \<and> uv_NodeId req = u) \<or> (\<exists>vid. q = RpcDeleteVolume vid)"
  by (cases q) auto

text \<open>Every call of that request has such an effect, or leaves the disk to the moves of the cloud.\<close>

lemma holder_step:
  assumes "allowed q d (observed d None ds) e" "x \<in> learned X d UNIV ds" "y \<in> learn X d {x} e"
  shows "later X x y \<or> holder_effect X q x y"
proof -
  obtain p1 p2 where p: "later X x p1" "call_effect d e p1 p2" "later X p2 y" using assms(3) by (auto simp: learn_def)
  have stays: "later X x y" if "later X p1 p2" using p(1,3) that by (blast intro: later_trans)
  show ?thesis
  proof (cases "p2 = p1")
    case False
    consider (attach) req a where "e = ev_AttachDisks [d] (pv_NodeId req) a" "q = RpcPublish req"
      | (detach) req a where "e = ev_DetachDisks [d] False a" "q = RpcUnpublish req"
          "observed d None ds = Some (uv_NodeId req)" "uv_NodeId req \<noteq> []"
      | (release) vid where "q = RpcDeleteVolume vid"
      using assms(1) p(2) False by (cases e) auto
    then show ?thesis
    proof cases
      case attach
      then have "p1 = Free" and p2: "later X (Attaching (pv_NodeId req)) p2" using p(2) False by auto
      then show ?thesis using attach(2) p(1) later_trans [OF p2 p(3)] by simp
    next
      case detach
      have p2: "p2 = Free \<or> (\<exists>u. with_instance u p1 \<and> p2 = Detaching u)" using p(2) detach(1) False by auto
      show ?thesis
      proof (cases "with_instance (uv_NodeId req) p1")
        case True
        then have "p2 = Free \<or> p2 = Detaching (uv_NodeId req)" using p2 by (auto dest: with_unique [OF True])
        then have "later X (Detaching (uv_NodeId req)) p2" by auto
        then have "later X (Detaching (uv_NodeId req)) y" using p(3) by (rule later_trans)
        then show ?thesis using detach(2) p(1) True by (auto simp del: later.simps)
      next
        case no: False
        have "elsewhere X p1"
        proof (cases "p1 = Free")
          case False
          then obtain u where u: "with_instance u p1" using place_with by blast
          then have "u \<in> X" using later_with [OF p(1) u] knows_with [OF detach(3,4) assms(2)] no by blast
          then show ?thesis using u by (auto simp: elsewhere_def)
        qed simp
        then have "later X p1 p2" using p2 by (rule elsewhere_back)
        then show ?thesis using stays by blast
      qed
    qed simp
  qed (use stays in simp)
qed

section \<open>An example run\<close>

text \<open>
  A client that answers from a script: the answers are those of the events in the list. Running a
  body on it shows the calls that the body makes when it gets these answers.
\<close>

definition replay :: "(api_event \<Rightarrow> (sdk_error + 'a) option) \<Rightarrow> (api_event list, sdk_error + 'a) state" where
  "replay pick = State (\<lambda>scr. case scr of
      [] \<Rightarrow> (Inl PlainError, [])
    | e # rest \<Rightarrow> (case pick e of None \<Rightarrow> Inl PlainError | Some a \<Rightarrow> a, rest))"

definition scripted_client :: "api_event list zec_client" where
  "scripted_client =
     \<lparr>api_DescribeDiskRegions = replay (\<lambda>e. case e of ev_DescribeDiskRegions a \<Rightarrow> Some a | _ \<Rightarrow> None),
      api_CreateDisks = (\<lambda>_. replay (\<lambda>e. case e of ev_CreateDisks _ a \<Rightarrow> Some a | _ \<Rightarrow> None)),
      api_ReleaseDisk = (\<lambda>_. replay (\<lambda>e. case e of ev_ReleaseDisk _ a \<Rightarrow> Some a | _ \<Rightarrow> None)),
      api_AttachDisks = (\<lambda>_ _. replay (\<lambda>e. case e of ev_AttachDisks _ _ a \<Rightarrow> Some a | _ \<Rightarrow> None)),
      api_DetachDisks = (\<lambda>_ _. replay (\<lambda>e. case e of ev_DetachDisks _ _ a \<Rightarrow> Some a | _ \<Rightarrow> None)),
      api_ResizeDisk = (\<lambda>_ _. replay (\<lambda>e. case e of ev_ResizeDisk _ _ a \<Rightarrow> Some a | _ \<Rightarrow> None)),
      api_DescribeDisks = (\<lambda>_. replay (\<lambda>e. case e of ev_DescribeDisks _ a \<Rightarrow> Some a | _ \<Rightarrow> None)),
      api_DescribeInstances = (\<lambda>_. replay (\<lambda>e. case e of ev_DescribeInstances _ a \<Rightarrow> Some a | _ \<Rightarrow> None)),
      api_DescribeInstancesStatus =
        (\<lambda>_. replay (\<lambda>e. case e of ev_DescribeInstancesStatus _ a \<Rightarrow> Some a | _ \<Rightarrow> None)),
      api_DescribeZones = replay (\<lambda>e. case e of ev_DescribeZones a \<Rightarrow> Some a | _ \<Rightarrow> None),
      api_CreateSnapshot = (\<lambda>_ _. replay (\<lambda>e. case e of ev_CreateSnapshot _ _ a \<Rightarrow> Some a | _ \<Rightarrow> None)),
      api_DeleteSnapshots = (\<lambda>_. replay (\<lambda>e. case e of ev_DeleteSnapshots _ a \<Rightarrow> Some a | _ \<Rightarrow> None)),
      api_DescribeSnapshots = (\<lambda>_. replay (\<lambda>e. case e of ev_DescribeSnapshots _ a \<Rightarrow> Some a | _ \<Rightarrow> None))\<rparr>"

definition free_places :: places where "free_places = (\<lambda>_. Free)"

definition vm1_places :: "disk_place \<Rightarrow> places" where "vm1_places p = free_places(ex_id := p)"

definition reads_disk :: "disk_place \<Rightarrow> api_event" where
  "reads_disk p = ev_DescribeDisks (describe_by_id ex_id) (Inr (Some (place_page ex_id p)))"

definition publish_events :: "api_event list" where
  "publish_events =
     [reads_disk Free, ev_DescribeInstancesStatus [''vm-1''] (fst (run_state (api_DescribeInstancesStatus store_client [''vm-1'']) free_places)),
      ev_AttachDisks [ex_id] ''vm-1'' (Inr ()), reads_disk (Attaching ''vm-1''), reads_disk (On ''vm-1''), reads_disk (On ''vm-1'')]"

definition unpublish_events :: "api_event list" where
  "unpublish_events = [reads_disk (On ''vm-1''), ev_DetachDisks [ex_id] False (Inr (Some [])),
     reads_disk (Detaching ''vm-1''), reads_disk Free]"

definition scripted_cm :: "api_event list zecCloudManager" where
  "scripted_cm = \<lparr>zecClient = Some scripted_client, Iscontroller = True, select_ticks = (\<lambda>_ _ _. 1)\<rparr>"

lemma publish_script: "controller_script TYPE(api_event list) ex_driver no_globals (RpcPublish ex_publish, Inr ()) ex_id publish_events"
proof -
  let ?cs = "server_on ex_driver no_globals scripted_cm"
  have "locked_body ?cs (time_Unix 0) (RpcPublish ex_publish) = Some (ex_id, publish_locked ?cs ex_id ''vm-1'')"
  proof -
    have "ValidateControllerServiceRequest ex_driver RPC_PUBLISH_UNPUBLISH_VOLUME" "ValidateVolumeCapability ex_driver ex_cap" "ex_vol_id \<noteq> []"
      by code_simp+
    then show ?thesis
     using ex_vol_id_parses by (auto simp: locked_body_def server_on_def ex_publish_def)
  qed
  moreover have "body_run (publish_locked ?cs ex_id ''vm-1'') NewResourceLocks publish_events = (Inr (), publish_events)"
    by code_simp
  ultimately show ?thesis unfolding controller_script_def by (simp del: split_paired_Ex) blast
qed

lemma free_places [simp]: "free_places d = Free"
  by (simp add: free_places_def)

lemma publish_performs: "performs_all (performs store_client) free_places publish_events (vm1_places (On ''vm-1''))"
  by (simp add: publish_events_def reads_disk_def store_client_def vm1_places_def describe_by_id_def NewDescribeDisksRequest_def)

lemma unpublish_script: "controller_script TYPE(api_event list) ex_driver no_globals (RpcUnpublish ex_unpublish, Inr ()) ex_id unpublish_events"
proof -
  let ?cs = "server_on ex_driver no_globals scripted_cm"
  have "ValidateControllerServiceRequest ex_driver RPC_PUBLISH_UNPUBLISH_VOLUME" "ex_vol_id \<noteq> []" by code_simp+
  then have "locked_body ?cs (time_Unix 0) (RpcUnpublish ex_unpublish) = Some (ex_id, unpublish_locked ?cs ex_id ''vm-1'')"
    using ex_vol_id_parses by (auto simp: locked_body_def server_on_def ex_unpublish_def)
  moreover have "body_run (unpublish_locked ?cs ex_id ''vm-1'') NewResourceLocks unpublish_events = (Inr (), unpublish_events)"
    by code_simp
  ultimately show ?thesis unfolding controller_script_def by (simp del: split_paired_Ex) blast
qed

lemma unpublish_performs: "performs_all (performs store_client) (vm1_places (On ''vm-1'')) unpublish_events (vm1_places Free)"
  by (simp add: unpublish_events_def reads_disk_def store_client_def vm1_places_def describe_by_id_def NewDescribeDisksRequest_def)

text \<open>Request 0 publishes the disk.\<close>

lemma ex_published:
  "\<exists>s. conc_reachable (performs store_client) (controller_script TYPE(api_event list) ex_driver no_globals) free_places s \<and>
     c_world s = vm1_places (On ''vm-1'') \<and> locks (c_locks s) = {ex_id} \<and>
     c_session s 0 = Some \<lparr>s_label = (RpcPublish ex_publish, Inr ()), s_key = ex_id, s_done = publish_events, s_rest = []\<rparr> \<and>
     c_history s = (0, Begin ex_id) # map (\<lambda>e. (0, Call e)) publish_events"
  using session_starts [OF conc_reachable.init, of 0 free_places "controller_script TYPE(api_event list) ex_driver no_globals"
      "(RpcPublish ex_publish, Inr ())" ex_id publish_events "[]" "performs store_client" "vm1_places (On ''vm-1'')"]
    publish_script publish_performs
  by (auto simp: init_conc_def NewResourceLocks_def)

text \<open>Request 0 publishes the disk and ends; then request 2 unpublishes it.\<close>

lemma ex_run:
  "\<exists>s. conc_reachable (performs store_client) (controller_script TYPE(api_event list) ex_driver no_globals) free_places s \<and>
     c_history s = ((0, Begin ex_id) # map (\<lambda>e. (0, Call e)) publish_events) @ [(0, End)] @
       (2, Begin ex_id) # map (\<lambda>e. (2, Call e)) unpublish_events"
proof -
  obtain s1 where s1: "conc_reachable (performs store_client) (controller_script TYPE(api_event list) ex_driver no_globals) free_places s1"
      "c_world s1 = vm1_places (On ''vm-1'')" "locks (c_locks s1) = {ex_id}"
      "c_session s1 0 = Some \<lparr>s_label = (RpcPublish ex_publish, Inr ()), s_key = ex_id, s_done = publish_events, s_rest = []\<rparr>"
      "c_history s1 = (0, Begin ex_id) # map (\<lambda>e. (0, Call e)) publish_events"
    using ex_published by blast
  obtain s2 where s2: "conc_reachable (performs store_client) (controller_script TYPE(api_event list) ex_driver no_globals) free_places s2"
      "c_world s2 = vm1_places (On ''vm-1'')" "locks (c_locks s2) = {}" "c_history s2 = c_history s1 @ [(0, End)]"
    using session_ends [OF s1(1,4)] s1(2,3) by auto
  have "2 \<notin> fst ` set (c_history s2)" "ex_id \<notin> locks (c_locks s2)" by (auto simp: s2 s1(5))
  from session_starts [OF s2(1) this(1) _ this(2), of "(RpcUnpublish ex_unpublish, Inr ())" unpublish_events "[]" "vm1_places Free"]
  obtain s3 where "conc_reachable (performs store_client) (controller_script TYPE(api_event list) ex_driver no_globals) free_places s3"
      "c_history s3 = c_history s2 @ (2, Begin ex_id) # map (\<lambda>e. (2, Call e)) unpublish_events"
    using unpublish_script unpublish_performs s2(2) by auto
  then show ?thesis using s2(4) s1(5) by (intro exI [of _ s3]) simp
qed

text \<open>Request 0 has read that the disk is free and is about to attach it.\<close>

lemma ex_before_attach:
  "\<exists>s. conc_reachable (performs store_client) (controller_script TYPE(api_event list) ex_driver no_globals) free_places s \<and>
     c_world s = free_places \<and>
     c_session s 0 = Some \<lparr>s_label = (RpcPublish ex_publish, Inr ()), s_key = ex_id, s_done = take 2 publish_events,
       s_rest = ev_AttachDisks [ex_id] ''vm-1'' (Inr ()) # drop 3 publish_events\<rparr>"
proof -
  let ?ds = "take 2 publish_events" and ?es = "drop 3 publish_events" and ?e = "ev_AttachDisks [ex_id] ''vm-1'' (Inr ())"
  have "publish_events = ?ds @ ?e # ?es" by (simp add: publish_events_def)
  then have script: "controller_script TYPE(api_event list) ex_driver no_globals (RpcPublish ex_publish, Inr ()) ex_id (?ds @ ?e # ?es)"
    using publish_script by simp
  have "performs_all (performs store_client) free_places ?ds free_places"
    by (simp add: publish_events_def reads_disk_def store_client_def describe_by_id_def NewDescribeDisksRequest_def fun_upd_idem)
  then show ?thesis
    using session_starts [OF conc_reachable.init, of 0 free_places "controller_script TYPE(api_event list) ex_driver no_globals",
        OF _ script, of "performs store_client" free_places]
    by (auto simp: init_conc_def NewResourceLocks_def)
qed

section \<open>Properties\<close>

text \<open>C7: However the requests to the controller interleave and whatever the cloud answers: when two requests make
  changing calls on the same disk, snapshot or new volume name, the first has made its last call and
  released its lock before the second even begins.\<close>

theorem requests_on_a_disk_are_serial:
  assumes "conc_reachable (performs c) (controller_script T D G) w s"
    and "c_history s = xs @ (i, Call e) # ys @ (j, Call f) # zs" "i \<noteq> j"
    and "d \<in> touches e" "d \<in> touches f"
  shows "\<exists>us vs. ys = us @ (j, Begin d) # vs \<and> (i, End) \<in> set us"
  by (rule cd.serial [OF assms])

theorem requests_on_a_disk_are_serial_witness:
  "\<exists>s us vs. conc_reachable (performs store_client) (controller_script TYPE(api_event list) ex_driver no_globals) free_places s \<and>
     (\<exists>xs e f zs. c_history s = xs @ (0, Call e) # (us @ (2, Begin ex_id) # vs) @ (2, Call f) # zs \<and>
       touches e = {ex_id} \<and> touches f = {ex_id} \<and> (0, End) \<in> set us)"
proof -
  obtain s where s: "conc_reachable (performs store_client) (controller_script TYPE(api_event list) ex_driver no_globals) free_places s"
    and h: "c_history s = ((0, Begin ex_id) # map (\<lambda>e. (0, Call e)) publish_events) @ [(0, End)] @
       (2, Begin ex_id) # map (\<lambda>e. (2, Call e)) unpublish_events"
    using ex_run by blast
  let ?e = "ev_AttachDisks [ex_id] ''vm-1'' (Inr ())" and ?f = "ev_DetachDisks [ex_id] False (Inr (Some []))"
  let ?xs = "(0 :: nat, Begin ex_id) # map (\<lambda>e. (0, Call e)) (take 2 publish_events)"
    and ?ys = "map (\<lambda>e. (0 :: nat, Call e)) (drop 3 publish_events) @ [(0, End), (2, Begin ex_id), (2, Call (hd unpublish_events))]"
    and ?zs = "map (\<lambda>e. (2 :: nat, Call e)) (drop 2 unpublish_events)"
  have split: "c_history s = ?xs @ (0, Call ?e) # ?ys @ (2, Call ?f) # ?zs"
    unfolding h by (simp add: publish_events_def unpublish_events_def)
  from requests_on_a_disk_are_serial [OF s split, of ex_id]
  obtain us vs where us: "?ys = us @ (2, Begin ex_id) # vs" "(0, End) \<in> set us" by auto
  have "touches ?e = {ex_id}" "touches ?f = {ex_id}" by simp_all
  then show ?thesis using s split [unfolded us(1)] us(2) by blast
qed

text \<open>C2: Concurrent requests do not race on attachments, although the cloud attaches and detaches
  asynchronously and other users attach disks to their instances (\<open>X\<close>). In every reachable state: a request
  about to attach its disk has read it without an instance, and if that description said available, no
  node of the cluster has it at that moment; a request about to detach its disk does not take it from a
  node of the cluster other than its own; when a publish for a node of the cluster is answered with
  success the disk is on that node at that moment, except that the first description already showed the node in a disk that was not in use
  yet; when an unpublish is, the disk is not on the node or on its way to or from it, except that
  its only description showed no instance in an existing disk that was not available.\<close>

theorem no_race_on_attachments:
  assumes "attachment_cloud X c place" "conc_reachable (performs c) (controller_script T D G) w s" "c_session s i = Some p"
  shows "(\<forall>is vm a es. s_rest p = ev_AttachDisks is vm a # es \<longrightarrow> is = [s_key p] \<and>
       (\<exists>xs e ys. s_done p = xs @ e # ys \<and> shows_instance (s_key p) e = Some [] \<and>
          (seen_in (s_key p) DiskStatusAvailable e \<longrightarrow> elsewhere X (place (c_world s) (s_key p))))) \<and>
    (\<forall>is b a es. s_rest p = ev_DetachDisks is b a # es \<longrightarrow> is = [s_key p] \<and>
       (\<exists>req. fst (s_label p) = RpcUnpublish req \<and>
          (\<forall>u. with_instance u (place (c_world s) (s_key p)) \<longrightarrow> u = uv_NodeId req \<or> u \<in> X))) \<and>
    (s_rest p = [] \<and> snd (s_label p) = Inr () \<longrightarrow>
       (case fst (s_label p) of
          RpcPublish req \<Rightarrow> pv_NodeId req \<notin> X \<longrightarrow> place (c_world s) (s_key p) = On (pv_NodeId req) \<or>
            (\<exists>e rs. s_done p = e # rs \<and> only_reads (s_done p) \<and> shows_instance (s_key p) e = Some (pv_NodeId req) \<and>
               \<not> seen_in (s_key p) DiskStatusInUse e)
        | RpcUnpublish req \<Rightarrow> uv_NodeId req \<notin> X \<longrightarrow> \<not> with_instance (uv_NodeId req) (place (c_world s) (s_key p)) \<or>
            (\<exists>e. s_done p = [e] \<and> shows_instance (s_key p) e = Some [] \<and> \<not> seen_in (s_key p) DiskStatusAvailable e \<and>
               \<not> disk_gone (s_key p) e)
        | _ \<Rightarrow> True))"
proof -
  have know: "place (c_world s) (s_key p) \<in> learned X (s_key p) UNIV (s_done p)"
    using ck.knowledge [OF assms(2,3), of X place] assms(1) by (simp add: knows_place_def)
  note script = controller_script_obeys [OF ck.session_script [OF assms(2,3)]]
  have attach: "is = [s_key p] \<and> (\<exists>xs e ys. s_done p = xs @ e # ys \<and> shows_instance (s_key p) e = Some [] \<and>
      (seen_in (s_key p) DiskStatusAvailable e \<longrightarrow> elsewhere X (place (c_world s) (s_key p))))"
    if "s_rest p = ev_AttachDisks is vm a # es" for "is" vm a es
  proof -
    have "is = [s_key p]" "observed (s_key p) None (s_done p) = Some []" using script that by auto
    then show ?thesis using observed_shown knows_available know by metis
  qed
  have detach: "is = [s_key p] \<and> (\<exists>req. fst (s_label p) = RpcUnpublish req \<and>
      (\<forall>u. with_instance u (place (c_world s) (s_key p)) \<longrightarrow> u = uv_NodeId req \<or> u \<in> X))"
    if "s_rest p = ev_DetachDisks is b a # es" for "is" b a es
    using script that knows_with [OF _ _ know] by auto
  show ?thesis
  proof (intro conjI allI impI)
    assume fin: "s_rest p = [] \<and> snd (s_label p) = Inr ()"
    show "case fst (s_label p) of
          RpcPublish req \<Rightarrow> pv_NodeId req \<notin> X \<longrightarrow> place (c_world s) (s_key p) = On (pv_NodeId req) \<or>
            (\<exists>e rs. s_done p = e # rs \<and> only_reads (s_done p) \<and> shows_instance (s_key p) e = Some (pv_NodeId req) \<and>
               \<not> seen_in (s_key p) DiskStatusInUse e)
        | RpcUnpublish req \<Rightarrow> uv_NodeId req \<notin> X \<longrightarrow> \<not> with_instance (uv_NodeId req) (place (c_world s) (s_key p)) \<or>
            (\<exists>e. s_done p = [e] \<and> shows_instance (s_key p) e = Some [] \<and> \<not> seen_in (s_key p) DiskStatusAvailable e \<and>
               \<not> disk_gone (s_key p) e)
        | _ \<Rightarrow> True"
    proof (cases "fst (s_label p)")
      case (RpcPublish req)
      then have "pv_NodeId req \<noteq> []" "publish_seen (s_key p) (pv_NodeId req) (s_done p)"
        using script fin by (auto simp: concluded_def)
      then show ?thesis using published [of "s_key p" "pv_NodeId req" "s_done p" X UNIV] know RpcPublish by auto
    next
      case (RpcUnpublish req)
      then have "unpublish_seen (s_key p) (uv_NodeId req) (s_done p)"
        using script fin by (auto simp: concluded_def)
      then show ?thesis using unpublished [OF _ _ know] RpcUnpublish by auto
    qed auto
  qed (use attach detach in blast)+
qed

theorem no_race_on_attachments_witness:
  "\<exists>s p. conc_reachable (performs store_client) (controller_script TYPE(api_event list) ex_driver no_globals) free_places s \<and>
     c_session s 0 = Some p \<and> s_rest p = [] \<and> s_label p = (RpcPublish ex_publish, Inr ()) \<and>
     ev_AttachDisks [ex_id] ''vm-1'' (Inr ()) \<in> set (s_done p) \<and> c_world s ex_id = On ''vm-1''"
proof -
  let ?p = "\<lparr>s_label = (RpcPublish ex_publish, Inr ()), s_key = ex_id, s_done = publish_events, s_rest = []\<rparr>
    :: (request_label, api_event) session"
  obtain s where s: "conc_reachable (performs store_client) (controller_script TYPE(api_event list) ex_driver no_globals) free_places s"
      "c_session s 0 = Some ?p"
    using ex_published by blast
  have "\<not> only_reads publish_events" "ev_AttachDisks [ex_id] ''vm-1'' (Inr ()) \<in> set publish_events"
    by (simp_all add: publish_events_def)
  then show ?thesis
    using no_race_on_attachments [OF store_attachment_cloud s] s by (auto simp: ex_publish_def)
qed

text \<open>C10: In every interleaving, whatever one step of the controller changes about the place of a disk is a move
  of the cloud itself (a transition completes or fails, another user takes a free disk) or comes from the
  request that holds the disk: a publish attaches a disk that was or got free to its node, an unpublish
  detaches a disk that was with its node or got there, a deletion releases its disk. So a
  disk that is on a node stays there until the request that holds it is an unpublish for that node
  or the deletion of the disk.\<close>

theorem attachment_changes_only_by_holder:
  assumes "attachment_cloud X c place" "conc_reachable (performs c) (controller_script T D G) w s"
    and "conc_step (performs c) (controller_script T D G) s t" "place (c_world t) d \<noteq> place (c_world s) d"
  shows "(later X (place (c_world s) d) (place (c_world t) d) \<or> (\<exists>i p. c_session s i = Some p \<and> s_key p = d \<and>
      holder_effect X (fst (s_label p)) (place (c_world s) d) (place (c_world t) d))) \<and>
    (\<forall>u. place (c_world s) d = On u \<and> u \<notin> X \<longrightarrow> (\<exists>i p. c_session s i = Some p \<and> s_key p = d \<and>
      ((\<exists>req. fst (s_label p) = RpcUnpublish req \<and> uv_NodeId req = u) \<or> (\<exists>vid. fst (s_label p) = RpcDeleteVolume vid))))"
  using assms(3)
proof cases
  case (call i p e es w')
  let ?x = "place (c_world s) d" and ?y = "place (c_world t) d"
  have t: "c_world t = w'" using call(1) by simp
  note script = ck.session_script [OF assms(2) call(2)]
  have step: "?y \<in> learn X d {?x} e" using attachment_cloudD [OF assms(1) call(4)] t by simp
  show ?thesis
  proof (cases "later X ?x ?y")
    case True
    then show ?thesis using assms(4) by auto
  next
    case False
    then have "d \<in> touches e" using attachment_cloud_other [OF assms(1) call(4), of d] t by auto
    then have d: "s_key p = d" using cd.script_touches [OF script, of e] call(3) by auto
    have ok: "allowed (fst (s_label p)) d (observed d None (s_done p)) e"
      using controller_script_obeys [OF script] call(3) d by simp
    have know: "?x \<in> learned X d UNIV (s_done p)"
      using ck.knowledge [OF assms(2) call(2), of X place] assms(1) d by (simp add: knows_place_def)
    have effect: "holder_effect X (fst (s_label p)) ?x ?y" using holder_step [OF ok know step] False by blast
    moreover have "(\<exists>req. fst (s_label p) = RpcUnpublish req \<and> uv_NodeId req = u) \<or> (\<exists>vid. fst (s_label p) = RpcDeleteVolume vid)"
      if "?x = On u" "u \<notin> X" for u
      using holder_effect_On effect that by metis
    ultimately show ?thesis using call(2) d by blast
  qed
qed (use assms(4) in auto)

theorem attachment_changes_only_by_holder_witness:
  "\<exists>s t. conc_step (performs store_client) (controller_script TYPE(api_event list) ex_driver no_globals) s t \<and>
     c_world s ex_id = Free \<and> c_world t ex_id = Attaching ''vm-1'' \<and> (\<exists>i p. c_session s i = Some p \<and> s_key p = ex_id)"
proof -
  obtain s where s: "conc_reachable (performs store_client) (controller_script TYPE(api_event list) ex_driver no_globals) free_places s"
      "c_world s = free_places"
      "c_session s 0 = Some \<lparr>s_label = (RpcPublish ex_publish, Inr ()), s_key = ex_id, s_done = take 2 publish_events,
        s_rest = ev_AttachDisks [ex_id] ''vm-1'' (Inr ()) # drop 3 publish_events\<rparr>"
    using ex_before_attach by blast
  have perf: "performs store_client (c_world s) (ev_AttachDisks [ex_id] ''vm-1'' (Inr ())) (vm1_places (Attaching ''vm-1''))"
    by (simp add: s(2) store_client_def vm1_places_def)
  obtain t where step: "conc_step (performs store_client) (controller_script TYPE(api_event list) ex_driver no_globals) s t"
      and t: "c_world t = vm1_places (Attaching ''vm-1'')"
    using conc_step.call [where performs = "performs store_client", OF s(3) _ perf] by fastforce
  have "id (c_world t) ex_id \<noteq> id (c_world s) ex_id" by (simp add: s(2) t vm1_places_def)
  from attachment_changes_only_by_holder [where place = id and d = ex_id, OF store_attachment_cloud s(1) step this]
  have "\<exists>i p. c_session s i = Some p \<and> s_key p = ex_id" by (simp add: s(2) t vm1_places_def elsewhere_def) blast
  then show ?thesis using step s(2) t by (intro exI [of _ s] exI [of _ t]) (simp add: vm1_places_def)
qed

end
