(* ===== verification/Adequacy.thy ===== *)
theory Adequacy
  imports ConcurrentController
begin

text \<open>
  Serving a request without interruption is a run of the concurrent system. The code of
  the controller reaches the cloud through logged SDK calls only, so its log lists the calls it makes.
\<close>

section \<open>The cloud manager\<close>

lemma follows_wait_loop [follows_intros]: "follows wd lg P f \<Longrightarrow> follows wd lg P (wait_loop n T f)"
  by (induction n) (auto intro!: follows_intros)

lemma follows_WaitFor [follows_intros]: "follows wd lg P f \<Longrightarrow> follows wd lg P (WaitFor ticks f)"
  unfolding WaitFor_def WaitForSpecificOrError_def by (intro follows_intros)

lemma follows_on_fst:
  "follows fst snd P m \<Longrightarrow> follows (\<lambda>s. fst (fst s)) (\<lambda>s. snd (fst s)) P (on_fst m)"
  unfolding follows_def wp_def on_fst_def by (fastforce split: prod.splits)

lemma follows_put_local [follows_intros]: "follows (\<lambda>s. fst (fst s)) (\<lambda>s. snd (fst s)) P (put_local l)"
  by (simp add: follows_def wp_put_local)

lemma follows_with_local [follows_intros]:
  "follows (\<lambda>s. fst (fst s)) (\<lambda>s. snd (fst s)) P m \<Longrightarrow> follows fst snd P (with_local l m)"
  unfolding follows_def wp_with_local by (intro allI, drule spec, erule wp_mono) simp

lemma follows_fetch_pages [follows_intros]:
  "(\<And>k. follows wd lg P (call k)) \<Longrightarrow> follows wd lg P (fetch_pages call n j acc)"
  by (induction n arbitrary: j acc) (auto intro!: follows_intros)

lemma follows_list_pages [follows_intros]:
  "(\<And>k. follows wd lg P (call k)) \<Longrightarrow> follows wd lg P (list_pages call)"
  unfolding list_pages_def by (intro follows_intros)

abbreviation cm_follows :: "'w zec_client \<Rightarrow> ('w \<times> api_event list, 'a) state \<Rightarrow> bool" where
  "cm_follows c m \<equiv> follows fst snd (performs c) m"

lemma follows_api [follows_intros]:
  "cm_follows c (logged (ev_CreateDisks q) (api_CreateDisks c q))"
  "cm_follows c (logged (ev_ReleaseDisk i) (api_ReleaseDisk c i))"
  "cm_follows c (logged (ev_AttachDisks is v) (api_AttachDisks c is v))"
  "cm_follows c (logged (ev_DetachDisks is b) (api_DetachDisks c is b))"
  "cm_follows c (logged (ev_ResizeDisk i n) (api_ResizeDisk c i n))"
  "cm_follows c (logged (ev_DescribeDisks rq) (api_DescribeDisks c rq))"
  "cm_follows c (logged (ev_DescribeInstancesStatus is) (api_DescribeInstancesStatus c is))"
  "cm_follows c (logged (ev_CreateSnapshot s i) (api_CreateSnapshot c s i))"
  "cm_follows c (logged (ev_DeleteSnapshots is) (api_DeleteSnapshots c is))"
  "cm_follows c (logged (ev_DescribeSnapshots sq) (api_DescribeSnapshots c sq))"
  by (rule follows_logged, simp)+

lemma follows_waits [follows_intros]:
  "cm_follows c (waitDiskStatus ticks (traced_client c) st v)"
  "cm_follows c (waitDiskReleased ticks (traced_client c) v)"
  "cm_follows c (waitDiskSnapStatus ticks (traced_client c) st v)"
  unfolding waitDiskStatus_def disk_status_job_def disk_deleted_job_def waitDiskReleased_def disk_released_job_def
    waitDiskSnapStatus_def snap_available_job_def snap_deleted_job_def traced_client_simps
  by (intro follows_intros follows_on_fst)+

lemma follows_FindVolume [follows_intros]:
  assumes "zecClient cm = Some c"
  shows "cm_follows c (FindVolume (traced_cm cm) v)"
  unfolding FindVolume_def traced_cm_simps assms option.map option.case traced_client_simps by (intro follows_intros)

lemma follows_release_loop [follows_intros]:
  assumes "zecClient cm = Some c"
  shows "cm_follows c (release_loop n (traced_cm cm) (traced_client c) v)"
proof (induction n)
  case (Suc n)
  then show ?case unfolding release_loop.simps traced_client_simps Let_def
    by (intro follows_intros assms)
qed (simp add: follows_intros)

lemma follows_cm [follows_intros]:
  assumes "zecClient cm = Some c"
  shows "cm_follows c (CreateVolume_cm (traced_cm cm) name sz dt z grp b)"
    and "cm_follows c (CreateVolumeFromSnapshot_cm (traced_cm cm) name sz dt z grp sid b)"
    and "cm_follows c (DeleteVolume_cm (traced_cm cm) v)"
    and "cm_follows c (AttachVolume (traced_cm cm) v vm)"
    and "cm_follows c (DetachVolume (traced_cm cm) v)"
    and "cm_follows c (ResizeVolume (traced_cm cm) v sz)"
    and "cm_follows c (FindVolumeByName (traced_cm cm) name z sz dt grp)"
    and "cm_follows c (GetVmStatus (traced_cm cm) vm)"
    and "cm_follows c (FindSnapshot (traced_cm cm) sid)"
    and "cm_follows c (FindSnapshotByName (traced_cm cm) name v z grp)"
    and "cm_follows c (CreateSnapshot_cm (traced_cm cm) name v)"
    and "cm_follows c (DeleteSnapshot_cm (traced_cm cm) sid)"
  unfolding CreateVolume_cm_def CreateVolumeFromSnapshot_cm_def create_disks_def DeleteVolume_cm_def AttachVolume_def
    DetachVolume_def ResizeVolume_def FindVolumeByName_def GetVmStatus_def FindSnapshot_def FindSnapshotByName_def
    CreateSnapshot_cm_def DeleteSnapshot_cm_def traced_cm_simps assms option.map option.case traced_client_simps
  by (intro follows_intros assms)+

section \<open>The controller server\<close>

abbreviation srv_follows :: "'w zec_client \<Rightarrow> (('w \<times> api_event list) server, 'a) state \<Rightarrow> bool" where
  "srv_follows c m \<equiv> server_follows (performs c) m"

lemma follows_locked_body:
  assumes client: "zecClient cm = Some c" and cloud: "cs_cloud cs = zec_CloudManager (traced_cm cm)"
    and body: "locked_body cs now q = Some (k, body)"
  shows "srv_follows c body"
proof -
  have "srv_follows c (cv_locked cs req)" "srv_follows c (delete_locked cs v)" "srv_follows c (publish_locked cs v vm)"
    "srv_follows c (unpublish_locked cs v vm)" "srv_follows c (expand_locked cs ereq v)"
    "srv_follows c (snapshot_locked cs now sreq v)" "srv_follows c (delete_snapshot_locked cs sid)"
    for req ereq sreq v vm sid
    unfolding handler_defs cloud zec_CloudManager_def CloudManager.simps Let_def
    by (intro follows_intros client)+
  then show ?thesis
    using body by (cases q) (auto simp: locked_body_def no_result_def intro!: follows_intros split: if_splits sum.splits)
qed


section \<open>A request served alone\<close>

text \<open>C13: Serving a controller request without interruption is a run of the concurrent system: a request that is
  answered at once makes no call; one whose key is locked is answered \<open>Aborted\<close> and changes nothing;
  any other is a session that begins with its key, makes exactly the logged calls on the shared cloud,
  and ends with the same cloud, locks and running requests as the handler leaves.\<close>

theorem served_alone_is_a_session:
  fixes cm :: "'w zecCloudManager"
  assumes "zecClient cm = Some c" "conc_reachable (performs c) (controller_script TYPE('w) D G) w0 s"
    and "i \<notin> fst ` set (c_history s)"
    and "run_state (serve_controller (server_on D G cm) now q) \<lparr>srv_locks = c_locks s, srv_world = (c_world s, [])\<rparr> = (st, t)"
  shows "case locked_body (server_on D G cm) now q of
      None \<Rightarrow> t = \<lparr>srv_locks = c_locks s, srv_world = (c_world s, [])\<rparr>
    | Some (k, body) \<Rightarrow>
        if k \<in> locks (c_locks s) then st = Some Aborted \<and> t = \<lparr>srv_locks = c_locks s, srv_world = (c_world s, [])\<rparr>
        else \<exists>u. conc_reachable (performs c) (controller_script TYPE('w) D G) w0 u \<and> c_world u = fst (srv_world t) \<and>
          locks (c_locks u) = locks (srv_locks t) \<and> c_session u = c_session s \<and>
          c_history u = c_history s @ (i, Begin k) # map (\<lambda>e. (i, Call e)) (srv_log t) @ [(i, End)]"
proof (cases "locked_body (server_on D G cm) now q")
  case None
  then show ?thesis using serve_controller_at_once [OF None] assms(4) by auto
next
  case (Some kb)
  then obtain k body where body: "locked_body (server_on D G cm) now q = Some (k, body)" by (cases kb) auto
  show ?thesis
  proof (cases "k \<in> locks (c_locks s)")
    case True
    then show ?thesis using assms(4) body unfolding serve_controller_locked [OF body] status_of_def
      by (simp add: with_lock_busy)
  next
    case False
    have "srv_follows c body"
      by (rule follows_locked_body [OF assms(1) _ body]) (simp add: server_on_def)
    from locked_run [OF False assms(4) [unfolded serve_controller_locked [OF body]] this] obtain r where
      r: "body_run body (c_locks s\<lparr>locks := insert k (locks (c_locks s))\<rparr>) (c_world s) = (r, srv_log t)"
        "performs_all (performs c) (c_world s) (srv_log t) (fst (srv_world t))" by blast
    have "controller_script TYPE('w) D G (q, r) k (srv_log t)"
      unfolding controller_script_def fst_conv snd_conv using body r(1) by blast
    from session_alone [OF assms(2,3) this False r(2)] keepsD [OF keeps_serve_controller assms(4)]
    show ?thesis using body False by simp
  qed
qed

theorem served_alone_is_a_session_witness:
  "\<exists>u tr. conc_reachable (performs store_client) (controller_script TYPE(places) ex_driver no_globals) (\<lambda>_. Free) u \<and>
     c_world u ex_id = On ''vm-1'' \<and> locks (c_locks u) = {} \<and>
     c_history u = (3, Begin ex_id) # map (\<lambda>e. (3, Call e)) tr @ [(3, End)]"
proof -
  let ?cs = "server_on ex_driver no_globals store_cm"
  let ?run = "run_state (serve_controller ?cs (time_Unix 0) (RpcPublish ex_publish))
    \<lparr>srv_locks = NewResourceLocks, srv_world = (\<lambda>_. Free, [])\<rparr>"
  obtain st t where run: "?run = (st, t)" by (cases ?run)
  have "fst (srv_world (snd ?run)) ex_id = On ''vm-1'' \<and> locks (srv_locks (snd ?run)) = {}" by code_simp
  then have t: "fst (srv_world t) ex_id = On ''vm-1''" "locks (srv_locks t) = {}" using run by simp_all
  have "ValidateControllerServiceRequest ex_driver RPC_PUBLISH_UNPUBLISH_VOLUME" "ValidateVolumeCapability ex_driver ex_cap"
    "ex_vol_id \<noteq> []" by code_simp+
  then have body: "locked_body ?cs (time_Unix 0) (RpcPublish ex_publish) = Some (ex_id, publish_locked ?cs ex_id ''vm-1'')"
    using ex_vol_id_parses by (auto simp: locked_body_def server_on_def ex_publish_def)
  show ?thesis
    using served_alone_is_a_session [OF store_cm_client conc_reachable.init, of 3 "\<lambda>_. Free" ex_driver no_globals
        "time_Unix 0" "RpcPublish ex_publish" st t] run t
    unfolding body by (auto simp: init_conc_def NewResourceLocks_def)
qed

end
