(* ===== verification/AttachmentRefinement.thy ===== *)
theory AttachmentRefinement
  imports ConcurrencyProps Adequacy
begin

text \<open>
  The controller as a refinement of a machine on the places of disks: on an asynchronous cloud with the
  law \<open>attachment_cloud\<close>, serving a request is, for every disk, a step \<open>place_step\<close> of that machine; so is
  every sequence of requests.
\<close>

section \<open>The abstract machine\<close>

text \<open>The disk that a request may attach, detach or release.\<close>

definition request_disk :: "controller_request \<Rightarrow> string option" where
  "request_disk q =
     (case q of
        RpcPublish req \<Rightarrow> (case ParseCsiVolId (pv_VolumeId req) of Inl _ \<Rightarrow> None | Inr (v, _) \<Rightarrow> Some v)
      | RpcUnpublish req \<Rightarrow> (case ParseCsiVolId (uv_VolumeId req) of Inl _ \<Rightarrow> None | Inr (v, _) \<Rightarrow> Some v)
      | RpcDeleteVolume vid \<Rightarrow> (case ParseCsiVolId vid of Inl _ \<Rightarrow> None | Inr (v, _) \<Rightarrow> Some v)
      | _ \<Rightarrow> None)"

text \<open>
  A request changes the place of no disk but its own, and of that one only by what it asks for. When it
  is answered with success on a disk that was not on its way, the disk is on the node after a publish, and
  not on it or on its way to or from it after an unpublish; otherwise, after an error, the transition that the request
  started may still be under way or complete later.
\<close>

definition place_step ::
  "string set \<Rightarrow> controller_request \<Rightarrow> code option \<Rightarrow> string \<Rightarrow> disk_place \<Rightarrow> disk_place \<Rightarrow> bool" where
  "place_step X q st d p p' \<longleftrightarrow>
     (later X p p' \<or> request_disk q = Some d \<and> holder_effect X q p p') \<and>
     (st = None \<and> request_disk q = Some d \<and> settled p \<longrightarrow>
        (case q of
           RpcPublish req \<Rightarrow> pv_NodeId req \<notin> X \<longrightarrow> p' = On (pv_NodeId req)
         | RpcUnpublish req \<Rightarrow> uv_NodeId req \<notin> X \<longrightarrow> \<not> with_instance (uv_NodeId req) p'
         | _ \<Rightarrow> True))"

section \<open>The requests are steps\<close>

text \<open>A request that gets its lock: the calls of its log are those it makes.\<close>

lemma served_calls:
  assumes "locked_body cs now q = Some (k, body)" "run_state (serve_controller cs now q) s = (st, t)"
    and "logs srv_log Q body" "server_follows P body"
  shows "st = Some Aborted \<and> t = s \<or>
    (\<exists>r ext. Q r ext \<and> performs_all P (fst (srv_world s)) ext (fst (srv_world t)) \<and>
       st = (case r of Inl e \<Rightarrow> Some e | Inr _ \<Rightarrow> None))"
proof (cases "k \<in> srv_held s")
  case True
  then show ?thesis
    using assms(2) unfolding serve_controller_locked [OF assms(1)] status_of_def by (simp add: with_lock_busy)
next
  case False
  let ?s = "s\<lparr>srv_locks := srv_locks s\<lparr>locks := insert k (srv_held s)\<rparr>\<rparr>"
  obtain r u where u: "run_state body ?s = (r, u)" by (cases "run_state body ?s")
  then have t: "srv_world t = srv_world u" "st = (case r of Inl e \<Rightarrow> Some e | Inr _ \<Rightarrow> None)"
    using assms(2) False unfolding serve_controller_locked [OF assms(1)]
    by (auto simp: status_of_def with_lock_def on_locks_TryAcquire on_locks_Release split: prod.splits)
  obtain ext where "srv_log u = srv_log s @ ext" "Q r ext" "performs_all P (fst (srv_world s)) ext (fst (srv_world u))"
    using logsD [OF assms(3) u] followsD [OF assms(4) u] by auto
  then show ?thesis using t by (intro disjI2 exI [of _ r] exI [of _ ext]) simp
qed

text \<open>A publish answered at once is an error, an unpublish is not about a disk.\<close>

lemma at_once_publish:
  "locked_body cs now (RpcPublish req) = None \<Longrightarrow> run_state (serve_controller cs now (RpcPublish req)) s = (st, t) \<Longrightarrow>
   st \<noteq> None"
  by (auto simp: locked_body_def serve_controller_def status_of_return ControllerPublishVolume_def
    split: if_splits option.splits sum.splits prod.splits)

lemma at_once_unpublish:
  "locked_body cs now (RpcUnpublish req) = None \<Longrightarrow> run_state (serve_controller cs now (RpcUnpublish req)) s = (st, t) \<Longrightarrow>
   st = None \<Longrightarrow> request_disk (RpcUnpublish req) = None"
  by (auto simp: locked_body_def serve_controller_def status_of_return ControllerUnpublishVolume_def request_disk_def
    split: if_splits option.splits sum.splits prod.splits)

lemma place_step_at_once:
  assumes "locked_body cs now q = None" "run_state (serve_controller cs now q) s = (st, t)"
  shows "place_step X q st d p p"
proof (cases q)
  case (RpcPublish req)
  then show ?thesis using at_once_publish [OF assms [unfolded RpcPublish]] by (auto simp: place_step_def)
next
  case (RpcUnpublish req)
  then show ?thesis using at_once_unpublish [OF assms [unfolded RpcUnpublish]] by (auto simp: place_step_def)
qed (simp_all add: place_step_def)

text \<open>The key that a request about a disk locks is the disk.\<close>

lemma locked_body_disk:
  "locked_body cs now q = Some (k, body) \<Longrightarrow>
   (case q of RpcPublish _ \<Rightarrow> True | RpcUnpublish _ \<Rightarrow> True | RpcDeleteVolume _ \<Rightarrow> True | _ \<Rightarrow> False) \<Longrightarrow> request_disk q = Some k"
  by (cases q) (auto simp: locked_body_def request_disk_def split: if_splits option.splits sum.splits)

lemma holder_effect_disk:
  "locked_body cs now q = Some (k, body) \<Longrightarrow> holder_effect X q p p' \<Longrightarrow> request_disk q = Some k"
  by (rule locked_body_disk) (cases q; simp)+

text \<open>The calls of a request, one after the other.\<close>

lemma obeys_effect:
  assumes "obeys q d None evs"
  shows "evs = ds @ es \<Longrightarrow> y \<in> learned X d {x} ds \<Longrightarrow> later X x y \<or> holder_effect X q x y"
proof (induction ds arbitrary: es y rule: rev_induct)
  case (snoc e ds)
  then have "y \<in> learn X d (learned X d {x} ds) e" by simp
  then obtain z where z: "z \<in> learned X d {x} ds" "y \<in> learn X d {z} e" unfolding learn_def by blast
  have "allowed q d (observed d None ds) e" using assms snoc.prems(1) by simp
  moreover have "z \<in> learned X d UNIV ds" using z(1) learned_mono [of "{x}" UNIV X d ds] by blast
  ultimately have "later X z y \<or> holder_effect X q z y" using z(2) by (rule holder_step)
  moreover have "later X x z \<or> holder_effect X q x z" using snoc.IH [of "e # es"] snoc.prems(1) z(1) by simp
  ultimately show ?case by (meson later_trans holder_effect_trans)
qed simp

lemma place_step_calls:
  assumes "locked_body cs now q = Some (k, body)" "obeys q k None ext" "concluded q k r ext"
    and "p' \<in> learned X d {p} ext" "st = (case r of Inl e \<Rightarrow> Some e | Inr _ \<Rightarrow> None)"
  shows "place_step X q st d p p'"
proof (cases "d = k")
  case False
  have "\<forall>e \<in> set ext. d \<notin> touches e" using obeys_touches [OF assms(2)] False by blast
  then have "later X p p'" using learned_still [of ext d X "{p}"] assms(4) by (auto simp: ahead_def)
  moreover have "request_disk q \<noteq> Some d" if "case q of RpcPublish _ \<Rightarrow> True | RpcUnpublish _ \<Rightarrow> True | _ \<Rightarrow> False"
    using locked_body_disk [OF assms(1)] that False by (cases q) auto
  ultimately show ?thesis by (cases q) (auto simp: place_step_def)
next
  case True
  have "later X p p' \<or> request_disk q = Some d \<and> holder_effect X q p p'"
    using obeys_effect [OF assms(2), of ext "[]" p' X p] assms(4) holder_effect_disk [OF assms(1)] True by auto
  moreover have "case q of
           RpcPublish req \<Rightarrow> pv_NodeId req \<notin> X \<longrightarrow> p' = On (pv_NodeId req)
         | RpcUnpublish req \<Rightarrow> uv_NodeId req \<notin> X \<longrightarrow> \<not> with_instance (uv_NodeId req) p'
         | _ \<Rightarrow> True" if "st = None" "settled p"
  proof -
    have "r = Inr ()" using that(1) assms(5) by (cases r) auto
    then show ?thesis using assms(3,4) that(2) True published_settled [of d _ ext X "{p}"] unpublished_settled [of d _ ext X "{p}" p']
      by (auto simp: concluded_def split: controller_request.splits)
  qed
  ultimately show ?thesis by (auto simp: place_step_def)
qed

lemma serve_controller_places:
  assumes "attachment_cloud X c place" "zecClient cm = Some c"
    and "run_state (serve_controller (server_on D G cm) now q) s = (st, t)"
  shows "place_step X q st d (place (fst (srv_world s)) d) (place (fst (srv_world t)) d)"
proof (cases "locked_body (server_on D G cm) now q")
  case None
  then have "t = s" using serve_controller_at_once [OF None] assms(3) by auto
  then show ?thesis using place_step_at_once [OF None assms(3)] by simp
next
  case (Some kb)
  then obtain k body where body: "locked_body (server_on D G cm) now q = Some (k, body)" by (cases kb) auto
  have cloud: "cs_cloud (server_on D G cm) = zec_CloudManager (traced_cm cm)" by (simp add: server_on_def)
  from served_calls [OF body assms(3) logs_locked_body [OF cloud body] follows_locked_body [OF assms(2) cloud body]]
  consider (busy) "st = Some Aborted" "t = s"
    | (served) r ext where "obeys q k None ext" "concluded q k r ext"
        "performs_all (performs c) (fst (srv_world s)) ext (fst (srv_world t))" "st = (case r of Inl e \<Rightarrow> Some e | Inr _ \<Rightarrow> None)"
    by blast
  then show ?thesis
  proof cases
    case busy
    then show ?thesis by (simp add: place_step_def)
  next
    case served
    have "place (fst (srv_world t)) d \<in> learned X d {place (fst (srv_world s)) d} ext"
      by (rule performs_learned [OF assms(1) served(3)]) simp
    then show ?thesis by (rule place_step_calls [OF body served(1,2) _ served(4)])
  qed
qed

text \<open>C4: On an asynchronous cloud with the law \<open>attachment_cloud\<close>, serving any controller request is a step of the
  machine on places, for every disk: apart from the cloud's own moves a request moves no disk but its
  own; a publish attaches only a disk that is or gets free, an unpublish detaches only a disk that is or gets with its node; on a disk
  that was not on its way, a publish answered with success for a node of the cluster (not in \<open>X\<close>)
  leaves it on that node, and an unpublish leaves it neither on the node nor on the way to or from it.\<close>

theorem controller_refines_attachments:
  assumes "attachment_cloud X c place" "zecClient cm = Some c"
    and "run_state (serve_controller (server_on D G cm) now q) s = (st, t)"
  shows "place_step X q st d (place (fst (srv_world s)) d) (place (fst (srv_world t)) d)"
  by (rule serve_controller_places [OF assms])

theorem controller_refines_attachments_witness:
  "fst (srv_world (snd (run_state (serve_controller (server_on ex_driver no_globals store_cm) (time_Unix 0) (RpcPublish ex_publish))
     \<lparr>srv_locks = NewResourceLocks, srv_world = (free_places, [])\<rparr>))) ex_id = On ''vm-1''"
proof -
  let ?run = "run_state (serve_controller (server_on ex_driver no_globals store_cm) (time_Unix 0) (RpcPublish ex_publish))
     \<lparr>srv_locks = NewResourceLocks, srv_world = (free_places, [])\<rparr>"
  obtain st t where run: "?run = (st, t)" by (cases ?run)
  have "fst ?run = None" by code_simp
  moreover have "request_disk (RpcPublish ex_publish) = Some ex_id"
    using ex_vol_id_parses by (simp add: request_disk_def ex_publish_def)
  ultimately show ?thesis
    using controller_refines_attachments [OF store_attachment_cloud store_cm_client run, of ex_id] run
    by (simp add: place_step_def settled_def ex_publish_def)
qed

text \<open>Without the condition that the disk was not on its way the answers say nothing: neither handler looks at
  the status of the disk it has read. On the example cloud a publish is answered with success while the disk is
  being detached from that node, and the disk is free afterwards; an unpublish is answered with
  success while the disk is being attached, and the disk is on the node afterwards.\<close>

theorem success_on_the_way:
  "(case run_state (serve_controller (server_on ex_driver no_globals store_cm) (time_Unix 0) (RpcPublish ex_publish))
      \<lparr>srv_locks = NewResourceLocks, srv_world = (vm1_places (Detaching ''vm-1''), [])\<rparr> of
      (st, t) \<Rightarrow> st = None \<and> fst (srv_world t) ex_id = Free) \<and>
   (case run_state (serve_controller (server_on ex_driver no_globals store_cm) (time_Unix 0) (RpcUnpublish ex_unpublish))
      \<lparr>srv_locks = NewResourceLocks, srv_world = (vm1_places (Attaching ''vm-1''), [])\<rparr> of
      (st, t) \<Rightarrow> st = None \<and> fst (srv_world t) ex_id = On ''vm-1'')"
  by code_simp

section \<open>Histories of requests\<close>

interpretation placing: simulation "serve_controller (server_on D G cm) now" "\<lambda>s d. place (fst (srv_world s)) d"
    "\<lambda>q st P P'. attachment_cloud X c place \<longrightarrow> zecClient cm = Some c \<longrightarrow> (\<forall>d. place_step X q st d (P d) (P' d))"
  for D G now and cm :: "'w zecCloudManager" and X c place
  by unfold_locales (rule tracksI, use serve_controller_places in blast)

lemma place_step_On:
  assumes "place_step X q st d (On u) p'" "u \<notin> X"
    and "request_disk q = Some d \<longrightarrow> (\<forall>vid. q \<noteq> RpcDeleteVolume vid) \<and> (\<forall>req. q = RpcUnpublish req \<longrightarrow> uv_NodeId req \<noteq> u)"
  shows "p' = On u"
  using assms holder_effect_On [of X q u p'] by (auto simp: place_step_def)

text \<open>A disk that is on a node stays there through any sequence of requests, for whatever volumes and nodes
  and whether they succeed or fail, that neither unpublishes that disk from that node nor deletes it.\<close>

theorem attachment_is_stable:
  assumes "attachment_cloud X c place" "zecClient cm = Some c" "u \<notin> X"
    and "\<forall>q \<in> set qs. request_disk q = Some d \<longrightarrow>
      (\<forall>vid. q \<noteq> RpcDeleteVolume vid) \<and> (\<forall>req. q = RpcUnpublish req \<longrightarrow> uv_NodeId req \<noteq> u)"
    and "place (fst (srv_world s)) d = On u"
  shows "place (fst (srv_world (snd (run_state (serve_list (serve_controller (server_on D G cm) now) qs) s)))) d = On u"
proof (rule placing.serve_list_inv [where I = "\<lambda>P. P d = On u" and X = X and c = c])
  fix q st P P'
  assume q: "q \<in> set qs" "attachment_cloud X c place \<longrightarrow> zecClient cm = Some c \<longrightarrow> (\<forall>d. place_step X q st d (P d) (P' d))"
    "P d = On u"
  then have "place_step X q st d (On u) (P' d)" using assms(1,2) by metis
  then show "P' d = On u" by (rule place_step_On [OF _ assms(3)]) (use assms(4) q(1) in blast)
qed (rule assms(5))

theorem attachment_is_stable_witness:
  "fst (srv_world (snd (run_state (serve_list (serve_controller (server_on ex_driver no_globals store_cm) (time_Unix 0))
      [RpcPublish (ex_publish\<lparr>pv_NodeId := ''vm-2''\<rparr>), RpcUnpublish \<lparr>uv_VolumeId = ex_vol_id, uv_NodeId = ''vm-2''\<rparr>])
      \<lparr>srv_locks = NewResourceLocks, srv_world = (vm1_places (On ''vm-1''), [])\<rparr>))) ex_id = On ''vm-1''"
  using attachment_is_stable [OF store_attachment_cloud store_cm_client, of "''vm-1''"
      "[RpcPublish (ex_publish\<lparr>pv_NodeId := ''vm-2''\<rparr>), RpcUnpublish \<lparr>uv_VolumeId = ex_vol_id, uv_NodeId = ''vm-2''\<rparr>]" ex_id
      "\<lparr>srv_locks = NewResourceLocks, srv_world = (vm1_places (On ''vm-1''), [])\<rparr>" ex_driver no_globals "time_Unix 0"]
  by (simp add: vm1_places_def)

end
