(* ===== verification/MountTable.thy ===== *)
theory MountTable
  imports Abstraction NodeProps
begin

text \<open>
  The node server as a refinement of a machine on mount tables. The abstract state is the set of
  mounted paths; a request that mounts inserts its path, a request that unmounts removes it. What
  the proofs rely on in the environment is \<open>mount_table\<close>: only \<open>Mount\<close> and \<open>CleanupMountPoint\<close>
  change the table, and a path that is reported as mounted is mounted.
\<close>

section \<open>The contract of the environment\<close>

definition quiet_command :: "string \<Rightarrow> bool" where
  "quiet_command c \<longleftrightarrow> c \<in> {''lsblk'', ''fsck'', ''blockdev''} \<or> strings_HasPrefix c ''mkfs.''"

definition mount_table :: "'w node_env \<Rightarrow> ('w \<Rightarrow> string set) \<Rightarrow> bool" where
  "mount_table env tbl \<longleftrightarrow>
     (\<forall>src tgt fs opts M. tracks tbl M (mnt_Mount env src tgt fs opts) (\<lambda>ok M'. M' = (if ok then insert tgt M else M))) \<and>
     (\<forall>p M. tracks tbl M (mnt_CleanupMountPoint env p True) (\<lambda>ok M'. M' = M - {p} \<or> (\<not> ok \<and> M' = M))) \<and>
     (\<forall>p M. tracks tbl M (mnt_IsMountPoint env p) (\<lambda>r M'. M' = M \<and> (r = Inr True \<longrightarrow> p \<in> M))) \<and>
     (\<forall>p M. tracks tbl M (mnt_IsLikelyNotMountPoint env p) (\<lambda>r M'. M' = M \<and> (r = Inr False \<longrightarrow> p \<in> M))) \<and>
     (\<forall>c a. quiet_command c \<longrightarrow> keeps tbl (mnt_Exec env c a)) \<and>
     (\<forall>a. keeps tbl (os_Exec env ''blkid'' a)) \<and> (\<forall>d. keeps tbl (mnt_GetDiskFormat env d)) \<and>
     (\<forall>d p. keeps tbl (mnt_NeedResize env d p)) \<and> (\<forall>d p. keeps tbl (mnt_Resize env d p)) \<and>
     (\<forall>p. keeps tbl (os_Stat env p)) \<and> (\<forall>p. keeps tbl (os_MkdirAll env p)) \<and>
     (\<forall>p. keeps tbl (os_CreateFile env p)) \<and> (\<forall>p. keeps tbl (os_ReadFile env p))"

lemma mount_tableD:
  assumes "mount_table env tbl"
  shows "tracks tbl M (mnt_Mount env src tgt fs opts) (\<lambda>ok M'. M' = (if ok then insert tgt M else M))"
    and "tracks tbl M (mnt_CleanupMountPoint env p True) (\<lambda>ok M'. M' = M - {p} \<or> (\<not> ok \<and> M' = M))"
    and "tracks tbl M (mnt_IsMountPoint env p) (\<lambda>r M'. M' = M \<and> (r = Inr True \<longrightarrow> p \<in> M))"
    and "tracks tbl M (mnt_IsLikelyNotMountPoint env p) (\<lambda>r M'. M' = M \<and> (r = Inr False \<longrightarrow> p \<in> M))"
  using assms by (auto simp: mount_table_def)

lemma mount_table_keeps:
  assumes "mount_table env tbl"
  shows "quiet_command c \<Longrightarrow> keeps tbl (mnt_Exec env c a)" "keeps tbl (os_Exec env ''blkid'' a)"
    "keeps tbl (mnt_GetDiskFormat env d)" "keeps tbl (mnt_NeedResize env d p)" "keeps tbl (mnt_Resize env d p)"
    "keeps tbl (os_Stat env p)" "keeps tbl (os_MkdirAll env p)" "keeps tbl (os_CreateFile env p)"
    "keeps tbl (os_ReadFile env p)"
  using assms by (auto simp: mount_table_def)

lemma quiet_commands [simp]:
  "quiet_command ''lsblk''" "quiet_command ''fsck''" "quiet_command ''blockdev''" "quiet_command (''mkfs.'' @ fs)"
  by (simp_all add: quiet_command_def strings_HasPrefix_def)

lemma keeps_scan_devs:
  assumes "mount_table env tbl"
  shows "keeps tbl (scan_devs env serial devs devpath)"
proof (induction devs arbitrary: devpath)
  case Nil
  then show ?case by (simp add: keeps_return)
next
  case (Cons dev devs)
  then show ?case using mount_table_keeps [OF assms] by (auto intro!: keeps_intros)
qed

lemma keeps_getDevPathBySerial: "mount_table env tbl \<Longrightarrow> keeps tbl (getDevPathBySerial env serial)"
  unfolding getDevPathBySerial_def
  by (intro keeps_intros keeps_scan_devs mount_table_keeps) auto

lemma keeps_createTarget: "mount_table env tbl \<Longrightarrow> keeps tbl (createTargetMountPathIfNotExists env p b)"
  unfolding createTargetMountPathIfNotExists_def
  by (intro keeps_intros mount_table_keeps) (auto intro!: keeps_intros mount_table_keeps split: os_error.split)

section \<open>The helpers\<close>

text \<open>Mounting ends with the target mounted, or with an error and the table unchanged.\<close>

abbreviation mounts_or_not :: "string \<Rightarrow> string set \<Rightarrow> mount_error + unit \<Rightarrow> string set \<Rightarrow> bool" where
  "mounts_or_not tgt M r M' \<equiv> M' = (case r of Inr _ \<Rightarrow> insert tgt M | Inl _ \<Rightarrow> M)"

lemma tracks_FormatNewDisk:
  assumes "mount_table env tbl"
  shows "tracks tbl M (FormatNewDisk env ro src fs tgt mo opts) (mounts_or_not tgt M)"
  unfolding FormatNewDisk_def Let_def
  by (intro tracks_cases tracks_bind [OF mount_tableD(1) [OF assms]] tracks_keeps_bind [OF mount_table_keeps(1) [OF assms]])
    (auto simp: quiet_command_def strings_HasPrefix_def)

lemma tracks_mount_failed:
  assumes "mount_table env tbl"
  shows "tracks tbl M (mount_failed env ro src tgt fs mo opts) (mounts_or_not tgt M)"
proof -
  have "keeps tbl (GetDiskFStypePTtype env src)"
    unfolding GetDiskFStypePTtype_def
    by (intro keeps_intros mount_table_keeps [OF assms]) (auto intro!: keeps_intros split: exec_error.split)
  then show ?thesis
    unfolding mount_failed_def
    by (intro tracks_cases tracks_keeps_bind mount_table_keeps [OF assms] tracks_FormatNewDisk [OF assms]) auto
qed

lemma tracks_FormatAndMount:
  assumes "mount_table env tbl"
  shows "tracks tbl M (FormatAndMount env src tgt fs mo opts omit) (mounts_or_not tgt M)"
proof -
  have "keeps tbl (if b then run_fsck env src else State_Monad.return True)" for b
    unfolding run_fsck_def by (intro keeps_intros mount_table_keeps [OF assms]) auto
  then show ?thesis
    unfolding FormatAndMount_def Let_def
    by (intro tracks_cases tracks_bind [OF mount_tableD(1) [OF assms]] tracks_keeps_bind)
      (auto intro: tracks_mount_failed [OF assms])
qed

section \<open>The abstract machine\<close>

datatype mount_request =
    Stage NodeStageRequest
  | Unstage string string
  | Publish NodePublishRequest
  | Unpublish string string

definition serve_mount :: "'w NodeServer \<Rightarrow> mount_request \<Rightarrow> ('w server, code + unit) state" where
  "serve_mount ns q =
     (case q of
        Stage req \<Rightarrow> NodeStageVolume ns req
      | Unstage vid p \<Rightarrow> NodeUnstageVolume ns vid p
      | Publish req \<Rightarrow> NodePublishVolume ns req
      | Unpublish vid p \<Rightarrow> NodeUnpublishVolume ns vid p)"

fun request_path :: "mount_request \<Rightarrow> string" where
  "request_path (Stage req) = nst_StagingTargetPath req"
| "request_path (Unstage vid p) = p"
| "request_path (Publish req) = np_TargetPath req"
| "request_path (Unpublish vid p) = p"

text \<open>What a request is for: mounting its path, unmounting it, or, for the staging of a block volume,
  nothing.\<close>

datatype mount_effect = Mounts | Unmounts | Nothing

fun request_effect :: "mount_request \<Rightarrow> mount_effect" where
  "request_effect (Stage req) =
     (if map_option cap_AccessType (nst_VolumeCapability req) = Some AccessType_Block then Nothing else Mounts)"
| "request_effect (Publish req) = Mounts"
| "request_effect (Unstage vid p) = Unmounts"
| "request_effect (Unpublish vid p) = Unmounts"

fun apply_effect :: "mount_effect \<Rightarrow> string \<Rightarrow> string set \<Rightarrow> string set" where
  "apply_effect Mounts p M = insert p M"
| "apply_effect Unmounts p M = M - {p}"
| "apply_effect Nothing p M = M"

text \<open>A request that succeeds has its effect. One that fails has none, or, if the failure is
  \<open>Internal\<close>, it may have had its effect before it failed.\<close>

definition mount_step :: "mount_request \<Rightarrow> code + unit \<Rightarrow> string set \<Rightarrow> string set \<Rightarrow> bool" where
  "mount_step q r M M' \<longleftrightarrow>
     M' = apply_effect (request_effect q) (request_path q) M \<and> r \<in> {Inr (), Inl Internal} \<or> M' = M \<and> isl r"

lemma mount_step_error: "mount_step q (Inl e) M M"
  by (simp add: mount_step_def)

lemma tracks_unmount:
  assumes "mount_table env tbl" "request_effect q = Unmounts" "request_path q = p"
  shows "tracks (\<lambda>s. tbl (srv_world s)) M
    (with_lock k Aborted (State_Monad.bind (on_world (mnt_CleanupMountPoint env p True))
      (\<lambda>ok. State_Monad.return (if ok then Inr () else Inl Internal)))) (\<lambda>r. mount_step q r M)"
  by (intro tracks_with_lock tracks_bind [OF tracks_on_world [OF mount_tableD(2) [OF assms(1)]]] tracks_return mount_step_error)
    (auto simp: mount_step_def assms)

lemma tracks_mounted:
  assumes "mount_table env tbl"
  shows "tracks (\<lambda>s. tbl (srv_world s)) M
    (if b then on_world (mnt_IsMountPoint env p)
     else State_Monad.bind (on_world (mnt_IsLikelyNotMountPoint env p)) (\<lambda>notMnt. State_Monad.return (map_sum id Not notMnt)))
    (\<lambda>r M'. M' = M \<and> (r = Inr True \<longrightarrow> p \<in> M))"
proof (cases b)
  case True
  then show ?thesis using tracks_on_world [OF mount_tableD(3) [OF assms]] by simp
next
  case False
  then show ?thesis
    by (auto intro!: tracks_bind [OF tracks_on_world [OF mount_tableD(4) [OF assms]]] tracks_return)
qed

lemma tracks_node_publish_mount:
  assumes "mount_table (ns_env ns) tbl"
  shows "tracks (\<lambda>s. tbl (srv_world s)) M (node_publish_mount ns req cap src) (\<lambda>r. mount_step (Publish req) r M)"
  unfolding node_publish_mount_def Let_def
  by (intro tracks_cases tracks_bind [OF tracks_mounted [OF assms]]
      tracks_bind [OF tracks_on_world [OF mount_tableD(1) [OF assms]]]
      tracks_keeps_bind [OF keeps_on_world_of [OF keeps_createTarget [OF assms]]])
    (auto simp: mount_step_def insert_absorb)

lemma tracks_NodePublishVolume:
  assumes "mount_table (ns_env ns) tbl"
  shows "tracks (\<lambda>s. tbl (srv_world s)) M (NodePublishVolume ns req) (\<lambda>r. mount_step (Publish req) r M)"
  unfolding NodePublishVolume_def node_publish_locked_def
  by (intro tracks_cases tracks_with_lock mount_step_error tracks_node_publish_mount [OF assms]
      tracks_keeps_bind [OF keeps_on_world_of [OF keeps_getDevPathBySerial [OF assms]]])

lemma tracks_stage_device:
  assumes "mount_table (ns_env ns) tbl" "request_effect q = Mounts" "request_path q = tgt"
  shows "tracks (\<lambda>s. tbl (srv_world s)) M (stage_device ns mnt fs dev tgt) (\<lambda>r. mount_step q r M)"
  unfolding stage_device_def
  by (intro tracks_cases tracks_bind [OF tracks_on_world [OF tracks_FormatAndMount [OF assms(1)]]]
      tracks_keeps_bind [OF keeps_on_world_of [OF mount_table_keeps(4) [OF assms(1)]]]
      tracks_keeps_bind [OF keeps_on_world_of [OF mount_table_keeps(5) [OF assms(1)]]])
    (auto simp: mount_step_def assms)

lemma tracks_stage_path_free:
  assumes "mount_table env tbl"
  shows "tracks tbl M (stage_path_free env p) (\<lambda>r M'. M' = M \<and> (r = Some False \<longrightarrow> p \<in> M))"
  unfolding stage_path_free_def
  by (intro tracks_cases tracks_bind [OF mount_tableD(4) [OF assms]])
    (auto intro!: tracks_return tracks_keeps_bind [OF mount_table_keeps(7) [OF assms]] split: os_error.split if_splits)

lemma tracks_NodeStageVolume:
  assumes "mount_table (ns_env ns) tbl"
  shows "tracks (\<lambda>s. tbl (srv_world s)) M (NodeStageVolume ns req) (\<lambda>r. mount_step (Stage req) r M)"
proof -
  let ?p = "nst_StagingTargetPath req"
  have locked: "tracks (\<lambda>s. tbl (srv_world s)) M (stage_locked ns cap serial ?p) (\<lambda>r. mount_step (Stage req) r M)"
    if "request_effect (Stage req) = Mounts" for cap serial
    unfolding stage_locked_def Let_def
    by (intro tracks_cases mount_step_error
        tracks_bind [OF tracks_on_world [OF tracks_stage_path_free [OF assms]]]
        tracks_keeps_bind [OF keeps_on_world_of [OF keeps_getDevPathBySerial [OF assms]]])
      (auto simp: mount_step_def insert_absorb that intro!: tracks_stage_device [OF assms that, simplified mount_step_def])
  show ?thesis
    unfolding NodeStageVolume_def
    by (intro tracks_cases tracks_with_lock mount_step_error locked) (auto simp: mount_step_def)
qed

lemma tracks_serve_mount:
  assumes "mount_table (ns_env ns) tbl"
  shows "tracks (\<lambda>s. tbl (srv_world s)) M (serve_mount ns q) (\<lambda>r. mount_step q r M)"
proof (cases q)
  case (Unstage vid p)
  then show ?thesis
    unfolding serve_mount_def NodeUnstageVolume_def unmount_locked_def
    by (auto intro!: tracks_cases mount_step_error tracks_unmount [OF assms])
next
  case (Unpublish vid p)
  then show ?thesis
    unfolding serve_mount_def NodeUnpublishVolume_def unmount_locked_def
    by (auto intro!: tracks_cases mount_step_error tracks_unmount [OF assms])
qed (simp_all add: serve_mount_def tracks_NodeStageVolume [OF assms] tracks_NodePublishVolume [OF assms])

text \<open>C8: On a node where only \<open>Mount\<close> and \<open>CleanupMountPoint\<close> change the mount table, every stage,
  unstage, publish and unpublish request is a step of the machine on mount tables: a request that
  succeeds inserts or removes exactly its own path, and a request that fails leaves the table as it
  was, unless it fails with \<open>Internal\<close> after its effect.\<close>

theorem node_refines_mount_table:
  assumes "mount_table (ns_env ns) tbl" "run_state (serve_mount ns q) s = (r, t)"
  shows "mount_step q r (tbl (srv_world s)) (tbl (srv_world t))"
  using tracksD [OF tracks_serve_mount [OF assms(1)] assms(2)] .

definition ex_table :: "node_world \<Rightarrow> string set" where
  "ex_table w = set (nw_mounts w)"

lemma ex_mount_table: "mount_table ex_env ex_table"
  unfolding mount_table_def ex_env_def
  by (auto simp: tracks_def wp_simps keeps_def ex_table_def split: if_splits)

theorem node_refines_mount_table_witness:
  "mount_step (Publish ex_node_publish) (Inr ()) {''/stage''} {''/stage'', ''/pod''}"
proof -
  let ?s = "\<lparr>srv_locks = NewResourceLocks, srv_world = \<lparr>nw_format = ''xfs'', nw_mounts = [''/stage'']\<rparr>\<rparr>"
  let ?run = "run_state (serve_mount ex_node (Publish ex_node_publish)) ?s"
  obtain r t where run: "?run = (r, t)" by (cases ?run)
  have "fst ?run = Inr () \<and> nw_mounts (srv_world (snd ?run)) = [''/pod'', ''/stage'']" by code_simp
  then show ?thesis
    using node_refines_mount_table [OF _ run, of ex_table] ex_mount_table run
    by (simp add: ex_node_def ex_table_def insert_commute)
qed

section \<open>Histories of requests\<close>

lemma mount_simulation:
  "mount_table (ns_env ns) tbl \<Longrightarrow> simulation (serve_mount ns) (\<lambda>s. tbl (srv_world s)) mount_step"
  by (rule simulation.intro) (rule tracks_serve_mount)

text \<open>The request, with its answer, cannot have put the path into the other state: it is about another
  path, has no effect on the table or this effect, or its answer says that it had none.\<close>

definition not_opposed :: "string \<Rightarrow> mount_effect \<Rightarrow> mount_request \<times> (code + unit) \<Rightarrow> bool" where
  "not_opposed p e qr \<longleftrightarrow> request_path (fst qr) \<noteq> p \<or> request_effect (fst qr) \<in> {Nothing, e} \<or>
     snd qr \<notin> {Inr (), Inl Internal}"

lemma mount_step_keeps:
  assumes "mount_step q r M M'" "not_opposed p e (q, r)" "e \<noteq> Nothing" "p \<in> M \<longleftrightarrow> e = Mounts"
  shows "p \<in> M' \<longleftrightarrow> e = Mounts"
  using assms by (cases "request_effect q"; cases e) (auto simp: mount_step_def not_opposed_def)

lemma mount_run_keeps:
  "step_run mount_step qrs M M' \<Longrightarrow> \<forall>qr \<in> set qrs. not_opposed p e qr \<Longrightarrow> e \<noteq> Nothing \<Longrightarrow>
   p \<in> M \<longleftrightarrow> e = Mounts \<Longrightarrow> p \<in> M' \<longleftrightarrow> e = Mounts"
proof (induction qrs arbitrary: M)
  case (Cons qr qrs)
  obtain q r where qr: "qr = (q, r)" by (cases qr)
  with Cons.prems(1) obtain M1 where "mount_step q r M M1" and rest: "step_run mount_step qrs M1 M'" by auto
  then have "p \<in> M1 \<longleftrightarrow> e = Mounts" using mount_step_keeps Cons.prems(2-4) qr by simp
  with Cons.IH [OF rest] Cons.prems(2,3) show ?case by simp
qed simp

text \<open>C22: After any sequence of requests to a node, a successful publish or file system stage has left its
  path mounted, and a successful unpublish or unstage has left it not mounted, unless a later
  request about the same path with the opposite effect succeeded, or failed with the code
  \<open>Internal\<close>, which leaves open whether it had its effect. Requests about other paths, repeated
  requests (failed ones too) and requests that are refused with any other code do not matter.\<close>

theorem last_request_decides:
  assumes "mount_table (ns_env ns) tbl" "run_state (serve_list (serve_mount ns) (before @ q # later)) s = (rs, t)"
    and "rs ! length before = Inr ()" "request_effect q \<noteq> Nothing"
    and "\<forall>(q', r') \<in> set (zip later (drop (Suc (length before)) rs)). request_path q' = request_path q \<longrightarrow>
      request_effect q' \<in> {Nothing, request_effect q} \<or> r' \<notin> {Inr (), Inl Internal}"
  shows "request_path q \<in> tbl (srv_world t) \<longleftrightarrow> request_effect q = Mounts"
proof -
  from simulation.serve_list_run [OF mount_simulation [OF assms(1)] assms(2)]
  have len: "length rs = length (before @ q # later)"
    and run: "step_run mount_step (zip (before @ q # later) rs) (tbl (srv_world s)) (tbl (srv_world t))" by auto
  obtain rs1 rs2 where rs: "rs = rs1 @ Inr () # rs2" "length rs1 = length before"
    using id_take_nth_drop [of "length before" rs] assms(3) len by auto
  then have "zip (before @ q # later) rs = zip before rs1 @ (q, Inr ()) # zip later rs2" by simp
  with run obtain M1 M2 where step: "mount_step q (Inr ()) M1 M2" and rest: "step_run mount_step (zip later rs2) M2 (tbl (srv_world t))"
    by (auto simp: step_run_append)
  have "request_path q \<in> M2 \<longleftrightarrow> request_effect q = Mounts"
    using step assms(4) by (cases "request_effect q") (auto simp: mount_step_def)
  moreover have "\<forall>qr \<in> set (zip later rs2). not_opposed (request_path q) (request_effect q) qr"
    using assms(5) rs by (fastforce simp: not_opposed_def)
  ultimately show ?thesis using mount_run_keeps [OF rest] assms(4) by blast
qed

theorem last_request_decides_witness:
  "''/pod'' \<notin> ex_table (srv_world (snd (run_state
     (serve_list (serve_mount ex_node) ([Stage ex_stage, Publish ex_node_publish] @ Unpublish ex_vol_id ''/pod'' #
        [Publish (ex_node_publish\<lparr>np_VolumeId := []\<rparr>), Unstage ex_vol_id ''/stage'']))
     \<lparr>srv_locks = NewResourceLocks, srv_world = \<lparr>nw_format = [], nw_mounts = []\<rparr>\<rparr>)))"
proof -
  let ?s = "\<lparr>srv_locks = NewResourceLocks, srv_world = \<lparr>nw_format = [], nw_mounts = []\<rparr>\<rparr>"
  let ?later = "[Publish (ex_node_publish\<lparr>np_VolumeId := []\<rparr>), Unstage ex_vol_id ''/stage'']"
  let ?run = "run_state (serve_list (serve_mount ex_node) ([Stage ex_stage, Publish ex_node_publish] @
    Unpublish ex_vol_id ''/pod'' # ?later)) ?s"
  obtain rs t where run: "?run = (rs, t)" by (cases ?run)
  have "fst ?run = [Inr (), Inr (), Inr (), Inl InvalidArgument, Inr ()]" by code_simp
  then have rs: "rs = [Inr (), Inr (), Inr (), Inl InvalidArgument, Inr ()]" using run by simp
  have "mount_table (ns_env ex_node) ex_table" using ex_mount_table by (simp add: ex_node_def)
  then show ?thesis using last_request_decides [OF _ run] run rs by simp
qed

end
