(* ===== verification/ConcurrentExpand.thy ===== *)
theory ConcurrentExpand
  imports ConcurrencyProps
begin

text \<open>
  Sizes of disks under concurrent requests: what an expansion has read about the size of its disk
  stays true until its own resize, so it never asks the cloud for a smaller disk, whatever other
  requests do at the same time; and when it is answered with success, the disk has the size that was asked for.
\<close>

section \<open>What a request knows about the size of its disk\<close>

fun shows_size :: "string \<Rightarrow> api_event \<Rightarrow> int64 option" where
  "shows_size k (ev_DescribeDisks q (Inr (Some p))) =
     (if q = describe_by_id k \<and> TotalCount p = Some 1
      then map_option (\<lambda>d. ZecVolume_Size (toZecVolume d)) (first_item p) else None)"
| "shows_size k _ = None"

text \<open>An accepted resize tells the size, a refused one and a release forget it, and reading tells it when it
  is not known yet.\<close>

fun observe_size :: "string \<Rightarrow> int64 option \<Rightarrow> api_event \<Rightarrow> int64 option" where
  "observe_size k kn (ev_ResizeDisk _ n a) = (if isl a then None else Some n)"
| "observe_size k kn (ev_ReleaseDisk _ _) = None"
| "observe_size k kn e = (if kn = None then shows_size k e else kn)"

abbreviation sized :: "string \<Rightarrow> int64 option \<Rightarrow> api_event list \<Rightarrow> int64 option" where
  "sized k \<equiv> foldl (observe_size k)"

text \<open>A resize only by an expansion, only of its disk, and only to a size above the one it knows.\<close>

fun size_allowed :: "controller_request \<Rightarrow> string \<Rightarrow> int64 option \<Rightarrow> api_event \<Rightarrow> bool" where
  "size_allowed q k kn (ev_ResizeDisk i n _) \<longleftrightarrow>
     i = k \<and> (\<exists>req. q = RpcExpand req) \<and> (\<exists>m. kn = Some m \<and> GibToByte m < GibToByte n)"
| "size_allowed q k kn (ev_ReleaseDisk i _) \<longleftrightarrow> i = k \<and> (\<exists>vid. q = RpcDeleteVolume vid)"
| "size_allowed q k kn _ \<longleftrightarrow> True"

abbreviation obeys_size :: "controller_request \<Rightarrow> string \<Rightarrow> int64 option \<Rightarrow> api_event list \<Rightarrow> bool" where
  "obeys_size q k \<equiv> obeys_by (size_allowed q k) (observe_size k)"

text \<open>The size is large enough for the request.\<close>

definition large_enough :: "ExpandVolumeRequest \<Rightarrow> int64 \<Rightarrow> bool" where
  "large_enough req m \<longleftrightarrow>
     (\<forall>rng. ev_CapacityRange req = Some rng \<longrightarrow> no_overflow rng \<longrightarrow> RequiredBytes rng \<le> GibToByte m)"

definition size_concluded :: "controller_request \<Rightarrow> code + unit \<Rightarrow> int64 option \<Rightarrow> bool" where
  "size_concluded q r kn \<longleftrightarrow>
     (\<forall>req. q = RpcExpand req \<longrightarrow> r = Inr () \<longrightarrow> (\<exists>m. kn = Some m \<and> large_enough req m))"

section \<open>The handlers obey\<close>

lemma size_allowed_read: "\<not> is_write e \<Longrightarrow> size_allowed q k kn e"
  by (cases e) auto

lemma observe_size_read: "\<not> is_write e \<Longrightarrow> observe_size k (Some u) e = Some u"
  by (cases e) auto

lemma sized_reads [simp]: "only_reads ext \<Longrightarrow> sized k (Some u) ext = Some u"
  by (induction ext) (auto simp: observe_size_read)

lemma obeys_size_reads [simp]: "only_reads ext \<Longrightarrow> obeys_size q k kn ext"
  by (rule obeys_by_all) (auto simp: only_reads_def list_all_iff intro: size_allowed_read)

lemma logs_FindVolume_sized:
  "logs snd (\<lambda>r ext. only_reads ext \<and> (\<forall>v. r = Inr (Some v) \<longrightarrow> sized k None ext = Some (ZecVolume_Size v)))
     (FindVolume (traced_cm cm) k)"
  by (rule logs_mono [OF logs_FindVolume_found]) auto

lemma logs_ResizeVolume_obeys:
  assumes "GibToByte m < GibToByte n"
  shows "logs snd (\<lambda>r ext. obeys_size (RpcExpand req) k (Some m) ext \<and> (r = Inr () \<longrightarrow> sized k (Some m) ext = Some n))
     (ResizeVolume (traced_cm cm) k n)"
  unfolding ResizeVolume_def traced_cm_simps using assms
  by (cases "zecClient cm") (auto intro!: logs_cases logs_call logs_mono [OF logs_wait_stable])

lemma required_size_large_enough:
  assumes "NewDefaultZecStorageClassFromType t = Some sc" "GetRequiredVolumeSizeByte sc (ev_CapacityRange req) = Inr n"
    and "GibToByte (ByteCeilToGib n) \<le> GibToByte m"
  shows "large_enough req m"
  unfolding large_enough_def
proof (intro allI impI)
  fix rng assume rng: "ev_CapacityRange req = Some rng" "no_overflow rng"
  have wf: "wf_sc sc" using wf_sc_default [OF assms(1)] by simp
  have fits: "fits sc rng n" using GetRequiredVolumeSizeByte_least [OF wf rng(2)] assms(2) rng(1) by simp
  show "RequiredBytes rng \<le> GibToByte m"
    using fits assms(3) GibToByte_ByteCeilToGib_fits [OF wf fits] by (simp add: fits_def)
qed

lemma logs_expand_obeys:
  assumes "cs_cloud cs = zec_CloudManager (traced_cm cm)"
  shows "logs srv_log (\<lambda>r ext. obeys_size (RpcExpand req) k None ext \<and>
      (\<forall>resp. r = Inr resp \<longrightarrow> (\<exists>m. sized k None ext = Some m \<and> large_enough req m)))
    (expand_locked cs req k)"
  unfolding expand_locked_def assms zec_CloudManager_def CloudManager.simps Let_def
proof (intro logs_bind [OF logs_on_world [OF logs_FindVolume_sized]] logs_cases
    logs_bind [OF logs_on_world [OF logs_ResizeVolume_obeys]])
qed (auto intro: required_size_large_enough)

lemma logs_no_result:
  "logs lg (\<lambda>r ext. Q ext \<and> (\<forall>a. r = Inr a \<longrightarrow> R ext)) m \<Longrightarrow> logs lg (\<lambda>r ext. Q ext \<and> (r = Inr () \<longrightarrow> R ext)) (no_result m)"
  unfolding no_result_def by (erule logs_bind) (auto intro!: logs_return simp: map_sum_def split: sum.splits)

text \<open>The other requests make no resize, and release only the disk they hold.\<close>

lemma allowed_size: "allowed q k kn e \<Longrightarrow> \<forall>req. q \<noteq> RpcExpand req \<Longrightarrow> size_allowed q k kn' e"
  by (cases e) auto

lemma obeys_obeys_size:
  assumes "obeys q k kn evs" "\<forall>req. q \<noteq> RpcExpand req"
  shows "obeys_size q k kn' evs"
proof (rule obeys_by_all)
  fix kn'' e assume "e \<in> set evs"
  then obtain kn0 where "allowed q k kn0 e" using obeys_by_member [OF assms(1)] by blast
  then show "size_allowed q k kn'' e" using assms(2) by (rule allowed_size)
qed

lemma controller_script_sizes:
  assumes "controller_script T D G l k evs"
  shows "obeys_size (fst l) k None evs \<and> size_concluded (fst l) (snd l) (sized k None evs)"
proof (cases "\<exists>req. fst l = RpcExpand req")
  case False
  then show ?thesis using controller_script_obeys [OF assms] obeys_obeys_size by (auto simp: size_concluded_def)
next
  case True
  then obtain req where q: "fst l = RpcExpand req" by blast
  obtain cm :: "'a zecCloudManager" and now L v body where body: "locked_body (server_on D G cm) now (RpcExpand req) = Some (k, body)"
    and run: "body_run body L v = (snd l, evs)"
    using assms by (auto simp: controller_script_def q)
  have "body = no_result (expand_locked (server_on D G cm) req k)"
    using body by (auto simp: locked_body_def split: if_splits sum.splits)
  then have "logs srv_log (\<lambda>r ext. obeys_size (RpcExpand req) k None ext \<and>
      (r = Inr () \<longrightarrow> (\<exists>m. sized k None ext = Some m \<and> large_enough req m))) body"
    by (simp add: logs_no_result [OF logs_expand_obeys] server_on_def)
  with run show ?thesis by (auto simp: q size_concluded_def body_run_def split: prod.splits dest: logsD)
qed

section \<open>The cloud\<close>

fun resizes :: "api_event \<Rightarrow> string set" where
  "resizes (ev_ResizeDisk i _ _) = {i}"
| "resizes (ev_ReleaseDisk i _) = {i}"
| "resizes _ = {}"

text \<open>
  \<open>sz w d\<close> is the size of the disk \<open>d\<close> in GiB, if it exists. Calls that do not resize or release a disk keep its
  size, a description shows it, a resize sets it or is refused (and then may have set it or not), and a
  release removes the disk or leaves it as it is.
\<close>

definition size_cloud :: "'w zec_client \<Rightarrow> ('w \<Rightarrow> string \<Rightarrow> int64 option) \<Rightarrow> bool" where
  "size_cloud c sz \<longleftrightarrow>
     (\<forall>w e w' d n. performs c w e w' \<longrightarrow> d \<notin> resizes e \<longrightarrow> sz w d = Some n \<longrightarrow> sz w' d = Some n) \<and>
     (\<forall>w e w' d n. performs c w e w' \<longrightarrow> shows_size d e = Some n \<longrightarrow> sz w d = Some n) \<and>
     (\<forall>w i n a w'. performs c w (ev_ResizeDisk i n a) w' \<longrightarrow> sz w' i = Some n \<or> isl a \<and> sz w' i = sz w i) \<and>
     (\<forall>w i a w'. performs c w (ev_ReleaseDisk i a) w' \<longrightarrow> sz w' i = None \<or> sz w' i = sz w i)"

lemma size_cloudD:
  assumes "size_cloud c sz"
  shows "performs c w e w' \<Longrightarrow> d \<notin> resizes e \<Longrightarrow> sz w d = Some n \<Longrightarrow> sz w' d = Some n"
    and "performs c w e w' \<Longrightarrow> shows_size d e = Some n \<Longrightarrow> sz w d = Some n"
    and "performs c w (ev_ResizeDisk i n a) w' \<Longrightarrow> sz w' i = Some n \<or> isl a \<and> sz w' i = sz w i"
    and "performs c w (ev_ReleaseDisk i b) w' \<Longrightarrow> sz w' i = None \<or> sz w' i = sz w i"
  using assms unfolding size_cloud_def by blast+

lemma shows_size_resizes: "shows_size d e = Some n \<Longrightarrow> resizes e = {}"
  by (cases e) auto

lemma performs_size_allowed:
  assumes cloud: "size_cloud c sz" and ok: "size_allowed q k kn e" and perf: "performs c w e w'"
    and kn: "\<And>n. kn = Some n \<Longrightarrow> sz w k = Some n"
  shows "observe_size k kn e = Some n \<Longrightarrow> sz w' k = Some n"
    and "d \<noteq> k \<Longrightarrow> sz w d = Some n \<Longrightarrow> sz w' d = Some n"
proof -
  have "resizes e \<subseteq> {k}" using ok by (cases e) auto
  then show "d \<noteq> k \<Longrightarrow> sz w d = Some n \<Longrightarrow> sz w' d = Some n" using size_cloudD(1) [OF cloud perf] by blast
  assume obs: "observe_size k kn e = Some n"
  consider (resize) a where "e = ev_ResizeDisk k n a" "\<not> isl a"
    | (other) "resizes e = {}" "kn = Some n \<or> shows_size k e = Some n"
    using ok obs by (cases e) (auto split: if_splits)
  then show "sz w' k = Some n"
  proof cases
    case (resize a)
    then show ?thesis using size_cloudD(3) [OF cloud, of w k n a w'] perf by blast
  next
    case other
    then have "sz w k = Some n" using kn size_cloudD(2) [OF cloud perf] by blast
    then show ?thesis using size_cloudD(1) [OF cloud perf] other(1) by blast
  qed
qed

text \<open>What a request knows about the size of its disk is true, whatever the other requests do.\<close>

definition knows_size ::
  "'w zec_client \<Rightarrow> ('w \<Rightarrow> string \<Rightarrow> int64 option) \<Rightarrow> request_label \<Rightarrow> string \<Rightarrow> api_event list \<Rightarrow> int64 option \<Rightarrow> bool" where
  "knows_size c sz l k ds v \<longleftrightarrow> (size_cloud c sz \<longrightarrow> (\<forall>n. sized k None ds = Some n \<longrightarrow> v = Some n))"

interpretation cs: session_knowledge "performs c" "controller_script T D G" touches sz "knows_size c sz"
  for c :: "'w zec_client" and sz T D G
proof
  fix l :: request_label and k ds e es and w w' :: 'w
  assume script: "controller_script T D G l k (ds @ e # es)" and knows: "knows_size c sz l k ds (sz w k)"
    and perf: "performs c w e w'"
  have ok: "size_allowed (fst l) k (sized k None ds) e" using controller_script_sizes [OF script] by simp
  have own: "\<And>n. observe_size k (sized k None ds) e = Some n \<Longrightarrow> sz w' k = Some n"
    and other: "\<And>d n. d \<noteq> k \<Longrightarrow> sz w d = Some n \<Longrightarrow> sz w' d = Some n" if cloud: "size_cloud c sz"
    using performs_size_allowed [where sz = sz, OF cloud ok perf] knows cloud by (auto simp: knows_size_def)
  show "knows_size c sz l k (ds @ [e]) (sz w' k)" using own by (simp add: knows_size_def)
  show "knows_size c sz l' d ds' (sz w' d)" if "d \<noteq> k" "knows_size c sz l' d ds' (sz w d)" for d l' ds'
    using that other by (auto simp: knows_size_def)
qed (simp add: knows_size_def)

section \<open>Example\<close>









section \<open>Properties\<close>






end
