(* ===== verification/ConcurrentNode.thy ===== *)
theory ConcurrentNode
  imports Sessions MountTable
begin

text \<open>
  The node server under concurrent requests. As for the controller, the sessions of \<^verbatim>\<open>Concurrency\<close> are
  the locked parts of the handlers; their calls are operations on the node, tagged with the volume
  identifier that their request carries. Requests on one disk are serial, because every handler locks the
  disk that its volume identifier names; and a file system is made only on a device that
  is empty at that very moment, whatever other requests do.
\<close>

section \<open>The locked part of a handler\<close>

text \<open>
  The key a request locks and the code it runs under that lock. \<open>NodeExpandVolume\<close> may look at the volume path
  before it locks, when the request does not tell the kind of the volume; \<open>NodeGetVolumeStats\<close> only
  reads and takes no lock.
\<close>

definition node_locked_body ::
  "'w NodeServer \<Rightarrow> node_request \<Rightarrow> (string \<times> ('w server, code + unit) state) option" where
  "node_locked_body ns q =
     (case q of
        RpcStage req \<Rightarrow>
          if ValidateNodeServiceRequest (ns_driver ns) NODE_STAGE_UNSTAGE_VOLUME \<and>
             nst_VolumeId req \<noteq> [] \<and> nst_StagingTargetPath req \<noteq> []
          then (case (nst_VolumeCapability req, ParseCsiVolId (nst_VolumeId req)) of
                  (Some cap, Inr (v, serial)) \<Rightarrow>
                    if cap_AccessType cap = AccessType_Block then None
                    else Some (v, stage_locked ns cap serial (nst_StagingTargetPath req))
                | _ \<Rightarrow> None)
          else None
      | RpcUnstage vid p \<Rightarrow>
          if ValidateNodeServiceRequest (ns_driver ns) NODE_STAGE_UNSTAGE_VOLUME \<and> vid \<noteq> [] \<and> p \<noteq> []
          then Some (unmount_lock_key vid, unmount_locked ns p) else None
      | RpcNodePublish req \<Rightarrow>
          if np_VolumeId req \<noteq> [] \<and> np_TargetPath req \<noteq> [] \<and> np_StagingTargetPath req \<noteq> []
          then (case (np_VolumeCapability req, ParseCsiVolId (np_VolumeId req)) of
                  (Some cap, Inr (v, serial)) \<Rightarrow>
                    if ValidateVolumeCapability (ns_driver ns) cap
                    then Some (v, node_publish_locked ns req cap serial) else None
                | _ \<Rightarrow> None)
          else None
      | RpcNodeUnpublish vid p \<Rightarrow>
          if vid \<noteq> [] \<and> p \<noteq> [] then Some (unmount_lock_key vid, unmount_locked ns p) else None
      | RpcNodeExpand req \<Rightarrow>
          if ne_VolumeId req \<noteq> [] \<and> ne_VolumePath req \<noteq> [] \<and>
             (\<forall>cap. ne_VolumeCapability req = Some cap \<longrightarrow> cap_AccessType cap \<noteq> AccessType_Block)
          then (case (GetRequestSizeBytes (ne_CapacityRange req), ParseCsiVolId (ne_VolumeId req)) of
                  (Inr n, Inr (v, serial)) \<Rightarrow> Some (v, no_result (node_expand_locked ns serial (ne_VolumePath req) n))
                | _ \<Rightarrow> None)
          else None
      | RpcStats _ _ \<Rightarrow> None)"

lemma serve_node_locked:
  assumes "node_locked_body ns q = Some (k, body)" "\<forall>req. q = RpcNodeExpand req \<longrightarrow> ne_VolumeCapability req \<noteq> None"
  shows "serve_node ns q = status_of (with_lock k Aborted body)"
  using assms
  by (cases q) (auto simp: node_locked_body_def serve_node_def status_of_no_result NodeStageVolume_def NodeUnstageVolume_def
    NodePublishVolume_def NodeUnpublishVolume_def NodeExpandVolume_def split: if_splits option.splits sum.splits prod.splits)

lemma serve_node_at_once:
  assumes "node_locked_body ns q = None" "\<forall>req. q = RpcNodeExpand req \<longrightarrow> ne_VolumeCapability req \<noteq> None"
    and "\<forall>vid p. q \<noteq> RpcStats vid p"
  shows "\<exists>st. serve_node ns q = State_Monad.return st"
  using assms
  by (cases q) (auto simp: node_locked_body_def serve_node_def status_of_return NodeStageVolume_def NodeUnstageVolume_def
    NodePublishVolume_def NodeUnpublishVolume_def NodeExpandVolume_def split: if_splits option.splits sum.splits prod.splits)

section \<open>The calls of a request\<close>

definition node_on :: "DiskDriver \<Rightarrow> globals \<Rightarrow> 'v node_env \<Rightarrow> ('v \<times> node_event list) NodeServer" where
  "node_on D G env = traced_node \<lparr>ns_driver = D, ns_env = env, ns_globals = G\<rparr>"

text \<open>The volume identifier of a request.\<close>

fun node_volume :: "node_request \<Rightarrow> string" where
  "node_volume (RpcStage req) = nst_VolumeId req"
| "node_volume (RpcUnstage vid _) = vid"
| "node_volume (RpcNodePublish req) = np_VolumeId req"
| "node_volume (RpcNodeUnpublish vid _) = vid"
| "node_volume (RpcNodeExpand req) = ne_VolumeId req"
| "node_volume (RpcStats vid _) = vid"

text \<open>
  The disk that a volume identifier names; an identifier that is not of this driver stands for itself. This
  does not look at what the handlers lock.
\<close>

definition volume_disk :: "string \<Rightarrow> string" where
  "volume_disk vid = (case ParseCsiVolId vid of Inl _ \<Rightarrow> vid | Inr (v, _) \<Rightarrow> v)"

type_synonym node_label = "node_request \<times> (code + unit)"

text \<open>
  The sessions of the node server: a request with its answer, its key, and operations that its locked
  part makes for some answers of the node, as for the controller. The operations carry the volume identifier
  of the request.
\<close>

definition any_node_script ::
  "'v itself \<Rightarrow> DiskDriver \<Rightarrow> globals \<Rightarrow> node_label \<Rightarrow> string \<Rightarrow> (string \<times> node_event) list \<Rightarrow> bool" where
  "any_node_script T D G l k evs \<longleftrightarrow>
     (\<exists>(env :: 'v node_env) L v body tr. node_locked_body (node_on D G env) (fst l) = Some (k, body) \<and>
        body_run body L v = (snd l, tr) \<and> evs = map (Pair (node_volume (fst l))) tr)"

text \<open>
  The identifiers that the controller issues name a disk together with its serial number \<open>S v\<close>, so the
  identifiers of requests to the node that can be parsed do. Where the serial number matters, the sessions
  are those of such requests.
\<close>

definition genuine :: "(string \<Rightarrow> string) \<Rightarrow> node_request \<Rightarrow> bool" where
  "genuine S q \<longleftrightarrow> (\<forall>v serial. ParseCsiVolId (node_volume q) = Inr (v, serial) \<longrightarrow> serial = S v)"

definition node_script ::
  "'v itself \<Rightarrow> DiskDriver \<Rightarrow> globals \<Rightarrow> (string \<Rightarrow> string) \<Rightarrow> node_label \<Rightarrow> string \<Rightarrow> (string \<times> node_event) list \<Rightarrow> bool" where
  "node_script T D G S l k evs \<longleftrightarrow> genuine S (fst l) \<and> any_node_script T D G l k evs"

text \<open>An operation on the node, with its answer.\<close>

fun node_performs :: "'w node_env \<Rightarrow> 'w \<Rightarrow> node_event \<Rightarrow> 'w \<Rightarrow> bool" where
  "node_performs env w (nv_Mount s t f opts a) w' \<longleftrightarrow> run_state (mnt_Mount env s t f opts) w = (a, w')"
| "node_performs env w (nv_Exec c as a) w' \<longleftrightarrow> run_state (mnt_Exec env c as) w = (a, w')"
| "node_performs env w (nv_OsExec c as a) w' \<longleftrightarrow> run_state (os_Exec env c as) w = (a, w')"
| "node_performs env w (nv_GetDiskFormat d a) w' \<longleftrightarrow> run_state (mnt_GetDiskFormat env d) w = (a, w')"
| "node_performs env w (nv_IsMountPoint p a) w' \<longleftrightarrow> run_state (mnt_IsMountPoint env p) w = (a, w')"
| "node_performs env w (nv_IsLikelyNotMountPoint p a) w' \<longleftrightarrow> run_state (mnt_IsLikelyNotMountPoint env p) w = (a, w')"
| "node_performs env w (nv_Cleanup p b a) w' \<longleftrightarrow> run_state (mnt_CleanupMountPoint env p b) w = (a, w')"
| "node_performs env w (nv_NeedResize d p a) w' \<longleftrightarrow> run_state (mnt_NeedResize env d p) w = (a, w')"
| "node_performs env w (nv_Resize d p a) w' \<longleftrightarrow> run_state (mnt_Resize env d p) w = (a, w')"
| "node_performs env w (nv_Stat p a) w' \<longleftrightarrow> run_state (os_Stat env p) w = (a, w')"
| "node_performs env w (nv_Mkdir p a) w' \<longleftrightarrow> run_state (os_MkdirAll env p) w = (a, w')"
| "node_performs env w (nv_CreateFile p a) w' \<longleftrightarrow> run_state (os_CreateFile env p) w = (a, w')"
| "node_performs env w (nv_ReadFile p a) w' \<longleftrightarrow> run_state (os_ReadFile env p) w = (a, w')"
| "node_performs env w (nv_Statfs p a) w' \<longleftrightarrow> run_state (unix_Statfs env p) w = (a, w')"

abbreviation node_call :: "'w node_env \<Rightarrow> 'w \<Rightarrow> string \<times> node_event \<Rightarrow> 'w \<Rightarrow> bool" where
  "node_call env w e \<equiv> node_performs env w (snd e)"

text \<open>An operation touches the disk of its request.\<close>

abbreviation node_touches :: "string \<times> node_event \<Rightarrow> string set" where
  "node_touches e \<equiv> {volume_disk (fst e)}"

text \<open>Every handler locks the disk that the volume identifier of its request names.\<close>

lemma node_locks_disk: "node_locked_body ns q = Some (k, body) \<Longrightarrow> volume_disk (node_volume q) = k"
  by (cases q) (auto simp: node_locked_body_def volume_disk_def unmount_lock_key_def split: if_splits option.splits sum.splits)

interpretation na: lock_discipline "node_call env" "any_node_script T D G" node_touches
  for env :: "'w node_env" and T D G
  by unfold_locales (auto simp: any_node_script_def dest: node_locks_disk)

interpretation nd: lock_discipline "node_call env" "node_script T D G S" node_touches
  for env :: "'w node_env" and T D G S
  by unfold_locales (use na.script_touches in \<open>fastforce simp: node_script_def\<close>)

section \<open>When a file system is made\<close>

text \<open>The device on which a command makes a file system.\<close>

fun mkfs_target :: "node_event \<Rightarrow> string option" where
  "mkfs_target (nv_Exec c as a) = (if strings_HasPrefix c ''mkfs.'' \<and> as \<noteq> [] then Some (last as) else None)"
| "mkfs_target _ = None"

lemma mkfs_target_is_mkfs: "mkfs_target e = Some dev \<Longrightarrow> is_mkfs e"
  by (cases e) (auto split: if_splits)

lemma formats_target: "formats dev fs [] e \<Longrightarrow> checkfsType fs \<Longrightarrow> mkfs_target e = Some dev"
  by (auto simp: formats_def checkfsType_def mkfsDefaultArgs_def strings_HasPrefix_def)

abbreviation quiet :: "('s \<Rightarrow> node_event list) \<Rightarrow> ('s, 'a) state \<Rightarrow> bool" where
  "quiet lg m \<equiv> logs lg (\<lambda>_ tr. filter is_mkfs tr = []) m"

lemma quiet_bind:
  assumes "quiet lg m" "\<And>a. quiet lg (k a)"
  shows "quiet lg (State_Monad.bind m k)"
  by (rule logs_bind [OF assms(1)], rule logs_mono [OF assms(2)]) auto

lemma quiet_unmount_locked: "quiet srv_log (unmount_locked (traced_node ns) p)"
  unfolding unmount_locked_def traced_node_simps traced_env_simps by (intro logs_cases logs_on_world_call) auto

lemma quiet_getDevPathBySerial: "quiet snd (getDevPathBySerial (traced_env env) serial)"
  by (rule logs_mono [OF logs_getDevPathBySerial]) (rule lookup_no_mkfs)

lemma quiet_node_publish_locked: "quiet srv_log (node_publish_locked (traced_node ns) req cap serial)"
proof -
  have "quiet srv_log (node_publish_mount (traced_node ns) req cap src)" for src
    by (rule logs_mono [OF logs_node_publish_mount]) (simp add: publish_log_def)
  then show ?thesis
    unfolding node_publish_locked_def traced_node_simps
    by (intro logs_cases quiet_bind logs_on_world quiet_getDevPathBySerial) auto
qed

lemma quiet_node_expand_locked: "quiet srv_log (no_result (node_expand_locked (traced_node ns) serial p n))"
  unfolding no_result_def node_expand_locked_def traced_node_simps getBlockSizeBytes_def traced_env_simps
  by (intro logs_cases quiet_bind logs_on_world quiet_getDevPathBySerial logs_logged) (auto simp: strings_HasPrefix_def)

text \<open>The moment at which a sequence of operations makes a file system, and what it has seen before.\<close>

definition safe_formats :: "node_request \<Rightarrow> string \<Rightarrow> node_event list \<Rightarrow> bool" where
  "safe_formats q serial tr \<longleftrightarrow> (\<forall>ds e es. tr = ds @ e # es \<longrightarrow> is_mkfs e \<longrightarrow>
     (\<exists>req dev. q = RpcStage req \<and> mkfs_target e = Some dev \<and> filter is_mkfs ds = [] \<and>
        serial_read serial dev ds \<and> shown_empty dev ds))"

lemma safe_formatsD:
  "safe_formats q serial (ds @ e # es) \<Longrightarrow> is_mkfs e \<Longrightarrow>
   \<exists>req dev. q = RpcStage req \<and> mkfs_target e = Some dev \<and> filter is_mkfs ds = [] \<and>
     serial_read serial dev ds \<and> shown_empty dev ds"
  unfolding safe_formats_def by blast

lemma quiet_safe_formats: "filter is_mkfs tr = [] \<Longrightarrow> safe_formats q serial tr"
  by (auto simp: safe_formats_def filter_empty_conv)

lemma split_mkfs:
  assumes "ds @ e # es = pre @ f # post" "is_mkfs e" "filter is_mkfs pre = []" "filter is_mkfs post = []"
  shows "ds = pre \<and> e = f"
proof -
  have pre: "e \<notin> set pre" "e \<notin> set post" using assms(2-4) by (auto simp: filter_empty_conv)
  from assms(1) obtain us where "ds = pre @ us \<and> us @ e # es = f # post \<or> pre = ds @ us \<and> e # es = us @ f # post"
    by (auto simp: append_eq_append_conv2)
  then show ?thesis
  proof
    assume us: "ds = pre @ us \<and> us @ e # es = f # post"
    then show ?thesis using pre(2) by (cases us) auto
  next
    assume us: "pre = ds @ us \<and> e # es = us @ f # post"
    then show ?thesis using pre(1) by (cases us) auto
  qed
qed

lemma stage_guard_safe:
  assumes "stage_guard serial fs ro tr" "checkfsType fs"
  shows "safe_formats (RpcStage req) serial tr"
proof (cases "filter is_mkfs tr = []")
  case False
  then obtain dev pre f post where tr: "tr = pre @ f # post" "formats dev fs [] f" "filter is_mkfs pre = []"
      "filter is_mkfs post = []" "serial_read serial dev pre" "shown_empty dev pre"
    using assms(1) by (auto simp: stage_guard_def formats_after_def may_format_def)
  show ?thesis unfolding safe_formats_def
  proof (intro allI impI)
    fix ds e es assume "tr = ds @ e # es" "is_mkfs e"
    with tr(1,3,4) have "ds = pre" "e = f" using split_mkfs [of ds e es pre f post] by auto
    then show "\<exists>req' dev. RpcStage req = RpcStage req' \<and> mkfs_target e = Some dev \<and> filter is_mkfs ds = [] \<and>
        serial_read serial dev ds \<and> shown_empty dev ds"
      using tr formats_target [OF tr(2) assms(2)] by auto
  qed
qed (rule quiet_safe_formats)

lemma logs_stage_safe:
  "logs srv_log (\<lambda>_ tr. safe_formats (RpcStage req) serial tr) (stage_locked (traced_node ns) cap serial target)"
proof (cases "checkfsType (request_fsType (cap_mount cap))")
  case True
  show ?thesis by (rule logs_mono [OF logs_stage_locked]) (rule stage_guard_safe [OF _ True])
next
  case False
  then show ?thesis
    by (cases "cap_mount cap") (auto simp: stage_locked_def intro!: logs_return quiet_safe_formats)
qed

lemma logs_node_locked_body:
  assumes "node_locked_body (traced_node ns) q = Some (k, body)" "genuine S q"
  shows "logs srv_log (\<lambda>_ tr. safe_formats q (S k) tr) body"
proof (cases q)
  case (RpcStage req)
  then obtain cap where "body = stage_locked (traced_node ns) cap (S k) (nst_StagingTargetPath req)"
    using assms by (auto simp: node_locked_body_def genuine_def split: if_splits option.splits sum.splits)
  then show ?thesis using logs_stage_safe RpcStage by simp
qed (rule logs_mono [where ok = "\<lambda>_ tr. filter is_mkfs tr = []"], use assms in
    \<open>auto simp: node_locked_body_def quiet_unmount_locked quiet_node_publish_locked quiet_node_expand_locked
       intro: quiet_safe_formats split: if_splits option.splits sum.splits\<close>)+

lemma node_script_formats:
  assumes "node_script T D G S l k evs"
  shows "safe_formats (fst l) (S k) (map snd evs)"
proof -
  obtain env :: "'a node_env" and L v body tr where
    body: "node_locked_body (traced_node \<lparr>ns_driver = D, ns_env = env, ns_globals = G\<rparr>) (fst l) = Some (k, body)"
    and run: "body_run body L v = (snd l, tr)" "evs = map (Pair (node_volume (fst l))) tr" and "genuine S (fst l)"
    using assms by (auto simp: node_script_def any_node_script_def node_on_def)
  then have "logs srv_log (\<lambda>_ tr. safe_formats (fst l) (S k) tr) body" by (intro logs_node_locked_body)
  with run show ?thesis by (auto simp: body_run_def o_def split: prod.splits dest: logsD)
qed

section \<open>The node\<close>

text \<open>The operation shows that the device is empty.\<close>

definition shows_blank :: "string \<Rightarrow> node_event \<Rightarrow> bool" where
  "shows_blank dev e \<longleftrightarrow> e = nv_GetDiskFormat dev (Some []) \<or>
     (\<exists>out. e = nv_OsExec ''blkid'' (blkid_args dev) (None, out) \<and>
        blkid_lines (strings_Split out (CHR 0x0A)) ([], []) = Some ([], ''atari''))"

lemma shown_empty_blank: "shown_empty dev tr \<Longrightarrow> \<exists>e \<in> set tr. shows_blank dev e"
  by (auto simp: shown_empty_def shows_blank_def)

text \<open>
  \<open>ser w dev\<close> is the serial number of the disk behind a device and \<open>blank w\<close> the devices without a file system and
  partitions. Operations of the driver keep the disk behind a device, only making a file system on
  a device ends that it is blank, a serial file tells the serial number, and a device that is shown to be empty is blank.
\<close>

definition disk_node :: "'w node_env \<Rightarrow> ('w \<Rightarrow> string \<Rightarrow> string option) \<Rightarrow> ('w \<Rightarrow> string set) \<Rightarrow> bool" where
  "disk_node env ser blank \<longleftrightarrow>
     (\<forall>w e w'. node_performs env w e w' \<longrightarrow> ser w' = ser w) \<and>
     (\<forall>w e w' dev. node_performs env w e w' \<longrightarrow> dev \<in> blank w \<longrightarrow> mkfs_target e \<noteq> Some dev \<longrightarrow> dev \<in> blank w') \<and>
     (\<forall>w w' d s. node_performs env w (nv_ReadFile (serial_path d) (Some s)) w' \<longrightarrow>
        ser w (''/dev/'' @ d) = Some (strings_TrimSpace s)) \<and>
     (\<forall>w e w' dev. node_performs env w e w' \<longrightarrow> shows_blank dev e \<longrightarrow> dev \<in> blank w)"

lemma disk_nodeD:
  assumes "disk_node env ser blank"
  shows "node_performs env w e w' \<Longrightarrow> ser w' = ser w"
    and "node_performs env w e w' \<Longrightarrow> dev \<in> blank w \<Longrightarrow> mkfs_target e \<noteq> Some dev \<Longrightarrow> dev \<in> blank w'"
    and "node_performs env w (nv_ReadFile (serial_path d) (Some s)) w' \<Longrightarrow> ser w (''/dev/'' @ d) = Some (strings_TrimSpace s)"
    and "node_performs env w e w' \<Longrightarrow> shows_blank dev e \<Longrightarrow> dev \<in> blank w"
  using assms unfolding disk_node_def by blast+

text \<open>
  What a request knows: a device whose serial file it has read is its disk, and as long as it has not made a file
  system, a device of its disk that it has seen to be empty is blank.
\<close>

definition knows_disk ::
  "'w node_env \<Rightarrow> ('w \<Rightarrow> string \<Rightarrow> string option) \<Rightarrow> ('w \<Rightarrow> string set) \<Rightarrow> (string \<Rightarrow> string) \<Rightarrow> node_label \<Rightarrow> string \<Rightarrow>
   (string \<times> node_event) list \<Rightarrow> (string \<Rightarrow> string option) \<times> string set \<Rightarrow> bool" where
  "knows_disk env ser blank S l k ds v \<longleftrightarrow> (disk_node env ser blank \<and> inj S \<longrightarrow>
     (\<forall>dev. serial_read (S k) dev (map snd ds) \<longrightarrow> fst v dev = Some (S k)) \<and>
     (filter is_mkfs (map snd ds) = [] \<longrightarrow>
        (\<forall>dev. (\<exists>e \<in> set ds. shows_blank dev (snd e)) \<longrightarrow> fst v dev = Some (S k) \<longrightarrow> dev \<in> snd v)))"

lemma serial_read_snoc: "serial_read s dev (tr @ [e]) \<longleftrightarrow> serial_read s dev tr \<or>
    (\<exists>d c. dev = ''/dev/'' @ d \<and> e = nv_ReadFile (serial_path d) (Some c) \<and> strings_TrimSpace c = s)"
  by (auto simp: serial_read_def)

lemma knows_disk_own:
  assumes node: "disk_node env ser blank" and perf: "node_performs env w (snd e) w'"
    and knows: "knows_disk env ser blank S l k ds (ser w, blank w)"
  shows "knows_disk env ser blank S l k (ds @ [e]) (ser w', blank w')"
  unfolding knows_disk_def
proof (intro impI conjI allI)
  assume inj: "disk_node env ser blank \<and> inj S"
  note same = disk_nodeD(1) [OF node perf]
  show "fst (ser w', blank w') dev = Some (S k)" if "serial_read (S k) dev (map snd (ds @ [e]))" for dev
  proof -
    from that consider "serial_read (S k) dev (map snd ds)"
      | d c where "dev = ''/dev/'' @ d" "snd e = nv_ReadFile (serial_path d) (Some c)" "strings_TrimSpace c = S k"
      by (auto simp: serial_read_snoc)
    then show ?thesis
    proof cases
      case 1
      then show ?thesis using knows inj same by (auto simp: knows_disk_def)
    next
      case (2 d c)
      then show ?thesis using disk_nodeD(3) [OF node, of w d c w'] perf same by simp
    qed
  qed
  show "dev \<in> snd (ser w', blank w')"
    if "filter is_mkfs (map snd (ds @ [e])) = []" "\<exists>x \<in> set (ds @ [e]). shows_blank dev (snd x)"
      "fst (ser w', blank w') dev = Some (S k)" for dev
  proof -
    have "mkfs_target (snd e) \<noteq> Some dev" using that(1) mkfs_target_is_mkfs by (auto split: if_splits)
    moreover have "dev \<in> blank w"
      using that knows inj same disk_nodeD(4) [OF node perf] by (auto simp: knows_disk_def split: if_splits)
    ultimately show ?thesis using disk_nodeD(2) [OF node perf] by simp
  qed
qed

interpretation nk: session_knowledge "node_call env" "node_script T D G S" node_touches
    "\<lambda>w _. (ser w, blank w)" "knows_disk env ser blank S"
  for env :: "'w node_env" and ser blank T D G S
proof
  fix l :: node_label and k ds e es and w w' :: 'w
  assume script: "node_script T D G S l k (ds @ e # es)" and knows: "knows_disk env ser blank S l k ds (ser w, blank w)"
    and perf: "node_performs env w (snd e) w'"
  show "knows_disk env ser blank S l k (ds @ [e]) (ser w', blank w')"
    using knows_disk_own [OF _ perf knows] by (cases "disk_node env ser blank") (auto simp: knows_disk_def)
  show "knows_disk env ser blank S l' d ds' (ser w', blank w')"
    if d: "d \<noteq> k" and other: "knows_disk env ser blank S l' d ds' (ser w, blank w)" for d l' ds'
  proof (cases "disk_node env ser blank \<and> inj S")
    case True
    then have node: "disk_node env ser blank" and "S d \<noteq> S k" using d by (auto simp: inj_eq)
    have target: "ser w dev = Some (S k)" if "mkfs_target (snd e) = Some dev" for dev
    proof -
      have "serial_read (S k) dev (map snd ds)"
        using safe_formatsD [OF node_script_formats [OF script, simplified] mkfs_target_is_mkfs [OF that]] that by auto
      then show ?thesis using knows True by (simp add: knows_disk_def)
    qed
    have "dev \<in> blank w'" if "dev \<in> blank w" "ser w dev = Some (S d)" for dev
      using disk_nodeD(2) [OF node perf that(1)] target that(2) \<open>S d \<noteq> S k\<close> by (cases "mkfs_target (snd e) = Some dev") auto
    then show ?thesis using other True disk_nodeD(1) [OF node perf] by (auto simp: knows_disk_def)
  qed (auto simp: knows_disk_def)
qed (auto simp: knows_disk_def serial_read_def)

lemma format_is_safe:
  assumes "disk_node env ser blank" "inj S" "conc_reachable (node_call env) (node_script T D G S) w s"
    and "c_session s i = Some p" "s_rest p = e # es" "is_mkfs (snd e)"
  shows "\<exists>req dev. fst (s_label p) = RpcStage req \<and> mkfs_target (snd e) = Some dev \<and>
    ser (c_world s) dev = Some (S (s_key p)) \<and> dev \<in> blank (c_world s)"
proof -
  have script: "node_script T D G S (s_label p) (s_key p) (s_done p @ e # es)"
    using nd.conc_invD(5) [OF nd.conc_reachable_inv [OF assms(3)] assms(4)] assms(5) by simp
  obtain req dev where dev: "fst (s_label p) = RpcStage req" "mkfs_target (snd e) = Some dev"
      "filter is_mkfs (map snd (s_done p)) = []" "serial_read (S (s_key p)) dev (map snd (s_done p))"
      "shown_empty dev (map snd (s_done p))"
    using safe_formatsD [OF node_script_formats [OF script, simplified] assms(6)] by blast
  have "knows_disk env ser blank S (s_label p) (s_key p) (s_done p) (ser (c_world s), blank (c_world s))"
    using nk.knowledge [OF assms(3,4), of ser blank] by simp
  then have "ser (c_world s) dev = Some (S (s_key p))" "dev \<in> blank (c_world s)"
    using assms(1,2) dev(3,4) shown_empty_blank [OF dev(5)] by (auto simp: knows_disk_def)
  then show ?thesis using dev by blast
qed

section \<open>A request served alone\<close>

abbreviation env_follows :: "'w node_env \<Rightarrow> ('w \<times> node_event list, 'a) state \<Rightarrow> bool" where
  "env_follows env m \<equiv> follows fst snd (node_performs env) m"

lemma follows_env [follows_intros]:
  "env_follows env (logged (nv_Mount s t f os) (mnt_Mount env s t f os))"
  "env_follows env (logged (nv_GetDiskFormat d) (mnt_GetDiskFormat env d))"
  "env_follows env (logged (nv_IsMountPoint p) (mnt_IsMountPoint env p))"
  "env_follows env (logged (nv_IsLikelyNotMountPoint p) (mnt_IsLikelyNotMountPoint env p))"
  "env_follows env (logged (nv_Cleanup p b) (mnt_CleanupMountPoint env p b))"
  "env_follows env (logged (nv_NeedResize d p) (mnt_NeedResize env d p))"
  "env_follows env (logged (nv_Resize d p) (mnt_Resize env d p))"
  "env_follows env (logged (nv_Exec c a) (mnt_Exec env c a))"
  "env_follows env (logged (nv_OsExec c a) (os_Exec env c a))"
  "env_follows env (logged (nv_Stat p) (os_Stat env p))"
  "env_follows env (logged (nv_Mkdir p) (os_MkdirAll env p))"
  "env_follows env (logged (nv_CreateFile p) (os_CreateFile env p))"
  "env_follows env (logged (nv_ReadFile p) (os_ReadFile env p))"
  by (rule follows_logged, simp)+

lemma follows_case_os_error [follows_intros]:
  "follows wd lg P m \<Longrightarrow> follows wd lg P k \<Longrightarrow> follows wd lg P (case z of ErrNotExist \<Rightarrow> m | OtherOsError \<Rightarrow> k)"
  by (cases z) simp_all

lemma follows_case_exec_error [follows_intros]:
  "follows wd lg P m \<Longrightarrow> (\<And>n. follows wd lg P (k n)) \<Longrightarrow> follows wd lg P u \<Longrightarrow>
   follows wd lg P (case z of ErrExecutableNotFound \<Rightarrow> m | ExitError n \<Rightarrow> k n | OtherExecError \<Rightarrow> u)"
  by (cases z) simp_all

lemma follows_scan_devs [follows_intros]: "env_follows env (scan_devs (traced_env env) serial devs devpath)"
proof (induction devs arbitrary: devpath)
  case Nil
  then show ?case by (simp add: follows_return)
next
  case (Cons dev devs)
  then show ?case unfolding scan_devs.simps traced_env_simps by (intro follows_intros) auto
qed

lemma follows_helpers [follows_intros]:
  "env_follows env (getDevPathBySerial (traced_env env) serial)"
  "env_follows env (getBlockSizeBytes (traced_env env) d)"
  "env_follows env (createTargetMountPathIfNotExists (traced_env env) p b)"
  "env_follows env (stage_path_free (traced_env env) p)"
  "env_follows env (FormatAndMount (traced_env env) s t f mo os omit)"
  unfolding getDevPathBySerial_def getBlockSizeBytes_def createTargetMountPathIfNotExists_def stage_path_free_def
    FormatAndMount_def mount_failed_def FormatNewDisk_def GetDiskFStypePTtype_def run_fsck_def traced_env_simps Let_def
  by (intro follows_intros)+

lemma follows_node_locked_body:
  assumes "node_locked_body (node_on D G env) q = Some (k, body)"
  shows "server_follows (node_performs env) body"
proof -
  let ?ns = "traced_node \<lparr>ns_driver = D, ns_env = env, ns_globals = G\<rparr>"
  have "server_follows (node_performs env) (stage_locked ?ns cap serial p)"
    "server_follows (node_performs env) (unmount_locked ?ns p)"
    "server_follows (node_performs env) (node_publish_locked ?ns req cap serial)"
    "server_follows (node_performs env) (no_result (node_expand_locked ?ns serial p n))" for cap serial p req n
    unfolding node_handler_defs no_result_def traced_node_simps NodeServer.simps Let_def
      traced_env_simps by (intro follows_intros)+
  then show ?thesis
    using assms by (cases q) (auto simp: node_locked_body_def node_on_def split: if_splits option.splits sum.splits)
qed

lemma performs_all_tagged [simp]:
  "performs_all (node_call env) w (map (Pair k) tr) w' \<longleftrightarrow> performs_all (node_performs env) w tr w'"
  by (induction tr arbitrary: w) auto

end
