(* ===== verification/ConcurrentNodeProps.thy ===== *)
theory ConcurrentNodeProps
  imports ConcurrentNode
begin

text \<open>
  Properties of the node server under concurrent requests: requests on one volume are serial, a file
  system is made only on a device that is empty at that moment, and serving a request without
  interruption is a run of the concurrent system.
\<close>

section \<open>A request served alone\<close>

lemma node_session_alone:
  fixes env :: "'w node_env"
  assumes "conc_reachable (node_call env) (node_script TYPE('w) D G S) w0 s" "i \<notin> fst ` set (c_history s)" "genuine S q"
    and body: "node_locked_body (node_on D G env) q = Some (k, body)" and free: "k \<notin> locks (c_locks s)"
    and serve: "run_state (status_of (with_lock k Aborted body)) \<lparr>srv_locks = c_locks s, srv_world = (c_world s, [])\<rparr> = (st, t)"
  shows "\<exists>u. conc_reachable (node_call env) (node_script TYPE('w) D G S) w0 u \<and> c_world u = fst (srv_world t) \<and>
    locks (c_locks u) = locks (c_locks s) \<and> c_session u = c_session s \<and>
    c_history u = c_history s @ (i, Begin k) # map (\<lambda>e. (i, Call (node_volume q, e))) (srv_log t) @ [(i, End)]"
proof -
  from locked_run [OF free serve follows_node_locked_body [OF body]] obtain r where
    r: "body_run body (c_locks s\<lparr>locks := insert k (locks (c_locks s))\<rparr>) (c_world s) = (r, srv_log t)"
      "performs_all (node_call env) (c_world s) (map (Pair (node_volume q)) (srv_log t)) (fst (srv_world t))" by auto
  have "node_script TYPE('w) D G S (q, r) k (map (Pair (node_volume q)) (srv_log t))"
    unfolding node_script_def any_node_script_def fst_conv snd_conv using body r(1) assms(3) by blast
  from session_alone [OF assms(1,2) this free r(2)] show ?thesis by (simp add: o_def)
qed

section \<open>An example node with two disks\<close>

text \<open>The state of the node is the format of each device.\<close>

type_synonym disk_formats = "string \<Rightarrow> string"

definition other_serial :: string where "other_serial = ''other''"

definition two_disk_file :: "string \<Rightarrow> string option" where
  "two_disk_file p = (if p = serial_path ''vda'' then Some (other_serial @ [CHR 0x0A])
     else if p = serial_path ''vdb'' then Some (ex_serial @ [CHR 0x0A]) else None)"

definition two_disk_serial :: "disk_formats \<Rightarrow> string \<Rightarrow> string option" where
  "two_disk_serial F dev = (if dev = ''/dev/vda'' then Some other_serial else if dev = ''/dev/vdb'' then Some ex_serial else None)"

definition two_disk_env :: "disk_formats node_env" where
  "two_disk_env =
     \<lparr>mnt_Mount = (\<lambda>s t f opt. State (\<lambda>F. (F s = f, F))),
      mnt_GetDiskFormat = (\<lambda>d. State (\<lambda>F. (Some (F d), F))),
      mnt_IsMountPoint = (\<lambda>p. State_Monad.return (Inr False)),
      mnt_IsLikelyNotMountPoint = (\<lambda>p. State_Monad.return (Inr True)),
      mnt_CleanupMountPoint = (\<lambda>p b. State_Monad.return True),
      mnt_NeedResize = (\<lambda>d p. State_Monad.return (Some False)),
      mnt_Resize = (\<lambda>d p. State_Monad.return (Some True)),
      mnt_Exec = (\<lambda>c a. State (\<lambda>F.
        if strings_HasPrefix c ''mkfs.'' \<and> a \<noteq> [] then ((None, []), F(last a := drop 5 c))
        else if c = ''lsblk'' then ((None, ''vda'' @ [CHR 0x0A] @ ''vdb'' @ [CHR 0x0A]), F)
        else ((None, []), F))),
      os_Exec = (\<lambda>c a. State_Monad.return (None, [])),
      os_Stat = (\<lambda>p. State_Monad.return (Inr \<lparr>ModeDevice = False, ModeCharDevice = False\<rparr>)),
      os_MkdirAll = (\<lambda>p. State_Monad.return True),
      os_CreateFile = (\<lambda>p. State_Monad.return True),
      os_ReadFile = (\<lambda>p. State_Monad.return (two_disk_file p)),
      unix_Statfs = (\<lambda>p. State_Monad.return None)\<rparr>"

definition ex_serial_of :: "string \<Rightarrow> string" where
  "ex_serial_of v = (if v = ex_id then ex_serial else if v = ex_serial then ex_id else v)"

lemma inj_ex_serial_of: "inj ex_serial_of"
  by (auto simp: inj_def ex_serial_of_def split: if_splits)

lemma serial_path_inj: "serial_path d = serial_path d' \<longleftrightarrow> d = d'"
proof
  assume eq: "serial_path d = serial_path d'"
  then have "length (serial_path d) = length (serial_path d')" by simp
  then have "length d = length d'" by (simp add: serial_path_def)
  with eq show "d = d'" by (auto simp: serial_path_def)
qed simp

lemma two_disk_node: "disk_node two_disk_env two_disk_serial (\<lambda>F. {dev. F dev = []})"
proof -
  have trim: "strings_TrimSpace (other_serial @ [CHR 0x0A]) = other_serial" "strings_TrimSpace (ex_serial @ [CHR 0x0A]) = ex_serial"
    by code_simp+
  have "two_disk_serial F (''/dev/'' @ d) = Some (strings_TrimSpace s)" if "two_disk_file (serial_path d) = Some s" for F d s
    using that trim by (auto simp: two_disk_file_def two_disk_serial_def serial_path_inj split: if_splits)
  moreover have "F' dev = []" if "node_performs two_disk_env F e F'" "F dev = []" "mkfs_target e \<noteq> Some dev" for F e F' dev
    using that by (cases e) (auto simp: two_disk_env_def split: if_splits)
  moreover have "F dev = []" if "node_performs two_disk_env F e F'" "shows_blank dev e" for F e F' dev
    using that by (auto simp: shows_blank_def two_disk_env_def)
  ultimately show ?thesis
    by (auto simp: disk_node_def) (auto simp: two_disk_env_def two_disk_serial_def)
qed

lemma two_disk_stage:
  "node_locked_body (node_on ex_driver no_globals two_disk_env) (RpcStage ex_stage) =
     Some (ex_id, stage_locked (node_on ex_driver no_globals two_disk_env) ex_mount_cap ex_serial ''/stage'')"
proof -
  have "ValidateNodeServiceRequest ex_driver NODE_STAGE_UNSTAGE_VOLUME" "ex_vol_id \<noteq> []"
    "cap_AccessType ex_mount_cap \<noteq> AccessType_Block" by code_simp+
  then show ?thesis using ex_vol_id_parses by (simp add: node_locked_body_def ex_stage_def node_on_def)
qed

lemma genuine_ex_stage: "genuine ex_serial_of (RpcStage ex_stage)"
  using ex_vol_id_parses by (simp add: genuine_def ex_stage_def ex_serial_of_def)

lemma ex_stage_volume [simp]: "nst_VolumeId ex_stage = ex_vol_id"
  by (simp add: ex_stage_def)

text \<open>Request 0 stages an empty disk and is about to make a file system on it.\<close>

lemma ex_before_format:
  "\<exists>s p e es. conc_reachable (node_call two_disk_env) (node_script TYPE(disk_formats) ex_driver no_globals ex_serial_of) (\<lambda>_. []) s \<and>
     c_session s 0 = Some p \<and> s_key p = ex_id \<and> s_rest p = e # es \<and> is_mkfs (snd e)"
proof -
  let ?body = "stage_locked (node_on ex_driver no_globals two_disk_env) ex_mount_cap ex_serial ''/stage''"
  let ?s = "\<lparr>srv_locks = NewResourceLocks, srv_world = (\<lambda>_. [], [])\<rparr>"
  obtain r t where run: "run_state ?body ?s = (r, t)" by (cases "run_state ?body ?s")
  have "list_ex is_mkfs (srv_log (snd (run_state ?body ?s)))" by code_simp
  then obtain pre e post where tr: "srv_log t = pre @ e # post" "is_mkfs e"
    using run by (auto simp: list_ex_iff dest!: split_list)
  have "performs_all (node_performs two_disk_env) (\<lambda>_. []) (srv_log t) (fst (srv_world t))"
    using followsD [OF follows_node_locked_body [OF two_disk_stage] run] by auto
  then obtain w where w: "performs_all (node_performs two_disk_env) (\<lambda>_. []) pre w"
    unfolding tr(1) performs_all_append by blast
  have script: "node_script TYPE(disk_formats) ex_driver no_globals ex_serial_of (RpcStage ex_stage, r) ex_id
      (map (Pair ex_vol_id) pre @ (ex_vol_id, e) # map (Pair ex_vol_id) post)"
    unfolding node_script_def any_node_script_def fst_conv snd_conv using two_disk_stage genuine_ex_stage run tr(1)
    by (intro conjI exI [of _ two_disk_env] exI [of _ NewResourceLocks] exI [of _ "\<lambda>_. []"] exI [of _ ?body] exI [of _ "pre @ e # post"])
      (simp_all add: body_run_def ex_stage_def)
  have tagged: "performs_all (node_call two_disk_env) (\<lambda>_. []) (map (Pair ex_vol_id) pre) w" using w by simp
  obtain s where "conc_reachable (node_call two_disk_env) (node_script TYPE(disk_formats) ex_driver no_globals ex_serial_of) (\<lambda>_. []) s"
    "c_session s 0 = Some \<lparr>s_label = (RpcStage ex_stage, r), s_key = ex_id, s_done = map (Pair ex_vol_id) pre,
       s_rest = (ex_vol_id, e) # map (Pair ex_vol_id) post\<rparr>"
    using session_starts [where performs = "node_call two_disk_env" and script = "node_script TYPE(disk_formats) ex_driver no_globals ex_serial_of"
        and s = "init_conc (\<lambda>_. [])" and i = 0 and ds = "map (Pair ex_vol_id) pre" and es = "(ex_vol_id, e) # map (Pair ex_vol_id) post" and w = w,
        OF conc_reachable.init _ script] tagged
    by (auto simp: init_conc_def NewResourceLocks_def)
  with tr(2) show ?thesis by (intro exI) auto
qed

text \<open>Request 0 stages the volume and ends; then request 2 unstages it.\<close>

lemma two_disk_unstage:
  "node_locked_body (node_on ex_driver no_globals two_disk_env) (RpcUnstage ex_vol_id ''/stage'') =
     Some (ex_id, unmount_locked (node_on ex_driver no_globals two_disk_env) ''/stage'')"
proof -
  have "ValidateNodeServiceRequest ex_driver NODE_STAGE_UNSTAGE_VOLUME" "ex_vol_id \<noteq> []" by code_simp+
  then show ?thesis using ex_vol_id_parses by (simp add: node_locked_body_def node_on_def unmount_lock_key_def)
qed

lemma ex_node_run:
  "\<exists>s tr tr'. conc_reachable (node_call two_disk_env) (node_script TYPE(disk_formats) ex_driver no_globals ex_serial_of) (\<lambda>_. []) s \<and>
     tr \<noteq> [] \<and> tr' \<noteq> [] \<and>
     c_history s = (0, Begin ex_id) # map (\<lambda>e. (0, Call (ex_vol_id, e))) tr @ [(0, End)] @
       (2, Begin ex_id) # map (\<lambda>e. (2, Call (ex_vol_id, e))) tr' @ [(2, End)]"
proof -
  let ?ns = "node_on ex_driver no_globals two_disk_env"
  let ?stage = "status_of (with_lock ex_id Aborted (stage_locked ?ns ex_mount_cap ex_serial ''/stage''))"
    and ?unstage = "status_of (with_lock ex_id Aborted (unmount_locked ?ns ''/stage''))"
  have init: "conc_reachable (node_call two_disk_env) (node_script TYPE(disk_formats) ex_driver no_globals ex_serial_of) (\<lambda>_. []) (init_conc (\<lambda>_. []))"
    by (rule conc_reachable.init)
  obtain st t where t: "run_state ?stage \<lparr>srv_locks = NewResourceLocks, srv_world = (\<lambda>_. [], [])\<rparr> = (st, t)"
    by (cases "run_state ?stage \<lparr>srv_locks = NewResourceLocks, srv_world = (\<lambda>_. [], [])\<rparr>")
  have "srv_log (snd (run_state ?stage \<lparr>srv_locks = NewResourceLocks, srv_world = (\<lambda>_. [], [])\<rparr>)) \<noteq> []" by code_simp
  then have log: "srv_log t \<noteq> []" using t by simp
  obtain s1 where s1: "conc_reachable (node_call two_disk_env) (node_script TYPE(disk_formats) ex_driver no_globals ex_serial_of) (\<lambda>_. []) s1"
      "locks (c_locks s1) = {}" "c_history s1 = (0, Begin ex_id) # map (\<lambda>e. (0, Call (ex_vol_id, e))) (srv_log t) @ [(0, End)]"
    using node_session_alone [OF init _ genuine_ex_stage two_disk_stage, of 0 st t] t by (auto simp: init_conc_def NewResourceLocks_def)
  obtain st' t' where t': "run_state ?unstage \<lparr>srv_locks = c_locks s1, srv_world = (c_world s1, [])\<rparr> = (st', t')"
    by (cases "run_state ?unstage \<lparr>srv_locks = c_locks s1, srv_world = (c_world s1, [])\<rparr>")
  then have log': "srv_log t' \<noteq> []" using s1(2)
    by (auto simp: status_of_def with_lock_def on_locks_TryAcquire on_locks_Release unmount_locked_def on_world_def node_on_def
      logged_def split: prod.splits)
  have "genuine ex_serial_of (RpcUnstage ex_vol_id ''/stage'')" "2 \<notin> fst ` set (c_history s1)"
    using ex_vol_id_parses by (auto simp: genuine_def ex_serial_of_def s1(3))
  from node_session_alone [OF s1(1) this(2,1) two_disk_unstage _ t'] s1(2,3)
  obtain s2 where "conc_reachable (node_call two_disk_env) (node_script TYPE(disk_formats) ex_driver no_globals ex_serial_of) (\<lambda>_. []) s2"
      "c_history s2 = (0, Begin ex_id) # map (\<lambda>e. (0, Call (ex_vol_id, e))) (srv_log t) @ [(0, End)] @
       (2, Begin ex_id) # map (\<lambda>e. (2, Call (ex_vol_id, e))) (srv_log t') @ [(2, End)]" by auto
  then show ?thesis using log log' by (intro exI [of _ s2] exI [of _ "srv_log t"] exI [of _ "srv_log t'"]) simp
qed

section \<open>Properties\<close>

text \<open>C11: However the requests to the node interleave, whatever volume identifiers they carry and whatever the
  operating system answers: when two requests whose volume identifiers name the same disk work on the
  node, the first has finished and released its lock before the second even begins.\<close>

theorem node_requests_on_a_volume_are_serial:
  assumes "conc_reachable (node_call env) (any_node_script T D G) w s"
    and "c_history s = xs @ (i, Call (vid, e)) # ys @ (j, Call (vid', f)) # zs" "i \<noteq> j"
    and "volume_disk vid = d" "volume_disk vid' = d"
  shows "\<exists>us vs. ys = us @ (j, Begin d) # vs \<and> (i, End) \<in> set us"
  by (rule na.serial [OF assms(1-3)]) (simp_all add: assms(4,5))

theorem node_requests_on_a_volume_are_serial_witness:
  "\<exists>s xs e us vs f zs. conc_reachable (node_call two_disk_env) (any_node_script TYPE(disk_formats) ex_driver no_globals) (\<lambda>_. []) s \<and>
     c_history s = xs @ (0, Call (ex_vol_id, e)) # (us @ (2, Begin ex_id) # vs) @ (2, Call (ex_vol_id, f)) # zs \<and> (0, End) \<in> set us"
proof -
  obtain s0 tr tr' where s0: "conc_reachable (node_call two_disk_env) (node_script TYPE(disk_formats) ex_driver no_globals ex_serial_of) (\<lambda>_. []) s0"
    and tr: "tr \<noteq> []" "tr' \<noteq> []" and h: "c_history s0 = (0, Begin ex_id) # map (\<lambda>e. (0, Call (ex_vol_id, e))) tr @ [(0, End)] @
       (2, Begin ex_id) # map (\<lambda>e. (2, Call (ex_vol_id, e))) tr' @ [(2, End)]"
    using ex_node_run by blast
  have s: "conc_reachable (node_call two_disk_env) (any_node_script TYPE(disk_formats) ex_driver no_globals) (\<lambda>_. []) s0"
    by (rule conc_reachable_mono [OF _ s0]) (simp add: node_script_def)
  obtain e es f fs where es: "tr = e # es" "tr' = f # fs" using tr by (cases tr; cases tr') auto
  let ?ys = "map (\<lambda>e. (0 :: nat, Call (ex_vol_id, e))) es @ [(0, End), (2, Begin ex_id)]"
  have split: "c_history s0 = [(0, Begin ex_id)] @ (0, Call (ex_vol_id, e)) # ?ys @ (2, Call (ex_vol_id, f)) #
      (map (\<lambda>e. (2, Call (ex_vol_id, e))) fs @ [(2, End)])"
    unfolding h es by simp
  have disk: "volume_disk ex_vol_id = ex_id" using ex_vol_id_parses by (simp add: volume_disk_def)
  from node_requests_on_a_volume_are_serial [OF s split _ disk disk]
  obtain us vs where "?ys = us @ (2, Begin ex_id) # vs" "(0, End) \<in> set us" by auto
  with s split show ?thesis by metis
qed

text \<open>C6: Data is safe under concurrent requests: whenever a request is about to make a file system, it is a stage
  request, the device has the serial number of the volume it holds, and the device is empty at that
  very moment, for every node with the laws of \<open>disk_node\<close> whose disks have different serial numbers.\<close>

theorem formats_only_blank_device:
  assumes "disk_node env ser blank" "inj S" "conc_reachable (node_call env) (node_script T D G S) w s"
    and "c_session s i = Some p" "s_rest p = e # es" "is_mkfs (snd e)"
  shows "\<exists>req dev. fst (s_label p) = RpcStage req \<and> mkfs_target (snd e) = Some dev \<and>
    ser (c_world s) dev = Some (S (s_key p)) \<and> dev \<in> blank (c_world s)"
  using format_is_safe [OF assms] by blast

theorem formats_only_blank_device_witness:
  "\<exists>s p e es dev. conc_reachable (node_call two_disk_env) (node_script TYPE(disk_formats) ex_driver no_globals ex_serial_of) (\<lambda>_. []) s \<and>
     c_session s 0 = Some p \<and> s_rest p = e # es \<and> mkfs_target (snd e) = Some dev \<and>
     two_disk_serial (c_world s) dev = Some ex_serial \<and> c_world s dev = []"
proof -
  obtain s p e es where s: "conc_reachable (node_call two_disk_env) (node_script TYPE(disk_formats) ex_driver no_globals ex_serial_of) (\<lambda>_. []) s"
    "c_session s 0 = Some p" "s_rest p = e # es" "is_mkfs (snd e)" and key: "s_key p = ex_id"
    using ex_before_format by blast
  from formats_only_blank_device [OF two_disk_node inj_ex_serial_of s] key
  obtain dev where "mkfs_target (snd e) = Some dev" "two_disk_serial (c_world s) dev = Some ex_serial" "c_world s dev = []"
    by (auto simp: ex_serial_of_def)
  with s show ?thesis by blast
qed

text \<open>C14: Serving a node request without interruption is a run of the concurrent system: a request that is answered at
  once does nothing on the node; one whose volume is locked is answered \<open>Aborted\<close> and changes nothing;
  any other is a session that begins with its volume, makes exactly the logged operations of its volume on the
  shared node, and ends with the same node, locks and running requests as the handler leaves. This
  is for every request that locks: an expansion that names the kind of its volume, and not
  \<open>NodeGetVolumeStats\<close>, which only reads.\<close>

theorem node_served_alone_is_a_session:
  fixes env :: "'w node_env"
  assumes "conc_reachable (node_call env) (node_script TYPE('w) D G S) w0 s" "i \<notin> fst ` set (c_history s)" "genuine S q"
    and "\<forall>req. q = RpcNodeExpand req \<longrightarrow> ne_VolumeCapability req \<noteq> None" "\<forall>vid p. q \<noteq> RpcStats vid p"
    and "run_state (serve_node (node_on D G env) q) \<lparr>srv_locks = c_locks s, srv_world = (c_world s, [])\<rparr> = (st, t)"
  shows "case node_locked_body (node_on D G env) q of
      None \<Rightarrow> t = \<lparr>srv_locks = c_locks s, srv_world = (c_world s, [])\<rparr>
    | Some (k, body) \<Rightarrow>
        if k \<in> locks (c_locks s) then st = Some Aborted \<and> t = \<lparr>srv_locks = c_locks s, srv_world = (c_world s, [])\<rparr>
        else \<exists>u. conc_reachable (node_call env) (node_script TYPE('w) D G S) w0 u \<and> c_world u = fst (srv_world t) \<and>
          locks (c_locks u) = locks (srv_locks t) \<and> c_session u = c_session s \<and>
          c_history u = c_history s @ (i, Begin k) # map (\<lambda>e. (i, Call (node_volume q, e))) (srv_log t) @ [(i, End)]"
proof (cases "node_locked_body (node_on D G env) q")
  case None
  then show ?thesis using serve_node_at_once [OF None assms(4,5)] assms(6) by auto
next
  case (Some kb)
  then obtain k body where body: "node_locked_body (node_on D G env) q = Some (k, body)" by (cases kb) auto
  note serve = assms(6) [unfolded serve_node_locked [OF body assms(4)]]
  show ?thesis
  proof (cases "k \<in> locks (c_locks s)")
    case True
    then show ?thesis using serve body unfolding status_of_def by (simp add: with_lock_busy)
  next
    case False
    from node_session_alone [OF assms(1-3) body False serve] keepsD [OF keeps_serve_node assms(6)]
    show ?thesis using body False by simp
  qed
qed

theorem node_served_alone_is_a_session_witness:
  "\<exists>u tr. conc_reachable (node_call two_disk_env) (node_script TYPE(disk_formats) ex_driver no_globals ex_serial_of) (\<lambda>_. []) u \<and>
     c_world u ''/dev/vdb'' = ''xfs'' \<and> locks (c_locks u) = {} \<and>
     c_history u = (3, Begin ex_id) # map (\<lambda>e. (3, Call (ex_vol_id, e))) tr @ [(3, End)]"
proof -
  let ?run = "run_state (serve_node (node_on ex_driver no_globals two_disk_env) (RpcStage ex_stage))
    \<lparr>srv_locks = NewResourceLocks, srv_world = (\<lambda>_. [], [])\<rparr>"
  obtain st t where run: "?run = (st, t)" by (cases ?run)
  have "fst (srv_world (snd ?run)) ''/dev/vdb'' = ''xfs'' \<and> locks (srv_locks (snd ?run)) = {}" by code_simp
  then have t: "fst (srv_world t) ''/dev/vdb'' = ''xfs''" "locks (srv_locks t) = {}" using run by simp_all
  show ?thesis
    using node_served_alone_is_a_session [OF conc_reachable.init, of 3 "\<lambda>_. []" ex_serial_of "RpcStage ex_stage" ex_driver no_globals
        two_disk_env st t] run t genuine_ex_stage
    unfolding two_disk_stage by (auto simp: init_conc_def NewResourceLocks_def)
qed

end
