(* ===== verification/ConcurrentMounts.thy ===== *)
theory ConcurrentMounts
  imports ConcurrentNodeProps
begin

text \<open>
  The mount table under concurrent requests. When every path belongs to one volume, as the paths that
  kubelet makes up do, a path is mounted or unmounted only by the request that holds its volume, and
  an answer about it is still true when it is given.
\<close>

section \<open>What a request knows about its path\<close>

fun node_path :: "node_request \<Rightarrow> string" where
  "node_path (RpcStage req) = nst_StagingTargetPath req"
| "node_path (RpcUnstage _ p) = p"
| "node_path (RpcNodePublish req) = np_TargetPath req"
| "node_path (RpcNodeUnpublish _ p) = p"
| "node_path (RpcNodeExpand req) = ne_VolumePath req"
| "node_path (RpcStats _ p) = p"

text \<open>The operations of a request mount and clean up only its path, and run only harmless commands.\<close>

fun mount_allowed :: "string \<Rightarrow> node_event \<Rightarrow> bool" where
  "mount_allowed p (nv_Mount _ t _ _ _) \<longleftrightarrow> t = p"
| "mount_allowed p (nv_Cleanup t b _) \<longleftrightarrow> t = p \<and> b"
| "mount_allowed p (nv_Exec c _ _) \<longleftrightarrow> quiet_command c"
| "mount_allowed p (nv_OsExec c _ _) \<longleftrightarrow> c = ''blkid''"
| "mount_allowed p (nv_Statfs _ _) \<longleftrightarrow> False"
| "mount_allowed p _ \<longleftrightarrow> True"

fun observe_mount :: "string \<Rightarrow> bool option \<Rightarrow> node_event \<Rightarrow> bool option" where
  "observe_mount p kn (nv_Mount _ t _ _ ok) = (if t = p \<and> ok then Some True else kn)"
| "observe_mount p kn (nv_Cleanup t _ ok) = (if t \<noteq> p then kn else if ok then Some False else None)"
| "observe_mount p kn (nv_IsMountPoint t r) = (if t = p \<and> r = Inr True then Some True else kn)"
| "observe_mount p kn (nv_IsLikelyNotMountPoint t r) = (if t = p \<and> r = Inr False then Some True else kn)"
| "observe_mount p kn _ = kn"

abbreviation mounted :: "string \<Rightarrow> bool option \<Rightarrow> node_event list \<Rightarrow> bool option" where
  "mounted p \<equiv> foldl (observe_mount p)"

text \<open>The operations are allowed, and after success the path is known to be mounted, or not.\<close>

definition mount_log :: "string \<Rightarrow> bool \<Rightarrow> 'e + 'a \<Rightarrow> node_event list \<Rightarrow> bool" where
  "mount_log p b r tr \<longleftrightarrow> list_all (mount_allowed p) tr \<and> (\<not> isl r \<longrightarrow> (\<forall>kn. mounted p kn tr = Some b))"

lemma mount_log_error [simp]: "mount_log p b (Inl e) tr \<longleftrightarrow> list_all (mount_allowed p) tr"
  by (simp add: mount_log_def)

lemma mount_log_append [simp]:
  "mount_log p b r (xs @ ys) \<longleftrightarrow> list_all (mount_allowed p) xs \<and> list_all (mount_allowed p) ys \<and>
     (\<not> isl r \<longrightarrow> (\<forall>kn. mounted p (mounted p kn xs) ys = Some b))"
  by (auto simp: mount_log_def)

abbreviation neutral :: "string \<Rightarrow> node_event list \<Rightarrow> bool" where
  "neutral p tr \<equiv> list_all (mount_allowed p) tr \<and> (\<forall>kn. mounted p kn tr = kn)"

lemma lookup_neutral: "list_all is_lookup tr \<Longrightarrow> neutral p tr"
proof (induction tr)
  case (Cons e tr)
  then show ?case by (cases e) auto
qed simp

lemma logs_FormatNewDisk_mounts:
  "logs snd (\<lambda>r tr. mount_log t True r tr) (FormatNewDisk (traced_env env) ro s f t mo os)"
  unfolding FormatNewDisk_def traced_env_simps Let_def
  by (intro logs_cases logs_call) (auto simp: mount_log_def quiet_command_def strings_HasPrefix_def)

lemma logs_GetDiskFStypePTtype_neutral:
  "logs snd (\<lambda>_ tr. neutral p tr) (GetDiskFStypePTtype (traced_env env) s)"
  by (rule logs_mono [OF logs_GetDiskFStypePTtype]) auto

lemma logs_mount_failed_mounts:
  "logs snd (\<lambda>r tr. mount_log t True r tr) (mount_failed (traced_env env) ro s t f mo os)"
  unfolding mount_failed_def traced_env_simps
  by (intro logs_cases logs_call logs_bind [OF logs_GetDiskFStypePTtype_neutral [of t]] logs_mono [OF logs_FormatNewDisk_mounts])
    (auto simp: mount_log_def)

lemma logs_FormatAndMount_mounts:
  "logs snd (\<lambda>r tr. mount_log t True r tr) (FormatAndMount (traced_env env) s t f mo os omit)"
proof -
  have fsck: "logs snd (\<lambda>_ tr. neutral t tr) (if b then run_fsck (traced_env env) s else State_Monad.return True)" for b
    by (intro logs_if logs_mono [OF logs_run_fsck] logs_return) auto
  show ?thesis
    unfolding FormatAndMount_def Let_def traced_env_simps
    by (intro logs_bind [OF fsck] logs_cases logs_call logs_mono [OF logs_mount_failed_mounts]) (auto simp: mount_log_def)
qed

lemma logs_getDevPath_neutral: "logs snd (\<lambda>_ tr. neutral p tr) (getDevPathBySerial (traced_env env) serial)"
  by (rule logs_mono [OF logs_getDevPathBySerial]) (rule lookup_neutral)

lemma logs_stage_path_mounts:
  "logs snd (\<lambda>r tr. list_all (mount_allowed p) tr \<and> (r = Some False \<longrightarrow> (\<forall>kn. mounted p kn tr = Some True)))
     (stage_path_free (traced_env env) p)"
  unfolding stage_path_free_def traced_env_simps
  by (intro logs_cases logs_call) (auto intro!: logs_cases logs_call split: os_error.split if_splits)

lemma logs_stage_mounts:
  "logs srv_log (\<lambda>r tr. mount_log p True r tr) (stage_locked (traced_node ns) cap serial p)"
proof -
  have dev: "logs srv_log (\<lambda>r tr. mount_log p True r tr) (stage_device (traced_node ns) m fs dev p)" for m fs dev
    unfolding stage_device_def traced_node_simps traced_env_simps
    by (rule logs_bind [OF logs_on_world [OF logs_FormatAndMount_mounts]], intro logs_cases logs_on_world_call)
      (auto simp: mount_log_def)
  show ?thesis
    unfolding stage_locked_def traced_node_simps Let_def
    by (intro logs_cases logs_bind [OF logs_on_world [OF logs_stage_path_mounts]]
        logs_bind [OF logs_on_world [OF logs_getDevPath_neutral [of p]]] logs_mono [OF dev])
      (auto simp: mount_log_def)
qed

lemma logs_createTarget_neutral:
  "logs snd (\<lambda>_ tr. neutral p tr) (createTargetMountPathIfNotExists (traced_env env) p b)"
  unfolding createTargetMountPathIfNotExists_def traced_env_simps
  by (intro logs_cases logs_call) (auto intro!: logs_cases logs_logged split: os_error.split)

lemma logs_mounted_check:
  "logs srv_log (\<lambda>r tr. list_all (mount_allowed p) tr \<and> (r = Inr True \<longrightarrow> (\<forall>kn. mounted p kn tr = Some True)))
     (if b then on_world (mnt_IsMountPoint (traced_env env) p)
      else State_Monad.bind (on_world (mnt_IsLikelyNotMountPoint (traced_env env) p))
        (\<lambda>notMnt. State_Monad.return (map_sum id Not notMnt)))"
  unfolding traced_env_simps
  by (intro logs_cases logs_on_world_call logs_on_world logs_logged) auto

lemma logs_publish_mounts:
  "logs srv_log (\<lambda>r tr. mount_log (np_TargetPath req) True r tr) (node_publish_locked (traced_node ns) req cap serial)"
proof -
  have "logs srv_log (\<lambda>r tr. mount_log (np_TargetPath req) True r tr) (node_publish_mount (traced_node ns) req cap src)" for src
    unfolding node_publish_mount_def traced_node_simps Let_def
    by (intro logs_cases logs_bind [OF logs_on_world [OF logs_createTarget_neutral]] logs_bind [OF logs_mounted_check])
      (auto simp: mount_log_def intro!: logs_on_world_call logs_return)
  then show ?thesis
    unfolding node_publish_locked_def traced_node_simps
    by (intro logs_cases logs_bind [OF logs_on_world [OF logs_getDevPath_neutral [of "np_TargetPath req"]]])
      (auto simp: mount_log_def elim!: logs_mono)
qed

lemma logs_unmount_mounts: "logs srv_log (\<lambda>r tr. mount_log p False r tr) (unmount_locked (traced_node ns) p)"
  unfolding unmount_locked_def traced_node_simps traced_env_simps
  by (intro logs_cases logs_on_world_call) (auto simp: mount_log_def)

lemma allowed_bind:
  assumes "logs lg (\<lambda>_ tr. list_all Q tr) m" "\<And>a. logs lg (\<lambda>_ tr. list_all Q tr) (k a)"
  shows "logs lg (\<lambda>_ tr. list_all Q tr) (State_Monad.bind m k)"
  by (rule logs_bind [OF assms(1)], rule logs_mono [OF assms(2)]) auto

lemma logs_expand_mounts:
  "logs srv_log (\<lambda>_ tr. list_all (mount_allowed p) tr) (no_result (node_expand_locked (traced_node ns) serial p n))"
proof -
  have lookup: "logs snd (\<lambda>_ tr. list_all (mount_allowed p) tr) (getDevPathBySerial (traced_env env) serial)" for env :: "'a node_env"
    by (rule logs_mono [OF logs_getDevPath_neutral]) blast
  show ?thesis
    unfolding no_result_def node_expand_locked_def getBlockSizeBytes_def traced_node_simps traced_env_simps
    by (intro logs_cases allowed_bind logs_on_world lookup logs_logged) auto
qed

section \<open>The sessions\<close>

text \<open>The path of every request belongs to its volume: \<open>own p\<close> is the volume of the path \<open>p\<close>.\<close>

definition mount_script ::
  "(string \<Rightarrow> string) \<Rightarrow> 'v itself \<Rightarrow> DiskDriver \<Rightarrow> globals \<Rightarrow> (string \<Rightarrow> string) \<Rightarrow> node_label \<Rightarrow> string \<Rightarrow>
   (string \<times> node_event) list \<Rightarrow> bool" where
  "mount_script own T D G S l k evs \<longleftrightarrow> node_script T D G S l k evs \<and> own (node_path (fst l)) = k"

text \<open>Whether a successful request leaves its path mounted.\<close>

fun leaves_mounted :: "node_request \<Rightarrow> bool option" where
  "leaves_mounted (RpcStage _) = Some True"
| "leaves_mounted (RpcNodePublish _) = Some True"
| "leaves_mounted (RpcUnstage _ _) = Some False"
| "leaves_mounted (RpcNodeUnpublish _ _) = Some False"
| "leaves_mounted _ = None"

definition session_mounts :: "node_request \<Rightarrow> code + unit \<Rightarrow> node_event list \<Rightarrow> bool" where
  "session_mounts q r tr \<longleftrightarrow> list_all (mount_allowed (node_path q)) tr \<and>
     (\<forall>b. leaves_mounted q = Some b \<longrightarrow> \<not> isl r \<longrightarrow> mounted (node_path q) None tr = Some b)"

lemma mounts_session:
  "logs srv_log (\<lambda>r tr. mount_log p b r tr) body \<Longrightarrow> node_path q = p \<Longrightarrow> leaves_mounted q = Some b \<Longrightarrow>
   logs srv_log (session_mounts q) body"
  by (erule logs_mono) (auto simp: session_mounts_def mount_log_def)

lemma logs_session_mounts:
  assumes "node_locked_body (traced_node ns) q = Some (k, body)"
  shows "logs srv_log (session_mounts q) body"
proof (cases q)
  case (RpcStage req)
  then obtain cap serial where "body = stage_locked (traced_node ns) cap serial (nst_StagingTargetPath req)"
    using assms by (auto simp: node_locked_body_def split: if_splits option.splits sum.splits)
  then show ?thesis by (simp add: RpcStage mounts_session [OF logs_stage_mounts])
next
  case (RpcNodePublish req)
  then obtain cap serial where "body = node_publish_locked (traced_node ns) req cap serial"
    using assms by (auto simp: node_locked_body_def split: if_splits option.splits sum.splits)
  then show ?thesis by (simp add: RpcNodePublish mounts_session [OF logs_publish_mounts])
next
  case (RpcNodeExpand req)
  then obtain serial n where "body = no_result (node_expand_locked (traced_node ns) serial (ne_VolumePath req) n)"
    using assms by (auto simp: node_locked_body_def split: if_splits option.splits sum.splits)
  then show ?thesis using RpcNodeExpand by (auto simp: session_mounts_def intro: logs_mono [OF logs_expand_mounts])
qed (use assms in \<open>auto simp: node_locked_body_def mounts_session [OF logs_unmount_mounts] split: if_splits\<close>)

lemma mount_script_mounts:
  assumes "mount_script own T D G S l k evs"
  shows "session_mounts (fst l) (snd l) (map snd evs)" "own (node_path (fst l)) = k"
proof -
  obtain env :: "'a node_env" and L v body tr where
    body: "node_locked_body (traced_node \<lparr>ns_driver = D, ns_env = env, ns_globals = G\<rparr>) (fst l) = Some (k, body)"
    and run: "body_run body L v = (snd l, tr)" "evs = map (Pair (node_volume (fst l))) tr"
    using assms by (auto simp: mount_script_def node_script_def any_node_script_def node_on_def)
  from logs_session_mounts [OF body] run show "session_mounts (fst l) (snd l) (map snd evs)"
    by (auto simp: body_run_def o_def split: prod.splits dest: logsD)
  show "own (node_path (fst l)) = k" using assms by (simp add: mount_script_def)
qed

section \<open>The mount table\<close>

lemma performs_mounts:
  assumes table: "mount_table env tbl" and ok: "mount_allowed p e" and perf: "node_performs env w e w'"
  shows "q \<noteq> p \<Longrightarrow> q \<in> tbl w' \<longleftrightarrow> q \<in> tbl w"
    and "observe_mount p kn e = Some b \<Longrightarrow> (\<And>c. kn = Some c \<Longrightarrow> (p \<in> tbl w) = c) \<Longrightarrow> (p \<in> tbl w') = b"
proof -
  consider (mount) s f os a where "e = nv_Mount s p f os a" | (clean) a where "e = nv_Cleanup p True a"
    | (check) t r where "e = nv_IsMountPoint t r" | (check') t r where "e = nv_IsLikelyNotMountPoint t r"
    | (other) "tbl w' = tbl w" "observe_mount p kn e = kn"
    using ok perf by (cases e) (auto dest: keepsD [OF mount_table_keeps(1) [OF table]] keepsD [OF mount_table_keeps(2) [OF table]]
      keepsD [OF mount_table_keeps(3) [OF table]] keepsD [OF mount_table_keeps(4) [OF table]] keepsD [OF mount_table_keeps(5) [OF table]]
      keepsD [OF mount_table_keeps(6) [OF table]] keepsD [OF mount_table_keeps(7) [OF table]] keepsD [OF mount_table_keeps(8) [OF table]]
      keepsD [OF mount_table_keeps(9) [OF table]])
  then have "(q \<noteq> p \<longrightarrow> (q \<in> tbl w' \<longleftrightarrow> q \<in> tbl w)) \<and>
      (observe_mount p kn e = Some b \<longrightarrow> (\<forall>c. kn = Some c \<longrightarrow> (p \<in> tbl w) = c) \<longrightarrow> (p \<in> tbl w') = b)"
  proof cases
    case (mount s f os a)
    then have "run_state (mnt_Mount env s p f os) w = (a, w')" using perf by simp
    from tracksD [OF mount_tableD(1) [OF table] this] show ?thesis using mount by auto
  next
    case (clean a)
    then have "run_state (mnt_CleanupMountPoint env p True) w = (a, w')" using perf by simp
    from tracksD [OF mount_tableD(2) [OF table] this] show ?thesis using clean by auto
  next
    case (check t r)
    then have "run_state (mnt_IsMountPoint env t) w = (r, w')" using perf by simp
    from tracksD [OF mount_tableD(3) [OF table] this] show ?thesis using check by auto
  next
    case (check' t r)
    then have "run_state (mnt_IsLikelyNotMountPoint env t) w = (r, w')" using perf by simp
    from tracksD [OF mount_tableD(4) [OF table] this] show ?thesis using check' by auto
  qed auto
  then show "q \<noteq> p \<Longrightarrow> q \<in> tbl w' \<longleftrightarrow> q \<in> tbl w"
    and "observe_mount p kn e = Some b \<Longrightarrow> (\<And>c. kn = Some c \<Longrightarrow> (p \<in> tbl w) = c) \<Longrightarrow> (p \<in> tbl w') = b" by blast+
qed

text \<open>What a request knows about its own path is true, whatever the other requests do.\<close>

definition knows_mount ::
  "(string \<Rightarrow> string) \<Rightarrow> 'w node_env \<Rightarrow> ('w \<Rightarrow> string set) \<Rightarrow> node_label \<Rightarrow> string \<Rightarrow> (string \<times> node_event) list \<Rightarrow> string set \<Rightarrow> bool" where
  "knows_mount own env tbl l k ds M \<longleftrightarrow> (mount_table env tbl \<and> own (node_path (fst l)) = k \<longrightarrow>
     (\<forall>b. mounted (node_path (fst l)) None (map snd ds) = Some b \<longrightarrow> (node_path (fst l) \<in> M) = b))"

interpretation nm: session_knowledge "node_call env" "mount_script own T D G S" node_touches "\<lambda>w _. tbl w" "knows_mount own env tbl"
  for env :: "'w node_env" and own tbl T D G S
proof
  fix l :: node_label and k evs e
  assume "mount_script own T D G S l k evs" "e \<in> set evs"
  then show "node_touches e \<subseteq> {k}" using nd.script_touches [of T D G S l k evs e] by (simp add: mount_script_def)
next
  fix l :: node_label and k ds e es and w w' :: 'w
  assume script: "mount_script own T D G S l k (ds @ e # es)" and knows: "knows_mount own env tbl l k ds (tbl w)"
    and perf: "node_performs env w (snd e) w'"
  have ok: "mount_allowed (node_path (fst l)) (snd e)" "own (node_path (fst l)) = k"
    using mount_script_mounts [OF script] by (simp_all add: session_mounts_def)
  show "knows_mount own env tbl l k (ds @ [e]) (tbl w')"
    unfolding knows_mount_def
  proof (intro impI allI)
    fix b
    assume table: "mount_table env tbl \<and> own (node_path (fst l)) = k" and "mounted (node_path (fst l)) None (map snd (ds @ [e])) = Some b"
    then have "observe_mount (node_path (fst l)) (mounted (node_path (fst l)) None (map snd ds)) (snd e) = Some b" by simp
    then show "(node_path (fst l) \<in> tbl w') = b"
      by (rule performs_mounts(2) [OF conjunct1 [OF table] ok(1) perf]) (use knows table in \<open>simp add: knows_mount_def\<close>)
  qed
  show "knows_mount own env tbl l' d ds' (tbl w')" if d: "d \<noteq> k" and other: "knows_mount own env tbl l' d ds' (tbl w)" for d l' ds'
    unfolding knows_mount_def
  proof (intro impI allI)
    fix b
    assume table: "mount_table env tbl \<and> own (node_path (fst l')) = d" and b: "mounted (node_path (fst l')) None (map snd ds') = Some b"
    have "node_path (fst l') \<noteq> node_path (fst l)" using table ok(2) d by auto
    from performs_mounts(1) [OF conjunct1 [OF table] ok(1) perf this] show "(node_path (fst l') \<in> tbl w') = b"
      using other table b by (simp add: knows_mount_def)
  qed
qed (simp add: knows_mount_def)

section \<open>Properties\<close>

text \<open>C9: Concurrent requests do not race on mount points, when every path belongs to one volume: at the moment a
  stage or publish request is answered with success its path is mounted, at the moment an unstage or
  unpublish request is, it is not; and in every step of every interleaving, a path is mounted or
  unmounted only by a request for that path that holds the lock of its volume.\<close>

theorem no_race_on_mounts:
  assumes "mount_table env tbl" "conc_reachable (node_call env) (mount_script own T D G S) w s"
  shows "(\<forall>i p b. c_session s i = Some p \<longrightarrow> s_rest p = [] \<longrightarrow> snd (s_label p) = Inr () \<longrightarrow>
      leaves_mounted (fst (s_label p)) = Some b \<longrightarrow> (node_path (fst (s_label p)) \<in> tbl (c_world s)) = b) \<and>
    (\<forall>t d. conc_step (node_call env) (mount_script own T D G S) s t \<longrightarrow> (d \<in> tbl (c_world t)) \<noteq> (d \<in> tbl (c_world s)) \<longrightarrow>
      (\<exists>i p. c_session s i = Some p \<and> s_key p = own d \<and> node_path (fst (s_label p)) = d))"
proof (intro conjI allI impI)
  fix i p b
  assume p: "c_session s i = Some p" "s_rest p = []" "snd (s_label p) = Inr ()" "leaves_mounted (fst (s_label p)) = Some b"
  note script = mount_script_mounts [OF nm.session_script [OF assms(2) p(1)]]
  have "mounted (node_path (fst (s_label p))) None (map snd (s_done p)) = Some b"
    using script(1) p by (simp add: session_mounts_def)
  then show "(node_path (fst (s_label p)) \<in> tbl (c_world s)) = b"
    using nm.knowledge [OF assms(2) p(1), of tbl] assms(1) script(2) by (simp add: knows_mount_def)
next
  fix t d
  assume "conc_step (node_call env) (mount_script own T D G S) s t" and d: "(d \<in> tbl (c_world t)) \<noteq> (d \<in> tbl (c_world s))"
  then show "\<exists>i p. c_session s i = Some p \<and> s_key p = own d \<and> node_path (fst (s_label p)) = d"
  proof cases
    case (call i p e es w')
    note script = mount_script_mounts [OF nm.session_script [OF assms(2) call(2)]]
    have "mount_allowed (node_path (fst (s_label p))) (snd e)"
      using script(1) call(3) by (simp add: session_mounts_def)
    from performs_mounts(1) [OF assms(1) this call(4), of d] d call(1) have "node_path (fst (s_label p)) = d" by auto
    then show ?thesis using script(2) call(2) by auto
  qed auto
qed

text \<open>The example node, on which every path belongs to the example volume.\<close>

lemma ex_node_stage:
  "node_locked_body (node_on ex_driver no_globals ex_env) (RpcStage ex_stage) =
     Some (ex_id, stage_locked (node_on ex_driver no_globals ex_env) ex_mount_cap ex_serial ''/stage'')"
proof -
  have "ValidateNodeServiceRequest ex_driver NODE_STAGE_UNSTAGE_VOLUME" "ex_vol_id \<noteq> []"
    "cap_AccessType ex_mount_cap \<noteq> AccessType_Block" by code_simp+
  then show ?thesis using ex_vol_id_parses by (simp add: node_locked_body_def ex_stage_def node_on_def)
qed

lemma ex_staged:
  "\<exists>s p. conc_reachable (node_call ex_env) (mount_script (\<lambda>_. ex_id) TYPE(node_world) ex_driver no_globals ex_serial_of)
       \<lparr>nw_format = [], nw_mounts = []\<rparr> s \<and>
     c_session s 0 = Some p \<and> s_label p = (RpcStage ex_stage, Inr ()) \<and> s_rest p = []"
proof -
  let ?body = "stage_locked (node_on ex_driver no_globals ex_env) ex_mount_cap ex_serial ''/stage''"
  let ?w = "\<lparr>nw_format = [], nw_mounts = []\<rparr>"
  let ?s = "\<lparr>srv_locks = NewResourceLocks, srv_world = (?w, [])\<rparr>"
  obtain r t where run: "run_state ?body ?s = (r, t)" by (cases "run_state ?body ?s")
  have "fst (run_state ?body ?s) = Inr ()" by code_simp
  then have r: "r = Inr ()" using run by simp
  have perf: "performs_all (node_call ex_env) ?w (map (Pair ex_vol_id) (srv_log t)) (fst (srv_world t))"
    using followsD [OF follows_node_locked_body [OF ex_node_stage] run] by auto
  have "body_run ?body NewResourceLocks ?w = (Inr (), srv_log t)" using run r by (simp add: body_run_def)
  then have script: "mount_script (\<lambda>_. ex_id) TYPE(node_world) ex_driver no_globals ex_serial_of (RpcStage ex_stage, Inr ()) ex_id
      (map (Pair ex_vol_id) (srv_log t) @ [])"
    unfolding mount_script_def node_script_def any_node_script_def fst_conv snd_conv append_Nil2 node_volume.simps ex_stage_volume
    using ex_node_stage genuine_ex_stage by blast
  obtain s where "conc_reachable (node_call ex_env) (mount_script (\<lambda>_. ex_id) TYPE(node_world) ex_driver no_globals ex_serial_of) ?w s"
    "c_session s 0 = Some \<lparr>s_label = (RpcStage ex_stage, Inr ()), s_key = ex_id, s_done = map (Pair ex_vol_id) (srv_log t), s_rest = []\<rparr>"
    using session_starts [where performs = "node_call ex_env"
        and script = "mount_script (\<lambda>_. ex_id) TYPE(node_world) ex_driver no_globals ex_serial_of"
        and s = "init_conc ?w" and i = 0 and ds = "map (Pair ex_vol_id) (srv_log t)" and es = "[]" and w = "fst (srv_world t)", OF conc_reachable.init _ script] perf
    by (auto simp: init_conc_def NewResourceLocks_def)
  then show ?thesis by (intro exI conjI) (assumption, assumption, simp_all)
qed

theorem no_race_on_mounts_witness:
  "\<exists>s p. conc_reachable (node_call ex_env) (mount_script (\<lambda>_. ex_id) TYPE(node_world) ex_driver no_globals ex_serial_of)
       \<lparr>nw_format = [], nw_mounts = []\<rparr> s \<and> c_session s 0 = Some p \<and> s_rest p = [] \<and> ''/stage'' \<in> set (nw_mounts (c_world s))"
proof -
  obtain s p where s: "conc_reachable (node_call ex_env) (mount_script (\<lambda>_. ex_id) TYPE(node_world) ex_driver no_globals ex_serial_of)
      \<lparr>nw_format = [], nw_mounts = []\<rparr> s" "c_session s 0 = Some p" "s_label p = (RpcStage ex_stage, Inr ())" "s_rest p = []"
    using ex_staged by blast
  have "nst_StagingTargetPath ex_stage \<in> set (nw_mounts (c_world s))"
    using conjunct1 [OF no_race_on_mounts [OF ex_mount_table s(1)], rule_format, of 0 p True] s(2-) by (simp add: ex_table_def)
  then show ?thesis using s by (auto simp: ex_stage_def)
qed

end
