(* ===== verification/SnapshotProps.thy ===== *)
theory SnapshotProps
  imports ControllerProps ConcurrentController
begin

text \<open>
  The snapshot requests of the controller server on the driver's own cloud manager: which SDK calls
  they make and what a successful answer says about the cloud.
\<close>

section \<open>What a search by name has seen\<close>

text \<open>Every item a paged listing returns is in the data of one of its logged answers.\<close>

definition item_seen :: "(int \<Rightarrow> sdk_error + 'd page option \<Rightarrow> 'e) \<Rightarrow> 'd option \<Rightarrow> 'e list \<Rightarrow> bool" where
  "item_seen ev x tr \<longleftrightarrow> (\<exists>k p. ev k (Inr (Some p)) \<in> set tr \<and> x \<in> set (DataSet p))"

lemma item_seen_Cons: "item_seen ev x tr \<Longrightarrow> item_seen ev x (e # tr)"
  by (auto simp: item_seen_def)

lemma item_seen_hd: "x \<in> set (DataSet p) \<Longrightarrow> item_seen ev x (ev k (Inr (Some p)) # tr)"
  by (auto simp: item_seen_def)

lemma logs_fetch_pages:
  "logs snd (\<lambda>r tr. \<forall>xs. r = Inr xs \<longrightarrow> (\<forall>x \<in> set xs. x \<in> set acc \<or> item_seen ev x tr))
     (fetch_pages (\<lambda>k. logged (ev k) (f k)) n j acc)"
proof (induction n arbitrary: j acc)
  case 0
  show ?case by (simp add: logs_return)
next
  case (Suc n)
  show ?case
    unfolding fetch_pages.simps
    by (intro logs_call logs_case_sum logs_case_option logs_return logs_mono [OF Suc.IH])
      (auto intro: item_seen_Cons item_seen_hd)
qed

lemma logs_list_pages:
  "logs snd (\<lambda>r tr. \<forall>xs. r = Inr xs \<longrightarrow> (\<forall>x \<in> set xs. item_seen ev x tr)) (list_pages (\<lambda>k. logged (ev k) (f k)))"
  unfolding list_pages_def
  by (intro logs_call logs_cases logs_mono [OF logs_fetch_pages]) (auto intro: item_seen_Cons item_seen_hd)

text \<open>The log has an answer to a search for the name that lists the snapshot \<open>i\<close> of the disk \<open>v\<close>.\<close>

definition snap_found :: "string \<Rightarrow> string \<Rightarrow> string \<Rightarrow> api_event list \<Rightarrow> bool" where
  "snap_found name v i tr \<longleftrightarrow> (\<exists>q p d. ev_DescribeSnapshots q (Inr (Some p)) \<in> set tr \<and>
     ds_SnapshotName q = Some (''^'' @ name @ ''$'') \<and> Some d \<in> set (DataSet p) \<and>
     or_else (si_DiskId d) [] = v \<and> or_else (si_SnapshotId d) [] = i)"

lemma item_seen_snap_found:
  assumes "item_seen (\<lambda>k. ev_DescribeSnapshots (snapshots_by_name name z grp k)) (Some d) tr"
  shows "snap_found name (ZecVolumeSnap_SrcDiskId (toZecVolumeSnap d)) (ZecVolumeSnap_Id (toZecVolumeSnap d)) tr"
proof -
  obtain k p where "ev_DescribeSnapshots (snapshots_by_name name z grp k) (Inr (Some p)) \<in> set tr" "Some d \<in> set (DataSet p)"
    using assms by (auto simp: item_seen_def)
  then show ?thesis
    unfolding snap_found_def
    by (intro exI [of _ "snapshots_by_name name z grp k"] exI [of _ p] exI [of _ d])
      (simp add: snapshots_by_name_def toZecVolumeSnap_def NewZecVolumeSnap_def)
qed

lemma logs_scan:
  "logs snd (\<lambda>r tr. \<forall>s. r = (Some s, None) \<longrightarrow> snap_found name v (ZecVolumeSnap_Id s) tr)
     (FindSnapshotByName (traced_cm cm) name v z grp)"
proof (cases "name = [] \<or> zecClient cm = None")
  case True
  then show ?thesis by (auto simp: FindSnapshotByName_def logs_return)
next
  case False
  then obtain c where c: "zecClient cm = Some c" by auto
  have found: "snap_found name v (ZecVolumeSnap_Id s) tr"
    if "\<forall>x \<in> set ss. item_seen (\<lambda>k. ev_DescribeSnapshots (snapshots_by_name name z grp k)) x tr" "scan_snapshots v ss = (Some s, None)" for ss s tr
    using scan_snapshots_found [OF that(2)] item_seen_snap_found that(1) by (auto split: if_splits)
  show ?thesis
    using False
    by (auto simp: FindSnapshotByName_def traced_cm_simps c intro!: logs_bind [OF logs_list_pages] logs_case_sum logs_return found)
qed

lemma logs_find_snapshot_by_name:
  "logs snd (\<lambda>r tr. only_reads tr \<and> (\<forall>s. r = (Some s, None) \<longrightarrow> snap_found name v (ZecVolumeSnap_Id s) tr))
     (FindSnapshotByName (traced_cm cm) name v z grp)"
proof (rule logs_conj [OF _ logs_scan])
  show "logs snd (\<lambda>r. only_reads) (FindSnapshotByName (traced_cm cm) name v z grp)"
    using calls_FindSnapshotByName [of "\<lambda>_. False" cm name v z grp]
    by (rule logs_mono) (auto simp: only_reads_def list_all_iff)
qed

text \<open>A successful creation made no changing call and found the snapshot \<open>i\<close> it answers, or created a
  snapshot that was then seen available.\<close>

definition snapshot_made :: "string \<Rightarrow> string \<Rightarrow> string \<Rightarrow> api_event list \<Rightarrow> bool" where
  "snapshot_made name v i tr \<longleftrightarrow> only_reads tr \<and> snap_found name v i tr \<or>
     (\<exists>j. ev_CreateSnapshot name v (Inr (Some (Some j))) \<in> set tr \<and> list_ex (snap_seen j (\<lambda>st. st = SnapStatusAvailable)) tr)"

lemma snap_found_append: "snap_found name v i tr \<or> snap_found name v i tr' \<Longrightarrow> snap_found name v i (tr @ tr')"
  unfolding snap_found_def by fastforce

lemma snapshot_made_found: "only_reads tr \<Longrightarrow> snap_found name v i tr \<Longrightarrow> snapshot_made name v i tr"
  by (simp add: snapshot_made_def)

lemma snapshot_made_append: "only_reads tr \<Longrightarrow> snapshot_made name v i tr' \<Longrightarrow> snapshot_made name v i (tr @ tr')"
  by (auto simp: snapshot_made_def snap_found_append)

lemma snapshot_madeI:
  "ext \<noteq> [] \<Longrightarrow> hd ext = ev_CreateSnapshot name v (Inr (Some (Some j))) \<Longrightarrow>
   snap_seen j (\<lambda>st. st = SnapStatusAvailable) (last ext) \<Longrightarrow> snapshot_made name v i (ext @ tr)"
  unfolding snapshot_made_def list_ex_iff by (metis Un_iff hd_in_set last_in_set set_append)

lemma logs_snapshot_new:
  assumes "cs_cloud cs = zec_CloudManager (traced_cm cm)"
  shows "logs srv_log (\<lambda>r tr. one_write (\<lambda>e. \<exists>a. e = ev_CreateSnapshot (cs_Name req) v a) tr \<and>
      (\<forall>x. r = Inr x \<longrightarrow> snapshot_made (cs_Name req) v (SnapshotId x) tr)) (snapshot_new cs now req v n)"
  unfolding snapshot_new_def assms zec_CloudManager_def CloudManager.simps
proof (intro logs_cases logs_bind [OF logs_on_world [OF logs_CreateSnapshot_cm]]
    logs_bind [OF logs_on_world [OF logs_FindSnapshot]])
qed (auto intro: snapshot_madeI)

lemma logs_snapshot_locked:
  assumes "cs_cloud cs = zec_CloudManager (traced_cm cm)"
  shows "logs srv_log (\<lambda>r tr. one_write (\<lambda>e. \<exists>a. e = ev_CreateSnapshot (cs_Name req) v a) tr \<and>
      (\<forall>x. r = Inr x \<longrightarrow> snapshot_made (cs_Name req) v (SnapshotId x) tr)) (snapshot_locked cs now req v)"
  unfolding snapshot_locked_def assms zec_CloudManager_def CloudManager.simps
proof (intro logs_bind [OF logs_on_world [OF logs_FindVolume]] logs_cases
    logs_bind [OF logs_on_world [OF logs_find_snapshot_by_name]])
qed (auto simp: snapshot_response_def intro!: logs_mono [OF logs_snapshot_new [OF assms]] snapshot_made_append intro: snapshot_made_found)

lemma logs_delete_snapshot_locked:
  assumes "cs_cloud cs = zec_CloudManager (traced_cm cm)"
  shows "logs srv_log (\<lambda>r tr. one_write (\<lambda>e. \<exists>a. e = ev_DeleteSnapshots [i] a) tr \<and>
      (r = Inr () \<longrightarrow> tr \<noteq> [] \<and> snap_gone i (last tr))) (delete_snapshot_locked cs i)"
  unfolding delete_snapshot_locked_def assms zec_CloudManager_def CloudManager.simps
proof (intro logs_bind [OF logs_on_world [OF logs_FindSnapshot]] logs_cases
    logs_bind [OF logs_on_world [OF logs_DeleteSnapshot_cm]])
qed auto

section \<open>An example cloud\<close>

text \<open>One snapshot, which exists unless the phase is \<open>Gone\<close>.\<close>

definition ex_snap_info :: SnapshotInfo where
  "ex_snap_info = \<lparr>si_SnapshotId = Some ''snap-1'', si_SnapshotName = Some ''s1'', si_Status = Some SnapStatusAvailable,
     si_DiskId = Some ex_id, si_DiskAbility = Some True, si_ZoneId = Some ''z1'', si_ResourceGroup = None,
     si_CreateTime = Some ''2025-01-02T03:04:05Z''\<rparr>"

definition snapstore_client :: "disk_phase zec_client" where
  "snapstore_client = snap_client\<lparr>
     api_CreateSnapshot := (\<lambda>n i. State (\<lambda>_. (Inr (Some (Some ''snap-1'')), Live DiskStatusAvailable))),
     api_DeleteSnapshots := (\<lambda>is. State (\<lambda>_. (Inr (Some []), Gone))),
     api_DescribeSnapshots := (\<lambda>q. State (\<lambda>p. (Inr (Some (if p = Gone then \<lparr>TotalCount = Some 0, DataSet = []\<rparr>
       else \<lparr>TotalCount = Some 1, DataSet = [Some ex_snap_info]\<rparr>)), p)))\<rparr>"

definition snapstore_server :: "(disk_phase \<times> api_event list) ControllerServer" where
  "snapstore_server = \<lparr>cs_driver = ex_driver, cs_cloud = zec_CloudManager (traced_cm (bin_cm\<lparr>zecClient := Some snapstore_client\<rparr>)),
     cs_globals = no_globals\<rparr>"

section \<open>Properties\<close>

text \<open>C21: \<open>DeleteSnapshot\<close> makes at most one changing API call, the deletion of its snapshot, and succeeds only when
  the last API answer shows that the snapshot is gone. \<open>CreateSnapshot\<close> makes at most one, the creation
  of a snapshot of that name of its source disk. It succeeds without a changing call only when a
  search for the name answered a snapshot of that source disk, and answers that snapshot's
  identifier; otherwise it succeeds only when the new snapshot was seen with the status \<open>AVAILABLE\<close>.\<close>

theorem snapshot_rpc_evidence:
  assumes "cs_cloud cs = zec_CloudManager (traced_cm cm)" "ParseCsiVolId (cs_SourceVolumeId req) = Inr (v, ser)"
    and "run_state (DeleteSnapshot cs i) s = (r, t)" "srv_log s = []"
    and "run_state (CreateSnapshot cs now req) s' = (r', t')" "srv_log s' = []"
  shows "one_write (\<lambda>e. \<exists>a. e = ev_DeleteSnapshots [i] a) (srv_log t) \<and>
    (r = Inr () \<longrightarrow> srv_log t \<noteq> [] \<and> snap_gone i (last (srv_log t))) \<and>
    one_write (\<lambda>e. \<exists>a. e = ev_CreateSnapshot (cs_Name req) v a) (srv_log t') \<and>
    (\<forall>snap. r' = Inr snap \<longrightarrow>
       only_reads (srv_log t') \<and> (\<exists>q p d. ev_DescribeSnapshots q (Inr (Some p)) \<in> set (srv_log t') \<and>
         ds_SnapshotName q = Some (''^'' @ cs_Name req @ ''$'') \<and> Some d \<in> set (DataSet p) \<and>
         or_else (si_DiskId d) [] = v \<and> or_else (si_SnapshotId d) [] = SnapshotId snap) \<or>
       (\<exists>j. ev_CreateSnapshot (cs_Name req) v (Inr (Some (Some j))) \<in> set (srv_log t') \<and>
         list_ex (snap_seen j (\<lambda>st. st = SnapStatusAvailable)) (srv_log t')))"
proof -
  have "logs srv_log (\<lambda>r tr. one_write (\<lambda>e. \<exists>a. e = ev_DeleteSnapshots [i] a) tr \<and>
      (r = Inr () \<longrightarrow> tr \<noteq> [] \<and> snap_gone i (last tr))) (DeleteSnapshot cs i)"
    unfolding DeleteSnapshot_def
    by (auto intro!: logs_cases logs_with_lock logs_delete_snapshot_locked [OF assms(1)])
  from logsD [OF this assms(3)] assms(4)
  have del: "one_write (\<lambda>e. \<exists>a. e = ev_DeleteSnapshots [i] a) (srv_log t)"
    "r = Inr () \<longrightarrow> srv_log t \<noteq> [] \<and> snap_gone i (last (srv_log t))" by auto
  have "logs srv_log (\<lambda>r tr. one_write (\<lambda>e. \<exists>a. e = ev_CreateSnapshot (cs_Name req) v a) tr \<and>
      (\<forall>x. r = Inr x \<longrightarrow> snapshot_made (cs_Name req) v (SnapshotId x) tr)) (CreateSnapshot cs now req)"
    unfolding CreateSnapshot_def assms(2)
    by (auto intro!: logs_cases logs_with_lock logs_snapshot_locked [OF assms(1)])
  from logsD [OF this assms(5)] assms(6)
  have new: "one_write (\<lambda>e. \<exists>a. e = ev_CreateSnapshot (cs_Name req) v a) (srv_log t')"
    "\<forall>snap. r' = Inr snap \<longrightarrow> snapshot_made (cs_Name req) v (SnapshotId snap) (srv_log t')" by auto
  show ?thesis by (intro conjI del new(1) new(2) [unfolded snapshot_made_def snap_found_def])
qed

theorem snapshot_rpc_evidence_witness:
  "(case run_state (DeleteSnapshot snapstore_server ''snap-1'') \<lparr>srv_locks = NewResourceLocks, srv_world = (InBin, [])\<rparr> of
      (r, t) \<Rightarrow> r = Inr () \<and> snap_gone ''snap-1'' (last (srv_log t))) \<and>
   (case run_state (CreateSnapshot snapstore_server (0, 0) ex_snapshot) \<lparr>srv_locks = NewResourceLocks, srv_world = (Gone, [])\<rparr> of
      (r, t) \<Rightarrow> \<not> isl r \<and> (\<exists>j. ev_CreateSnapshot ''s1'' ex_id (Inr (Some (Some j))) \<in> set (srv_log t) \<and>
         list_ex (snap_seen j (\<lambda>st. st = SnapStatusAvailable)) (srv_log t)))"
proof -
  let ?d = "run_state (DeleteSnapshot snapstore_server ''snap-1'') \<lparr>srv_locks = NewResourceLocks, srv_world = (InBin, [])\<rparr>"
  let ?c = "run_state (CreateSnapshot snapstore_server (0, 0) ex_snapshot) \<lparr>srv_locks = NewResourceLocks, srv_world = (Gone, [])\<rparr>"
  obtain r t r' t' where run: "?d = (r, t)" "?c = (r', t')" by (cases ?d, cases ?c)
  have "fst ?d = Inr ()" "\<not> isl (fst ?c)" "\<not> only_reads (srv_log (snd ?c))" by code_simp+
  then have facts: "r = Inr ()" "\<not> isl r'" "\<not> only_reads (srv_log t')" using run by simp_all
  obtain snap where snap: "r' = Inr snap" using facts(2) by (cases r') auto
  have cs: "cs_cloud snapstore_server = zec_CloudManager (traced_cm (bin_cm\<lparr>zecClient := Some snapstore_client\<rparr>))"
    by (simp add: snapstore_server_def)
  have src: "ParseCsiVolId (cs_SourceVolumeId ex_snapshot) = Inr (ex_id, ex_serial)" "cs_Name ex_snapshot = ''s1''"
    using ex_vol_id_parses by (simp_all add: ex_snapshot_def)
  show ?thesis
    using snapshot_rpc_evidence [OF cs src(1) run(1) _ run(2)] run facts snap src(2) by auto
qed

end
