(* ===== verification/SnapshotTime.thy ===== *)
theory SnapshotTime
  imports Controller
begin

text \<open>
  Reading back the creation time of a snapshot: the formats in which the cloud may report it, written
  out, and that \<open>parseSnapCreationTime\<close> of \<^verbatim>\<open>controllerserver.go\<close> recovers the instant from each of them.
\<close>

section \<open>Writing a time\<close>

definition digit_char :: "nat \<Rightarrow> char" where "digit_char k = char_of (48 + k)"

definition two_digits :: "nat \<Rightarrow> string" where
  "two_digits n = [digit_char (n div 10), digit_char (n mod 10)]"

definition date_string :: "nat \<Rightarrow> nat \<Rightarrow> nat \<Rightarrow> string" where
  "date_string y m d = two_digits (y div 100) @ two_digits (y mod 100) @ ''-'' @ two_digits m @ ''-'' @ two_digits d"

definition clock_string :: "nat \<Rightarrow> nat \<Rightarrow> nat \<Rightarrow> string" where
  "clock_string h mi sec = two_digits h @ '':'' @ two_digits mi @ '':'' @ two_digits sec"

definition valid_date :: "nat \<Rightarrow> nat \<Rightarrow> nat \<Rightarrow> bool" where
  "valid_date y m d \<longleftrightarrow> y < 10000 \<and> 1 \<le> m \<and> m \<le> 12 \<and> 1 \<le> d \<and> int d \<le> days_in (int m) (int y)"

definition valid_clock :: "nat \<Rightarrow> nat \<Rightarrow> nat \<Rightarrow> bool" where
  "valid_clock h mi sec \<longleftrightarrow> h < 24 \<and> mi < 60 \<and> sec < 60"

text \<open>The seconds since 1970 of a date and a time of day in UTC.\<close>

definition utc_seconds :: "nat \<Rightarrow> nat \<Rightarrow> nat \<Rightarrow> nat \<Rightarrow> nat \<Rightarrow> nat \<Rightarrow> int" where
  "utc_seconds y m d h mi sec = unix_days (int y) (int m) (int d) * 86400 + int h * 3600 + int mi * 60 + int sec"

section \<open>Reading it back\<close>

lemma of_char_digit: "k < 10 \<Longrightarrow> (of_char (digit_char k) :: nat) = 48 + k"
  by (simp add: digit_char_def)

lemma digit_val_digit [simp]: "k < 10 \<Longrightarrow> digit_val (digit_char k) = Some (int k)"
  by (simp add: digit_val_def of_char_digit)

lemma digit_char_other [simp]: "k < 10 \<Longrightarrow> of_char c < (48 :: nat) \<or> 57 < (of_char c :: nat) \<Longrightarrow> digit_char k \<noteq> c"
  using of_char_digit [of k] by auto

lemma digit_not_space [simp]: "k < 10 \<Longrightarrow> \<not> is_space (digit_char k)"
  by (simp add: is_space_def of_char_digit)

lemma getnum_two [simp]: "n < 100 \<Longrightarrow> getnum (two_digits n @ s) fixed = Some (int n, s)"
proof -
  assume "n < 100"
  then have "n div 10 < 10" "n mod 10 < 10" by simp_all
  moreover have "10 * int (n div 10) + int (n mod 10) = int n" by presburger
  ultimately show ?thesis by (simp add: two_digits_def)
qed

lemma four_digits_sum:
  fixes a b c d p q y :: nat
  shows "10 * a + b = p \<Longrightarrow> 10 * c + d = q \<Longrightarrow> 100 * p + q = y \<Longrightarrow> 10 * (10 * (10 * a + b) + c) + d = y"
  by simp

lemma days_in_bound: "days_in m y \<le> 31"
  by (simp add: days_in_def)

lemma parse_year:
  assumes "y < 10000"
  shows "parse_chunks (StdLongYear # l) (two_digits (y div 100) @ two_digits (y mod 100) @ s) t =
    parse_chunks l s (t\<lparr>pt_year := int y\<rparr>)"
proof -
  let ?yy = "two_digits (y div 100) @ two_digits (y mod 100)"
  have "y div 100 < 100" using assms by simp
  then have digits: "y div 100 div 10 < 10" "y div 100 mod 10 < 10" "y mod 100 div 10 < 10" "y mod 100 mod 10 < 10" by simp_all
  have "10 * (y div 100 div 10) + y div 100 mod 10 = y div 100" "10 * (y mod 100 div 10) + y mod 100 mod 10 = y mod 100"
    "100 * (y div 100) + y mod 100 = y" by simp_all
  then have "10 * (10 * (10 * (y div 100 div 10) + y div 100 mod 10) + y mod 100 div 10) + y mod 100 mod 10 = y"
    by (rule four_digits_sum)
  then have "10 * (10 * (10 * int (y div 100 div 10) + int (y div 100 mod 10)) + int (y mod 100 div 10)) + int (y mod 100 mod 10) = int y"
    by (metis of_nat_add of_nat_mult of_nat_numeral)
  then have "digits_val 0 ?yy = Some (int y)" using digits by (simp add: two_digits_def)
  moreover have "take 4 (?yy @ s) = ?yy" "drop 4 (?yy @ s) = s" "\<not> length (?yy @ s) < 4" by (simp_all add: two_digits_def)
  ultimately show ?thesis unfolding append_assoc [symmetric] parse_chunks.simps by simp
qed

lemma parse_date:
  assumes "valid_date y m d"
  shows "parse_chunks (date_layout @ l) (date_string y m d @ s) t =
    parse_chunks l s (t\<lparr>pt_year := int y, pt_month := int m, pt_day := int d\<rparr>)"
proof -
  have small: "y < 10000" "m < 100" "d < 100" "1 \<le> m" "m \<le> 12"
    using assms days_in_bound [of "int m" "int y"] by (auto simp: valid_date_def)
  then show ?thesis
    by (simp add: date_layout_def date_string_def in_range_def parse_year del: parse_chunks.simps(3))
qed

lemma parse_clock:
  assumes "valid_clock h mi sec" "frac s = None"
  shows "parse_chunks (clock_layout @ l) (clock_string h mi sec @ s) t =
    parse_chunks l s (t\<lparr>pt_hour := int h, pt_min := int mi, pt_sec := int sec\<rparr>)"
  using assms by (simp add: valid_clock_def clock_layout_def clock_string_def in_range_def)

lemma clock_no_space: "valid_clock h mi sec \<Longrightarrow> dropWhile (\<lambda>x. x = CHR '' '') (clock_string h mi sec @ s) = clock_string h mi sec @ s"
  by (auto simp: valid_clock_def clock_string_def two_digits_def)

lemma frac_simps [simp]: "frac [] = None" "frac [c] = None" "c \<noteq> CHR ''.'' \<Longrightarrow> c \<noteq> CHR '','' \<Longrightarrow> frac (c # s) = None"
  by (auto simp: frac_def split: list.splits)

lemma parse_zone_Z [simp]: "parse_zone ''Z'' = Some (0, [])"
  by (simp add: parse_zone_def strings_HasPrefix_def)

lemma parse_zone_Nil [simp]: "parse_zone [] = None"
  by (simp add: parse_zone_def strings_HasPrefix_def)

lemma parse_zone_offset:
  assumes "hh \<le> 24" "mm \<le> 60" "sg = CHR ''+'' \<or> sg = CHR ''-''"
  shows "parse_zone (sg # two_digits hh @ '':'' @ two_digits mm) =
    Some ((if sg = CHR ''+'' then 1 else - 1) * ((int hh * 60 + int mm) * 60), [])"
proof -
  obtain a b c e where ab: "two_digits hh = [a, b]" "two_digits mm = [c, e]" by (simp add: two_digits_def)
  then have "getnum [a, b] True = Some (int hh, [])" "getnum [c, e] True = Some (int mm, [])"
    using getnum_two [of hh "[]"] getnum_two [of mm "[]"] assms by simp_all
  then show ?thesis using assms by (auto simp: ab parse_zone_def strings_HasPrefix_def)
qed

lemma instant_of_valid:
  assumes "valid_date y m d"
  shows "instant_of \<lparr>pt_year = int y, pt_month = int m, pt_day = int d, pt_hour = int h, pt_min = int mi, pt_sec = int sec,
      pt_nsec = ns, pt_offset = off\<rparr> = Some (utc_seconds y m d h mi sec - off, ns)"
  using assms by (simp add: instant_of_def valid_date_def utc_seconds_def)

text \<open>The strings have no white space at their ends.\<close>

lemma trim_time:
  assumes "valid_date y m d" "s \<noteq> []" "\<not> is_space (last s)"
  shows "strings_TrimSpace (date_string y m d @ s) = date_string y m d @ s"
proof -
  have "y div 100 div 10 < 10" using assms(1) by (auto simp: valid_date_def)
  then have "dropWhile is_space (date_string y m d @ s) = date_string y m d @ s"
    by (simp add: date_string_def two_digits_def)
  moreover have "dropWhile is_space (rev s @ r) = rev s @ r" for r
    using assms(2,3) by (cases "rev s") (auto simp: last_rev [symmetric] rev_swap)
  ultimately show ?thesis by (simp add: strings_TrimSpace_def)
qed

section \<open>The layouts\<close>

lemma parse_timestamp:
  assumes "valid_date y m d" "valid_clock h mi sec" "frac s = None"
  shows "parse_chunks (date_layout @ [Lit (CHR ''T'')] @ clock_layout @ l) (date_string y m d @ ''T'' @ clock_string h mi sec @ s) parsed_time_init =
    parse_chunks l s \<lparr>pt_year = int y, pt_month = int m, pt_day = int d, pt_hour = int h, pt_min = int mi, pt_sec = int sec,
      pt_nsec = 0, pt_offset = 0\<rparr>"
  using assms by (simp add: parse_date parse_clock parsed_time_init_def)

lemma try_date_separator:
  assumes "valid_date y m d" "valid_clock h mi sec"
  shows "try_layouts snapCreateTimeLayouts (date_string y m d @ '' '' @ clock_string h mi sec) = Some (utc_seconds y m d h mi sec, 0)"
proof -
  have "parse_chunks (date_layout @ Lit (CHR ''T'') # l) (date_string y m d @ '' '' @ clock_string h mi sec) t = None" for l t
    using assms by (simp add: parse_date)
  moreover have "parse_chunks (date_layout @ Lit (CHR '' '') # clock_layout) (date_string y m d @ '' '' @ clock_string h mi sec) t =
      Some (t\<lparr>pt_year := int y, pt_month := int m, pt_day := int d, pt_hour := int h, pt_min := int mi, pt_sec := int sec\<rparr>)" for t
    using assms parse_clock [of h mi sec "[]" "[]"] clock_no_space [of h mi sec "[]"] by (simp add: parse_date)
  ultimately show ?thesis
    using instant_of_valid [OF assms(1)] by (simp add: snapCreateTimeLayouts_def time_Parse_def parsed_time_init_def)
qed

lemma try_zone:
  assumes "valid_date y m d" "valid_clock h mi sec" "frac s = None" "parse_zone s = Some (off, [])"
  shows "try_layouts snapCreateTimeLayouts (date_string y m d @ ''T'' @ clock_string h mi sec @ s) = Some (utc_seconds y m d h mi sec - off, 0)"
proof -
  have "time_Parse (date_layout @ [Lit (CHR ''T'')] @ clock_layout @ [StdFracSecond9, StdISO8601ColonTZ])
      (date_string y m d @ ''T'' @ clock_string h mi sec @ s) = Some (utc_seconds y m d h mi sec - off, 0)"
    unfolding time_Parse_def parse_timestamp [OF assms(1-3)]
    using assms(3,4) instant_of_valid [OF assms(1)] by simp
  then show ?thesis by (simp add: snapCreateTimeLayouts_def)
qed

lemma try_no_zone:
  assumes "valid_date y m d" "valid_clock h mi sec"
  shows "try_layouts snapCreateTimeLayouts (date_string y m d @ ''T'' @ clock_string h mi sec) = Some (utc_seconds y m d h mi sec, 0)"
proof -
  note p = parse_timestamp [OF assms, of "[]", unfolded append_Nil2, simplified]
  show ?thesis
    using p [of "[StdFracSecond9, StdISO8601ColonTZ]"] p [of "[StdISO8601ColonTZ]"] p [of "[]"] instant_of_valid [OF assms(1)]
    by (simp add: snapCreateTimeLayouts_def time_Parse_def)
qed

text \<open>A number of digits is no date.\<close>

lemma digits_no_date:
  assumes "list_all is_digit s"
  shows "time_Parse (date_layout @ l) s = None"
proof (cases "drop 4 s")
  case Nil
  then show ?thesis by (simp add: time_Parse_def date_layout_def split: option.splits)
next
  case (Cons a r)
  then have "a \<in> set s" by (metis in_set_dropD list.set_intros(1))
  then have "is_digit a" using assms by (simp add: list_all_iff)
  then have "a \<noteq> CHR ''-''" by (auto simp: is_digit_def digit_val_def)
  then show ?thesis using Cons by (simp add: time_Parse_def date_layout_def split: option.splits)
qed

lemma digits_no_layout: "list_all is_digit s \<Longrightarrow> try_layouts snapCreateTimeLayouts s = None"
  using digits_no_date [of s "[]"] by (simp add: snapCreateTimeLayouts_def digits_no_date)

lemma digit_no_space: "is_digit c \<Longrightarrow> \<not> is_space c"
  by (auto simp: is_digit_def digit_val_def is_space_def Let_def split: if_splits)

lemma dropWhile_no_space: "(\<And>c. c \<in> set s \<Longrightarrow> \<not> is_space c) \<Longrightarrow> dropWhile is_space s = s"
  by (cases s) auto

lemma trim_digits: "list_all is_digit s \<Longrightarrow> strings_TrimSpace s = s"
  using dropWhile_no_space [of s] dropWhile_no_space [of "rev s"]
  by (simp add: strings_TrimSpace_def list_all_iff digit_no_space)

lemma ParseInt_digits:
  assumes "list_all is_digit s" "s \<noteq> []" "digits_val 0 s = Some n" "is_int64 n"
  shows "strconv_ParseInt s = Some n"
proof -
  obtain c r where s: "s = c # r" using assms(2) by (cases s) auto
  have "is_digit c" using assms(1) s by simp
  then have "c \<noteq> CHR ''-''" "c \<noteq> CHR ''+''" by (auto simp: is_digit_def digit_val_def)
  then show ?thesis using assms(3,4) s by (simp add: strconv_ParseInt_def strings_HasPrefix_def)
qed

section \<open>Properties\<close>

text \<open>C32: The creation time that the cloud reports for a snapshot is read back exactly, whatever the clock of the
  driver says: a date and time with \<open>Z\<close>, with a positive or negative zone offset \<open>+hh:mm\<close> or
  \<open>-hh:mm\<close>, without a zone, or with a blank instead of the \<open>T\<close> give the instant they denote, and a
  positive number, of seconds or (from thirteen digits on) of milliseconds since 1970, gives that
  instant. Digits that denote zero give the current time instead.\<close>

theorem snapshot_time_roundtrip:
  assumes "valid_date y m d" "valid_clock h mi sec"
  shows "parseSnapCreationTime now (date_string y m d @ ''T'' @ clock_string h mi sec @ ''Z'') = (utc_seconds y m d h mi sec, 0) \<and>
    parseSnapCreationTime now (date_string y m d @ ''T'' @ clock_string h mi sec) = (utc_seconds y m d h mi sec, 0) \<and>
    parseSnapCreationTime now (date_string y m d @ '' '' @ clock_string h mi sec) = (utc_seconds y m d h mi sec, 0) \<and>
    (hh \<le> 24 \<and> mm \<le> 60 \<longrightarrow>
      parseSnapCreationTime now (date_string y m d @ ''T'' @ clock_string h mi sec @ ''+'' @ two_digits hh @ '':'' @ two_digits mm) =
        (utc_seconds y m d h mi sec - (int hh * 60 + int mm) * 60, 0) \<and>
      parseSnapCreationTime now (date_string y m d @ ''T'' @ clock_string h mi sec @ ''-'' @ two_digits hh @ '':'' @ two_digits mm) =
        (utc_seconds y m d h mi sec + (int hh * 60 + int mm) * 60, 0)) \<and>
    (list_all is_digit raw \<and> raw \<noteq> [] \<and> digits_val 0 raw = Some n \<and> is_int64 n \<longrightarrow>
      parseSnapCreationTime now raw =
        (if n \<le> 0 then now else if length raw \<ge> 13 then (n div 1000, n mod 1000 * 1000000) else (n, 0)))"
proof -
  have read: "parseSnapCreationTime now (date_string y m d @ s) = i"
    if "try_layouts snapCreateTimeLayouts (date_string y m d @ s) = Some i" "s \<noteq> []" "\<not> is_space (last s)" for s i
    using that trim_time [OF assms(1) that(2,3)] by (simp add: parseSnapCreationTime_def)
  have clock: "clock_string h mi sec \<noteq> []" "\<not> is_space (last (clock_string h mi sec))"
    using assms(2) by (auto simp: clock_string_def two_digits_def)
  have zone: "\<not> is_space (last (two_digits mm))" by (simp add: two_digits_def)
  have digits: "parseSnapCreationTime now raw =
      (if n \<le> 0 then now else if length raw \<ge> 13 then (n div 1000, n mod 1000 * 1000000) else (n, 0))"
    if "list_all is_digit raw" "raw \<noteq> []" "digits_val 0 raw = Some n" "is_int64 n"
    using that ParseInt_digits [OF that]
    by (simp add: parseSnapCreationTime_def trim_digits digits_no_layout time_Unix_def time_UnixMilli_def)
  have offset: "parseSnapCreationTime now (date_string y m d @ ''T'' @ clock_string h mi sec @ sg # two_digits hh @ '':'' @ two_digits mm) =
      (utc_seconds y m d h mi sec - (if sg = CHR ''+'' then 1 else - 1) * ((int hh * 60 + int mm) * 60), 0)"
    if "hh \<le> 24" "mm \<le> 60" "sg = CHR ''+'' \<or> sg = CHR ''-''" for sg
  proof (rule read)
    have "frac (sg # two_digits hh @ '':'' @ two_digits mm) = None" using that(3) by (intro frac_simps) auto
    then show "try_layouts snapCreateTimeLayouts (date_string y m d @ ''T'' @ clock_string h mi sec @ sg # two_digits hh @ '':'' @ two_digits mm) =
        Some (utc_seconds y m d h mi sec - (if sg = CHR ''+'' then 1 else - 1) * ((int hh * 60 + int mm) * 60), 0)"
      by (rule try_zone [OF assms _ parse_zone_offset [OF that]])
  qed (use zone in \<open>simp_all add: two_digits_def\<close>)
  have "parseSnapCreationTime now (date_string y m d @ ''T'' @ clock_string h mi sec @ ''Z'') = (utc_seconds y m d h mi sec, 0)"
    using try_zone [OF assms, of "''Z''" 0] by (intro read) (simp_all add: is_space_def)
  moreover have "parseSnapCreationTime now (date_string y m d @ ''T'' @ clock_string h mi sec) = (utc_seconds y m d h mi sec, 0)"
    "parseSnapCreationTime now (date_string y m d @ '' '' @ clock_string h mi sec) = (utc_seconds y m d h mi sec, 0)"
    using try_no_zone [OF assms] try_date_separator [OF assms] clock by (auto intro!: read)
  ultimately show ?thesis
    using digits offset [of "CHR ''+''"] offset [of "CHR ''-''"] by simp
qed

theorem snapshot_time_roundtrip_witness:
  "parseSnapCreationTime (0, 0) ''2024-02-29T23:59:07Z'' = (1709251147, 0) \<and>
   parseSnapCreationTime (0, 0) ''2024-02-29T15:59:07-08:00'' = (1709251147, 0) \<and>
   parseSnapCreationTime (0, 0) ''1709251147123'' = (1709251147, 123000000)"
proof -
  have v: "valid_date 2024 2 29" "valid_clock 23 59 7" "valid_clock 15 59 7" by code_simp+
  note rt = snapshot_time_roundtrip [OF v(1,2), where now = "(0, 0)" and raw = "''1709251147123''" and n = 1709251147123]
  note west = snapshot_time_roundtrip [OF v(1,3), where now = "(0, 0)" and hh = 8 and mm = 0]
  have str: "date_string 2024 2 29 @ ''T'' @ clock_string 23 59 7 @ ''Z'' = ''2024-02-29T23:59:07Z''"
    "date_string 2024 2 29 @ ''T'' @ clock_string 15 59 7 @ ''-'' @ two_digits 8 @ '':'' @ two_digits 0 = ''2024-02-29T15:59:07-08:00''"
    by code_simp+
  have val: "utc_seconds 2024 2 29 23 59 7 = 1709251147" "utc_seconds 2024 2 29 15 59 7 = 1709222347"
    "list_all is_digit ''1709251147123''"
    "digits_val 0 ''1709251147123'' = Some 1709251147123" "is_int64 1709251147123" by code_simp+
  show ?thesis using rt [unfolded str(1)] west [unfolded str(2)] val by simp
qed

end
