(* ===== verification/Spec2Isabelle.thy ===== *)
theory Spec2Isabelle
  imports ServerProps AttachmentRefinement MountTable Requests ConcurrentExpand ConcurrentMounts SnapshotProps SnapshotTime
begin

text \<open>
  A verification of the Zenlayer CSI driver (Go, \<^verbatim>\<open>src/\<close>): the plugin through which Kubernetes
  creates, attaches, formats, mounts, grows, snapshots and deletes cloud disks.

  \<^bold>\<open>The program.\<close> One binary (\<^verbatim>\<open>cmd/main.go\<close>) runs as a controller or as a node plugin. The
  controller server (\<^verbatim>\<open>pkg/disk/rpcserver/controllerserver.go\<close>) answers requests to create, delete,
  publish, unpublish, expand and snapshot volumes by calling the cloud manager
  (\<^verbatim>\<open>pkg/cloud/cloud_manager.go\<close>), which calls the Zenlayer SDK and polls it until a change is
  visible. The node server (\<^verbatim>\<open>nodeserver.go\<close>) finds the block device of a volume by its serial
  number, formats and mounts it (\<^verbatim>\<open>pkg/common/mount.go\<close>), bind mounts it for pods, and unmounts it.
  The identity server answers probes. Requests run concurrently; a lock table
  (\<^verbatim>\<open>pkg/common/lock.go\<close>) refuses a second request for a volume that is in use.

  \<^bold>\<open>The model.\<close> A handler is a function in the state monad of \<^verbatim>\<open>HOL-Library.State_Monad\<close>; errors are
  the left values of sums, with gRPC codes as the datatype \<open>code\<close>. The state of a server is its lock
  table and a world \<open>'w\<close>; \<open>'w\<close> is left open. What is not under \<^verbatim>\<open>src/\<close> is a parameter: the SDK client
  (\<open>zec_client\<close>), the operating system and mount-utils (\<open>node_env\<close>), the random choices of Go's
  \<open>select\<close> (\<open>select_ticks\<close>), sleeping and the clock. Go's \<open>int64\<close> is \<open>int\<close> with \<open>wrap64\<close> where an
  operation can overflow; \<open>uint64\<close> and \<open>uint32\<close> are words. Strings are byte strings, and letter case
  and white space are those of ASCII. A Go map is an association list where the iteration order could
  matter, which is then quantified over.

  \<^bold>\<open>The theories and the sources.\<close>
  \<^item> \<^verbatim>\<open>Prelude\<close>, \<^verbatim>\<open>GoLib\<close>, \<^verbatim>\<open>GoTime\<close>: weakest preconditions and \<open>keeps\<close> for the state monad, \<open>int64\<close>,
    and the functions of Go's standard library that the driver calls.
  \<^item> \<^verbatim>\<open>Common\<close>: \<^verbatim>\<open>pkg/common/calculator.go\<close>, \<^verbatim>\<open>common.go\<close>, \<^verbatim>\<open>types.go\<close>.
  \<^item> \<^verbatim>\<open>Locks\<close>: \<^verbatim>\<open>pkg/common/lock.go\<close>, the locale \<open>lock_table\<close>, interpreted on the table and on a server,
    and a step relation for interleaved requests.
  \<^item> \<^verbatim>\<open>Driver\<close>, \<^verbatim>\<open>StorageClass\<close>: \<^verbatim>\<open>pkg/disk/driver\<close>; the second holds the properties.
  \<^item> \<^verbatim>\<open>CloudApi\<close>, \<^verbatim>\<open>CloudManager\<close>: \<^verbatim>\<open>pkg/cloud\<close>. The locale \<open>cloud_manager\<close> in \<^verbatim>\<open>CloudProofs\<close> states the
    contract of the interface in \<^verbatim>\<open>manager.go\<close> and is interpreted on \<open>zec_CloudManager\<close>.
  \<^item> \<^verbatim>\<open>Trace\<close>: logs of calls. \<open>logs lg ok m\<close> says what every run of \<open>m\<close> appends to a log; \<open>traced_cm\<close>,
    \<open>traced_server\<close> and \<open>traced_node\<close> are the components on parameters that log their calls.
  \<^item> \<^verbatim>\<open>CloudProofs\<close>, \<^verbatim>\<open>CloudSafety\<close>: paging, what each cloud operation calls and observes, and that a
    deletion completes on a cloud with a recycle bin.
  \<^item> \<^verbatim>\<open>Csi\<close>, \<^verbatim>\<open>Controller\<close>: the messages and \<^verbatim>\<open>controllerserver.go\<close>; \<^verbatim>\<open>ControllerProofs\<close> and
    \<^verbatim>\<open>ControllerProps\<close> hold its lemmas and properties.
  \<^item> \<^verbatim>\<open>Mount\<close>, \<^verbatim>\<open>Node\<close>: \<^verbatim>\<open>mount.go\<close> and \<^verbatim>\<open>nodeserver.go\<close>; \<^verbatim>\<open>NodeProofs\<close> and \<^verbatim>\<open>NodeProps\<close> hold their
    lemmas and properties.
  \<^item> \<^verbatim>\<open>Server\<close>, \<^verbatim>\<open>Startup\<close>: \<^verbatim>\<open>identityserver.go\<close>, \<^verbatim>\<open>run.go\<close>, \<^verbatim>\<open>server.go\<close>, the environment checks of
    \<^verbatim>\<open>common.go\<close> and \<^verbatim>\<open>main.go\<close>; \<^verbatim>\<open>ServerProps\<close> holds the properties.
  \<^item> \<^verbatim>\<open>Abstraction\<close>, \<^verbatim>\<open>MountTable\<close>, \<^verbatim>\<open>Requests\<close>: refinement. The locale \<open>simulation\<close> relates a server to an
    abstract machine and lifts what holds of one request to sequences of requests. The node server is
    a machine on mount tables, and both servers leave the lock table alone between requests.
  \<^item> \<^verbatim>\<open>Concurrency\<close>, \<^verbatim>\<open>Sessions\<close>: requests that run at the same time. A session holds the key of its request
    and makes its calls one by one on the shared world; sessions interleave call by call. The locale
    \<open>lock_discipline\<close> (calls touch only the key a session holds) gives that sessions on one key are
    serial, and \<open>session_knowledge\<close> extends it: what a session concludes from its calls stays true
    whatever the others do.
  \<^item> \<^verbatim>\<open>Attachments\<close>: the place of a disk (free, attaching, on an instance, detaching) on an asynchronous
    cloud, the law \<open>attachment_cloud\<close>, and what a request learns from its calls.
  \<^item> \<^verbatim>\<open>ConcurrentController\<close>, \<^verbatim>\<open>ConcurrencyProps\<close>, \<^verbatim>\<open>ConcurrentExpand\<close>, \<^verbatim>\<open>Adequacy\<close>: both locales on the locked
    parts of the controller's handlers, for what a request has learned about the place of its disk
    and about its size. \<^verbatim>\<open>Adequacy\<close> shows that serving a request without interruption is a run of this system.
  \<^item> \<^verbatim>\<open>AttachmentRefinement\<close>: the controller on the cloud manager on the SDK is a machine on the places of
    disks, for every request and every sequence of requests.
  \<^item> \<^verbatim>\<open>ConcurrentNode\<close>, \<^verbatim>\<open>ConcurrentNodeProps\<close>, \<^verbatim>\<open>ConcurrentMounts\<close>: both locales on the locked parts of the
    node server's handlers, whose calls are operations of the operating system: for what a request has
    seen of its device and of its path; and that serving a node request without interruption is a
    run of this system. A call carries the volume identifier of its request, so the serialisation is
    stated on the disk that the identifier names and not on the key the handler chose to lock.
  \<^item> \<^verbatim>\<open>SnapshotProps\<close>, \<^verbatim>\<open>SnapshotTime\<close>: the snapshot requests on the SDK, and that the creation time of a
    snapshot is read back from every format the driver accepts.
  \<^item> This theory: properties of the controller server together with the cloud manager and the SDK log,
    and of the controller and node servers together.

  \<^bold>\<open>What is shown.\<close> Deleting, attaching, detaching, creating, expanding, staging and publishing make only
  the changing calls they should, on the right disk, device or path, after the checks that justify
  them, and report success only on evidence. Under concurrent requests, those on one disk are serial and
  the check before an attach, a detach or a resize still holds when the call is made; the place of a
  disk changes only by the cloud's own transitions and by the request that holds it, and its size only
  grows. Data is safe: a file
  system is made only on a device with the volume's serial that is empty at that moment, whatever
  other requests do, and mount points change only by the request that holds their volume. Locks
  exclude each other and do not leak. Sizes are least, in range and never shrink. Identifiers,
  topologies and snapshot times round-trip. The start of the process establishes what the servers
  assume. Some theorems show defects: the wrap-around of a size near the largest \<open>int64\<close>,
  a wait that never returns, endpoints with an upper-case scheme, a zone that is dropped, an elapsed
  time that is not measured, a snapshot's source identifier that cannot be parsed, a read-only request
  mounted read-write by a mount flag, and publish and unpublish answers given without looking at the
  status of a disk that is on its way.

  \<^bold>\<open>Bounds.\<close> Loops are recursive functions and total. The polling loop runs \<open>select_ticks\<close> rounds, the
  number of ticks that Go's \<open>select\<close> takes before the timer: it is a parameter, so safety holds for
  every number, and the liveness property states how many are enough. The release loop runs
  \<open>maxReleaseDiskTimes\<close> rounds and the probe loop of \<open>main\<close> at most six, as in the code.

  In the concurrent system the second lock that \<open>CreateVolume\<close> takes for a source snapshot is granted or
  refused arbitrarily, which allows more interleavings than the code; the lock protocol itself, with
  several locks per request, is the step relation of \<^verbatim>\<open>Locks\<close>.

  \<^bold>\<open>What is assumed of the cloud and the node.\<close> Most properties hold for every client and every node. Where
  one needs a law, it is a named hypothesis with a witness that runs the driver on a small instance:
  \<^item> \<open>attachment_cloud X c place\<close>: attaching and detaching are asynchronous, as \<^verbatim>\<open>waitDiskStatus\<close> and the statuses
    of \<^verbatim>\<open>types.go\<close> say. An accepted or even a refused call may have started a transition, which completes or
    fails at any later moment; other users may attach free disks to their own instances \<open>X\<close>. A call
    moves only its own disk, attaching starts only on a free disk, a disk on a node outside \<open>X\<close> does
    not leave it by itself, and a description fits the place: \<open>AVAILABLE\<close> is free, \<open>IN_USE\<close> is on the
    instance shown; on the way the instance may or may not be shown.
  \<^item> \<open>recycle_bin c v ph k\<close>: releasing an \<open>AVAILABLE\<close> disk takes it to the recycle bin or destroys it, and
    releasing it there destroys it, each within \<open>k\<close> reads; nothing is assumed of other statuses.
  \<^item> \<open>size_cloud\<close>, \<open>mount_table\<close>, \<open>serves\<close>, \<open>reads_files\<close>, \<open>disk_node\<close>: descriptions show the size of a disk
    and only a resize changes it, only \<open>Mount\<close> and \<open>CleanupMountPoint\<close> change the mount table, the pages of
    a listing agree, files read back, and the disks of a node keep their serials and report what is on them.

  \<^bold>\<open>Not modelled.\<close> The texts of log lines and of errors; the gRPC transport; \<open>NewSafeMounter\<close>, which only
  builds library objects; the SDK, mount-utils, client-go and Kubernetes libraries, which are
  parameters; charts, manifests and documentation. Getters are the fields of the records. File
  permissions passed to \<open>MkdirAll\<close> and \<open>OpenFile\<close> are left out. In the concurrent runs of the
  node, disks are not plugged or unplugged while requests run, and the calls outside the locks, which
  only read, are left out. These are the parts of the repository without logic of their own: the
  lines outside the map are licence headers, comments and declarations.
\<close>

section \<open>The controller server on the driver's own cloud manager\<close>

text \<open>
  These properties span the controller server, the cloud manager and the log of SDK calls: the
  server runs on \<open>zec_CloudManager (traced_cm cm)\<close>, so the log holds every API call and answer.
\<close>

lemma zec_cm_simps [simp]:
  "cm_DeleteVolume (zec_CloudManager cm) = DeleteVolume_cm cm"
  "cm_FindVolume (zec_CloudManager cm) = FindVolume cm"
  "cm_GetVmStatus (zec_CloudManager cm) = GetVmStatus cm"
  "cm_AttachVolume (zec_CloudManager cm) = AttachVolume cm"
  by (simp_all add: zec_CloudManager_def)

lemma logs_DeleteVolume_rpc:
  assumes "cs_cloud cs = zec_CloudManager (traced_cm cm)" "ParseCsiVolId vid = Inr (v, ser)"
  shows "logs srv_log (\<lambda>r tr. length (filter is_write tr) \<le> 2 \<and>
      (\<forall>e \<in> set tr. is_write e \<longrightarrow> (\<exists>a. e = ev_ReleaseDisk v a)) \<and>
      (r = Inr () \<longrightarrow> tr \<noteq> [] \<and> disk_gone v (last tr)))
    (DeleteVolume cs vid)"
proof -
  have "logs srv_log (\<lambda>r tr. length (filter is_write tr) \<le> 2 \<and>
      (\<forall>e \<in> set tr. is_write e \<longrightarrow> (\<exists>a. e = ev_ReleaseDisk v a)) \<and>
      (r = Inr () \<longrightarrow> tr \<noteq> [] \<and> disk_gone v (last tr)))
    (delete_locked cs v)"
    unfolding delete_locked_def assms(1) zec_cm_simps
    by (rule logs_bind [OF logs_on_world [OF logs_DeleteVolume_cm]], intro logs_cases)
      (auto simp: release_log_def)
  then show ?thesis
    unfolding DeleteVolume_def by (intro logs_if) (auto simp: assms intro!: logs_return logs_with_lock)
qed

text \<open>C1: A \<open>DeleteVolume\<close> request for a volume of this driver makes at most two changing API calls,
  all of them \<open>ReleaseDisk\<close> of that disk, and is answered with success only when the last API
  answer shows that the disk is gone.\<close>

theorem delete_rpc_success_means_gone:
  assumes "cs_cloud cs = zec_CloudManager (traced_cm cm)" "ParseCsiVolId vid = Inr (v, ser)"
    and "run_state (DeleteVolume cs vid) s = (r, t)" "srv_log s = []"
  shows "length (filter is_write (srv_log t)) \<le> 2 \<and>
    (\<forall>e \<in> set (srv_log t). is_write e \<longrightarrow> (\<exists>a. e = ev_ReleaseDisk v a)) \<and>
    (r = Inr () \<longrightarrow> srv_log t \<noteq> [] \<and> disk_gone v (last (srv_log t)))"
  using logsD [OF logs_DeleteVolume_rpc [OF assms(1,2)] assms(3)] assms(4) by auto

definition bin_server :: "(disk_phase \<times> api_event list) ControllerServer" where
  "bin_server = \<lparr>cs_driver = ex_driver, cs_cloud = zec_CloudManager (traced_cm bin_cm), cs_globals = no_globals\<rparr>"

theorem delete_rpc_success_means_gone_witness:
  "case run_state (DeleteVolume bin_server ex_vol_id) \<lparr>srv_locks = NewResourceLocks, srv_world = (Live DiskStatusAvailable, [])\<rparr> of
     (r, t) \<Rightarrow> r = Inr () \<and> disk_gone ex_id (last (srv_log t))"
proof -
  let ?run = "run_state (DeleteVolume bin_server ex_vol_id) \<lparr>srv_locks = NewResourceLocks, srv_world = (Live DiskStatusAvailable, [])\<rparr>"
  obtain r t where run: "?run = (r, t)" by (cases ?run)
  have "fst ?run = Inr ()" by code_simp
  moreover have "cs_cloud bin_server = zec_CloudManager (traced_cm bin_cm)" by (simp add: bin_server_def)
  ultimately show ?thesis
    using delete_rpc_success_means_gone [OF _ ex_vol_id_parses run] run by auto
qed

text \<open>A volume identifier that this driver did not issue is answered by \<open>DeleteVolume\<close> with
  success, without any cloud call and without touching the lock table.\<close>

theorem delete_rpc_foreign_id:
  assumes "ValidateControllerServiceRequest (cs_driver cs) RPC_CREATE_DELETE_VOLUME" "vid \<noteq> []"
    and "\<forall>v ser. length v = ZECVOLID_LEN \<longrightarrow> length ser = ZECVOLSERIAL_LEN \<longrightarrow> CHR ''-'' \<notin> set v \<longrightarrow> vid \<noteq> GenCsiVolId v ser"
  shows "run_state (DeleteVolume cs vid) s = (Inr (), s)"
proof (cases "ParseCsiVolId vid")
  case (Inl e)
  then show ?thesis using assms by (simp add: DeleteVolume_def)
next
  case (Inr p)
  then obtain v ser where "ParseCsiVolId vid = Inr (v, ser)" by (cases p) auto
  then show ?thesis using assms(3) by (auto simp: ParseCsiVolId_Inr_iff)
qed

theorem delete_rpc_foreign_id_witness:
  "run_state (DeleteVolume ex_server ''pv-0001'') \<lparr>srv_locks = NewResourceLocks, srv_world = Some ex_disk\<rparr> =
     (Inr (), \<lparr>srv_locks = NewResourceLocks, srv_world = Some ex_disk\<rparr>)"
proof (rule delete_rpc_foreign_id)
  show "ValidateControllerServiceRequest (cs_driver ex_server) RPC_CREATE_DELETE_VOLUME" by code_simp
  show "\<forall>v ser. length v = ZECVOLID_LEN \<longrightarrow> length ser = ZECVOLSERIAL_LEN \<longrightarrow> CHR ''-'' \<notin> set v \<longrightarrow>
      ''pv-0001'' \<noteq> GenCsiVolId v ser"
  proof (intro allI impI notI)
    fix v ser :: string
    assume "length v = ZECVOLID_LEN" "''pv-0001'' = GenCsiVolId v ser"
    then have "length ''pv-0001'' \<ge> 19" by (simp add: GenCsiVolId_def ZECVOLID_LEN_def)
    then show False by simp
  qed
qed simp


text \<open>The answer shows the disk attached to the virtual machine.\<close>

fun shows_attached :: "string \<Rightarrow> string \<Rightarrow> api_event \<Rightarrow> bool" where
  "shows_attached v vm (ev_DescribeDisks q (Inr (Some p))) \<longleftrightarrow>
     q = describe_by_id v \<and> TotalCount p = Some 1 \<and> Option.bind (first_item p) di_InstanceId = Some vm"
| "shows_attached v vm _ \<longleftrightarrow> False"

definition attach_calls :: "string \<Rightarrow> string \<Rightarrow> api_event list \<Rightarrow> bool" where
  "attach_calls v vm tr \<longleftrightarrow> length (filter is_write tr) \<le> 1 \<and>
     (\<forall>e \<in> set tr. is_write e \<longrightarrow> (\<exists>a. e = ev_AttachDisks [v] vm a))"

lemma attach_calls_reads: "only_reads tr \<Longrightarrow> attach_calls v vm tr"
  by (auto simp: attach_calls_def only_reads_def list_all_iff filter_empty_conv)

lemma attach_calls_append:
  "only_reads tr \<Longrightarrow> attach_calls v vm (tr @ tr') \<longleftrightarrow> attach_calls v vm tr'"
  "only_reads tr \<Longrightarrow> attach_calls v vm (tr' @ tr) \<longleftrightarrow> attach_calls v vm tr'"
  by (auto simp: attach_calls_def only_reads_def list_all_iff filter_empty_conv)

lemma logs_AttachVolume_calls: "logs snd (\<lambda>r ext. attach_calls v vm ext) (AttachVolume (traced_cm cm) v vm)"
proof -
  have "logs snd (\<lambda>r ext. attach_calls v vm (ev_AttachDisks [v] vm a # ext))
      (waitDiskStatus ticks (traced_client c) DiskStatusInUse v)" for ticks c a
    by (rule logs_mono [OF logs_wait_inuse])
      (auto simp: attach_calls_def only_reads_def list_all_iff filter_empty_conv)
  then show ?thesis
    unfolding AttachVolume_def traced_cm_simps
    by (cases "zecClient cm") (auto intro!: logs_cases logs_call simp: attach_calls_def)
qed

lemma toZecVolume_instance:
  "ZecVolume_InstanceId (toZecVolume d) \<noteq> [] \<Longrightarrow> di_InstanceId d = Some (ZecVolume_InstanceId (toZecVolume d))"
  by (simp add: toZecVolume_def or_else_def NewZecVolume_def split: option.splits)

lemma logs_publish_attach_rpc:
  assumes "cs_cloud cs = zec_CloudManager (traced_cm cm)" "vm \<noteq> []"
  shows "logs srv_log (\<lambda>r tr. attach_calls v vm tr \<and> (r = Inr () \<longrightarrow> list_ex (shows_attached v vm) tr))
    (publish_attach cs v vm)"
  unfolding publish_attach_def assms(1) zec_cm_simps
proof (intro logs_bind [OF logs_on_world [OF logs_AttachVolume_calls]] logs_cases
    logs_bind [OF logs_on_world [OF logs_FindVolume_found]])
qed (use assms(2) in \<open>auto simp: attach_calls_append toZecVolume_instance\<close>)

lemma logs_publish_locked_rpc:
  assumes "cs_cloud cs = zec_CloudManager (traced_cm cm)" "vm \<noteq> []"
  shows "logs srv_log (\<lambda>r tr. attach_calls v vm tr \<and> (r = Inr () \<longrightarrow> list_ex (shows_attached v vm) tr))
    (publish_locked cs v vm)"
  unfolding publish_locked_def assms(1) zec_cm_simps
proof (intro logs_bind [OF logs_on_world [OF logs_FindVolume_found]] logs_cases
    logs_bind [OF logs_on_world [OF logs_GetVmStatus]])
qed (auto simp: attach_calls_reads attach_calls_append toZecVolume_instance
  intro!: logs_mono [OF logs_publish_attach_rpc [OF assms]])

text \<open>C3: A \<open>ControllerPublishVolume\<close> request makes at most one changing API call, the attach of its
  disk to its node, and is answered with success only when an API answer showed exactly that
  disk attached to that node.\<close>

theorem publish_rpc_success_means_attached:
  assumes "cs_cloud cs = zec_CloudManager (traced_cm cm)" "ParseCsiVolId (pv_VolumeId req) = Inr (v, ser)"
    and "run_state (ControllerPublishVolume cs req) s = (r, t)" "srv_log s = []"
  shows "attach_calls v (pv_NodeId req) (srv_log t) \<and>
    (r = Inr () \<longrightarrow> list_ex (shows_attached v (pv_NodeId req)) (srv_log t))"
proof -
  have "logs srv_log (\<lambda>r tr. attach_calls v (pv_NodeId req) tr \<and>
      (r = Inr () \<longrightarrow> list_ex (shows_attached v (pv_NodeId req)) tr)) (ControllerPublishVolume cs req)"
    unfolding ControllerPublishVolume_def assms(2)
    by (auto intro!: logs_cases logs_with_lock logs_publish_locked_rpc [OF assms(1)] attach_calls_reads
      split: option.split)
  from logsD [OF this assms(3)] assms(4) show ?thesis by auto
qed

definition attached_client :: "disk_phase zec_client" where
  "attached_client = bin_client\<lparr>
     api_DescribeDisks := (\<lambda>q. State (\<lambda>p. (Inr (Some \<lparr>TotalCount = Some 1, DataSet =
       [Some ((disk_named ''z1'' 40)\<lparr>di_DiskId := Some ex_id, di_DiskStatus := visible p,
          di_InstanceId := (if p = Live DiskStatusInUse then Some ''vm-1'' else None)\<rparr>)]\<rparr>), p))),
     api_DescribeInstancesStatus := (\<lambda>is. State_Monad.return (Inr (Some \<lparr>TotalCount = Some 1, DataSet =
       [Some \<lparr>is_InstanceId = Some ''vm-1'', is_InstanceStatus = Some VmStatusRunning\<rparr>]\<rparr>)))\<rparr>"

definition attached_server :: "(disk_phase \<times> api_event list) ControllerServer" where
  "attached_server = \<lparr>cs_driver = ex_driver,
     cs_cloud = zec_CloudManager (traced_cm (bin_cm\<lparr>zecClient := Some attached_client\<rparr>)), cs_globals = no_globals\<rparr>"

theorem publish_rpc_success_means_attached_witness:
  "case run_state (ControllerPublishVolume attached_server ex_publish)
       \<lparr>srv_locks = NewResourceLocks, srv_world = (Live DiskStatusAvailable, [])\<rparr> of
     (r, t) \<Rightarrow> r = Inr () \<and> list_ex (shows_attached ex_id ''vm-1'') (srv_log t)"
proof -
  let ?run = "run_state (ControllerPublishVolume attached_server ex_publish)
       \<lparr>srv_locks = NewResourceLocks, srv_world = (Live DiskStatusAvailable, [])\<rparr>"
  obtain r t where run: "?run = (r, t)" by (cases ?run)
  have "fst ?run = Inr ()" by code_simp
  moreover have "cs_cloud attached_server = zec_CloudManager (traced_cm (bin_cm\<lparr>zecClient := Some attached_client\<rparr>))"
    by (simp add: attached_server_def)
  moreover have "ParseCsiVolId (pv_VolumeId ex_publish) = Inr (ex_id, ex_serial)" "pv_NodeId ex_publish = ''vm-1''"
    using ex_vol_id_parses by (simp_all add: ex_publish_def)
  ultimately show ?thesis
    using publish_rpc_success_means_attached [of attached_server _ ex_publish ex_id ex_serial, OF _ _ run] run by auto
qed

section \<open>All handlers\<close>

text \<open>C12: Every handler of the controller and of the node server releases what it locked: after any
  sequence of requests, whatever they are and whether they succeed or fail, the lock table is what it
  was before, so no request leaks or steals a lock.\<close>

theorem handlers_restore_locks:
  "srv_locks (snd (run_state (serve_list (serve_controller cs now) qs) s)) = srv_locks s \<and>
   srv_locks (snd (run_state (serve_list (serve_node ns) ns_qs) t)) = srv_locks t"
  by (intro conjI controller_locks.serve_list_inv [where I = "\<lambda>L. L = srv_locks s"]
      node_locks.serve_list_inv [where I = "\<lambda>L. L = srv_locks t"]) simp_all

section \<open>The topology of a node\<close>

text \<open>C31: The topology that a node reports in \<open>NodeGetInfo\<close> leads the controller of the same driver back
  to that node's zone: preferring it makes \<open>PickTopology\<close> choose the node's zone, and every volume of
  a valid type in that zone is reported accessible from exactly that topology.\<close>

theorem node_topology_roundtrip:
  assumes "NodeGetInfo ns = Inr info" "drv_name d = drv_name (ns_driver ns)"
    and "Preferred rq = ni_AccessibleTopology info # rest"
    and "VolumeType_IsValid (ZecVolume_Type v)" "ZecVolume_Zone v = drv_zoneId (ns_driver ns)"
  shows "PickTopology d (Some rq) = Inr (Some (NewTopology (drv_zoneId (ns_driver ns)) BasicVmType)) \<and>
    GetVolumeTopology d (Some v) = [ni_AccessibleTopology info]"
proof -
  have keys: "GetTopologyZoneKey (ns_driver ns) = GetTopologyZoneKey d"
    "GetTopologyVmTypeKey (ns_driver ns) = GetTopologyVmTypeKey d"
    using assms(2) by (simp_all add: GetTopologyZoneKey_def GetTopologyVmTypeKey_def)
  have info: "ni_AccessibleTopology info =
      [(GetTopologyVmTypeKey d, BasicVmName), (GetTopologyZoneKey d, drv_zoneId (ns_driver ns))]"
    using assms(1) by (auto simp: NodeGetInfo_def VmTypeName_def keys)
  have "PickTopology d (Some rq) = Inr (Some (NewTopology (drv_zoneId (ns_driver ns)) BasicVmType))"
    unfolding PickTopology_def option.case assms(3) list.case info
    by (simp add: NewTopology_def SetZone_topo_def SetVmType_def empty_topology_def VmTypeValue_def
      not_sym [OF topology_keys_differ])
  moreover have "GetVolumeTopology d (Some v) = [ni_AccessibleTopology info]"
    using assms(4,5) info
    by (auto simp: GetVolumeTopology_def VolumeType_IsValid_iff VolumeTypeAttachConstraint_def type_consts or_else_def
      VmTypeName_def)
  ultimately show ?thesis ..
qed

theorem node_topology_roundtrip_witness:
  "\<exists>info. NodeGetInfo ex_node = Inr info \<and>
     PickTopology ex_driver (Some \<lparr>Requisite = [], Preferred = [ni_AccessibleTopology info]\<rparr>) =
       Inr (Some (NewTopology [] BasicVmType))"
proof -
  obtain info where info: "NodeGetInfo ex_node = Inr info"
    by (auto simp: NodeGetInfo_def VmTypeName_def)
  have "VolumeType_IsValid (ZecVolume_Type (ex_disk\<lparr>ZecVolume_Zone := []\<rparr>))"
    "ZecVolume_Zone (ex_disk\<lparr>ZecVolume_Zone := []\<rparr>) = drv_zoneId (ns_driver ex_node)" by code_simp+
  moreover have "drv_name ex_driver = drv_name (ns_driver ex_node)" "drv_zoneId (ns_driver ex_node) = []"
    by (simp add: ex_node_def, code_simp)
  ultimately show ?thesis
    using node_topology_roundtrip [OF info, of ex_driver "\<lparr>Requisite = [], Preferred = [ni_AccessibleTopology info]\<rparr>" "[]"
        "ex_disk\<lparr>ZecVolume_Zone := []\<rparr>"] info
    by auto
qed

end
